(* ===== verification/Prelude.thy ===== *)
theory Prelude
  imports Main "HOL-Library.Multiset"
begin

text \<open>
  What every component of the development shares: Go's 64-bit \<^verbatim>\<open>int\<close> arithmetic written out on
  \<^typ>\<open>int\<close>, the list operations that stand for the SQL statements of the sources, and the
  generic lemmas on them.
\<close>

named_theorems go_defs \<open>unfolding rules for one-statement operations\<close>
named_theorems frame \<open>what an operation leaves unchanged\<close>

section \<open>64-bit integers\<close>

text \<open>
  Go's \<^verbatim>\<open>int\<close> (and \<^verbatim>\<open>int64\<close>) on the 64-bit platforms the program is built for. A value is an
  \<^typ>\<open>int\<close>; every sum, difference, product and negation that the Go code computes is wrapped by
  \<open>i64\<close>. Arithmetic that a SQL statement asks the database to do is not wrapped.
\<close>

definition i64 :: "int \<Rightarrow> int" where
  "i64 x = (x + 2 ^ 63) mod 2 ^ 64 - 2 ^ 63"

definition in64 :: "int \<Rightarrow> bool" where
  "in64 x \<longleftrightarrow> - (2 ^ 63) \<le> x \<and> x < 2 ^ 63"

lemma i64_id [simp]: "in64 x \<Longrightarrow> i64 x = x"
  by (simp add: i64_def in64_def)

lemma in64_i64 [simp, intro]: "in64 (i64 x)"
  unfolding in64_def i64_def
  using pos_mod_bound [of "2 ^ 64" "x + 2 ^ 63"] pos_mod_sign [of "2 ^ 64" "x + 2 ^ 63"]
  by (simp del: pos_mod_bound pos_mod_sign)

lemma i64_i64 [simp]: "i64 (i64 x) = i64 x"
  by simp

lemma in64_0 [simp]: "in64 0" and in64_1 [simp]: "in64 1"
  by (simp_all add: in64_def)

lemma in64_between: "in64 a \<Longrightarrow> in64 b \<Longrightarrow> a \<le> x \<Longrightarrow> x \<le> b \<Longrightarrow> in64 x"
  by (simp add: in64_def)

lemma in64_nonneg_diff: "in64 a \<Longrightarrow> in64 b \<Longrightarrow> 0 \<le> a \<Longrightarrow> 0 \<le> b \<Longrightarrow> in64 (a - b)"
  by (simp add: in64_def)

lemma in64_uminus_nonneg: "in64 a \<Longrightarrow> 0 \<le> a \<Longrightarrow> in64 (- a)"
  by (simp add: in64_def)

section \<open>Lists as tables\<close>

text \<open>
  A table is the list of its rows. \<open>upd_where P f\<close> is \<^verbatim>\<open>UPDATE ... SET f WHERE P\<close>,
  \<open>find P\<close> is \<^verbatim>\<open>SELECT ... WHERE P LIMIT 1\<close> on a column with a unique index,
  \<open>save_row key r\<close> is GORM's \<^verbatim>\<open>Save\<close>: all columns of the row with the primary key of \<open>r\<close> are
  written, and the row is inserted when there is none.
\<close>

definition upd_where :: "('a \<Rightarrow> bool) \<Rightarrow> ('a \<Rightarrow> 'a) \<Rightarrow> 'a list \<Rightarrow> 'a list" where
  "upd_where P f xs = map (\<lambda>x. if P x then f x else x) xs"

definition save_row :: "('a \<Rightarrow> 'k) \<Rightarrow> 'a \<Rightarrow> 'a list \<Rightarrow> 'a list" where
  "save_row key r xs =
     (if \<exists>x \<in> set xs. key x = key r then map (\<lambda>x. if key x = key r then r else x) xs else xs @ [r])"

definition row :: "('a \<Rightarrow> 'k) \<Rightarrow> 'k \<Rightarrow> 'a list \<Rightarrow> 'a option" where
  "row key k xs = find (\<lambda>x. key x = k) xs"

lemma upd_where_Nil [simp]: "upd_where P f [] = []"
  by (simp add: upd_where_def)

lemma upd_where_Cons [simp]: "upd_where P f (x # xs) = (if P x then f x else x) # upd_where P f xs"
  by (simp add: upd_where_def)

lemma length_upd_where [simp]: "length (upd_where P f xs) = length xs"
  by (simp add: upd_where_def)

lemma find_upd_where_same:
  assumes "\<And>x. P x \<Longrightarrow> P (f x)"
  shows "find P (upd_where P f xs) = map_option f (find P xs)"
  using assms by (induction xs) auto

lemma find_upd_where_other:
  assumes "\<And>x. P x \<Longrightarrow> \<not> Q x" and "\<And>x. P x \<Longrightarrow> \<not> Q (f x)"
  shows "find Q (upd_where P f xs) = find Q xs"
  using assms by (induction xs) auto

lemma map_upd_where [simp]:
  assumes "\<And>x. P x \<Longrightarrow> g (f x) = g x"
  shows "map g (upd_where P f xs) = map g xs"
  using assms by (induction xs) auto

lemma upd_where_none: "(\<And>x. x \<in> set xs \<Longrightarrow> \<not> P x) \<Longrightarrow> upd_where P f xs = xs"
  by (induction xs) auto

lemma row_SomeD: "row key k xs = Some x \<Longrightarrow> x \<in> set xs \<and> key x = k"
  by (auto simp: row_def find_Some_iff)

lemma row_None_iff: "row key k xs = None \<longleftrightarrow> k \<notin> key ` set xs"
  by (auto simp: row_def find_None_iff)

lemma row_Nil [simp]: "row key k [] = None"
  by (simp add: row_def)

lemma row_Cons [simp]: "row key k (x # xs) = (if key x = k then Some x else row key k xs)"
  by (simp add: row_def)

lemma row_append: "row key k (xs @ ys) = (case row key k xs of None \<Rightarrow> row key k ys | Some x \<Rightarrow> Some x)"
  by (induction xs) auto

lemma row_map_replace:
  "row key k (map (\<lambda>x. if key x = key r then r else x) xs) =
     (if k = key r \<and> k \<in> key ` set xs then Some r else row key k xs)"
  by (induction xs) auto

lemma row_save_row:
  "row key k (save_row key r xs) = (if k = key r then Some r else row key k xs)"
proof (cases "\<exists>x \<in> set xs. key x = key r")
  case True
  then have "key r \<in> key ` set xs" by (auto simp: image_iff dest: sym)
  with True show ?thesis by (auto simp: save_row_def row_map_replace)
next
  case False
  then have "row key (key r) xs = None" by (auto simp: row_None_iff)
  with False show ?thesis by (auto simp: save_row_def row_append split: option.splits)
qed

lemma map_key_replace: "map key (map (\<lambda>x. if key x = key r then r else x) xs) = map key xs"
  by (induction xs) auto

lemma map_key_save_row:
  "key r \<in> key ` set xs \<Longrightarrow> map key (save_row key r xs) = map key xs"
  by (auto simp: save_row_def map_key_replace)

lemma distinct_row_iff:
  "distinct (map key xs) \<Longrightarrow> (row key k xs = Some x) = (x \<in> set xs \<and> key x = k)"
  by (induction xs) auto

lemma row_upd_where_same:
  assumes "\<And>x. key (f x) = key x"
  shows "row key k (upd_where (\<lambda>x. key x = k) f xs) = map_option f (row key k xs)"
  using assms by (induction xs) auto

lemma row_upd_where_other:
  assumes "\<And>x. key (f x) = key x" and "\<And>x. P x \<Longrightarrow> key x \<noteq> k"
  shows "row key k (upd_where P f xs) = row key k xs"
  using assms by (induction xs) auto

end
