(* ===== verification/GoStrings.thy ===== *)
theory GoStrings
  imports Prelude "HOL-Library.Sublist"
begin

text \<open>
  The functions of Go's \<^verbatim>\<open>strings\<close> and \<^verbatim>\<open>strconv\<close> packages that the sources call:
  \<^verbatim>\<open>strings.TrimSpace\<close>, \<^verbatim>\<open>strings.Trim\<close>, \<^verbatim>\<open>strings.Split\<close>, \<^verbatim>\<open>strings.Join\<close>,
  \<^verbatim>\<open>strings.Contains\<close>, \<^verbatim>\<open>strings.HasPrefix\<close> (the library's \<^const>\<open>prefix\<close>),
  \<^verbatim>\<open>strings.ReplaceAll\<close>, \<^verbatim>\<open>strconv.Itoa\<close> and \<^verbatim>\<open>strconv.Atoi\<close>, with the round trips
  between them. A Go string is the list of its bytes.
\<close>

section \<open>Trimming\<close>

text \<open>
  The runes for which Go's \<^verbatim>\<open>unicode.IsSpace\<close> holds, as their UTF-8 byte sequences: the ASCII ones,
  then U+0085, U+00A0, U+1680, U+2000 to U+200A, U+2028, U+2029, U+202F, U+205F and U+3000.
\<close>

definition bytes :: "nat list \<Rightarrow> string" where
  "bytes ns = map char_of ns"

definition space_runes :: "string list" where
  "space_runes =
     [bytes [9], bytes [10], bytes [11], bytes [12], bytes [13], bytes [32],
      bytes [0xC2, 0x85], bytes [0xC2, 0xA0], bytes [0xE1, 0x9A, 0x80]]
     @ map (\<lambda>n. bytes [0xE2, 0x80, 0x80 + n]) [0..<11]
     @ [bytes [0xE2, 0x80, 0xA8], bytes [0xE2, 0x80, 0xA9], bytes [0xE2, 0x80, 0xAF],
        bytes [0xE2, 0x81, 0x9F], bytes [0xE3, 0x80, 0x80]]"

text \<open>
  \<open>trim_prefixes ws s\<close> removes sequences of \<open>ws\<close> from the front of \<open>s\<close> as long as one is there
  (\<^verbatim>\<open>strings.TrimLeft\<close>); trimming the end trims the reversed string by the reversed sequences.
\<close>

function trim_prefixes :: "string list \<Rightarrow> string \<Rightarrow> string" where
  "trim_prefixes ws s =
     (case find (\<lambda>w. w \<noteq> [] \<and> prefix w s) ws of
        None \<Rightarrow> s
      | Some w \<Rightarrow> trim_prefixes ws (drop (length w) s))"
  by pat_completeness auto
termination
proof (relation "measure (\<lambda>(ws, s). length s)")
  show "wf (measure (\<lambda>(ws :: string list, s :: string). length s))" by simp
next
  fix ws :: "string list" and s w :: string
  assume "find (\<lambda>w. w \<noteq> [] \<and> prefix w s) ws = Some w"
  then have "w \<noteq> []" and "prefix w s" by (auto simp: find_Some_iff)
  then show "((ws, drop (length w) s), (ws, s)) \<in> measure (\<lambda>(ws, s). length s)"
    by (auto simp: prefix_def)
qed

declare trim_prefixes.simps [simp del]

definition trim_suffixes :: "string list \<Rightarrow> string \<Rightarrow> string" where
  "trim_suffixes ws s = rev (trim_prefixes (map rev ws) (rev s))"

definition TrimSpace :: "string \<Rightarrow> string" where
  "TrimSpace s = trim_suffixes space_runes (trim_prefixes space_runes s)"

lemma trim_prefixes_fixed:
  "(\<And>w. w \<in> set ws \<Longrightarrow> w \<noteq> [] \<Longrightarrow> \<not> prefix w s) \<Longrightarrow> trim_prefixes ws s = s"
  by (subst trim_prefixes.simps) (auto simp: find_None_iff split: option.splits dest!: find_Some_iff [THEN iffD1] nth_mem)

lemma trim_prefixes_stop:
  "w \<in> set ws \<Longrightarrow> w \<noteq> [] \<Longrightarrow> \<not> prefix w (trim_prefixes ws s)"
proof (induction ws s rule: trim_prefixes.induct)
  case (1 ws s)
  show ?case
  proof (cases "find (\<lambda>w. w \<noteq> [] \<and> prefix w s) ws")
    case None
    then have "trim_prefixes ws s = s" by (simp add: trim_prefixes.simps [of ws s])
    moreover from None "1.prems" have "\<not> prefix w s" by (auto simp: find_None_iff)
    ultimately show ?thesis by simp
  next
    case (Some v)
    with "1" show ?thesis by (simp add: trim_prefixes.simps [of ws s])
  qed
qed

lemma trim_prefixes_idem [simp]: "trim_prefixes ws (trim_prefixes ws s) = trim_prefixes ws s"
  by (rule trim_prefixes_fixed) (simp add: trim_prefixes_stop)

lemma trim_prefixes_Nil [simp]: "trim_prefixes ws [] = []"
  by (rule trim_prefixes_fixed) simp

lemma TrimSpace_fixed:
  assumes "\<And>w. w \<in> set space_runes \<Longrightarrow> \<not> prefix w s"
    and "\<And>w. w \<in> set space_runes \<Longrightarrow> \<not> suffix w s"
  shows "TrimSpace s = s"
proof -
  have "trim_prefixes space_runes s = s"
    by (rule trim_prefixes_fixed) (simp add: assms(1))
  moreover have "trim_prefixes (map rev space_runes) (rev s) = rev s"
    by (rule trim_prefixes_fixed) (auto simp: suffix_to_prefix [symmetric] assms(2))
  ultimately show ?thesis by (simp add: TrimSpace_def trim_suffixes_def)
qed

text \<open>The bytes that start or end a space rune; a string with none of them is left as it is.\<close>

definition space_byte :: "char \<Rightarrow> bool" where
  "space_byte c \<longleftrightarrow> (\<exists>w \<in> set space_runes. w \<noteq> [] \<and> (hd w = c \<or> last w = c))"

lemma space_runes_nonempty: "w \<in> set space_runes \<Longrightarrow> w \<noteq> []"
  by (auto simp: space_runes_def bytes_def)

lemma TrimSpace_no_space_byte:
  assumes "\<And>c. c \<in> set s \<Longrightarrow> \<not> space_byte c"
  shows "TrimSpace s = s"
proof (rule TrimSpace_fixed)
  fix w assume w: "w \<in> set space_runes"
  then have ne: "w \<noteq> []" by (rule space_runes_nonempty)
  then have hl: "hd w \<in> set w" "last w \<in> set w" by auto
  from w ne have sb: "space_byte (hd w)" "space_byte (last w)" by (auto simp: space_byte_def)
  show "\<not> prefix w s" using assms [of "hd w"] sb(1) hl(1) by (meson set_mono_prefix subsetD)
  show "\<not> suffix w s" using assms [of "last w"] sb(2) hl(2) by (meson set_mono_suffix subsetD)
qed

lemma TrimSpace_Nil [simp]: "TrimSpace [] = []"
  by (rule TrimSpace_no_space_byte) simp

text \<open>\<^verbatim>\<open>strings.Trim(s, c)\<close> for a cutset of one ASCII character.\<close>

definition Trim :: "string \<Rightarrow> char \<Rightarrow> string" where
  "Trim s c = rev (dropWhile (\<lambda>x. x = c) (rev (dropWhile (\<lambda>x. x = c) s)))"

section \<open>Splitting, joining, searching, replacing\<close>

text \<open>\<^verbatim>\<open>strings.Split(s, c)\<close> for a separator of one character: never the empty list.\<close>

fun Split :: "string \<Rightarrow> char \<Rightarrow> string list" where
  "Split [] c = [[]]"
| "Split (x # xs) c =
     (if x = c then [] # Split xs c
      else (case Split xs c of [] \<Rightarrow> [[x]] | y # ys \<Rightarrow> (x # y) # ys))"

fun Join :: "string list \<Rightarrow> string \<Rightarrow> string" where
  "Join [] sep = []"
| "Join [x] sep = x"
| "Join (x # y # ys) sep = x @ sep @ Join (y # ys) sep"

lemma Split_not_Nil [simp]: "Split s c \<noteq> []"
  by (cases s) (auto split: list.splits)

lemma Join_Split [simp]: "Join (Split s c) [c] = s"
proof (induction s)
  case Nil
  then show ?case by simp
next
  case (Cons x xs)
  obtain y ys where "Split xs c = y # ys" by (cases "Split xs c") auto
  with Cons show ?case by (cases ys) auto
qed

lemma Split_no_sep: "c \<notin> set s \<Longrightarrow> Split s c = [s]"
  by (induction s) auto

lemma Split_append_sep: "c \<notin> set s \<Longrightarrow> Split (s @ c # t) c = s # Split t c"
  by (induction s) auto

lemma Split_Join:
  "xs \<noteq> [] \<Longrightarrow> (\<And>x. x \<in> set xs \<Longrightarrow> c \<notin> set x) \<Longrightarrow> Split (Join xs [c]) c = xs"
  by (induction xs "[c]" rule: Join.induct) (auto simp: Split_no_sep Split_append_sep)

lemma Split_parts_no_sep: "x \<in> set (Split s c) \<Longrightarrow> c \<notin> set x"
  by (induction s arbitrary: x) (fastforce split: list.splits if_splits)+

fun Contains :: "string \<Rightarrow> string \<Rightarrow> bool" where
  "Contains [] sub = (sub = [])"
| "Contains (x # xs) sub = (prefix sub (x # xs) \<or> Contains xs sub)"

lemma Contains_sublist: "Contains s sub \<longleftrightarrow> sublist sub s"
  by (induction s) (auto simp: sublist_Cons_right)

lemma Contains_char: "Contains s [c] \<longleftrightarrow> c \<in> set s"
  by (induction s) (auto simp: prefix_def)

text \<open>\<^verbatim>\<open>strings.ReplaceAll(s, old, new)\<close> for a non-empty \<open>old\<close>: left to right, not overlapping.\<close>

function ReplaceAll :: "string \<Rightarrow> string \<Rightarrow> string \<Rightarrow> string" where
  "ReplaceAll s old new =
     (case s of
        [] \<Rightarrow> []
      | c # cs \<Rightarrow>
          if old \<noteq> [] \<and> prefix old s then new @ ReplaceAll (drop (length old) s) old new
          else c # ReplaceAll cs old new)"
  by pat_completeness auto
termination
  by (relation "measure (\<lambda>(s, old, new). length s)") (auto simp: prefix_def)

declare ReplaceAll.simps [simp del]

lemma ReplaceAll_Nil [simp]: "ReplaceAll [] old new = []"
  by (simp add: ReplaceAll.simps)

lemma ReplaceAll_absent:
  "old \<noteq> [] \<Longrightarrow> hd old \<notin> set s \<Longrightarrow> ReplaceAll s old new = s"
proof (induction s)
  case (Cons c cs)
  then have "\<not> prefix old (c # cs)" by (cases old) auto
  with Cons show ?case by (simp add: ReplaceAll.simps [of "c # cs"])
qed simp

section \<open>Decimal numbers\<close>

definition digit_char :: "nat \<Rightarrow> char" where
  "digit_char d = char_of (48 + d)"

definition char_digit :: "char \<Rightarrow> nat option" where
  "char_digit c = (let n = of_char c :: nat in if 48 \<le> n \<and> n \<le> 57 then Some (n - 48) else None)"

fun nat_digits :: "nat \<Rightarrow> string" where
  "nat_digits n =
     (if n < 10 then [digit_char n] else nat_digits (n div 10) @ [digit_char (n mod 10)])"

declare nat_digits.simps [simp del]

definition Itoa :: "int \<Rightarrow> string" where
  "Itoa i = (if i < 0 then CHR ''-'' # nat_digits (nat (- i)) else nat_digits (nat i))"

fun digits_val :: "nat \<Rightarrow> string \<Rightarrow> nat option" where
  "digits_val acc [] = Some acc"
| "digits_val acc (c # cs) =
     (case char_digit c of None \<Rightarrow> None | Some d \<Rightarrow> digits_val (10 * acc + d) cs)"

text \<open>
  \<^verbatim>\<open>strconv.Atoi\<close>: an optional sign, at least one digit, digits only, and a value that fits in
  64 bits; \<^const>\<open>None\<close> is its error.
\<close>

definition Atoi :: "string \<Rightarrow> int option" where
  "Atoi s =
     (let (neg, ds) = (case s of
          [] \<Rightarrow> (False, [])
        | c # cs \<Rightarrow> if c = CHR ''-'' then (True, cs) else if c = CHR ''+'' then (False, cs) else (False, s))
      in if ds = [] then None
         else case digits_val 0 ds of
            None \<Rightarrow> None
          | Some n \<Rightarrow> (let v = (if neg then - int n else int n) in if in64 v then Some v else None))"

lemma char_digit_digit_char [simp]: "d < 10 \<Longrightarrow> char_digit (digit_char d) = Some d"
  by (simp add: char_digit_def digit_char_def)

lemma digits_val_append:
  "digits_val acc (xs @ ys) = (case digits_val acc xs of None \<Rightarrow> None | Some v \<Rightarrow> digits_val v ys)"
  by (induction xs arbitrary: acc) (auto split: option.splits)

lemma digits_val_nat_digits: "digits_val 0 (nat_digits n) = Some n"
proof (induction n rule: nat_digits.induct)
  case (1 n)
  show ?case
  proof (cases "n < 10")
    case True
    then show ?thesis by (simp add: nat_digits.simps [of n])
  next
    case False
    with "1" show ?thesis by (simp add: nat_digits.simps [of n] digits_val_append)
  qed
qed

lemma nat_digits_digits: "c \<in> set (nat_digits n) \<Longrightarrow> \<exists>d < 10. c = digit_char d"
proof (induction n rule: nat_digits.induct)
  case (1 n)
  then show ?case
    by (cases "n < 10") (auto simp: nat_digits.simps [of n] intro: exI [of _ "n mod 10"])
qed

lemma nat_digits_not_Nil [simp]: "nat_digits n \<noteq> []"
  by (simp add: nat_digits.simps [of n])

lemma digit_char_inj: "d < 10 \<Longrightarrow> of_char (digit_char d) = (48 + d :: nat)"
  by (simp add: digit_char_def)

lemma digit_char_neq:
  assumes "d < 10"
  shows "digit_char d \<noteq> CHR ''-''" "digit_char d \<noteq> CHR ''+''" "digit_char d \<noteq> CHR '',''"
    "digit_char d \<noteq> CHR '' ''"
  using digit_char_inj [OF assms] by auto

lemma Atoi_Itoa: "in64 i \<Longrightarrow> Atoi (Itoa i) = Some i"
proof (cases "i < 0")
  case True
  assume "in64 i"
  with True show ?thesis by (simp add: Atoi_def Itoa_def digits_val_nat_digits)
next
  case False
  assume "in64 i"
  obtain c cs where nd: "nat_digits (nat i) = c # cs" by (cases "nat_digits (nat i)") auto
  then obtain d where "d < 10" "c = digit_char d" using nat_digits_digits [of c "nat i"] by auto
  then have "c \<noteq> CHR ''-''" "c \<noteq> CHR ''+''" by (simp_all add: digit_char_neq)
  with False nd \<open>in64 i\<close> digits_val_nat_digits [of "nat i"] show ?thesis
    by (simp add: Atoi_def Itoa_def)
qed

lemma Itoa_nonneg_chars: "0 \<le> i \<Longrightarrow> c \<in> set (Itoa i) \<Longrightarrow> \<exists>d < 10. c = digit_char d"
  by (auto simp: Itoa_def dest: nat_digits_digits)

lemma Itoa_not_Nil [simp]: "Itoa i \<noteq> []"
  by (simp add: Itoa_def)

lemma digit_not_space: "d < 10 \<Longrightarrow> \<not> space_byte (digit_char d)"
proof -
  assume d: "d < 10"
  have "of_char (digit_char d) \<notin> (of_char ` (hd ` set space_runes \<union> last ` set space_runes) :: nat set)"
    using d by (auto simp: digit_char_inj space_runes_def bytes_def upt_rec)
  then show ?thesis unfolding space_byte_def by (metis UnI1 UnI2 image_eqI)
qed

text \<open>Printable ASCII text has nothing to trim.\<close>

definition printable :: "char \<Rightarrow> bool" where
  "printable c \<longleftrightarrow> 33 \<le> (of_char c :: nat) \<and> (of_char c :: nat) \<le> 126"

lemma printable_not_space:
  assumes "printable c"
  shows "\<not> space_byte c"
proof
  assume "space_byte c"
  then have "of_char c \<in> (of_char ` (hd ` set space_runes \<union> last ` set space_runes) :: nat set)"
    unfolding space_byte_def by blast
  then have "(of_char c :: nat) < 33 \<or> 126 < (of_char c :: nat)"
    by (auto simp: space_runes_def bytes_def upt_rec)
  with assms show False by (auto simp: printable_def)
qed

lemma TrimSpace_printable: "list_all printable s \<Longrightarrow> TrimSpace s = s"
  by (rule TrimSpace_no_space_byte) (auto simp: list_all_iff printable_not_space)

end
