(* ===== verification/Store.thy ===== *)
theory Store
  imports Complex_Main GoStrings
begin

text \<open>
  The state the components share: the database tables, with one record per GORM struct under
  \<^verbatim>\<open>src/model\<close> and one field per column that the modelled code reads or writes; the Redis hashes
  that cache users and tokens; the in-process batch-update stores of \<^verbatim>\<open>src/model/utils.go\<close>; the
  goroutines handed to \<^verbatim>\<open>gopool.Go\<close> that have not run yet. The database engine itself is not code
  of the repository: a table is the list of its rows, a statement does to them what its clauses
  spell out in the source, and whether a statement fails is not decided by the model but read off
  a schedule, \<open>faults\<close>, one entry per statement (\<^const>\<open>None\<close>: it succeeds, \<open>Some text\<close>: the
  driver reports \<open>text\<close>; an exhausted schedule means success).
\<close>

section \<open>Errors\<close>

text \<open>
  The errors the modelled functions return. \<open>DriverErr\<close> is what the database driver reports,
  \<open>RecordNotFound\<close> is \<^verbatim>\<open>gorm.ErrRecordNotFound\<close>, \<open>Msg\<close> an error whose text is ASCII in the
  source; errors with a Chinese text have a constructor each. \<open>UniqueViolation\<close> is the driver's refusal of
  a row that duplicates a unique key. \<open>NoReturn\<close> is no error of the program: it is the value of a
  call that loops forever, and \<open>Panic\<close> that of one that panics.
\<close>

datatype gerr =
    DriverErr string
  | Panic string
  | UniqueViolation
  | NoReturn
  | RecordNotFound
  | Msg string
  | QuotaNegative
  | IdEmpty
  | TokenQuotaNotEnough
  | PurchaseLimitReached
  | ErrTokenNotProvided
  | ErrTokenInvalid
  | ErrDatabase gerr
  | ErrRedeemFailed
  | ErrPaymentMethodMismatch
  | TopUpNotFound
  | TopUpStatusWrong
  | TopUpNoTradeNo
  | TopUpQuotaInvalid
  | TopUpFailed
  | CodeInvalid
  | CodeUsed
  | CodeExpired
  | CheckinDisabled
  | CheckinDone
  | CheckinFailed
  | AffQuotaTooLow
  | AffQuotaNotEnough

text \<open>The ASCII bytes of \<^verbatim>\<open>err.Error()\<close>, which the sources search for ASCII phrases.\<close>

fun errText :: "gerr \<Rightarrow> string" where
  "errText (DriverErr t) = t"
| "errText RecordNotFound = ''record not found''"
| "errText (Msg t) = t"
| "errText QuotaNegative = ''quota ''"
| "errText IdEmpty = ''id ''"
| "errText TokenQuotaNotEnough = ''token quota is not enough''"
| "errText ErrTokenNotProvided = ''token not provided''"
| "errText ErrTokenInvalid = ''token invalid''"
| "errText (ErrDatabase e) = ''database error: '' @ errText e"
| "errText ErrPaymentMethodMismatch = ''payment method mismatch''"
| "errText _ = ''''"

type_synonym 'a res = "gerr + 'a"

section \<open>Rows\<close>

text \<open>\<^verbatim>\<open>type User struct\<close>, \<^verbatim>\<open>src/model/user.go\<close>.\<close>

record user =
  uId :: int
  uUsername :: string
  uPassword :: string
  uRole :: int
  uStatus :: int
  uAccessToken :: "string option"
  uEmail :: string
  uQuota :: int
  uUsedQuota :: int
  uRequestCount :: int
  uGroup :: string
  uAffCount :: int
  uAffQuota :: int
  uAffHistoryQuota :: int
  uSetting :: string
  uStripeCustomer :: string
  uDeleted :: bool

text \<open>\<^verbatim>\<open>type Token struct\<close>, \<^verbatim>\<open>src/model/token.go\<close>.\<close>

record token =
  tkId :: int
  tkUserId :: int
  tkKey :: string
  tkStatus :: int
  tkName :: string
  tkCreatedTime :: int
  tkAccessedTime :: int
  tkExpiredTime :: int
  tkRemainQuota :: int
  tkUnlimitedQuota :: bool
  tkModelLimitsEnabled :: bool
  tkModelLimits :: string
  tkAllowIps :: "string option"
  tkUsedQuota :: int
  tkGroup :: string
  tkCrossGroupRetry :: bool
  tkDeleted :: bool

text \<open>\<^verbatim>\<open>SubscriptionPlan\<close>, \<^verbatim>\<open>UserSubscription\<close>, \<^verbatim>\<open>SubscriptionOrder\<close> and
  \<^verbatim>\<open>SubscriptionPreConsumeRecord\<close>, \<^verbatim>\<open>src/model/subscription.go\<close>. Amounts of money are the exact
  values of the stored numbers.\<close>

record subscription_plan =
  planId :: int
  planTitle :: string
  planPriceAmount :: rat
  planDurationUnit :: string
  planDurationValue :: int
  planCustomSeconds :: int
  planEnabled :: bool
  planMaxPurchasePerUser :: int
  planUpgradeGroup :: string
  planTotalAmount :: int
  planQuotaResetPeriod :: string
  planQuotaResetCustomSeconds :: int

record user_subscription =
  subId :: int
  subUserId :: int
  subPlanId :: int
  subAmountTotal :: int
  subAmountUsed :: int
  subStartTime :: int
  subEndTime :: int
  subStatus :: string
  subSource :: string
  subLastResetTime :: int
  subNextResetTime :: int
  subUpgradeGroup :: string
  subPrevUserGroup :: string
  subCreatedAt :: int
  subUpdatedAt :: int

record subscription_order =
  ordId :: int
  ordUserId :: int
  ordPlanId :: int
  ordMoney :: rat
  ordTradeNo :: string
  ordPaymentMethod :: string
  ordStatus :: string
  ordCreateTime :: int
  ordCompleteTime :: int
  ordProviderPayload :: string

record pre_consume_record =
  pcId :: int
  pcRequestId :: string
  pcUserId :: int
  pcUserSubscriptionId :: int
  pcPreConsumed :: int
  pcStatus :: string
  pcCreatedAt :: int
  pcUpdatedAt :: int

text \<open>\<^verbatim>\<open>TopUp\<close> (\<^verbatim>\<open>src/model/topup.go\<close>), \<^verbatim>\<open>Redemption\<close> (\<^verbatim>\<open>src/model/redemption.go\<close>) and
  \<^verbatim>\<open>Checkin\<close> (\<^verbatim>\<open>src/model/checkin.go\<close>).\<close>

record topup =
  tuId :: int
  tuUserId :: int
  tuAmount :: int
  tuMoney :: rat
  tuTradeNo :: string
  tuPaymentMethod :: string
  tuCreateTime :: int
  tuCompleteTime :: int
  tuStatus :: string

record redemption =
  rdId :: int
  rdUserId :: int
  rdKey :: string
  rdStatus :: int
  rdName :: string
  rdQuota :: int
  rdCreatedTime :: int
  rdRedeemedTime :: int
  rdUsedUserId :: int
  rdExpiredTime :: int
  rdDeleted :: bool

record checkin =
  ckId :: int
  ckUserId :: int
  ckCheckinDate :: string
  ckQuotaAwarded :: int
  ckCreatedAt :: int

text \<open>\<^verbatim>\<open>type Task struct\<close> with its properties and private data, \<^verbatim>\<open>src/model/task.go\<close>, without the two times GORM
  maintains; a map of ratios is the list of its entries in the order they are ranged over.\<close>

record TaskBillingContext =
  tbModelPrice :: rat
  tbGroupRatio :: rat
  tbModelRatio :: rat
  tbOtherRatios :: "(string \<times> rat) list"
  tbOriginModelName :: string
  tbPerCallBilling :: bool

record task =
  tId :: int
  tTaskID :: string
  tPlatform :: string
  tUserId :: int
  tGroup :: string
  tChannelId :: int
  tQuota :: int
  tAction :: string
  tStatus :: string
  tFailReason :: string
  tSubmitTime :: int
  tStartTime :: int
  tFinishTime :: int
  tProgress :: string
  tInput :: string
  tUpstreamModelName :: string
  tOriginModelName :: string
  tKey :: string
  tUpstreamTaskID :: string
  tResultURL :: string
  tBillingSource :: string
  tSubscriptionId :: int
  tTokenId :: int
  tBillingContext :: "TaskBillingContext option"
  tData :: string

text \<open>\<^verbatim>\<open>Channel\<close> and \<^verbatim>\<open>ChannelInfo\<close> (\<^verbatim>\<open>src/model/channel.go\<close>) and \<^verbatim>\<open>Ability\<close>
  (\<^verbatim>\<open>src/model/ability.go\<close>). The maps of \<^verbatim>\<open>ChannelInfo\<close>, keyed by key index, are association lists
  with distinct keys; \<open>chStatusReason\<close> and \<open>chStatusTime\<close> are the two entries of the JSON object
  \<^verbatim>\<open>OtherInfo\<close> that the status updates write; \<open>chKeys\<close> is the in-memory field \<^verbatim>\<open>Keys\<close>.\<close>

record channel_info =
  ciIsMultiKey :: bool
  ciMultiKeySize :: int
  ciMultiKeyStatusList :: "(nat \<times> int) list"
  ciMultiKeyDisabledReason :: "(nat \<times> string) list"
  ciMultiKeyDisabledTime :: "(nat \<times> int) list"
  ciMultiKeyPollingIndex :: int
  ciMultiKeyMode :: string

record channel =
  chId :: int
  chType :: int
  chKey :: string
  chStatus :: int
  chName :: string
  chWeight :: "nat option"
  chModels :: string
  chGroup :: string
  chUsedQuota :: int
  chPriority :: "int option"
  chAutoBan :: "int option"
  chStatusReason :: string
  chStatusTime :: int
  chTag :: "string option"
  chInfo :: channel_info
  chModelMapping :: "string option"
  chParamOverride :: "string option"
  chHeaderOverride :: "string option"
  chKeys :: "string list"

record ability =
  abGroup :: string
  abModel :: string
  abChannelId :: int
  abEnabled :: bool
  abPriority :: "int option"
  abWeight :: nat
  abTag :: "string option"

text \<open>\<^verbatim>\<open>type TwoFA struct\<close> and \<^verbatim>\<open>type TwoFABackupCode struct\<close>, \<^verbatim>\<open>src/model/twofa.go\<close>. Only the codes are ever
  deleted softly.\<close>

record two_fa =
  tfId :: int
  tfUserId :: int
  tfSecret :: string
  tfIsEnabled :: bool
  tfFailedAttempts :: int
  tfLockedUntil :: "int option"
  tfLastUsedAt :: "int option"

record backup_code =
  bcId :: int
  bcUserId :: int
  bcCodeHash :: string
  bcIsUsed :: bool
  bcUsedAt :: "int option"
  bcDeleted :: bool

record db =
  users :: "user list"
  tokens :: "token list"
  plans :: "subscription_plan list"
  subs :: "user_subscription list"
  orders :: "subscription_order list"
  precons :: "pre_consume_record list"
  topups :: "topup list"
  redemptions :: "redemption list"
  checkins :: "checkin list"
  tasks :: "task list"
  channels :: "channel list"
  abilities :: "ability list"
  twoFAs :: "two_fa list"
  backupCodes :: "backup_code list"

section \<open>The world\<close>

text \<open>\<^verbatim>\<open>type UserBase struct\<close>: what Redis keeps of a user (\<^verbatim>\<open>src/model/user_cache.go\<close>).\<close>

record user_base =
  ubId :: int
  ubGroup :: string
  ubEmail :: string
  ubQuota :: int
  ubStatus :: int
  ubUsername :: string
  ubSetting :: string

text \<open>The closures handed to \<^verbatim>\<open>gopool.Go\<close> that write the Redis caches.\<close>

datatype cache_job =
    CacheIncrUserQuota int int
  | UpdateUserQuotaCache int int
  | UpdateUserCache user_base
  | CacheIncrTokenQuota string int
  | CacheSetToken token
  | CacheDeleteToken string

record world =
  db :: db
  faults :: "string option list"
  pool :: "cache_job list"
  ucache :: "int \<Rightarrow> user_base option"
  tcache :: "string \<Rightarrow> token option"
  batch :: "nat \<Rightarrow> (int \<times> int) list"
  pcache :: "int \<Rightarrow> subscription_plan option"
  icache :: "int \<Rightarrow> (int \<times> string) option"
  group2model2channels :: "string \<Rightarrow> (string \<Rightarrow> int list) option"
  channelsIDM :: "int \<Rightarrow> channel option"

text \<open>Process settings (\<^verbatim>\<open>src/common/constants.go\<close>); \<open>hmac\<close> is \<^verbatim>\<open>common.GenerateHMAC\<close>,
  \<open>decodeArray\<close> is \<^verbatim>\<open>json.Unmarshal\<close> into a slice of raw messages, \<^const>\<open>None\<close> its error.\<close>

record conf =
  RedisEnabled :: bool
  BatchUpdateEnabled :: bool
  UsingSQLite :: bool
  hmac :: "string \<Rightarrow> string"
  TrustQuota :: int
  MemoryCacheEnabled :: bool
  decodeArray :: "string \<Rightarrow> string list option"

type_synonym 'a io = "world \<Rightarrow> 'a res \<times> world"

section \<open>Statements and transactions\<close>

text \<open>One SQL statement: it takes the next entry of the schedule, and fails without effect or
  applies its function to the tables.\<close>

definition stmt :: "(db \<Rightarrow> 'a \<times> db) \<Rightarrow> 'a io" where
  "stmt f w =
     (case faults w of
        Some t # fs \<Rightarrow> (Inl (DriverErr t), w\<lparr>faults := fs\<rparr>)
      | _ \<Rightarrow> (let (x, d) = f (db w) in (Inr x, w\<lparr>db := d, faults := tl (faults w)\<rparr>)))"

text \<open>\<^verbatim>\<open>if err != nil { return err }\<close>.\<close>

definition chk :: "'a io \<Rightarrow> ('a \<Rightarrow> 'b io) \<Rightarrow> 'b io" where
  "chk m k w = (case m w of (Inl e, w') \<Rightarrow> (Inl e, w') | (Inr x, w') \<Rightarrow> k x w')"

definition ret :: "'a \<Rightarrow> 'a io" where
  "ret x w = (Inr x, w)"

definition err :: "gerr \<Rightarrow> 'a io" where
  "err e w = (Inl e, w)"

text \<open>\<^verbatim>\<open>if err != nil { ... } ...\<close>, with whatever the source does on the error.\<close>

definition handle :: "'a io \<Rightarrow> (gerr \<Rightarrow> 'b io) \<Rightarrow> ('a \<Rightarrow> 'b io) \<Rightarrow> 'b io" where
  "handle m h k w = (case m w of (Inl e, w') \<Rightarrow> h e w' | (Inr x, w') \<Rightarrow> k x w')"

text \<open>Reading and changing what is not in the database.\<close>

definition gets :: "(world \<Rightarrow> 'a) \<Rightarrow> 'a io" where
  "gets f w = (Inr (f w), w)"

definition modify :: "(world \<Rightarrow> world) \<Rightarrow> unit io" where
  "modify f w = (Inr (), f w)"

text \<open>\<^verbatim>\<open>First\<close> on a unique column: \<^const>\<open>RecordNotFound\<close> when no row matches.\<close>

definition first :: "(db \<Rightarrow> 'a option) \<Rightarrow> 'a io" where
  "first q = chk (stmt (\<lambda>d. (q d, d))) (\<lambda>r. case r of None \<Rightarrow> err RecordNotFound | Some x \<Rightarrow> ret x)"

text \<open>A \<^verbatim>\<open>Find\<close> or \<^verbatim>\<open>Count\<close>: it reads and never reports a missing row.\<close>

definition query :: "(db \<Rightarrow> 'a) \<Rightarrow> 'a io" where
  "query q = stmt (\<lambda>d. (q d, d))"

definition exec :: "(db \<Rightarrow> db) \<Rightarrow> unit io" where
  "exec f = stmt (\<lambda>d. ((), f d))"

text \<open>The end of a transaction: the writes of \<open>m\<close> last only when it succeeds and the commit does.\<close>

definition commit :: "'a io \<Rightarrow> 'a io" where
  "commit m w =
     (case m w of
        (Inl e, w2) \<Rightarrow> (Inl e, w2\<lparr>db := db w\<rparr>)
      | (Inr x, w2) \<Rightarrow>
         (case exec id w2 of
            (Inl e, w3) \<Rightarrow> (Inl e, w3\<lparr>db := db w\<rparr>)
          | (Inr _, w3) \<Rightarrow> (Inr x, w3)))"

text \<open>
  \<^verbatim>\<open>DB.Transaction(fn)\<close>: begin, run the body, roll the tables back when the body or the commit
  reports an error. What the body did outside the tables stays.
\<close>

definition transaction :: "'a io \<Rightarrow> 'a io" where
  "transaction m = chk (exec id) (\<lambda>_. commit m)"

definition spawn :: "cache_job \<Rightarrow> world \<Rightarrow> world" where
  "spawn j w = w\<lparr>pool := pool w @ [j]\<rparr>"

text \<open>\<^verbatim>\<open>AUTO_INCREMENT\<close>: a primary key above all that are there.\<close>

definition fresh_id :: "int list \<Rightarrow> int" where
  "fresh_id ids = fold max ids 0 + 1"

section \<open>Sample rows\<close>

text \<open>Concrete rows and a concrete world, on which the witnesses evaluate.\<close>

definition ex_user :: "int \<Rightarrow> int \<Rightarrow> user" where
  "ex_user i q = \<lparr>uId = i, uUsername = ''u'', uPassword = ''h'', uRole = 1, uStatus = 1, uAccessToken = None, uEmail = '''', uQuota = q, uUsedQuota = 0,
     uRequestCount = 0, uGroup = ''default'', uAffCount = 0, uAffQuota = 0, uAffHistoryQuota = 0,
     uSetting = '''', uStripeCustomer = '''', uDeleted = False\<rparr>"

definition ex_token :: "int \<Rightarrow> int \<Rightarrow> int \<Rightarrow> token" where
  "ex_token i u q = \<lparr>tkId = i, tkUserId = u, tkKey = ''k'', tkStatus = 1, tkName = ''t'', tkCreatedTime = 0,
     tkAccessedTime = 0, tkExpiredTime = -1, tkRemainQuota = q, tkUnlimitedQuota = False,
     tkModelLimitsEnabled = False, tkModelLimits = '''', tkAllowIps = None, tkUsedQuota = 0,
     tkGroup = '''', tkCrossGroupRetry = False, tkDeleted = False\<rparr>"

definition ex_db :: "user list \<Rightarrow> token list \<Rightarrow> db" where
  "ex_db us ts = \<lparr>users = us, tokens = ts, plans = [], subs = [], orders = [], precons = [], topups = [],
     redemptions = [], checkins = [], tasks = [], channels = [], abilities = [], twoFAs = [], backupCodes = []\<rparr>"

definition ex_world :: "db \<Rightarrow> world" where
  "ex_world d = \<lparr>db = d, faults = [], pool = [], ucache = (\<lambda>_. None), tcache = (\<lambda>_. None), batch = (\<lambda>_. []), pcache = (\<lambda>_. None), icache = (\<lambda>_. None),
     group2model2channels = (\<lambda>_. None), channelsIDM = (\<lambda>_. None)\<rparr>"

definition ex_conf :: "bool \<Rightarrow> bool \<Rightarrow> conf" where
  "ex_conf redis bat = \<lparr>RedisEnabled = redis, BatchUpdateEnabled = bat, UsingSQLite = False,
     hmac = (\<lambda>s. s), TrustQuota = 1000, MemoryCacheEnabled = False, decodeArray = (\<lambda>_. None)\<rparr>"

lemmas ex_defs = ex_user_def ex_token_def ex_db_def ex_world_def ex_conf_def

section \<open>Lemmas on statements\<close>

lemma stmt_ok [simp]:
  "faults w = [] \<Longrightarrow> stmt f w = (Inr (fst (f (db w))), w\<lparr>db := snd (f (db w))\<rparr>)"
  by (simp add: stmt_def split: prod.splits)

lemma stmt_cases:
  obtains (fail) t fs where "faults w = Some t # fs" "stmt f w = (Inl (DriverErr t), w\<lparr>faults := fs\<rparr>)"
  | (ok) "stmt f w = (Inr (fst (f (db w))), w\<lparr>db := snd (f (db w)), faults := tl (faults w)\<rparr>)"
proof (cases "faults w")
  case Nil
  then show ?thesis by (intro ok) (simp add: stmt_def split: prod.splits)
next
  case (Cons a fs)
  show ?thesis
  proof (cases a)
    case None
    with Cons show ?thesis by (intro ok) (simp add: stmt_def split: prod.splits)
  next
    case (Some t)
    with Cons show ?thesis by (intro fail) (simp_all add: stmt_def)
  qed
qed

lemma query_ok [simp]: "faults w = [] \<Longrightarrow> query q w = (Inr (q (db w)), w)"
  by (simp add: query_def)

lemma exec_ok [simp]: "faults w = [] \<Longrightarrow> exec f w = (Inr (), w\<lparr>db := f (db w)\<rparr>)"
  by (simp add: exec_def)

lemma first_ok [simp]:
  "faults w = [] \<Longrightarrow>
     first q w = (case q (db w) of None \<Rightarrow> (Inl RecordNotFound, w) | Some x \<Rightarrow> (Inr x, w))"
  by (simp add: first_def chk_def err_def ret_def split: option.splits)

lemma exec_cases:
  obtains (fail) t fs where "faults w = Some t # fs" "exec f w = (Inl (DriverErr t), w\<lparr>faults := fs\<rparr>)"
  | (ok) "exec f w = (Inr (), w\<lparr>db := f (db w), faults := tl (faults w)\<rparr>)"
  using stmt_cases [of w "\<lambda>d. ((), f d)"] by (auto simp: exec_def)

lemma exec_Inl: "exec f w = (Inl e, w') \<Longrightarrow> db w' = db w"
  by (cases rule: exec_cases [of w f]) auto

lemma query_Inr: "query q w = (Inr x, w') \<Longrightarrow> x = q (db w) \<and> db w' = db w"
  by (cases rule: stmt_cases [of w "\<lambda>d. (q d, d)"]) (auto simp: query_def)

lemma query_db: "query q w = (r, w') \<Longrightarrow> db w' = db w"
  by (cases rule: stmt_cases [of w "\<lambda>d. (q d, d)"]) (auto simp: query_def)

lemma first_db: "first q w = (r, w') \<Longrightarrow> db w' = db w"
  by (cases rule: stmt_cases [of w "\<lambda>d. (q d, d)"])
    (auto simp: first_def chk_def err_def ret_def split: option.splits)

lemma first_Inr: "first q w = (Inr x, w') \<Longrightarrow> q (db w) = Some x \<and> db w' = db w"
  by (cases rule: stmt_cases [of w "\<lambda>d. (q d, d)"])
    (auto simp: first_def chk_def err_def ret_def split: option.splits)

text \<open>A failed transaction leaves the tables as they were: what makes its body atomic.\<close>

lemma commit_Inl_db: "commit m w = (Inl e, w') \<Longrightarrow> db w' = db w"
  by (auto simp: commit_def split: prod.splits sum.splits)

lemma transaction_Inl_db: "transaction m w = (Inl e, w') \<Longrightarrow> db w' = db w"
  by (cases rule: exec_cases [of w "id :: db \<Rightarrow> db"]) (auto simp: transaction_def chk_def dest: commit_Inl_db)

lemma commit_Inr:
  assumes "commit m w = (Inr x, w')"
  obtains w2 where "m w = (Inr x, w2)" "db w' = db w2"
proof -
  from assms obtain w2 where m: "m w = (Inr x, w2)"
    by (auto simp: commit_def split: prod.splits sum.splits)
  have "db w' = db w2"
    using assms m by (cases rule: exec_cases [of w2 "id :: db \<Rightarrow> db"]) (auto simp: commit_def)
  with m show ?thesis by (rule that)
qed

lemma commit_ok:
  assumes "m w = (r, w')" "faults w' = []"
  shows "commit m w = (r, case r of Inl _ \<Rightarrow> w'\<lparr>db := db w\<rparr> | Inr _ \<Rightarrow> w')"
  using assms by (simp add: commit_def split: sum.splits)

lemma transaction_ok:
  assumes "faults w = []" and "m w = (r, w')" and "faults w' = []"
  shows "transaction m w = (r, case r of Inl _ \<Rightarrow> w'\<lparr>db := db w\<rparr> | Inr _ \<Rightarrow> w')"
  using assms by (simp add: transaction_def chk_def commit_ok)

lemma handle_simps:
  "m w = (Inr x, w') \<Longrightarrow> handle m h k w = k x w'" "m w = (Inl e, w') \<Longrightarrow> handle m h k w = h e w'"
  by (simp_all add: handle_def)

lemma chk_Inr: "m w = (Inr x, w') \<Longrightarrow> chk m k w = k x w'"
  by (simp add: chk_def)

lemma chk_Inl: "m w = (Inl e, w') \<Longrightarrow> chk m k w = (Inl e, w')"
  by (simp add: chk_def)

lemma chk_InrE:
  assumes "chk m k w = (Inr y, w'')"
  obtains x w' where "m w = (Inr x, w')" "k x w' = (Inr y, w'')"
  using assms by (auto simp: chk_def split: prod.splits sum.splits)

lemma spawn_simps [simp]:
  "db (spawn j w) = db w" "faults (spawn j w) = faults w" "ucache (spawn j w) = ucache w"
  "tcache (spawn j w) = tcache w" "batch (spawn j w) = batch w" "pool (spawn j w) = pool w @ [j]"
  by (simp_all add: spawn_def)

lemma spawn_db [simp]: "(spawn j w)\<lparr>db := d\<rparr> = spawn j (w\<lparr>db := d\<rparr>)"
  by (simp add: spawn_def)

lemma world_db_same [simp]: "w\<lparr>db := db w\<rparr> = w"
  by simp

lemma fold_max_ge: "(x :: int) \<in> set xs \<or> x \<le> a \<Longrightarrow> x \<le> fold max xs a"
proof (induction xs arbitrary: a)
  case (Cons y ys)
  then show ?case by (metis fold_simps(2) max.cobounded1 max.cobounded2 max.coboundedI2 set_ConsD)
qed simp

lemma fresh_id_fresh: "fresh_id ids \<notin> set ids" and fresh_id_pos: "0 < fresh_id ids"
  using fold_max_ge [of _ ids 0] by (force simp: fresh_id_def)+

section \<open>Reasoning over every schedule of failures\<close>

text \<open>
  \<open>triple P m Q E\<close>: run from tables that satisfy \<open>P\<close>, whatever statements fail, \<open>m\<close> ends in tables
  that satisfy \<open>Q x\<close> when it returns \<open>x\<close> and \<open>E\<close> when it returns an error.
\<close>

definition triple :: "(db \<Rightarrow> bool) \<Rightarrow> 'a io \<Rightarrow> ('a \<Rightarrow> db \<Rightarrow> bool) \<Rightarrow> (db \<Rightarrow> bool) \<Rightarrow> bool" where
  "triple P m Q E \<longleftrightarrow> (\<forall>w. P (db w) \<longrightarrow> (case m w of (Inr x, w') \<Rightarrow> Q x (db w') | (Inl _, w') \<Rightarrow> E (db w')))"

named_theorems triple_rules \<open>rules for \<open>triple\<close>, one per statement form\<close>

lemma tripleI:
  assumes "\<And>w x w'. P (db w) \<Longrightarrow> m w = (Inr x, w') \<Longrightarrow> Q x (db w')"
    and "\<And>w e w'. P (db w) \<Longrightarrow> m w = (Inl e, w') \<Longrightarrow> E (db w')"
  shows "triple P m Q E"
  unfolding triple_def
proof (intro allI impI)
  fix w :: world assume "P (db w)"
  then show "case m w of (Inl _, w') \<Rightarrow> E (db w') | (Inr x, w') \<Rightarrow> Q x (db w')"
    using assms by (cases "m w"; cases "fst (m w)") auto
qed

lemma tripleD: "triple P m Q E \<Longrightarrow> P (db w) \<Longrightarrow> m w = (Inr x, w') \<Longrightarrow> Q x (db w')"
  unfolding triple_def by (drule spec [of _ w]) simp

lemma tripleD_Inl: "triple P m Q E \<Longrightarrow> P (db w) \<Longrightarrow> m w = (Inl e, w') \<Longrightarrow> E (db w')"
  unfolding triple_def by (drule spec [of _ w]) simp

lemma triple_chk [triple_rules]:
  assumes "triple P m Q E" "\<And>x. triple (Q x) (k x) S E"
  shows "triple P (chk m k) S E"
proof (rule tripleI)
  fix w x w' assume P: "P (db w)" and r: "chk m k w = (Inr x, w')"
  from r obtain y v where "m w = (Inr y, v)" "k y v = (Inr x, w')" by (rule chk_InrE)
  with P assms show "S x (db w')" by (blast dest: tripleD)
next
  fix w e w' assume P: "P (db w)" and r: "chk m k w = (Inl e, w')"
  from r consider "m w = (Inl e, w')" | y v where "m w = (Inr y, v)" "k y v = (Inl e, w')"
    by (auto simp: chk_def split: prod.splits sum.splits)
  then show "E (db w')" using P assms by cases (blast dest: tripleD tripleD_Inl)+
qed

lemma triple_handle [triple_rules]:
  assumes "triple P m Q F" "\<And>e. triple F (h e) S E" "\<And>x. triple (Q x) (k x) S E"
  shows "triple P (handle m h k) S E"
proof (rule tripleI)
  fix w x w' assume P: "P (db w)" and r: "handle m h k w = (Inr x, w')"
  from r consider e v where "m w = (Inl e, v)" "h e v = (Inr x, w')" | y v where "m w = (Inr y, v)" "k y v = (Inr x, w')"
    by (auto simp: handle_def split: prod.splits sum.splits)
  then show "S x (db w')" using P assms by cases (blast dest: tripleD tripleD_Inl)+
next
  fix w e w' assume P: "P (db w)" and r: "handle m h k w = (Inl e, w')"
  from r consider a v where "m w = (Inl a, v)" "h a v = (Inl e, w')" | y v where "m w = (Inr y, v)" "k y v = (Inl e, w')"
    by (auto simp: handle_def split: prod.splits sum.splits)
  then show "E (db w')" using P assms by cases (blast dest: tripleD tripleD_Inl)+
qed

lemma triple_gets [triple_rules]: "(\<And>x d. P d \<Longrightarrow> Q x d) \<Longrightarrow> triple P (gets f) Q E"
  by (rule tripleI) (auto simp: gets_def)

lemma triple_modify [triple_rules]: "(\<And>w. db (f w) = db w) \<Longrightarrow> (\<And>d. P d \<Longrightarrow> Q () d) \<Longrightarrow> triple P (modify f) Q E"
  by (rule tripleI) (auto simp: modify_def)

lemma triple_stmt [triple_rules]:
  assumes "\<And>d. P d \<Longrightarrow> Q (fst (f d)) (snd (f d))" "\<And>d. P d \<Longrightarrow> E d"
  shows "triple P (stmt f) Q E"
proof (rule tripleI)
  fix w x w' assume "P (db w)" "stmt f w = (Inr x, w')"
  then show "Q x (db w')" using assms(1) by (cases rule: stmt_cases [of w f]) auto
next
  fix w e w' assume "P (db w)" "stmt f w = (Inl e, w')"
  then show "E (db w')" using assms(2) by (cases rule: stmt_cases [of w f]) auto
qed

lemma triple_ret [triple_rules]: "(\<And>d. P d \<Longrightarrow> Q x d) \<Longrightarrow> triple P (ret x) Q E"
  by (rule tripleI) (auto simp: ret_def)

lemma triple_err [triple_rules]: "(\<And>d. P d \<Longrightarrow> E d) \<Longrightarrow> triple P (err e) Q E"
  by (rule tripleI) (auto simp: err_def)

lemma triple_exec [triple_rules]:
  assumes "\<And>d. P d \<Longrightarrow> Q () (f d)" "\<And>d. P d \<Longrightarrow> E d"
  shows "triple P (exec f) Q E"
proof (rule tripleI)
  fix w x w' assume "P (db w)" "exec f w = (Inr x, w')"
  then show "Q x (db w')" using assms(1) by (cases rule: exec_cases [of w f]) auto
next
  fix w e w' assume "P (db w)" "exec f w = (Inl e, w')"
  then show "E (db w')" using assms(2) by (auto dest: exec_Inl)
qed

lemma triple_query [triple_rules]:
  "(\<And>d. P d \<Longrightarrow> Q (q d) d) \<Longrightarrow> (\<And>d. P d \<Longrightarrow> E d) \<Longrightarrow> triple P (query q) Q E"
  by (rule tripleI) (auto dest: query_Inr query_db)

lemma triple_first [triple_rules]:
  "(\<And>d x. P d \<Longrightarrow> q d = Some x \<Longrightarrow> Q x d) \<Longrightarrow> (\<And>d. P d \<Longrightarrow> E d) \<Longrightarrow> triple P (first q) Q E"
  by (rule tripleI) (auto dest: first_Inr first_db)

lemma triple_commit [triple_rules]:
  assumes "triple P m Q F" "\<And>d. P d \<Longrightarrow> E d" shows "triple P (commit m) Q E"
proof (rule tripleI)
  fix w x w' assume "P (db w)" "commit m w = (Inr x, w')"
  then show "Q x (db w')" using assms(1) by (metis commit_Inr tripleD)
next
  fix w e w' assume "P (db w)" "commit m w = (Inl e, w')"
  then show "E (db w')" using assms(2) by (auto dest: commit_Inl_db)
qed

lemma triple_transaction [triple_rules]:
  "triple P m Q F \<Longrightarrow> (\<And>d. P d \<Longrightarrow> E d) \<Longrightarrow> triple P (transaction m) Q E"
  unfolding transaction_def
  by (rule triple_chk [where Q = "\<lambda>_. P"], rule triple_exec, simp, blast, rule triple_commit)

lemma triple_if [triple_rules]:
  "(b \<Longrightarrow> triple P m Q E) \<Longrightarrow> (\<not> b \<Longrightarrow> triple P m' Q E) \<Longrightarrow> triple P (if b then m else m') Q E"
  by simp

lemma triple_weaken:
  assumes "triple P m Q E" "\<And>d. P' d \<Longrightarrow> P d" "\<And>x d. Q x d \<Longrightarrow> Q' x d" "\<And>d. E d \<Longrightarrow> E' d"
  shows "triple P' m Q' E'"
  using assms by (intro tripleI) (blast dest: tripleD tripleD_Inl)+

lemma triple_keeps: "triple P m (\<lambda>_. P) P \<Longrightarrow> P (db w) \<Longrightarrow> P (db (snd (m w)))"
  by (cases "m w"; cases "fst (m w)") (auto dest: tripleD tripleD_Inl)

end
