(* ===== verification/Quota.thy ===== *)
theory Quota
  imports Store
begin

text \<open>
  The two quota ledgers: a user's wallet (\<^verbatim>\<open>src/model/user.go\<close>) and a token's remaining quota
  (\<^verbatim>\<open>src/model/token.go\<close>), with the batch updater both go through (\<^verbatim>\<open>src/model/utils.go\<close>) and the
  Redis hashes that mirror them (\<^verbatim>\<open>src/model/user_cache.go\<close>, \<^verbatim>\<open>src/model/token_cache.go\<close>).
  What an account holds is the database column plus the delta still waiting in the batch store.
  The locale \<open>ledger\<close> is the contract of both; it is interpreted on the wallet and on the token
  quota.
\<close>

section \<open>The batch-update stores\<close>

abbreviation (input) BatchUpdateTypeUserQuota :: nat where "BatchUpdateTypeUserQuota \<equiv> 0"
abbreviation (input) BatchUpdateTypeTokenQuota :: nat where "BatchUpdateTypeTokenQuota \<equiv> 1"
abbreviation (input) BatchUpdateTypeUsedQuota :: nat where "BatchUpdateTypeUsedQuota \<equiv> 2"
abbreviation (input) BatchUpdateTypeChannelUsedQuota :: nat where "BatchUpdateTypeChannelUsedQuota \<equiv> 3"
abbreviation (input) BatchUpdateTypeRequestCount :: nat where "BatchUpdateTypeRequestCount \<equiv> 4"

fun store_add :: "int \<Rightarrow> int \<Rightarrow> (int \<times> int) list \<Rightarrow> (int \<times> int) list" where
  "store_add k v [] = [(k, v)]"
| "store_add k v ((k', v') # xs) = (if k' = k then (k', i64 (v' + v)) # xs else (k', v') # store_add k v xs)"

definition addNewRecord :: "nat \<Rightarrow> int \<Rightarrow> int \<Rightarrow> world \<Rightarrow> world" where
  "addNewRecord ty k v w = w\<lparr>batch := (batch w)(ty := store_add k v (batch w ty))\<rparr>"

section \<open>User quota\<close>

text \<open>Queries on \<^verbatim>\<open>User\<close> and \<^verbatim>\<open>Token\<close> skip the rows GORM has soft-deleted.\<close>

definition live_user :: "int \<Rightarrow> user \<Rightarrow> bool" where
  "live_user i u \<longleftrightarrow> uId u = i \<and> \<not> uDeleted u"

definition live_token :: "int \<Rightarrow> token \<Rightarrow> bool" where
  "live_token i t \<longleftrightarrow> tkId t = i \<and> \<not> tkDeleted t"

definition set_users :: "int \<Rightarrow> (user \<Rightarrow> user) \<Rightarrow> db \<Rightarrow> db" where
  "set_users i f d = d\<lparr>users := upd_where (live_user i) f (users d)\<rparr>"

definition set_tokens :: "int \<Rightarrow> (token \<Rightarrow> token) \<Rightarrow> db \<Rightarrow> db" where
  "set_tokens i f d = d\<lparr>tokens := upd_where (live_token i) f (tokens d)\<rparr>"

definition increaseUserQuota :: "int \<Rightarrow> int \<Rightarrow> unit io" where
  "increaseUserQuota i quota = exec (set_users i (\<lambda>u. u\<lparr>uQuota := uQuota u + quota\<rparr>))"

definition decreaseUserQuota :: "int \<Rightarrow> int \<Rightarrow> unit io" where
  "decreaseUserQuota i quota = exec (set_users i (\<lambda>u. u\<lparr>uQuota := uQuota u - quota\<rparr>))"

definition IncreaseUserQuota :: "conf \<Rightarrow> int \<Rightarrow> int \<Rightarrow> bool \<Rightarrow> unit io" where
  "IncreaseUserQuota cfg i quota inDB w =
     (if quota < 0 then (Inl QuotaNegative, w)
      else let w1 = spawn (CacheIncrUserQuota i quota) w in
        if \<not> inDB \<and> BatchUpdateEnabled cfg
        then (Inr (), addNewRecord BatchUpdateTypeUserQuota i quota w1)
        else increaseUserQuota i quota w1)"

definition DecreaseUserQuota :: "conf \<Rightarrow> int \<Rightarrow> int \<Rightarrow> bool \<Rightarrow> unit io" where
  "DecreaseUserQuota cfg i quota inDB w =
     (if quota < 0 then (Inl QuotaNegative, w)
      else let w1 = spawn (CacheIncrUserQuota i (i64 (- quota))) w in
        if \<not> inDB \<and> BatchUpdateEnabled cfg
        then (Inr (), addNewRecord BatchUpdateTypeUserQuota i (i64 (- quota)) w1)
        else decreaseUserQuota i quota w1)"

definition DeltaUpdateUserQuota :: "conf \<Rightarrow> int \<Rightarrow> int \<Rightarrow> unit io" where
  "DeltaUpdateUserQuota cfg i delta w =
     (if delta = 0 then (Inr (), w)
      else if delta > 0 then IncreaseUserQuota cfg i delta False w
      else DecreaseUserQuota cfg i (i64 (- delta)) False w)"

definition updateUserUsedQuotaAndRequestCount :: "int \<Rightarrow> int \<Rightarrow> int \<Rightarrow> world \<Rightarrow> world" where
  "updateUserUsedQuotaAndRequestCount i quota cnt w =
     snd (exec (set_users i (\<lambda>u. u\<lparr>uUsedQuota := uUsedQuota u + quota, uRequestCount := uRequestCount u + cnt\<rparr>)) w)"

definition updateUserUsedQuota :: "int \<Rightarrow> int \<Rightarrow> world \<Rightarrow> world" where
  "updateUserUsedQuota i quota w =
     snd (exec (set_users i (\<lambda>u. u\<lparr>uUsedQuota := uUsedQuota u + quota\<rparr>)) w)"

definition updateUserRequestCount :: "int \<Rightarrow> int \<Rightarrow> world \<Rightarrow> world" where
  "updateUserRequestCount i cnt w =
     snd (exec (set_users i (\<lambda>u. u\<lparr>uRequestCount := uRequestCount u + cnt\<rparr>)) w)"

definition UpdateUserUsedQuotaAndRequestCount :: "conf \<Rightarrow> int \<Rightarrow> int \<Rightarrow> world \<Rightarrow> world" where
  "UpdateUserUsedQuotaAndRequestCount cfg i quota w =
     (if BatchUpdateEnabled cfg
      then addNewRecord BatchUpdateTypeRequestCount i 1 (addNewRecord BatchUpdateTypeUsedQuota i quota w)
      else updateUserUsedQuotaAndRequestCount i quota 1 w)"

definition updateChannelUsedQuota :: "int \<Rightarrow> int \<Rightarrow> world \<Rightarrow> world" where
  "updateChannelUsedQuota i quota w =
     snd (exec (\<lambda>d. d\<lparr>channels := upd_where (\<lambda>c. chId c = i) (\<lambda>c. c\<lparr>chUsedQuota := chUsedQuota c + quota\<rparr>) (channels d)\<rparr>) w)"

definition UpdateChannelUsedQuota :: "conf \<Rightarrow> int \<Rightarrow> int \<Rightarrow> world \<Rightarrow> world" where
  "UpdateChannelUsedQuota cfg i quota w =
     (if BatchUpdateEnabled cfg then addNewRecord BatchUpdateTypeChannelUsedQuota i quota w
      else updateChannelUsedQuota i quota w)"

section \<open>Token quota\<close>

definition increaseTokenQuota :: "int \<Rightarrow> int \<Rightarrow> int \<Rightarrow> unit io" where
  "increaseTokenQuota now i quota =
     exec (set_tokens i (\<lambda>t. t\<lparr>tkRemainQuota := tkRemainQuota t + quota,
                                tkUsedQuota := tkUsedQuota t - quota, tkAccessedTime := now\<rparr>))"

definition decreaseTokenQuota :: "int \<Rightarrow> int \<Rightarrow> int \<Rightarrow> unit io" where
  "decreaseTokenQuota now i quota =
     exec (set_tokens i (\<lambda>t. t\<lparr>tkRemainQuota := tkRemainQuota t - quota,
                                tkUsedQuota := tkUsedQuota t + quota, tkAccessedTime := now\<rparr>))"

definition IncreaseTokenQuota :: "conf \<Rightarrow> int \<Rightarrow> int \<Rightarrow> string \<Rightarrow> int \<Rightarrow> unit io" where
  "IncreaseTokenQuota cfg now tokenId key quota w =
     (if quota < 0 then (Inl QuotaNegative, w)
      else let w1 = if RedisEnabled cfg then spawn (CacheIncrTokenQuota key quota) w else w in
        if BatchUpdateEnabled cfg then (Inr (), addNewRecord BatchUpdateTypeTokenQuota tokenId quota w1)
        else increaseTokenQuota now tokenId quota w1)"

definition DecreaseTokenQuota :: "conf \<Rightarrow> int \<Rightarrow> int \<Rightarrow> string \<Rightarrow> int \<Rightarrow> unit io" where
  "DecreaseTokenQuota cfg now tokenId key quota w =
     (if quota < 0 then (Inl QuotaNegative, w)
      else let w1 = if RedisEnabled cfg then spawn (CacheIncrTokenQuota key (i64 (- quota))) w else w in
        if BatchUpdateEnabled cfg then (Inr (), addNewRecord BatchUpdateTypeTokenQuota tokenId (i64 (- quota)) w1)
        else decreaseTokenQuota now tokenId quota w1)"

section \<open>The batch updater\<close>

text \<open>One entry of a store, by the store's type; a failed statement is only logged.\<close>

definition flush_entry :: "int \<Rightarrow> nat \<Rightarrow> int \<times> int \<Rightarrow> world \<Rightarrow> world" where
  "flush_entry now i kv w =
     (let (k, v) = kv in
      if i = BatchUpdateTypeUserQuota then snd (increaseUserQuota k v w)
      else if i = BatchUpdateTypeTokenQuota then snd (increaseTokenQuota now k v w)
      else if i = BatchUpdateTypeUsedQuota then updateUserUsedQuota k v w
      else if i = BatchUpdateTypeRequestCount then updateUserRequestCount k v w
      else updateChannelUsedQuota k v w)"

text \<open>\<open>ord\<close> is the order in which \<^verbatim>\<open>range store\<close> visits a store's keys.\<close>

definition flush_store ::
  "(nat \<Rightarrow> (int \<times> int) list \<Rightarrow> (int \<times> int) list) \<Rightarrow> int \<Rightarrow> nat \<Rightarrow> world \<Rightarrow> world" where
  "flush_store ord now i w =
     fold (flush_entry now i) (ord i (batch w i)) (w\<lparr>batch := (batch w)(i := [])\<rparr>)"

definition batchUpdate ::
  "(nat \<Rightarrow> (int \<times> int) list \<Rightarrow> (int \<times> int) list) \<Rightarrow> int \<Rightarrow> world \<Rightarrow> world" where
  "batchUpdate ord now w =
     (if list_all (\<lambda>i. batch w i = []) [0..<5] then w else fold (flush_store ord now) [0..<5] w)"

section \<open>The Redis mirror\<close>

definition ToBaseUser :: "user \<Rightarrow> user_base" where
  "ToBaseUser u = \<lparr>ubId = uId u, ubGroup = uGroup u, ubEmail = uEmail u, ubQuota = uQuota u,
     ubStatus = uStatus u, ubUsername = uUsername u, ubSetting = uSetting u\<rparr>"

text \<open>\<^verbatim>\<open>HINCRBY\<close> on a live key (\<^verbatim>\<open>RedisHIncrBy\<close> skips a key without a TTL); Redis refuses an
  increment that leaves the 64-bit range.\<close>

definition cacheIncrUserQuota :: "conf \<Rightarrow> int \<Rightarrow> int \<Rightarrow> world \<Rightarrow> world" where
  "cacheIncrUserQuota cfg i delta w =
     (if \<not> RedisEnabled cfg then w
      else case ucache w i of
          None \<Rightarrow> w
        | Some u \<Rightarrow> if in64 (ubQuota u + delta)
                     then w\<lparr>ucache := (ucache w)(i \<mapsto> u\<lparr>ubQuota := ubQuota u + delta\<rparr>)\<rparr> else w)"

definition updateUserQuotaCache :: "conf \<Rightarrow> int \<Rightarrow> int \<Rightarrow> world \<Rightarrow> world" where
  "updateUserQuotaCache cfg i quota w =
     (if \<not> RedisEnabled cfg then w
      else case ucache w i of
          None \<Rightarrow> w
        | Some u \<Rightarrow> w\<lparr>ucache := (ucache w)(i \<mapsto> u\<lparr>ubQuota := quota\<rparr>)\<rparr>)"

definition updateUserCache :: "conf \<Rightarrow> user_base \<Rightarrow> world \<Rightarrow> world" where
  "updateUserCache cfg u w =
     (if \<not> RedisEnabled cfg then w else w\<lparr>ucache := (ucache w)(ubId u \<mapsto> u)\<rparr>)"

definition invalidateUserCache :: "conf \<Rightarrow> int \<Rightarrow> world \<Rightarrow> world" where
  "invalidateUserCache cfg i w =
     (if \<not> RedisEnabled cfg then w else w\<lparr>ucache := (ucache w)(i := None)\<rparr>)"

definition cacheIncrTokenQuota :: "conf \<Rightarrow> string \<Rightarrow> int \<Rightarrow> world \<Rightarrow> world" where
  "cacheIncrTokenQuota cfg key increment w =
     (let k = hmac cfg key in
      case tcache w k of
        None \<Rightarrow> w
      | Some t \<Rightarrow> if in64 (tkRemainQuota t + increment)
                   then w\<lparr>tcache := (tcache w)(k \<mapsto> t\<lparr>tkRemainQuota := tkRemainQuota t + increment\<rparr>)\<rparr> else w)"

text \<open>\<^verbatim>\<open>RedisHSetObj\<close> skips \<^verbatim>\<open>DeletedAt\<close> and writes a nil pointer as the empty string, which
  \<^verbatim>\<open>RedisHGetObj\<close> reads back as nil.\<close>

definition cacheSetToken :: "conf \<Rightarrow> token \<Rightarrow> world \<Rightarrow> world" where
  "cacheSetToken cfg t w =
     w\<lparr>tcache := (tcache w)(hmac cfg (tkKey t) \<mapsto>
        t\<lparr>tkKey := '''', tkDeleted := False,
           tkAllowIps := (if tkAllowIps t = Some '''' then None else tkAllowIps t)\<rparr>)\<rparr>"

definition cacheDeleteToken :: "conf \<Rightarrow> string \<Rightarrow> world \<Rightarrow> world" where
  "cacheDeleteToken cfg key w = w\<lparr>tcache := (tcache w)(hmac cfg key := None)\<rparr>"

definition cacheGetTokenByKey :: "conf \<Rightarrow> string \<Rightarrow> world \<Rightarrow> token option" where
  "cacheGetTokenByKey cfg key w =
     (if \<not> RedisEnabled cfg then None
      else map_option (\<lambda>t. t\<lparr>tkKey := key\<rparr>) (tcache w (hmac cfg key)))"

text \<open>Running one closure of the pool.\<close>

fun run_job :: "conf \<Rightarrow> cache_job \<Rightarrow> world \<Rightarrow> world" where
  "run_job cfg (CacheIncrUserQuota i d) w = cacheIncrUserQuota cfg i d w"
| "run_job cfg (UpdateUserQuotaCache i q) w = updateUserQuotaCache cfg i q w"
| "run_job cfg (UpdateUserCache u) w = updateUserCache cfg u w"
| "run_job cfg (CacheIncrTokenQuota k d) w = cacheIncrTokenQuota cfg k d w"
| "run_job cfg (CacheSetToken t) w = cacheSetToken cfg t w"
| "run_job cfg (CacheDeleteToken k) w = cacheDeleteToken cfg k w"

section \<open>What an account holds\<close>

text \<open>The column, the delta waiting in the batch store, and their sum, which is what the account's
  owner has.\<close>

definition pending :: "nat \<Rightarrow> int \<Rightarrow> world \<Rightarrow> int" where
  "pending ty i w = (case map_of (batch w ty) i of None \<Rightarrow> 0 | Some v \<Rightarrow> v)"

definition user_quota :: "int \<Rightarrow> world \<Rightarrow> int" where
  "user_quota i w = (case find (live_user i) (users (db w)) of None \<Rightarrow> 0 | Some u \<Rightarrow> uQuota u)"

definition token_quota :: "int \<Rightarrow> world \<Rightarrow> int" where
  "token_quota i w = (case find (live_token i) (tokens (db w)) of None \<Rightarrow> 0 | Some t \<Rightarrow> tkRemainQuota t)"

definition user_exists :: "int \<Rightarrow> world \<Rightarrow> bool" where
  "user_exists i w \<longleftrightarrow> find (live_user i) (users (db w)) \<noteq> None"

definition token_exists :: "int \<Rightarrow> world \<Rightarrow> bool" where
  "token_exists i w \<longleftrightarrow> find (live_token i) (tokens (db w)) \<noteq> None"

definition wallet :: "int \<Rightarrow> world \<Rightarrow> int" where
  "wallet i w = user_quota i w + pending BatchUpdateTypeUserQuota i w"

definition allowance :: "int \<Rightarrow> world \<Rightarrow> int" where
  "allowance i w = token_quota i w + pending BatchUpdateTypeTokenQuota i w"

text \<open>The batch store's addition of \<open>d\<close> does not leave the 64-bit range.\<close>

definition room :: "conf \<Rightarrow> nat \<Rightarrow> int \<Rightarrow> int \<Rightarrow> world \<Rightarrow> bool" where
  "room cfg ty i d w \<longleftrightarrow> in64 d \<and> (BatchUpdateEnabled cfg \<longrightarrow> in64 (pending ty i w + d))"

section \<open>The contract of a ledger\<close>

text \<open>
  A ledger has accounts; a credit or debit of a non-negative amount by an account that exists,
  with no statement failing, succeeds, changes that account's balance by the amount and no other
  account's, and keeps the accounts that exist.
\<close>

locale ledger =
  fixes bal :: "int \<Rightarrow> world \<Rightarrow> int"
    and acct :: "int \<Rightarrow> world \<Rightarrow> bool"
    and fits :: "int \<Rightarrow> int \<Rightarrow> world \<Rightarrow> bool"
    and credit :: "int \<Rightarrow> int \<Rightarrow> unit io"
    and debit :: "int \<Rightarrow> int \<Rightarrow> unit io"
  assumes credit_Inr: "\<lbrakk>faults w = []; 0 \<le> q; fits i q w\<rbrakk> \<Longrightarrow> fst (credit i q w) = Inr ()"
    and debit_Inr: "\<lbrakk>faults w = []; 0 \<le> q; fits i (- q) w\<rbrakk> \<Longrightarrow> fst (debit i q w) = Inr ()"
    and credit_faults: "faults w = [] \<Longrightarrow> faults (snd (credit i q w)) = []"
    and debit_faults: "faults w = [] \<Longrightarrow> faults (snd (debit i q w)) = []"
    and credit_bal: "\<lbrakk>faults w = []; 0 \<le> q; fits i q w; acct i w\<rbrakk> \<Longrightarrow>
      bal j (snd (credit i q w)) = bal j w + (if j = i then q else 0)"
    and debit_bal: "\<lbrakk>faults w = []; 0 \<le> q; fits i (- q) w; acct i w\<rbrakk> \<Longrightarrow>
      bal j (snd (debit i q w)) = bal j w - (if j = i then q else 0)"
    and credit_acct: "acct j (snd (credit i q w)) = acct j w"
    and debit_acct: "acct j (snd (debit i q w)) = acct j w"
    and credit_neg: "q < 0 \<Longrightarrow> credit i q w = (Inl QuotaNegative, w)"
    and debit_neg: "q < 0 \<Longrightarrow> debit i q w = (Inl QuotaNegative, w)"
begin

text \<open>A signed movement, the way the callers make one, and a run of them.\<close>

definition delta :: "int \<Rightarrow> int \<Rightarrow> unit io" where
  "delta i d w = (if d = 0 then (Inr (), w) else if d > 0 then credit i d w else debit i (i64 (- d)) w)"

fun all_fit :: "int \<Rightarrow> int list \<Rightarrow> world \<Rightarrow> bool" where
  "all_fit i [] w \<longleftrightarrow> True"
| "all_fit i (d # ds) w \<longleftrightarrow> fits i d w \<and> in64 (- d) \<and> all_fit i ds (snd (delta i d w))"

lemma delta_bal:
  "\<lbrakk>faults w = []; fits i d w; in64 (- d); acct i w\<rbrakk> \<Longrightarrow>
   bal j (snd (delta i d w)) = bal j w + (if j = i then d else 0)"
  by (auto simp: delta_def credit_bal debit_bal)

lemma delta_Inr:
  "\<lbrakk>faults w = []; fits i d w; in64 (- d)\<rbrakk> \<Longrightarrow> fst (delta i d w) = Inr ()"
  by (auto simp: delta_def credit_Inr debit_Inr)

lemma delta_faults: "faults w = [] \<Longrightarrow> faults (snd (delta i d w)) = []"
  by (simp add: delta_def credit_faults debit_faults)

lemma delta_acct: "acct j (snd (delta i d w)) = acct j w"
  by (simp add: delta_def credit_acct debit_acct)

lemma deltas_bal:
  "\<lbrakk>faults w = []; acct i w; all_fit i ds w\<rbrakk> \<Longrightarrow>
   bal j (fold (\<lambda>d w. snd (delta i d w)) ds w) = bal j w + (if j = i then sum_list ds else 0)"
  by (induction ds arbitrary: w) (auto simp: delta_bal delta_faults delta_acct)

lemma debit_credit_restores:
  assumes "faults w = []" "0 \<le> q" "acct i w" "fits i (- q) w" "fits i q (snd (debit i q w))"
  shows "bal j (snd (credit i q (snd (debit i q w)))) = bal j w"
  using assms by (simp add: credit_bal debit_bal debit_faults debit_acct)

end

section \<open>Lemmas\<close>

lemma map_of_store_add:
  "map_of (store_add k v xs) j =
     (if j = k then Some (case map_of xs k of None \<Rightarrow> v | Some v' \<Rightarrow> i64 (v' + v)) else map_of xs j)"
  by (induction k v xs rule: store_add.induct) auto

lemma keys_store_add: "fst ` set (store_add k v xs) = insert k (fst ` set xs)"
  by (induction k v xs rule: store_add.induct) auto

lemma distinct_store_add: "distinct (map fst xs) \<Longrightarrow> distinct (map fst (store_add k v xs))"
  by (induction k v xs rule: store_add.induct) (auto simp: keys_store_add image_iff)

lemma addNewRecord_simps [simp]:
  "db (addNewRecord ty k v w) = db w" "faults (addNewRecord ty k v w) = faults w"
  "pool (addNewRecord ty k v w) = pool w" "ucache (addNewRecord ty k v w) = ucache w"
  "tcache (addNewRecord ty k v w) = tcache w"
  by (simp_all add: addNewRecord_def)

lemma pending_addNewRecord:
  "in64 v \<Longrightarrow> in64 (pending ty k w + v) \<Longrightarrow>
   pending ty' j (addNewRecord ty k v w) = pending ty' j w + (if ty' = ty \<and> j = k then v else 0)"
  by (auto simp: pending_def addNewRecord_def map_of_store_add split: option.splits)

lemma pending_cong [simp]:
  "pending ty i (w\<lparr>db := d\<rparr>) = pending ty i w" "pending ty i (w\<lparr>faults := fs\<rparr>) = pending ty i w"
  "pending ty i (spawn j w) = pending ty i w"
  by (simp_all add: pending_def)

lemma find_set_users:
  assumes "\<And>u. live_user i u \<Longrightarrow> uId (f u) = uId u \<and> uDeleted (f u) = uDeleted u"
  shows "find (live_user j) (upd_where (live_user i) f us) =
    map_option (\<lambda>u. if live_user i u then f u else u) (find (live_user j) us)"
  using assms by (induction us) (auto simp: live_user_def)

lemma find_set_tokens:
  assumes "\<And>t. live_token i t \<Longrightarrow> tkId (f t) = tkId t \<and> tkDeleted (f t) = tkDeleted t"
  shows "find (live_token j) (upd_where (live_token i) f ts) =
    map_option (\<lambda>t. if live_token i t then f t else t) (find (live_token j) ts)"
  using assms by (induction ts) (auto simp: live_token_def)

lemma find_live_user: "find (live_user j) us = Some u \<Longrightarrow> uId u = j \<and> \<not> uDeleted u"
  by (auto simp: find_Some_iff live_user_def)

lemma find_live_token: "find (live_token j) ts = Some t \<Longrightarrow> tkId t = j \<and> \<not> tkDeleted t"
  by (auto simp: find_Some_iff live_token_def)

lemma set_users_frame [simp]:
  "tokens (set_users i f d) = tokens d" "plans (set_users i f d) = plans d" "subs (set_users i f d) = subs d"
  "orders (set_users i f d) = orders d" "precons (set_users i f d) = precons d"
  "topups (set_users i f d) = topups d" "redemptions (set_users i f d) = redemptions d"
  "checkins (set_users i f d) = checkins d" "tasks (set_users i f d) = tasks d"
  "users (set_users i f d) = upd_where (live_user i) f (users d)"
  by (simp_all add: set_users_def)

lemma set_tokens_frame [simp]:
  "users (set_tokens i f d) = users d" "plans (set_tokens i f d) = plans d" "subs (set_tokens i f d) = subs d"
  "orders (set_tokens i f d) = orders d" "precons (set_tokens i f d) = precons d"
  "topups (set_tokens i f d) = topups d" "redemptions (set_tokens i f d) = redemptions d"
  "checkins (set_tokens i f d) = checkins d" "tasks (set_tokens i f d) = tasks d"
  "tokens (set_tokens i f d) = upd_where (live_token i) f (tokens d)"
  by (simp_all add: set_tokens_def)

text \<open>The row of an account after a statement on its columns.\<close>

lemma user_quota_set_users:
  assumes "\<And>u. live_user i u \<Longrightarrow> uId (f u) = uId u \<and> uDeleted (f u) = uDeleted u \<and> uQuota (f u) = uQuota u + d"
    and "db w' = set_users i f (db w)"
  shows "user_quota j w' = user_quota j w + (if j = i \<and> user_exists j w then d else 0)"
proof -
  have *: "find (live_user j) (users (db w')) =
    map_option (\<lambda>x. if live_user i x then f x else x) (find (live_user j) (users (db w)))"
    unfolding assms(2) set_users_frame using assms(1) by (intro find_set_users) auto
  show ?thesis
    using assms(1) unfolding user_quota_def user_exists_def *
    by (cases "find (live_user j) (users (db w))") (auto simp: live_user_def dest: find_live_user)
qed

lemma token_quota_set_tokens:
  assumes "\<And>t. live_token i t \<Longrightarrow> tkId (f t) = tkId t \<and> tkDeleted (f t) = tkDeleted t \<and> tkRemainQuota (f t) = tkRemainQuota t + d"
    and "db w' = set_tokens i f (db w)"
  shows "token_quota j w' = token_quota j w + (if j = i \<and> token_exists j w then d else 0)"
proof -
  have *: "find (live_token j) (tokens (db w')) =
    map_option (\<lambda>x. if live_token i x then f x else x) (find (live_token j) (tokens (db w)))"
    unfolding assms(2) set_tokens_frame using assms(1) by (intro find_set_tokens) auto
  show ?thesis
    using assms(1) unfolding token_quota_def token_exists_def *
    by (cases "find (live_token j) (tokens (db w))") (auto simp: live_token_def dest: find_live_token)
qed

lemma user_exists_set_users:
  assumes "\<And>u. live_user i u \<Longrightarrow> uId (f u) = uId u \<and> uDeleted (f u) = uDeleted u"
    and "db w' = set_users i f (db w)"
  shows "user_exists j w' = user_exists j w"
  using assms(1) by (simp add: user_exists_def assms(2) find_set_users)

lemma token_exists_set_tokens:
  assumes "\<And>t. live_token i t \<Longrightarrow> tkId (f t) = tkId t \<and> tkDeleted (f t) = tkDeleted t"
    and "db w' = set_tokens i f (db w)"
  shows "token_exists j w' = token_exists j w"
  using assms(1) by (simp add: token_exists_def assms(2) find_set_tokens)

lemma account_faults [simp]:
  "user_quota i (w\<lparr>faults := fs\<rparr>) = user_quota i w" "token_quota i (w\<lparr>faults := fs\<rparr>) = token_quota i w"
  "user_exists i (w\<lparr>faults := fs\<rparr>) = user_exists i w" "token_exists i (w\<lparr>faults := fs\<rparr>) = token_exists i w"
  by (simp_all add: user_quota_def token_quota_def user_exists_def token_exists_def)

text \<open>Each operation on an account, as an equation, when no statement fails.\<close>

lemma IncreaseUserQuota_ok:
  assumes "faults w = []" "0 \<le> q"
  shows "IncreaseUserQuota cfg i q inDB w = (Inr (),
    if \<not> inDB \<and> BatchUpdateEnabled cfg
    then addNewRecord BatchUpdateTypeUserQuota i q (spawn (CacheIncrUserQuota i q) w)
    else (spawn (CacheIncrUserQuota i q) w)\<lparr>db := set_users i (\<lambda>u. u\<lparr>uQuota := uQuota u + q\<rparr>) (db w)\<rparr>)"
  using assms by (simp add: IncreaseUserQuota_def increaseUserQuota_def Let_def)

lemma DecreaseUserQuota_ok:
  assumes "faults w = []" "0 \<le> q" "in64 (- q)"
  shows "DecreaseUserQuota cfg i q inDB w = (Inr (),
    if \<not> inDB \<and> BatchUpdateEnabled cfg
    then addNewRecord BatchUpdateTypeUserQuota i (- q) (spawn (CacheIncrUserQuota i (- q)) w)
    else (spawn (CacheIncrUserQuota i (- q)) w)\<lparr>db := set_users i (\<lambda>u. u\<lparr>uQuota := uQuota u - q\<rparr>) (db w)\<rparr>)"
  using assms by (simp add: DecreaseUserQuota_def decreaseUserQuota_def Let_def)

lemma user_quota_add [simp]:
  "user_quota j (w\<lparr>db := set_users i (\<lambda>u. u\<lparr>uQuota := uQuota u + q\<rparr>) d\<rparr>) =
   user_quota j (w\<lparr>db := d\<rparr>) + (if j = i \<and> user_exists j (w\<lparr>db := d\<rparr>) then q else 0)"
  "user_quota j (w\<lparr>db := set_users i (\<lambda>u. u\<lparr>uQuota := uQuota u - q\<rparr>) d\<rparr>) =
   user_quota j (w\<lparr>db := d\<rparr>) - (if j = i \<and> user_exists j (w\<lparr>db := d\<rparr>) then q else 0)"
  using user_quota_set_users [of i "\<lambda>u. u\<lparr>uQuota := uQuota u + q\<rparr>" q
      "w\<lparr>db := set_users i (\<lambda>u. u\<lparr>uQuota := uQuota u + q\<rparr>) d\<rparr>" "w\<lparr>db := d\<rparr>" j]
    user_quota_set_users [of i "\<lambda>u. u\<lparr>uQuota := uQuota u - q\<rparr>" "- q"
      "w\<lparr>db := set_users i (\<lambda>u. u\<lparr>uQuota := uQuota u - q\<rparr>) d\<rparr>" "w\<lparr>db := d\<rparr>" j]
  by (auto simp: live_user_def)

lemma token_quota_add [simp]:
  "token_quota j (w\<lparr>db := set_tokens i (\<lambda>t. t\<lparr>tkRemainQuota := tkRemainQuota t + q, tkUsedQuota := tkUsedQuota t - q, tkAccessedTime := now\<rparr>) d\<rparr>) =
   token_quota j (w\<lparr>db := d\<rparr>) + (if j = i \<and> token_exists j (w\<lparr>db := d\<rparr>) then q else 0)"
  "token_quota j (w\<lparr>db := set_tokens i (\<lambda>t. t\<lparr>tkRemainQuota := tkRemainQuota t - q, tkUsedQuota := tkUsedQuota t + q, tkAccessedTime := now\<rparr>) d\<rparr>) =
   token_quota j (w\<lparr>db := d\<rparr>) - (if j = i \<and> token_exists j (w\<lparr>db := d\<rparr>) then q else 0)"
  using token_quota_set_tokens [of i "\<lambda>t. t\<lparr>tkRemainQuota := tkRemainQuota t + q, tkUsedQuota := tkUsedQuota t - q, tkAccessedTime := now\<rparr>" q
      "w\<lparr>db := set_tokens i (\<lambda>t. t\<lparr>tkRemainQuota := tkRemainQuota t + q, tkUsedQuota := tkUsedQuota t - q, tkAccessedTime := now\<rparr>) d\<rparr>" "w\<lparr>db := d\<rparr>" j]
    token_quota_set_tokens [of i "\<lambda>t. t\<lparr>tkRemainQuota := tkRemainQuota t - q, tkUsedQuota := tkUsedQuota t + q, tkAccessedTime := now\<rparr>" "- q"
      "w\<lparr>db := set_tokens i (\<lambda>t. t\<lparr>tkRemainQuota := tkRemainQuota t - q, tkUsedQuota := tkUsedQuota t + q, tkAccessedTime := now\<rparr>) d\<rparr>" "w\<lparr>db := d\<rparr>" j]
  by (auto simp: live_token_def)

lemma account_frame [simp]:
  "user_quota j (w\<lparr>db := set_tokens i g d\<rparr>) = user_quota j (w\<lparr>db := d\<rparr>)"
  "token_quota j (w\<lparr>db := set_users i f d\<rparr>) = token_quota j (w\<lparr>db := d\<rparr>)"
  "user_exists j (w\<lparr>db := set_tokens i g d\<rparr>) = user_exists j (w\<lparr>db := d\<rparr>)"
  "token_exists j (w\<lparr>db := set_users i f d\<rparr>) = token_exists j (w\<lparr>db := d\<rparr>)"
  "user_quota j (spawn jb w) = user_quota j w" "token_quota j (spawn jb w) = token_quota j w"
  "user_exists j (spawn jb w) = user_exists j w" "token_exists j (spawn jb w) = token_exists j w"
  "user_quota j (addNewRecord ty k v w) = user_quota j w" "token_quota j (addNewRecord ty k v w) = token_quota j w"
  "user_exists j (addNewRecord ty k v w) = user_exists j w" "token_exists j (addNewRecord ty k v w) = token_exists j w"
  by (simp_all add: user_quota_def token_quota_def user_exists_def token_exists_def)

lemma exists_upd [simp]:
  "user_exists j (w\<lparr>db := set_users i (\<lambda>u. u\<lparr>uQuota := g u\<rparr>) d\<rparr>) = user_exists j (w\<lparr>db := d\<rparr>)"
  "token_exists j (w\<lparr>db := set_tokens i (\<lambda>t. t\<lparr>tkRemainQuota := g' t, tkUsedQuota := h t, tkAccessedTime := now\<rparr>) d\<rparr>) = token_exists j (w\<lparr>db := d\<rparr>)"
  by (rule user_exists_set_users; simp) (rule token_exists_set_tokens; simp)

text \<open>Which accounts exist does not depend on whether the statements succeed.\<close>

lemma user_exists_exec:
  assumes "\<And>u. live_user i u \<Longrightarrow> uId (f u) = uId u \<and> uDeleted (f u) = uDeleted u"
  shows "user_exists j (snd (exec (set_users i f) w)) = user_exists j w"
proof (cases rule: exec_cases [of w "set_users i f"])
  case ok
  then show ?thesis using user_exists_set_users [OF assms, of i "snd (exec (set_users i f) w)" w j] by simp
qed (simp add: account_faults)

lemma token_exists_exec:
  assumes "\<And>t. live_token i t \<Longrightarrow> tkId (f t) = tkId t \<and> tkDeleted (f t) = tkDeleted t"
  shows "token_exists j (snd (exec (set_tokens i f) w)) = token_exists j w"
proof (cases rule: exec_cases [of w "set_tokens i f"])
  case ok
  then show ?thesis using token_exists_set_tokens [OF assms, of i "snd (exec (set_tokens i f) w)" w j] by simp
qed (simp add: account_faults)

lemma user_exists_ops [simp]:
  "user_exists j (snd (IncreaseUserQuota cfg i q inDB w)) = user_exists j w"
  "user_exists j (snd (DecreaseUserQuota cfg i q inDB w)) = user_exists j w"
  by (simp_all add: IncreaseUserQuota_def DecreaseUserQuota_def increaseUserQuota_def decreaseUserQuota_def
      Let_def user_exists_exec)

lemma token_exists_ops [simp]:
  "token_exists j (snd (IncreaseTokenQuota cfg now i k q w)) = token_exists j w"
  "token_exists j (snd (DecreaseTokenQuota cfg now i k q w)) = token_exists j w"
  by (simp_all add: IncreaseTokenQuota_def DecreaseTokenQuota_def increaseTokenQuota_def decreaseTokenQuota_def
      Let_def token_exists_exec)

lemma wallet_Increase:
  assumes "faults w = []" "0 \<le> q" "room cfg BatchUpdateTypeUserQuota i q w" "user_exists i w"
  shows "wallet j (snd (IncreaseUserQuota cfg i q inDB w)) = wallet j w + (if j = i then q else 0)"
  using assms by (auto simp: IncreaseUserQuota_ok wallet_def room_def pending_addNewRecord)

lemma wallet_Decrease:
  assumes "faults w = []" "0 \<le> q" "room cfg BatchUpdateTypeUserQuota i (- q) w" "user_exists i w"
  shows "wallet j (snd (DecreaseUserQuota cfg i q inDB w)) = wallet j w - (if j = i then q else 0)"
  using assms by (auto simp: DecreaseUserQuota_ok wallet_def room_def pending_addNewRecord)

lemma IncreaseTokenQuota_ok:
  assumes "faults w = []" "0 \<le> q"
  shows "IncreaseTokenQuota cfg now i k q w = (Inr (),
    let w1 = (if RedisEnabled cfg then spawn (CacheIncrTokenQuota k q) w else w) in
    if BatchUpdateEnabled cfg then addNewRecord BatchUpdateTypeTokenQuota i q w1
    else w1\<lparr>db := set_tokens i (\<lambda>t. t\<lparr>tkRemainQuota := tkRemainQuota t + q, tkUsedQuota := tkUsedQuota t - q, tkAccessedTime := now\<rparr>) (db w)\<rparr>)"
  using assms by (simp add: IncreaseTokenQuota_def increaseTokenQuota_def Let_def)

lemma DecreaseTokenQuota_ok:
  assumes "faults w = []" "0 \<le> q" "in64 (- q)"
  shows "DecreaseTokenQuota cfg now i k q w = (Inr (),
    let w1 = (if RedisEnabled cfg then spawn (CacheIncrTokenQuota k (- q)) w else w) in
    if BatchUpdateEnabled cfg then addNewRecord BatchUpdateTypeTokenQuota i (- q) w1
    else w1\<lparr>db := set_tokens i (\<lambda>t. t\<lparr>tkRemainQuota := tkRemainQuota t - q, tkUsedQuota := tkUsedQuota t + q, tkAccessedTime := now\<rparr>) (db w)\<rparr>)"
  using assms by (simp add: DecreaseTokenQuota_def decreaseTokenQuota_def Let_def)

lemma allowance_Increase:
  assumes "faults w = []" "0 \<le> q" "room cfg BatchUpdateTypeTokenQuota i q w" "token_exists i w"
  shows "allowance j (snd (IncreaseTokenQuota cfg now i k q w)) = allowance j w + (if j = i then q else 0)"
  using assms by (auto simp: IncreaseTokenQuota_ok allowance_def room_def pending_addNewRecord Let_def)

lemma allowance_Decrease:
  assumes "faults w = []" "0 \<le> q" "room cfg BatchUpdateTypeTokenQuota i (- q) w" "token_exists i w"
  shows "allowance j (snd (DecreaseTokenQuota cfg now i k q w)) = allowance j w - (if j = i then q else 0)"
  using assms by (auto simp: DecreaseTokenQuota_ok allowance_def room_def pending_addNewRecord Let_def)

lemma quota_ops_neg:
  "q < 0 \<Longrightarrow> IncreaseUserQuota cfg i q inDB w = (Inl QuotaNegative, w)"
  "q < 0 \<Longrightarrow> DecreaseUserQuota cfg i q inDB w = (Inl QuotaNegative, w)"
  "q < 0 \<Longrightarrow> IncreaseTokenQuota cfg now i k q w = (Inl QuotaNegative, w)"
  "q < 0 \<Longrightarrow> DecreaseTokenQuota cfg now i k q w = (Inl QuotaNegative, w)"
  by (simp_all add: IncreaseUserQuota_def DecreaseUserQuota_def IncreaseTokenQuota_def DecreaseTokenQuota_def)

lemma quota_ops_faults:
  assumes "faults w = []"
  shows "faults (snd (IncreaseUserQuota cfg i q inDB w)) = []"
    and "faults (snd (DecreaseUserQuota cfg i q inDB w)) = []"
    and "faults (snd (IncreaseTokenQuota cfg now i k q w)) = []"
    and "faults (snd (DecreaseTokenQuota cfg now i k q w)) = []"
  using assms by (simp_all add: IncreaseUserQuota_def DecreaseUserQuota_def IncreaseTokenQuota_def DecreaseTokenQuota_def
      increaseUserQuota_def decreaseUserQuota_def increaseTokenQuota_def decreaseTokenQuota_def Let_def)

lemma quota_ops_Inr:
  assumes "faults w = []" "0 \<le> q"
  shows "fst (IncreaseUserQuota cfg i q inDB w) = Inr ()"
    and "in64 (- q) \<Longrightarrow> fst (DecreaseUserQuota cfg i q inDB w) = Inr ()"
    and "fst (IncreaseTokenQuota cfg now i k q w) = Inr ()"
    and "in64 (- q) \<Longrightarrow> fst (DecreaseTokenQuota cfg now i k q w) = Inr ()"
  using assms by (simp_all add: IncreaseUserQuota_ok DecreaseUserQuota_ok IncreaseTokenQuota_ok DecreaseTokenQuota_ok)

lemma room_in64: "room cfg ty i d w \<Longrightarrow> in64 d"
  by (simp add: room_def)

interpretation wl: ledger wallet user_exists "room cfg BatchUpdateTypeUserQuota"
  "\<lambda>i q. IncreaseUserQuota cfg i q False" "\<lambda>i q. DecreaseUserQuota cfg i q False" for cfg
  by (intro ledger.intro quota_ops_neg quota_ops_faults quota_ops_Inr room_in64 wallet_Increase wallet_Decrease user_exists_ops)

interpretation tkl: ledger allowance token_exists "room cfg BatchUpdateTypeTokenQuota"
  "\<lambda>i q. IncreaseTokenQuota cfg now i k q" "\<lambda>i q. DecreaseTokenQuota cfg now i k q" for cfg now k
  by (intro ledger.intro quota_ops_neg quota_ops_faults quota_ops_Inr room_in64 allowance_Increase allowance_Decrease token_exists_ops)

lemma DeltaUpdateUserQuota_delta: "DeltaUpdateUserQuota cfg i d = wl.delta cfg i d"
  by (simp add: DeltaUpdateUserQuota_def wl.delta_def fun_eq_iff)

section \<open>Flushing the batch stores\<close>

definition batch_wf :: "world \<Rightarrow> bool" where
  "batch_wf w \<longleftrightarrow> list_all (\<lambda>i. distinct (map fst (batch w i))) [0..<5]"

definition share :: "int \<Rightarrow> (int \<times> int) list \<Rightarrow> int" where
  "share k kvs = sum_list (map snd (filter (\<lambda>kv. fst kv = k) kvs))"

lemma share_Cons [simp]: "share k (kv # kvs) = (if fst kv = k then snd kv else 0) + share k kvs"
  by (simp add: share_def)

lemma share_Nil [simp]: "share k [] = 0"
  by (simp add: share_def)

lemma share_mset: "mset xs = mset ys \<Longrightarrow> share k xs = share k ys"
proof -
  assume "mset xs = mset ys"
  then have "mset (map snd (filter (\<lambda>kv. fst kv = k) xs)) = mset (map snd (filter (\<lambda>kv. fst kv = k) ys))"
    by simp
  then show ?thesis
    unfolding share_def using sum_mset_sum_list by metis
qed

lemma share_map_of: "distinct (map fst xs) \<Longrightarrow> share k xs = (case map_of xs k of None \<Rightarrow> 0 | Some v \<Rightarrow> v)"
proof (induction xs)
  case (Cons kv xs)
  moreover have "share k xs = 0" if "k \<notin> fst ` set xs"
    using that by (induction xs) auto
  ultimately show ?case by (cases kv) auto
qed simp

lemma used_quota_frame [simp]:
  "user_quota j (w\<lparr>db := set_users i (\<lambda>u. u\<lparr>uUsedQuota := g u\<rparr>) d\<rparr>) = user_quota j (w\<lparr>db := d\<rparr>)"
  "user_quota j (w\<lparr>db := set_users i (\<lambda>u. u\<lparr>uRequestCount := g u\<rparr>) d\<rparr>) = user_quota j (w\<lparr>db := d\<rparr>)"
  "user_exists j (w\<lparr>db := set_users i (\<lambda>u. u\<lparr>uUsedQuota := g u\<rparr>) d\<rparr>) = user_exists j (w\<lparr>db := d\<rparr>)"
  "user_exists j (w\<lparr>db := set_users i (\<lambda>u. u\<lparr>uRequestCount := g u\<rparr>) d\<rparr>) = user_exists j (w\<lparr>db := d\<rparr>)"
  subgoal by (subst user_quota_set_users [where d = 0 and w = "w\<lparr>db := d\<rparr>"]) simp_all
  subgoal by (subst user_quota_set_users [where d = 0 and w = "w\<lparr>db := d\<rparr>"]) simp_all
  subgoal by (rule user_exists_set_users) simp_all
  subgoal by (rule user_exists_set_users) simp_all
  done

lemma channels_frame [simp]:
  "user_quota j (w\<lparr>db := d\<lparr>channels := c\<rparr>\<rparr>) = user_quota j (w\<lparr>db := d\<rparr>)"
  "token_quota j (w\<lparr>db := d\<lparr>channels := c\<rparr>\<rparr>) = token_quota j (w\<lparr>db := d\<rparr>)"
  "user_exists j (w\<lparr>db := d\<lparr>channels := c\<rparr>\<rparr>) = user_exists j (w\<lparr>db := d\<rparr>)"
  "token_exists j (w\<lparr>db := d\<lparr>channels := c\<rparr>\<rparr>) = token_exists j (w\<lparr>db := d\<rparr>)"
  by (simp_all add: user_quota_def token_quota_def user_exists_def token_exists_def)

lemmas flush_defs = flush_entry_def increaseUserQuota_def increaseTokenQuota_def updateUserUsedQuota_def
  updateUserRequestCount_def updateChannelUsedQuota_def

lemma flush_entry_simps:
  assumes "faults w = []"
  shows "faults (flush_entry now i kv w) = []"
    and "batch (flush_entry now i kv w) = batch w"
    and "user_exists j (flush_entry now i kv w) = user_exists j w"
    and "token_exists j (flush_entry now i kv w) = token_exists j w"
  using assms by (simp_all add: flush_defs split_beta)

lemma flush_entry_quota:
  assumes "faults w = []"
  shows "user_quota j (flush_entry now i kv w) =
      user_quota j w + (if i = BatchUpdateTypeUserQuota \<and> user_exists j w \<and> fst kv = j then snd kv else 0)"
    and "token_quota j (flush_entry now i kv w) =
      token_quota j w + (if i = BatchUpdateTypeTokenQuota \<and> token_exists j w \<and> fst kv = j then snd kv else 0)"
  using assms by (auto simp: flush_defs split_beta)

lemma fold_flush:
  assumes "faults w = []"
  shows "faults (fold (flush_entry now i) kvs w) = []"
    and "batch (fold (flush_entry now i) kvs w) = batch w"
    and "user_exists j (fold (flush_entry now i) kvs w) = user_exists j w"
    and "token_exists j (fold (flush_entry now i) kvs w) = token_exists j w"
    and "user_quota j (fold (flush_entry now i) kvs w) =
      user_quota j w + (if i = BatchUpdateTypeUserQuota \<and> user_exists j w then share j kvs else 0)"
    and "token_quota j (fold (flush_entry now i) kvs w) =
      token_quota j w + (if i = BatchUpdateTypeTokenQuota \<and> token_exists j w then share j kvs else 0)"
  using assms by (induction kvs arbitrary: w) (auto simp: flush_entry_simps flush_entry_quota)

lemma batch_cong [simp]:
  "user_quota j (w\<lparr>batch := b\<rparr>) = user_quota j w" "token_quota j (w\<lparr>batch := b\<rparr>) = token_quota j w"
  "user_exists j (w\<lparr>batch := b\<rparr>) = user_exists j w" "token_exists j (w\<lparr>batch := b\<rparr>) = token_exists j w"
  by (simp_all add: user_quota_def token_quota_def user_exists_def token_exists_def)

lemma flush_store_simps:
  assumes "faults w = []" "mset (ord i (batch w i)) = mset (batch w i)"
  shows "faults (flush_store ord now i w) = []"
    and "batch (flush_store ord now i w) = (batch w)(i := [])"
    and "user_exists j (flush_store ord now i w) = user_exists j w"
    and "token_exists j (flush_store ord now i w) = token_exists j w"
    and "user_quota j (flush_store ord now i w) =
      user_quota j w + (if i = BatchUpdateTypeUserQuota \<and> user_exists j w then share j (batch w i) else 0)"
    and "token_quota j (flush_store ord now i w) =
      token_quota j w + (if i = BatchUpdateTypeTokenQuota \<and> token_exists j w then share j (batch w i) else 0)"
  using assms(1) share_mset [OF assms(2)] by (auto simp: flush_store_def fold_flush)

text \<open>After a flush everything that was pending is in the columns.\<close>

lemma batchUpdate_simps:
  assumes "faults w = []" "\<And>i xs. mset (ord i xs) = mset xs"
  shows "user_exists j w \<Longrightarrow> user_quota j (batchUpdate ord now w) = user_quota j w + share j (batch w 0)"
    and "token_exists j w \<Longrightarrow> token_quota j (batchUpdate ord now w) = token_quota j w + share j (batch w 1)"
    and "i < 5 \<Longrightarrow> batch (batchUpdate ord now w) i = []"
  subgoal using assms by (auto simp: batchUpdate_def upt_rec flush_store_simps)
  subgoal using assms by (auto simp: batchUpdate_def upt_rec flush_store_simps)
  subgoal using assms by (auto simp: batchUpdate_def upt_rec flush_store_simps less_Suc_eq eval_nat_numeral)
  done

lemma pending_share: "batch_wf w \<Longrightarrow> i < 5 \<Longrightarrow> pending i j w = share j (batch w i)"
  by (simp add: batch_wf_def list_all_iff pending_def share_map_of)

section \<open>The mirror in Redis\<close>

fun job_delta :: "int \<Rightarrow> cache_job \<Rightarrow> int" where
  "job_delta i (CacheIncrUserQuota k d) = (if k = i then d else 0)"
| "job_delta i _ = 0"

fun is_incr :: "cache_job \<Rightarrow> bool" where
  "is_incr (CacheIncrUserQuota _ _) = True"
| "is_incr (CacheIncrTokenQuota _ _) = True"
| "is_incr _ = False"

lemma run_incr_jobs:
  assumes "RedisEnabled cfg" "list_all is_incr js" "ucache w i = Some u"
    and "\<bar>ubQuota u\<bar> + (\<Sum>j\<leftarrow>js. \<bar>job_delta i j\<bar>) < 2 ^ 63"
  shows "ucache (fold (run_job cfg) js w) i = Some (u\<lparr>ubQuota := ubQuota u + (\<Sum>j\<leftarrow>js. job_delta i j)\<rparr>)"
  using assms(2-)
proof (induction js arbitrary: w u)
  case (Cons j js)
  let ?u = "u\<lparr>ubQuota := ubQuota u + job_delta i j\<rparr>"
  have nn: "0 \<le> (\<Sum>j\<leftarrow>js. \<bar>job_delta i j\<bar>)" by (induction js) auto
  have "ucache (run_job cfg j w) i = Some ?u"
    using Cons.prems assms(1) nn
    by (cases j) (auto simp: cacheIncrUserQuota_def cacheIncrTokenQuota_def in64_def Let_def split: option.splits)
  moreover have "\<bar>ubQuota ?u\<bar> + (\<Sum>j\<leftarrow>js. \<bar>job_delta i j\<bar>) < 2 ^ 63"
    using Cons.prems(3) by simp
  ultimately show ?case
    using Cons.IH [of "run_job cfg j w" ?u] Cons.prems(1) by (simp add: add.assoc)
qed simp

lemma fold_delta_pool:
  "faults w = [] \<Longrightarrow> list_all (\<lambda>d. in64 d \<and> in64 (- d)) ds \<Longrightarrow>
   pool (fold (\<lambda>d w. snd (DeltaUpdateUserQuota cfg i d w)) ds w) =
   pool w @ map (CacheIncrUserQuota i) (filter (\<lambda>d. d \<noteq> 0) ds) \<and>
   ucache (fold (\<lambda>d w. snd (DeltaUpdateUserQuota cfg i d w)) ds w) = ucache w"
proof (induction ds arbitrary: w)
  case (Cons d ds)
  have "pool (snd (DeltaUpdateUserQuota cfg i d w)) = pool w @ (if d = 0 then [] else [CacheIncrUserQuota i d])"
    "ucache (snd (DeltaUpdateUserQuota cfg i d w)) = ucache w"
    using Cons.prems by (auto simp: DeltaUpdateUserQuota_def IncreaseUserQuota_ok DecreaseUserQuota_ok)
  moreover have "faults (snd (DeltaUpdateUserQuota cfg i d w)) = []"
    using Cons.prems by (simp add: DeltaUpdateUserQuota_delta wl.delta_faults)
  ultimately show ?case using Cons by simp
qed simp

lemma sum_job_delta:
  "(\<Sum>j\<leftarrow>map (CacheIncrUserQuota i) (filter (\<lambda>d. d \<noteq> 0) ds). job_delta i j) = sum_list ds"
  "(\<Sum>j\<leftarrow>map (CacheIncrUserQuota i) (filter (\<lambda>d. d \<noteq> 0) ds). \<bar>job_delta i j\<bar>) = (\<Sum>d\<leftarrow>ds. \<bar>d\<bar>)"
  by (induction ds) auto

lemma bounded_all_fit:
  assumes "faults w = []" "\<bar>pending BatchUpdateTypeUserQuota i w\<bar> + (\<Sum>d\<leftarrow>ds. \<bar>d\<bar>) < 2 ^ 63"
  shows "wl.all_fit cfg i ds w \<and> list_all (\<lambda>d. in64 d \<and> in64 (- d)) ds"
  using assms
proof (induction ds arbitrary: w)
  case (Cons d ds)
  have nn: "0 \<le> (\<Sum>d\<leftarrow>ds. \<bar>d\<bar>)" by (induction ds) auto
  then have b: "in64 d" "in64 (- d)" "in64 (pending 0 i w + d)"
    using Cons.prems(2) by (auto simp: in64_def)
  then have "pending 0 i (snd (wl.delta cfg i d w)) = pending 0 i w + (if BatchUpdateEnabled cfg then d else 0)"
    using Cons.prems(1) by (auto simp: wl.delta_def IncreaseUserQuota_ok DecreaseUserQuota_ok pending_addNewRecord)
  then have "\<bar>pending 0 i (snd (wl.delta cfg i d w))\<bar> + (\<Sum>d\<leftarrow>ds. \<bar>d\<bar>) < 2 ^ 63"
    using Cons.prems(2) by (auto split: if_splits)
  moreover have "room cfg 0 i d w" using b by (simp add: room_def)
  ultimately show ?case
    using b Cons.IH [OF wl.delta_faults [OF Cons.prems(1)]] by simp
qed simp

section \<open>Properties\<close>

text \<open>C8. A flush of the batch stores loses nothing: when no statement fails, whatever the order in
  which Go ranges over the stores, every live user's wallet and every live token's allowance (column
  plus pending delta) is what it was, and all of it is in the database column afterwards.\<close>

theorem batchUpdate_settles:
  assumes "faults w = []" "batch_wf w" "\<And>i xs. mset (ord i xs) = mset xs" "user_exists u w" "token_exists t w"
  shows "wallet u (batchUpdate ord now w) = wallet u w \<and> user_quota u (batchUpdate ord now w) = wallet u w \<and>
    allowance t (batchUpdate ord now w) = allowance t w \<and> token_quota t (batchUpdate ord now w) = allowance t w"
  using assms batchUpdate_simps [OF assms(1,3)]
  by (simp add: wallet_def allowance_def pending_share) (simp add: pending_def)

theorem batchUpdate_settles_witness:
  "let w = (ex_world (ex_db [ex_user 1 100] [ex_token 2 1 50]))\<lparr>batch := (\<lambda>_. [])(0 := [(7, 5), (1, - 30)], 1 := [(2, - 20)])\<rparr> in
   user_quota 1 (batchUpdate (\<lambda>_. rev) 9 w) = 70 \<and> token_quota 2 (batchUpdate (\<lambda>_. rev) 9 w) = 30"
  using batchUpdate_settles [of "(ex_world (ex_db [ex_user 1 100] [ex_token 2 1 50]))\<lparr>batch := (\<lambda>_. [])(0 := [(7, 5), (1, - 30)], 1 := [(2, - 20)])\<rparr>"
      "\<lambda>_. rev" 1 2 9]
  by (simp add: ex_defs batch_wf_def upt_rec user_exists_def token_exists_def live_user_def live_token_def
      wallet_def allowance_def user_quota_def token_quota_def pending_def)

text \<open>C15. The Redis mirror of a wallet ends up equal to the wallet: any run of
  \<^verbatim>\<open>DeltaUpdateUserQuota\<close> on a cached user queues cache increments whose execution, in whatever
  order the goroutine pool runs them, leaves the cached quota equal to the wallet, as long as no sum
  can leave the 64-bit range.\<close>

theorem wallet_mirror:
  assumes "faults w = []" "RedisEnabled cfg" "user_exists i w" "pool w = []" "ucache w i = Some u"
    and "ubQuota u = wallet i w"
    and "\<bar>wallet i w\<bar> + (\<Sum>d\<leftarrow>ds. \<bar>d\<bar>) < 2 ^ 63" "\<bar>pending BatchUpdateTypeUserQuota i w\<bar> + (\<Sum>d\<leftarrow>ds. \<bar>d\<bar>) < 2 ^ 63"
    and "w' = fold (\<lambda>d w. snd (DeltaUpdateUserQuota cfg i d w)) ds w" "mset js = mset (pool w')"
  shows "\<exists>u'. ucache (fold (run_job cfg) js w') i = Some u' \<and> ubQuota u' = wallet i w'"
proof -
  let ?js = "map (CacheIncrUserQuota i) (filter (\<lambda>d. d \<noteq> 0) ds)"
  from bounded_all_fit [OF assms(1,8)] have fit: "wl.all_fit cfg i ds w" "list_all (\<lambda>d. in64 d \<and> in64 (- d)) ds" by auto
  have p: "pool w' = ?js" "ucache w' i = Some u"
    using fold_delta_pool [OF assms(1) fit(2), of cfg i] assms(4,5,9) by simp_all
  have js: "(\<Sum>j\<leftarrow>js. f j) = (\<Sum>j\<leftarrow>?js. f j)" for f :: "cache_job \<Rightarrow> int"
    using assms(10) p(1) by (metis mset_map sum_mset_sum_list)
  have "set js = set ?js" using assms(10) p(1) mset_eq_setD by metis
  then have "list_all is_incr js" by (auto simp: list_all_iff)
  with run_incr_jobs [OF assms(2) _ p(2), of js] assms(6,7)
  have "ucache (fold (run_job cfg) js w') i = Some (u\<lparr>ubQuota := wallet i w + sum_list ds\<rparr>)"
    by (simp add: js sum_job_delta del: map_map)
  moreover have "wallet i w' = wallet i w + sum_list ds"
    using wl.deltas_bal [OF assms(1,3) fit(1), of i] by (simp add: assms(9) DeltaUpdateUserQuota_delta)
  ultimately show ?thesis by simp
qed

theorem wallet_mirror_witness:
  "let w = (ex_world (ex_db [ex_user 1 100] []))\<lparr>ucache := [1 \<mapsto> ToBaseUser (ex_user 1 100)]\<rparr>;
       w' = fold (\<lambda>d w. snd (DeltaUpdateUserQuota (ex_conf True True) 1 d w)) [- 30, 0, 5] w in
   \<exists>u'. ucache (fold (run_job (ex_conf True True)) (rev (pool w')) w') 1 = Some u' \<and> ubQuota u' = wallet 1 w'"
  unfolding Let_def
  by (rule wallet_mirror [where ds = "[- 30, 0, 5]" and u = "ToBaseUser (ex_user 1 100)", OF _ _ _ _ _ _ _ _ refl])
    (simp_all add: ex_defs user_exists_def live_user_def ToBaseUser_def wallet_def user_quota_def pending_def)

end
