(* ===== verification/Tokens.thy ===== *)
theory Tokens
  imports Quota
begin

text \<open>
  Access tokens (\<^verbatim>\<open>src/model/token.go\<close>) and the cached reads of users (\<^verbatim>\<open>src/model/user.go\<close>,
  \<^verbatim>\<open>src/model/user_cache.go\<close>): lookup through Redis with the database behind it, validation of a
  presented key, updates and deletion, the masking of keys, the IP and model limits, and the LIKE
  patterns of the token search.
\<close>

section \<open>Users\<close>

abbreviation (input) UserStatusEnabled :: int where "UserStatusEnabled \<equiv> 1"
abbreviation (input) TokenStatusEnabled :: int where "TokenStatusEnabled \<equiv> 1"
abbreviation (input) TokenStatusExpired :: int where "TokenStatusExpired \<equiv> 3"
abbreviation (input) TokenStatusExhausted :: int where "TokenStatusExhausted \<equiv> 4"

definition GetUserById :: "int \<Rightarrow> user io" where
  "GetUserById i w =
     (if i = 0 then (Inl IdEmpty, w) else first (\<lambda>d. find (live_user i) (users d)) w)"

definition cacheGetUserBase :: "conf \<Rightarrow> int \<Rightarrow> world \<Rightarrow> user_base option" where
  "cacheGetUserBase cfg i w = (if \<not> RedisEnabled cfg then None else ucache w i)"

definition GetUserCache :: "conf \<Rightarrow> int \<Rightarrow> user_base io" where
  "GetUserCache cfg i w =
     (case cacheGetUserBase cfg i w of
        Some ub \<Rightarrow> (Inr ub, w)
      | None \<Rightarrow>
          (case GetUserById i w of
             (Inl e, w1) \<Rightarrow> (Inl e, w1)
           | (Inr u, w1) \<Rightarrow>
               (Inr (ToBaseUser u),
                if RedisEnabled cfg then spawn (UpdateUserCache (ToBaseUser u)) w1 else w1)))"

definition GetUserQuota :: "conf \<Rightarrow> int \<Rightarrow> bool \<Rightarrow> int io" where
  "GetUserQuota cfg i fromDB w =
     (let fromRow = (\<lambda>w. case query (\<lambda>d. case find (live_user i) (users d) of None \<Rightarrow> 0 | Some u \<Rightarrow> uQuota u) w of
              (Inl e, w1) \<Rightarrow> (Inl e, w1)
            | (Inr q, w1) \<Rightarrow> (Inr q, if RedisEnabled cfg then spawn (UpdateUserQuotaCache i q) w1 else w1)) in
      if \<not> fromDB \<and> RedisEnabled cfg
      then case GetUserCache cfg i w of
             (Inr ub, w1) \<Rightarrow> (Inr (ubQuota ub), w1)
           | (Inl _, w1) \<Rightarrow> fromRow w1
      else fromRow w)"

section \<open>Tokens\<close>

definition MaskTokenKey :: "string \<Rightarrow> string" where
  "MaskTokenKey key =
     (if key = '''' then ''''
      else if length key \<le> 4 then replicate (length key) CHR ''*''
      else if length key \<le> 8 then take 2 key @ ''****'' @ drop (length key - 2) key
      else take 4 key @ ''**********'' @ drop (length key - 4) key)"

definition GetIpLimits :: "token \<Rightarrow> string list" where
  "GetIpLimits t =
     (case tkAllowIps t of
        None \<Rightarrow> []
      | Some ips \<Rightarrow>
          (let cleanIps = ReplaceAll ips '' '' '''' in
           if cleanIps = '''' then []
           else filter (\<lambda>ip. ip \<noteq> '''') (map (\<lambda>ip. ReplaceAll (TrimSpace ip) '','' '''') (Split cleanIps CHR 0x0A))))"

definition GetModelLimits :: "token \<Rightarrow> string list" where
  "GetModelLimits t = (if tkModelLimits t = '''' then [] else Split (tkModelLimits t) CHR '','')"

definition GetModelLimitsMap :: "token \<Rightarrow> string \<Rightarrow> bool" where
  "GetModelLimitsMap t = (\<lambda>m. m \<in> set (GetModelLimits t))"

text \<open>\<^verbatim>\<open>strings.Count\<close> of a one-byte string.\<close>

definition Count :: "string \<Rightarrow> char \<Rightarrow> nat" where
  "Count s c = length (filter ((=) c) s)"

datatype pattern_error = ConsecutiveWildcards | TooManyWildcards | KeywordTooShort

definition sanitizeLikePattern :: "string \<Rightarrow> pattern_error + string" where
  "sanitizeLikePattern input =
     (let input = ReplaceAll input ''!'' ''!!''; input = ReplaceAll input ''_'' ''!_'' in
      if Contains input ''%%'' then Inl ConsecutiveWildcards
      else if Count input CHR ''%'' > 2 then Inl TooManyWildcards
      else if Count input CHR ''%'' > 0
      then (if length (ReplaceAll input ''%'' '''') < 2 then Inl KeywordTooShort else Inr input)
      else Inr input)"

definition GetTokenById :: "conf \<Rightarrow> int \<Rightarrow> token io" where
  "GetTokenById cfg i w =
     (if i = 0 then (Inl IdEmpty, w)
      else case first (\<lambda>d. find (live_token i) (tokens d)) w of
             (Inl e, w1) \<Rightarrow> (Inl e, w1)
           | (Inr t, w1) \<Rightarrow> (Inr t, if RedisEnabled cfg then spawn (CacheSetToken t) w1 else w1))"

definition key_token :: "string \<Rightarrow> token \<Rightarrow> bool" where
  "key_token key t \<longleftrightarrow> tkKey t = key \<and> \<not> tkDeleted t"

definition GetTokenByKey :: "conf \<Rightarrow> string \<Rightarrow> bool \<Rightarrow> token io" where
  "GetTokenByKey cfg key fromDB w =
     (case (if \<not> fromDB then cacheGetTokenByKey cfg key w else None) of
        Some t \<Rightarrow> (Inr t, w)
      | None \<Rightarrow>
          (case first (\<lambda>d. find (key_token key) (tokens d)) w of
             (Inl e, w1) \<Rightarrow> (Inl e, w1)
           | (Inr t, w1) \<Rightarrow> (Inr t, if RedisEnabled cfg then spawn (CacheSetToken t) w1 else w1)))"

text \<open>\<^verbatim>\<open>Update\<close>, \<^verbatim>\<open>SelectUpdate\<close> and \<^verbatim>\<open>Delete\<close> of a token value: the selected columns of the row
  with its id; on success the cache entry is rewritten or dropped.\<close>

definition token_Update :: "conf \<Rightarrow> token \<Rightarrow> unit io" where
  "token_Update cfg t w =
     (case exec (set_tokens (tkId t) (\<lambda>r. r\<lparr>tkName := tkName t, tkStatus := tkStatus t, tkExpiredTime := tkExpiredTime t,
               tkRemainQuota := tkRemainQuota t, tkUnlimitedQuota := tkUnlimitedQuota t,
               tkModelLimitsEnabled := tkModelLimitsEnabled t, tkModelLimits := tkModelLimits t,
               tkAllowIps := tkAllowIps t, tkGroup := tkGroup t, tkCrossGroupRetry := tkCrossGroupRetry t\<rparr>)) w of
        (Inl e, w1) \<Rightarrow> (Inl e, w1)
      | (Inr _, w1) \<Rightarrow> (Inr (), if RedisEnabled cfg then spawn (CacheSetToken t) w1 else w1))"

definition token_SelectUpdate :: "conf \<Rightarrow> token \<Rightarrow> unit io" where
  "token_SelectUpdate cfg t w =
     (case exec (set_tokens (tkId t) (\<lambda>r. r\<lparr>tkAccessedTime := tkAccessedTime t, tkStatus := tkStatus t\<rparr>)) w of
        (Inl e, w1) \<Rightarrow> (Inl e, w1)
      | (Inr _, w1) \<Rightarrow> (Inr (), if RedisEnabled cfg then spawn (CacheSetToken t) w1 else w1))"

definition token_Delete :: "conf \<Rightarrow> token \<Rightarrow> unit io" where
  "token_Delete cfg t w =
     (case exec (set_tokens (tkId t) (\<lambda>r. r\<lparr>tkDeleted := True\<rparr>)) w of
        (Inl e, w1) \<Rightarrow> (Inl e, w1)
      | (Inr _, w1) \<Rightarrow> (Inr (), if RedisEnabled cfg then spawn (CacheDeleteToken (tkKey t)) w1 else w1))"

definition DisableModelLimits :: "conf \<Rightarrow> int \<Rightarrow> unit io" where
  "DisableModelLimits cfg tokenId =
     chk (GetTokenById cfg tokenId) (\<lambda>t. token_Update cfg (t\<lparr>tkModelLimitsEnabled := False, tkModelLimits := ''''\<rparr>))"

definition DeleteTokenById :: "conf \<Rightarrow> int \<Rightarrow> int \<Rightarrow> unit io" where
  "DeleteTokenById cfg i userId =
     (if i = 0 \<or> userId = 0 then err IdEmpty
      else chk (first (\<lambda>d. find (\<lambda>t. live_token i t \<and> tkUserId t = userId) (tokens d))) (token_Delete cfg))"

text \<open>The returned token accompanies some errors, so the result is a pair of options.\<close>

definition ValidateUserToken :: "conf \<Rightarrow> int \<Rightarrow> string \<Rightarrow> world \<Rightarrow> (token option \<times> gerr option) \<times> world" where
  "ValidateUserToken cfg now key w =
     (if key = '''' then ((None, Some ErrTokenNotProvided), w)
      else case GetTokenByKey cfg key False w of
        (Inr t, w1) \<Rightarrow>
          (if tkStatus t = TokenStatusExhausted \<or> tkStatus t = TokenStatusExpired \<or> tkStatus t \<noteq> TokenStatusEnabled
           then ((Some t, Some ErrTokenInvalid), w1)
           else if tkExpiredTime t \<noteq> - 1 \<and> tkExpiredTime t < now
           then (if \<not> RedisEnabled cfg
                 then let t' = t\<lparr>tkStatus := TokenStatusExpired\<rparr> in
                      ((Some t', Some ErrTokenInvalid), snd (token_SelectUpdate cfg t' w1))
                 else ((Some t, Some ErrTokenInvalid), w1))
           else if \<not> tkUnlimitedQuota t \<and> tkRemainQuota t \<le> 0
           then (if \<not> RedisEnabled cfg
                 then let t' = t\<lparr>tkStatus := TokenStatusExhausted\<rparr> in
                      ((Some t', Some ErrTokenInvalid), snd (token_SelectUpdate cfg t' w1))
                 else ((Some t, Some ErrTokenInvalid), w1))
           else ((Some t, None), w1))
      | (Inl e, w1) \<Rightarrow>
          (if e = RecordNotFound then ((None, Some ErrTokenInvalid), w1)
           else ((None, Some (ErrDatabase e)), w1)))"

text \<open>The transaction of \<^verbatim>\<open>BatchDeleteTokens\<close> is opened with \<^verbatim>\<open>DB.Begin\<close>, whose error the source
  does not look at: a failed begin surfaces as the error of the first statement.\<close>

definition BatchDeleteTokens :: "conf \<Rightarrow> int list \<Rightarrow> int \<Rightarrow> int io" where
  "BatchDeleteTokens cfg ids userId w =
     (if ids = [] then (Inl IdEmpty, w)
      else let mine = (\<lambda>t. tkUserId t = userId \<and> tkId t \<in> set ids \<and> \<not> tkDeleted t) in
      case transaction (chk (query (\<lambda>d. filter mine (tokens d)))
             (\<lambda>ts. chk (exec (\<lambda>d. d\<lparr>tokens := upd_where mine (\<lambda>t. t\<lparr>tkDeleted := True\<rparr>) (tokens d)\<rparr>))
             (\<lambda>_. ret ts))) w of
        (Inl e, w1) \<Rightarrow> (Inl e, w1)
      | (Inr ts, w1) \<Rightarrow> (Inr (int (length ts)),
           if RedisEnabled cfg then fold (\<lambda>t. spawn (CacheDeleteToken (tkKey t))) ts w1 else w1))"

section \<open>Lemmas\<close>

lemma ReplaceAll_char: "ReplaceAll s [c] r = concat (map (\<lambda>x. if x = c then r else [x]) s)"
  by (induction s) (auto simp: ReplaceAll.simps)

text \<open>How SQL reads a LIKE pattern under \<^verbatim>\<open>ESCAPE '!'\<close>.\<close>

datatype like_token = Literal char | AnyChar | AnyString

fun like_tokens :: "string \<Rightarrow> like_token list" where
  "like_tokens [] = []"
| "like_tokens [c] = [if c = CHR ''%'' then AnyString else if c = CHR ''_'' then AnyChar else Literal c]"
| "like_tokens (c # d # s) =
     (if c = CHR ''!'' then Literal d # like_tokens s
      else (if c = CHR ''%'' then AnyString else if c = CHR ''_'' then AnyChar else Literal c) # like_tokens (d # s))"

definition like_escape :: "char \<Rightarrow> string" where
  "like_escape c = (if c = CHR ''!'' then ''!!'' else if c = CHR ''_'' then ''!_'' else [c])"

lemma escape_two_steps:
  "ReplaceAll (ReplaceAll s ''!'' ''!!'') ''_'' ''!_'' = concat (map like_escape s)"
  unfolding ReplaceAll_char by (induction s) (auto simp: like_escape_def)

lemma like_tokens_plain: "c \<noteq> CHR ''!'' \<Longrightarrow>
  like_tokens (c # s) = (if c = CHR ''%'' then AnyString else if c = CHR ''_'' then AnyChar else Literal c) # like_tokens s"
  by (cases s) auto

lemma like_tokens_escape:
  "like_tokens (concat (map like_escape s)) = map (\<lambda>c. if c = CHR ''%'' then AnyString else Literal c) s"
  by (induction s) (auto simp: like_escape_def like_tokens_plain)

lemma Count_escape: "Count (concat (map like_escape s)) CHR ''%'' = Count s CHR ''%''"
  by (induction s) (auto simp: Count_def like_escape_def)

lemma token_SelectUpdate_ok:
  "faults w = [] \<Longrightarrow> \<not> RedisEnabled cfg \<Longrightarrow>
   token_SelectUpdate cfg t w =
     (Inr (), w\<lparr>db := set_tokens (tkId t) (\<lambda>r. r\<lparr>tkAccessedTime := tkAccessedTime t, tkStatus := tkStatus t\<rparr>) (db w)\<rparr>)"
  by (simp add: token_SelectUpdate_def)

lemma GetTokenByKey_db:
  "faults w = [] \<Longrightarrow> \<not> RedisEnabled cfg \<Longrightarrow>
   GetTokenByKey cfg key fromDB w =
     (case find (key_token key) (tokens (db w)) of None \<Rightarrow> (Inl RecordNotFound, w) | Some t \<Rightarrow> (Inr t, w))"
  by (simp add: GetTokenByKey_def cacheGetTokenByKey_def split: option.splits)

text \<open>A usable token.\<close>

definition usable :: "int \<Rightarrow> token \<Rightarrow> bool" where
  "usable now t \<longleftrightarrow> tkStatus t = TokenStatusEnabled \<and> (tkExpiredTime t = - 1 \<or> now \<le> tkExpiredTime t) \<and>
     (tkUnlimitedQuota t \<or> 0 < tkRemainQuota t)"

lemma ValidateUserToken_result:
  assumes "GetTokenByKey cfg key False w = (Inr t, w1)" "key \<noteq> ''''"
  shows "snd (fst (ValidateUserToken cfg now key w)) = (if usable now t then None else Some ErrTokenInvalid)"
  using assms by (auto simp: ValidateUserToken_def usable_def Let_def)

lemma find_key_SelectUpdate:
  "find (key_token key) (upd_where (live_token i) (\<lambda>r. r\<lparr>tkAccessedTime := a, tkStatus := s\<rparr>) ts) =
   map_option (\<lambda>t. if live_token i t then t\<lparr>tkAccessedTime := a, tkStatus := s\<rparr> else t) (find (key_token key) ts)"
  by (induction ts) (auto simp: key_token_def)

section \<open>Properties\<close>



text \<open>An expired or exhausted token is written off: without Redis, rejecting it stores the new
  status in its row and leaves every other token and the quota columns alone, and from then on it is
  rejected for its status whatever the clock says.\<close>

theorem ValidateUserToken_writes_off:
  assumes "faults w = []" "\<not> RedisEnabled cfg" "key \<noteq> ''''" "find (key_token key) (tokens (db w)) = Some t"
    and "tkStatus t = TokenStatusEnabled" "\<not> usable now t"
  defines "w' \<equiv> snd (ValidateUserToken cfg now key w)"
  shows "(\<exists>t'. find (key_token key) (tokens (db w')) = Some t' \<and>
       tkStatus t' = (if tkExpiredTime t \<noteq> - 1 \<and> tkExpiredTime t < now then TokenStatusExpired else TokenStatusExhausted) \<and>
       tkRemainQuota t' = tkRemainQuota t \<and> (\<forall>later. snd (fst (ValidateUserToken cfg later key w')) = Some ErrTokenInvalid)) \<and>
    map tkRemainQuota (tokens (db w')) = map tkRemainQuota (tokens (db w)) \<and> users (db w') = users (db w)"
proof -
  let ?s = "if tkExpiredTime t \<noteq> - 1 \<and> tkExpiredTime t < now then TokenStatusExpired else TokenStatusExhausted"
  have "tkKey t = key" "live_token (tkId t) t" using assms(4) by (auto simp: find_Some_iff key_token_def live_token_def)
  have w': "w' = w\<lparr>db := set_tokens (tkId t) (\<lambda>r. r\<lparr>tkAccessedTime := tkAccessedTime t, tkStatus := ?s\<rparr>) (db w)\<rparr>"
    using assms unfolding w'_def by (auto simp: ValidateUserToken_def GetTokenByKey_db usable_def Let_def token_SelectUpdate_ok)
  let ?t' = "t\<lparr>tkAccessedTime := tkAccessedTime t, tkStatus := ?s\<rparr>"
  have t': "find (key_token key) (tokens (db w')) = Some ?t'"
    using assms(4) \<open>live_token (tkId t) t\<close> by (simp add: w' find_key_SelectUpdate)
  have "snd (fst (ValidateUserToken cfg later key w')) = Some ErrTokenInvalid" for later
    using ValidateUserToken_result [of cfg key w' ?t' w' later] assms(1-3) t'
    by (simp add: w' GetTokenByKey_db usable_def)
  then show ?thesis using t' by (simp add: w' map_upd_where)
qed

theorem ValidateUserToken_writes_off_witness:
  "\<exists>t'. find (key_token ''k'') (tokens (db (snd (ValidateUserToken (ex_conf False False) 9 ''k'' (ex_world (ex_db [] [ex_token 2 1 0])))))) = Some t' \<and>
     tkStatus t' = TokenStatusExhausted"
  using ValidateUserToken_writes_off [of "ex_world (ex_db [] [ex_token 2 1 0])" "ex_conf False False" "''k''" "ex_token 2 1 0" 9]
  by (auto simp: ex_defs key_token_def usable_def)

text \<open>A sanitised search pattern cannot smuggle in wildcards: read with the escape character of
  the query, it is the user's text literally, except that each of its at most two \<^verbatim>\<open>%\<close> stands for
  any string; no single-character wildcard survives.\<close>

theorem sanitizeLikePattern_reads_back:
  assumes "sanitizeLikePattern s = Inr p"
  shows "like_tokens p = map (\<lambda>c. if c = CHR ''%'' then AnyString else Literal c) s \<and> Count s CHR ''%'' \<le> 2"
  using assms by (auto simp: sanitizeLikePattern_def Let_def escape_two_steps like_tokens_escape Count_escape split: if_splits)

theorem sanitizeLikePattern_reads_back_witness:
  "like_tokens ''!_a!!%'' = [Literal CHR ''_'', Literal CHR ''a'', Literal CHR ''!'', AnyString]"
  using sanitizeLikePattern_reads_back [of "''_a!%''" "''!_a!!%''"]
  by (simp add: sanitizeLikePattern_def Let_def escape_two_steps like_escape_def Count_def ReplaceAll_char)

text \<open>A masked key shows at most its first four and last four characters: two long keys of any
  lengths that agree on those are masked alike, and the mask of a key of at most four characters
  shows none of them.\<close>

theorem MaskTokenKey_hides:
  "(8 < length k \<and> 8 < length k' \<and> take 4 k = take 4 k' \<and> drop (length k - 4) k = drop (length k' - 4) k' \<longrightarrow>
      MaskTokenKey k = MaskTokenKey k') \<and>
   (length k \<le> 4 \<longrightarrow> set (MaskTokenKey k) \<subseteq> {CHR ''*''}) \<and>
   (8 < length k \<longrightarrow> length (MaskTokenKey k) = 18)"
  by (auto simp: MaskTokenKey_def)

theorem MaskTokenKey_hides_witness:
  "MaskTokenKey ''abcdXXXXwxyz'' = MaskTokenKey ''abcdYYYYYwxyz'' \<and> length (MaskTokenKey ''abcdXXXXwxyz'') = 18"
  using MaskTokenKey_hides [of "''abcdXXXXwxyz''" "''abcdYYYYYwxyz''"] by auto

end
