(* ===== verification/GoTime.thy ===== *)
theory GoTime
  imports Prelude
begin

text \<open>
  The parts of Go's \<^verbatim>\<open>time\<close> package that the subscriptions and the check-ins use, on times with a whole
  number of seconds: the civil calendar, \<^verbatim>\<open>time.Date\<close>, \<^verbatim>\<open>AddDate\<close>, \<^verbatim>\<open>Weekday\<close>, \<^verbatim>\<open>Add\<close> of a
  \<^verbatim>\<open>time.Duration\<close>, and the look-up of a zone's offset. A time is its Unix second; a location is its
  look-up function, which maps an instant to the offset in force and the bounds of its validity.
  Calendar arithmetic is exact and the resulting second wraps at 64 bits, as in Go for years within
  292 thousand million of the epoch; a \<^verbatim>\<open>Duration\<close> counts nanoseconds in 64 bits and its products
  wrap.
\<close>

section \<open>The calendar\<close>

text \<open>Days from 1 January of year 1 to 1 January of year \<open>y + 1\<close>.\<close>

definition year_days :: "int \<Rightarrow> int" where
  "year_days y = 365 * y + y div 4 - y div 100 + y div 400"

definition isLeap :: "int \<Rightarrow> bool" where
  "isLeap y \<longleftrightarrow> y mod 4 = 0 \<and> (y mod 100 \<noteq> 0 \<or> y mod 400 = 0)"

text \<open>Days of the year before month \<open>m\<close> (1 to 12, and 13 for the year's end).\<close>

definition daysBefore :: "int \<Rightarrow> int \<Rightarrow> int" where
  "daysBefore y m = [0, 31, 59, 90, 120, 151, 181, 212, 243, 273, 304, 334, 365] ! nat (m - 1) + (if isLeap y \<and> 2 < m then 1 else 0)"

text \<open>The day number, from 1 January of year 1, of day \<open>d\<close> of month \<open>m\<close>; months outside 1 to 12
  carry into the year and days outside the month count on.\<close>

definition days_of_civil :: "int \<Rightarrow> int \<Rightarrow> int \<Rightarrow> int" where
  "days_of_civil y m d =
     (let y' = y + (m - 1) div 12; m' = (m - 1) mod 12 + 1 in year_days (y' - 1) + daysBefore y' m' + (d - 1))"

definition year_of_days :: "int \<Rightarrow> int" where
  "year_of_days n =
     (let y = (400 * n) div 146097 in if n < year_days y then y else if n < year_days (y + 1) then y + 1 else y + 2)"

definition month_of :: "int \<Rightarrow> int \<Rightarrow> int" where
  "month_of y yd = (case find (\<lambda>m. yd < daysBefore y (m + 1)) [1..12] of Some m \<Rightarrow> m | None \<Rightarrow> 12)"

definition civil_of_days :: "int \<Rightarrow> int \<times> int \<times> int" where
  "civil_of_days n =
     (let y = year_of_days n; yd = n - year_days (y - 1); m = month_of y yd in (y, m, yd - daysBefore y m + 1))"

section \<open>Times and locations\<close>

type_synonym zone = "int \<Rightarrow> int \<times> int \<times> int"

text \<open>1 January 1970 is day 719162.\<close>

definition epoch_day :: int where "epoch_day = 719162"

definition offset_at :: "zone \<Rightarrow> int \<Rightarrow> int" where
  "offset_at loc t = fst (loc t)"

definition local_day :: "zone \<Rightarrow> int \<Rightarrow> int" where
  "local_day loc t = (t + offset_at loc t) div 86400 + epoch_day"

definition local_clock :: "zone \<Rightarrow> int \<Rightarrow> int" where
  "local_clock loc t = (t + offset_at loc t) mod 86400"

text \<open>\<^verbatim>\<open>time.Date\<close> with the seconds of the day given at once: the offset is looked up at the wall
  clock read as UTC and again when that instant is not inside the offset's validity.\<close>

definition Date :: "zone \<Rightarrow> int \<Rightarrow> int \<Rightarrow> int \<Rightarrow> int \<Rightarrow> int" where
  "Date loc y m d secs =
     (let unix = (days_of_civil y m d - epoch_day) * 86400 + secs;
          (off, start, stop) = loc unix in
      if off = 0 then i64 unix
      else let utc = unix - off in
           i64 (unix - (if utc < start \<or> stop \<le> utc then offset_at loc utc else off)))"

definition AddDate :: "zone \<Rightarrow> int \<Rightarrow> int \<Rightarrow> int \<Rightarrow> int \<Rightarrow> int" where
  "AddDate loc t years months days =
     (let (y, m, d) = civil_of_days (local_day loc t) in
      Date loc (y + years) (m + months) (d + days) (local_clock loc t))"

text \<open>Sunday is 0; day 0 of the count, 1 January of year 1, is a Monday.\<close>

definition Weekday :: "zone \<Rightarrow> int \<Rightarrow> int" where
  "Weekday loc t = (local_day loc t + 1) mod 7"

definition Second :: int where "Second = 1000000000"
definition Hour :: int where "Hour = 3600 * Second"

text \<open>\<^verbatim>\<open>t.Add(d)\<close>, read back with \<^verbatim>\<open>Unix\<close>.\<close>

definition Add :: "int \<Rightarrow> int \<Rightarrow> int" where
  "Add t d = i64 (t + d div Second)"

text \<open>A zone whose offset never changes.\<close>

definition fixed_zone :: "int \<Rightarrow> zone" where
  "fixed_zone off = (\<lambda>_. (off, - (2 ^ 63), 2 ^ 63 - 1))"

section \<open>Lemmas on the calendar\<close>

lemma div_pred: "0 < k \<Longrightarrow> (y :: int) div k - (y - 1) div k = (if y mod k = 0 then 1 else 0)"
proof -
  assume k: "0 < k"
  let ?q = "y div k" and ?r = "y mod k"
  have y: "y = k * ?q + ?r" by simp
  have r: "0 \<le> ?r" "?r < k" using k by simp_all
  show ?thesis
  proof (cases "?r = 0")
    case True
    then have "y - 1 = k * (?q - 1) + (k - 1)" using y by (simp add: algebra_simps)
    with k have "(y - 1) div k = ?q - 1" by (intro int_div_pos_eq [where r = "k - 1"]) auto
    with True show ?thesis by simp
  next
    case False
    have "y - 1 = k * ?q + (?r - 1)" using y by simp
    moreover have "0 \<le> ?r - 1" "?r - 1 < k" using r False by linarith+
    ultimately have "(y - 1) div k = ?q" by (rule int_div_pos_eq)
    with False show ?thesis by simp
  qed
qed

lemma year_days_step: "year_days y - year_days (y - 1) = 365 + (if isLeap y then 1 else 0)"
proof -
  have m: "400 dvd y \<Longrightarrow> 100 dvd y" "100 dvd y \<Longrightarrow> 4 dvd y"
    by (rule dvd_trans [of 100 400]; simp) (rule dvd_trans [of 4 100]; simp)
  have "year_days y - year_days (y - 1) =
      365 + (y div 4 - (y - 1) div 4) - (y div 100 - (y - 1) div 100) + (y div 400 - (y - 1) div 400)"
    unfolding year_days_def by (simp only: algebra_simps)
  also have "\<dots> = 365 + (if 4 dvd y then 1 else 0) - (if 100 dvd y then 1 else 0) + (if 400 dvd y then 1 else 0)"
    by (simp only: div_pred zero_less_numeral dvd_eq_mod_eq_0)
  also have "\<dots> = 365 + (if isLeap y then 1 else 0)"
    unfolding isLeap_def dvd_eq_mod_eq_0 [symmetric] using m by (cases "400 dvd y"; cases "100 dvd y"; cases "4 dvd y") simp_all
  finally show ?thesis .
qed

lemma year_days_bounds: "400 * year_days y \<le> 146097 * y + 400" "146097 * y - 700 \<le> 400 * year_days y"
proof -
  define q r where "q = y div 400" and "r = y mod 400"
  have y: "y = 400 * q + r" and r: "0 \<le> r" "r < 400" by (simp_all add: q_def r_def)
  have "y = 4 * (100 * q) + r" "y = 100 * (4 * q) + r" using y by simp_all
  then have yd: "y div 4 = 100 * q + r div 4" "y div 100 = 4 * q + r div 100" "y div 400 = q"
    by (metis div_mult_self4 zero_neq_numeral) (metis \<open>y = 100 * (4 * q) + r\<close> div_mult_self4 zero_neq_numeral, simp add: q_def)
  define a b where "a = r div 4" and "b = r div 100"
  have d: "year_days y = 146097 * q + 365 * r + a - b"
    unfolding year_days_def yd a_def b_def by (simp add: y)
  have "4 * a \<le> r" "r < 4 * a + 4" "100 * b \<le> r" "r < 100 * b + 100"
    unfolding a_def b_def using mult_div_mod_eq [of 4 r] mult_div_mod_eq [of 100 r] pos_mod_bound [of 4 r] pos_mod_bound [of 100 r]
      pos_mod_sign [of 4 r] pos_mod_sign [of 100 r] by linarith+
  then show "400 * year_days y \<le> 146097 * y + 400" "146097 * y - 700 \<le> 400 * year_days y"
    unfolding d using r y by (simp_all add: algebra_simps)
qed

lemma year_of_days: "year_days (year_of_days n - 1) \<le> n \<and> n < year_days (year_of_days n)"
proof -
  define y where "y = (400 * n) div 146097"
  have "146097 * y \<le> 400 * n" "400 * n < 146097 * y + 146097" unfolding y_def
    using mult_div_mod_eq [of 146097 "400 * n"] pos_mod_bound [of 146097 "400 * n"] pos_mod_sign [of 146097 "400 * n"] by linarith+
  then have "year_days (y - 1) \<le> n" "n < year_days (y + 2)"
    using year_days_bounds(1) [of "y - 1"] year_days_bounds(2) [of "y + 2"] by simp_all
  then show ?thesis by (auto simp: year_of_days_def Let_def y_def [symmetric] add.commute)
qed

lemma daysBefore_13: "daysBefore y 13 = year_days y - year_days (y - 1)"
  by (simp add: daysBefore_def year_days_step)

lemma month_of:
  assumes "0 \<le> yd" "yd < daysBefore y 13"
  shows "1 \<le> month_of y yd \<and> month_of y yd \<le> 12 \<and> daysBefore y (month_of y yd) \<le> yd \<and> yd < daysBefore y (month_of y yd + 1)"
proof (cases "find (\<lambda>m. yd < daysBefore y (m + 1)) [1..12]")
  case None
  then have "\<not> yd < daysBefore y (12 + 1)" by (auto simp: find_None_iff)
  with assms(2) show ?thesis by simp
next
  case (Some m)
  then obtain i where i: "i < 12" "yd < daysBefore y (m + 1)" "m = 1 + int i"
    "\<forall>j<i. \<not> yd < daysBefore y ([1..12] ! j + 1)"
    by (auto simp: find_Some_iff)
  have "daysBefore y m \<le> yd"
  proof (cases i)
    case 0
    with assms(1) i(3) show ?thesis by (simp add: daysBefore_def)
  next
    case (Suc j)
    with i have "\<not> yd < daysBefore y (1 + int j + 1)" by (auto dest: spec [of _ j])
    with Suc i(3) show ?thesis by (simp add: add.commute)
  qed
  with i Some show ?thesis by (simp add: month_of_def)
qed

lemma civil_of_days:
  assumes "civil_of_days n = (y, m, d)"
  shows "1 \<le> m" "m \<le> 12" "1 \<le> d" "n = year_days (y - 1) + daysBefore y m + (d - 1)" "d \<le> daysBefore y (m + 1) - daysBefore y m"
proof -
  have y: "y = year_of_days n" using assms by (simp add: civil_of_days_def Let_def)
  let ?yd = "n - year_days (y - 1)"
  have "0 \<le> ?yd" "?yd < daysBefore y 13" using year_of_days [of n] by (simp_all add: daysBefore_13 y)
  note mo = month_of [OF this]
  have m: "m = month_of y ?yd" and d: "d = ?yd - daysBefore y m + 1"
    using assms by (auto simp: civil_of_days_def Let_def y)
  show "1 \<le> m" "m \<le> 12" "1 \<le> d" "n = year_days (y - 1) + daysBefore y m + (d - 1)" "d \<le> daysBefore y (m + 1) - daysBefore y m"
    using mo d by (simp_all add: m [symmetric])
qed

lemma days_of_civil_in_range: "1 \<le> m \<Longrightarrow> m \<le> 12 \<Longrightarrow> days_of_civil y m d = year_days (y - 1) + daysBefore y m + (d - 1)"
  by (simp add: days_of_civil_def Let_def)

lemma days_of_civil_add: "days_of_civil y m (d + k) = days_of_civil y m d + k"
  by (simp add: days_of_civil_def Let_def)

text \<open>Reading a day off the calendar and counting it back is the identity.\<close>

lemma days_civil_days: "civil_of_days n = (y, m, d) \<Longrightarrow> days_of_civil y m d = n"
  using civil_of_days [of n y m d] by (simp add: days_of_civil_in_range)

lemma next_month_after:
  assumes "civil_of_days n = (y, m, d)"
  shows "n < days_of_civil y (m + 1) 1 \<and> days_of_civil y m 1 \<le> n"
proof -
  note c = civil_of_days [OF assms]
  have "days_of_civil y (m + 1) 1 = year_days (y - 1) + daysBefore y (m + 1)"
  proof (cases "m = 12")
    case True
    then show ?thesis by (simp add: days_of_civil_def Let_def daysBefore_13 daysBefore_def [of "y + 1" 1])
  next
    case False
    with c have "1 \<le> m + 1" "m + 1 \<le> 12" by simp_all
    then show ?thesis by (simp add: days_of_civil_in_range del: One_nat_def)
  qed
  with c show ?thesis by (simp add: days_of_civil_in_range)
qed

lemma month_len:
  assumes "1 \<le> m" "m \<le> 12"
  shows "28 \<le> daysBefore y (m + 1) - daysBefore y m \<and> daysBefore y (m + 1) - daysBefore y m \<le> 31"
proof -
  have "list_all (\<lambda>m. 28 \<le> daysBefore y (m + 1) - daysBefore y m \<and> daysBefore y (m + 1) - daysBefore y m \<le> 31) [1..12]"
    by (simp add: upto_rec1 daysBefore_def)
  with assms show ?thesis by (simp add: list_all_iff)
qed

lemma next_month_within:
  assumes "civil_of_days n = (y, m, d)"
  shows "days_of_civil y (m + 1) 1 \<le> n + 31"
proof -
  note c = civil_of_days [OF assms]
  have "days_of_civil y (m + 1) 1 = year_days (y - 1) + daysBefore y (m + 1)"
  proof (cases "m = 12")
    case True
    then show ?thesis by (simp add: days_of_civil_def Let_def daysBefore_13 daysBefore_def [of "y + 1" 1])
  next
    case False
    with c have "1 \<le> m + 1" "m + 1 \<le> 12" by simp_all
    then show ?thesis by (simp add: days_of_civil_in_range del: One_nat_def)
  qed
  with c month_len [OF c(1,2), of y] show ?thesis by linarith
qed

section \<open>Dates in a zone with a fixed offset\<close>

lemma Date_fixed: "Date (fixed_zone off) y m d s = i64 ((days_of_civil y m d - epoch_day) * 86400 + s - off)"
  by (simp add: Date_def fixed_zone_def offset_at_def Let_def)

definition midnight :: "int \<Rightarrow> int \<Rightarrow> int" where
  "midnight off n = (n - epoch_day) * 86400 - off"

lemma Date_midnight: "in64 (midnight off (days_of_civil y m d)) \<Longrightarrow> Date (fixed_zone off) y m d 0 = midnight off (days_of_civil y m d)"
  by (simp add: Date_fixed midnight_def)

lemma local_midnight [simp]:
  "local_day (fixed_zone off) (midnight off n) = n" "local_clock (fixed_zone off) (midnight off n) = 0"
  by (simp_all add: local_day_def local_clock_def midnight_def offset_at_def fixed_zone_def)

lemma midnight_local_day:
  "midnight off (local_day (fixed_zone off) t) \<le> t \<and> t < midnight off (local_day (fixed_zone off) t + 1)"
proof -
  define q where "q = (t + off) div 86400"
  have "86400 * q \<le> t + off" "t + off < 86400 * q + 86400" unfolding q_def
    using mult_div_mod_eq [of 86400 "t + off"] pos_mod_bound [of 86400 "t + off"] pos_mod_sign [of 86400 "t + off"] by linarith+
  then show ?thesis by (simp add: midnight_def local_day_def offset_at_def fixed_zone_def q_def [symmetric])
qed

lemma midnight_mono: "m \<le> n \<Longrightarrow> midnight off m \<le> midnight off n"
  by (simp add: midnight_def)

lemma midnight_add: "midnight off (n + k) = midnight off n + k * 86400"
  by (simp add: midnight_def algebra_simps)

lemma AddDate_days:
  assumes "civil_of_days n = (y, m, d)" "in64 (midnight off (n + k))"
  shows "AddDate (fixed_zone off) (midnight off n) 0 0 k = midnight off (n + k)"
  using assms days_civil_days [OF assms(1)] by (simp add: AddDate_def Date_midnight days_of_civil_add)

lemma AddDate_month:
  assumes "civil_of_days n = (y, m, d)" "in64 (midnight off (days_of_civil y (m + 1) d))"
  shows "AddDate (fixed_zone off) (midnight off n) 0 1 0 = midnight off (days_of_civil y (m + 1) d)"
  using assms by (simp add: AddDate_def Date_midnight)

lemma year_days_mono: "a \<le> b \<Longrightarrow> year_days a \<le> year_days b"
proof (induction b rule: int_ge_induct)
  case (step b)
  then show ?case using year_days_step [of "b + 1"] by (simp split: if_splits)
qed simp

lemma daysBefore_mono: "m \<le> n \<Longrightarrow> 1 \<le> m \<Longrightarrow> n \<le> 13 \<Longrightarrow> daysBefore y m \<le> daysBefore y n"
proof (induction n rule: int_ge_induct)
  case (step n)
  then have "daysBefore y n \<le> daysBefore y (n + 1)" using month_len [of n y] by simp
  with step show ?case by simp
qed simp

text \<open>The calendar date of a day is unique.\<close>

lemma civil_unique:
  assumes "1 \<le> m" "m \<le> 12" "1 \<le> d" "d \<le> daysBefore y (m + 1) - daysBefore y m"
  shows "civil_of_days (year_days (y - 1) + daysBefore y m + (d - 1)) = (y, m, d)"
proof -
  define n where "n = year_days (y - 1) + daysBefore y m + (d - 1)"
  obtain y' m' d' where e: "civil_of_days n = (y', m', d')" by (cases "civil_of_days n") auto
  note c = civil_of_days [OF e]
  have in_year: "year_days (a - 1) \<le> year_days (a - 1) + daysBefore a b + (k - 1) \<and> year_days (a - 1) + daysBefore a b + (k - 1) < year_days a"
    if "1 \<le> b" "b \<le> 12" "1 \<le> k" "k \<le> daysBefore a (b + 1) - daysBefore a b" for a b k
    using that daysBefore_mono [of 1 b a] daysBefore_mono [of "b + 1" 13 a] daysBefore_13 [of a]
    by (simp add: daysBefore_def [of a 1])
  have "y' = y"
  proof (rule ccontr)
    assume "y' \<noteq> y"
    then have "y' \<le> y - 1 \<or> y \<le> y' - 1" by linarith
    then show False
      using in_year [OF assms] in_year [OF c(1-3,5)] year_days_mono [of y' "y - 1"] year_days_mono [of y "y' - 1"]
      by (auto simp: n_def [symmetric] c(4) [symmetric])
  qed
  moreover have "m' = m"
  proof (rule ccontr)
    assume "m' \<noteq> m"
    then have "m' + 1 \<le> m \<or> m + 1 \<le> m'" by linarith
    then show False
      using assms c \<open>y' = y\<close> daysBefore_mono [of "m' + 1" m y] daysBefore_mono [of "m + 1" m' y] by (auto simp: n_def)
  qed
  ultimately show ?thesis using c(4) e by (auto simp: n_def)
qed

lemma civil_first:
  assumes "civil_of_days n = (y, m, d)"
  shows "civil_of_days (days_of_civil y m 1) = (y, m, 1)"
  using civil_unique [of m 1 y] civil_of_days [OF assms] by (simp add: days_of_civil_in_range)

end
