(* ===== verification/Subscription.thy ===== *)
theory Subscription
  imports Tokens GoTime
begin

text \<open>
  Subscriptions (\<^verbatim>\<open>src/model/subscription.go\<close>): plans, orders, the users' subscriptions with their
  periodic quota resets, the pre-consumption records that make a charge idempotent per request, and
  the maintenance task (\<^verbatim>\<open>src/service/subscription_reset_task.go\<close>). The row hooks
  \<^verbatim>\<open>BeforeCreate\<close> and \<^verbatim>\<open>BeforeUpdate\<close> are part of the statements that trigger them.
\<close>

section \<open>Time and environment\<close>

record env =
  econf :: conf
  dbNow :: int
  appNow :: int
  tloc :: zone

text \<open>\<^verbatim>\<open>src/model/db_time.go\<close>.\<close>

definition GetDBTimestamp :: "env \<Rightarrow> int io" where
  "GetDBTimestamp E =
     handle (query (\<lambda>_. dbNow E)) (\<lambda>_. ret (appNow E)) (\<lambda>ts. ret (if ts \<le> 0 then appNow E else ts))"

definition UpdateUserGroupCache :: "conf \<Rightarrow> int \<Rightarrow> string \<Rightarrow> world \<Rightarrow> world" where
  "UpdateUserGroupCache cfg i g w =
     (if \<not> RedisEnabled cfg then w
      else case ucache w i of
          None \<Rightarrow> w
        | Some u \<Rightarrow> w\<lparr>ucache := (ucache w)(i \<mapsto> u\<lparr>ubGroup := g\<rparr>)\<rparr>)"

definition calcPlanEndTime :: "zone \<Rightarrow> int \<Rightarrow> subscription_plan \<Rightarrow> int res" where
  "calcPlanEndTime loc start p =
     (if planDurationValue p \<le> 0 \<and> planDurationUnit p \<noteq> ''custom'' then Inl (Msg ''duration_value must be > 0'')
      else if planDurationUnit p = ''year'' then Inr (AddDate loc start (planDurationValue p) 0 0)
      else if planDurationUnit p = ''month'' then Inr (AddDate loc start 0 (planDurationValue p) 0)
      else if planDurationUnit p = ''day'' then Inr (Add start (i64 (i64 (planDurationValue p * 24) * Hour)))
      else if planDurationUnit p = ''hour'' then Inr (Add start (i64 (planDurationValue p * Hour)))
      else if planDurationUnit p = ''custom''
      then (if planCustomSeconds p \<le> 0 then Inl (Msg ''custom_seconds must be > 0'')
            else Inr (Add start (i64 (planCustomSeconds p * Second))))
      else Inl (Msg (''invalid duration_unit: '' @ planDurationUnit p)))"

definition NormalizeResetPeriod :: "string \<Rightarrow> string" where
  "NormalizeResetPeriod period =
     (let p = TrimSpace period in
      if p \<in> set [''daily'', ''weekly'', ''monthly'', ''custom''] then p else ''never'')"

definition calcNextResetTime :: "zone \<Rightarrow> int \<Rightarrow> subscription_plan \<Rightarrow> int \<Rightarrow> int" where
  "calcNextResetTime loc base p endUnix =
     (let period = NormalizeResetPeriod (planQuotaResetPeriod p);
          (y, m, d) = civil_of_days (local_day loc base);
          bounded = (\<lambda>next. if endUnix > 0 \<and> next > endUnix then 0 else next) in
      if period = ''never'' then 0
      else if period = ''daily'' then bounded (AddDate loc (Date loc y m d 0) 0 0 1)
      else if period = ''weekly''
      then let wd = Weekday loc base; weekday = (if wd = 0 then 7 else wd); daysUntil = 8 - weekday in
           bounded (AddDate loc (Date loc y m d 0) 0 0 daysUntil)
      else if period = ''monthly'' then bounded (AddDate loc (Date loc y m 1 0) 0 1 0)
      else if period = ''custom''
      then (if planQuotaResetCustomSeconds p \<le> 0 then 0
            else bounded (Add base (i64 (planQuotaResetCustomSeconds p * Second))))
      else 0)"

section \<open>Plans and user groups\<close>

definition getSubscriptionPlanByIdTx :: "int \<Rightarrow> subscription_plan io" where
  "getSubscriptionPlanByIdTx i =
     (if i \<le> 0 then err (Msg ''invalid plan id'')
      else chk (gets (\<lambda>w. pcache w i)) (\<lambda>cached. case cached of
             Some p \<Rightarrow> ret p
           | None \<Rightarrow>
               chk (first (\<lambda>d. row planId i (plans d))) (\<lambda>p.
               chk (modify (\<lambda>w. w\<lparr>pcache := (pcache w)(i \<mapsto> p)\<rparr>)) (\<lambda>_. ret p))))"

text \<open>Dropping a plan from the caches: the plan's own entry, and every cached summary.\<close>

definition InvalidateSubscriptionPlanCache :: "int \<Rightarrow> world \<Rightarrow> world" where
  "InvalidateSubscriptionPlanCache i w =
     (if i \<le> 0 then w else w\<lparr>pcache := (pcache w)(i := None), icache := (\<lambda>_. None)\<rparr>)"

text \<open>The plan's id and title for a subscription, cached per subscription.\<close>

definition GetSubscriptionPlanInfoByUserSubscriptionId :: "int \<Rightarrow> (int \<times> string) io" where
  "GetSubscriptionPlanInfoByUserSubscriptionId i =
     (if i \<le> 0 then err (Msg ''invalid userSubscriptionId'')
      else chk (gets (\<lambda>w. icache w i)) (\<lambda>cached. case cached of
             Some x \<Rightarrow> ret x
           | None \<Rightarrow>
               chk (first (\<lambda>d. row subId i (subs d))) (\<lambda>s.
               chk (getSubscriptionPlanByIdTx (subPlanId s)) (\<lambda>p.
               chk (modify (\<lambda>w. w\<lparr>icache := (icache w)(i \<mapsto> (subPlanId s, planTitle p))\<rparr>)) (\<lambda>_.
               ret (subPlanId s, planTitle p))))))"

definition CountUserSubscriptionsByPlan :: "int \<Rightarrow> int \<Rightarrow> int io" where
  "CountUserSubscriptionsByPlan userId pid =
     (if userId \<le> 0 \<or> pid \<le> 0 then err (Msg ''invalid userId or planId'')
      else query (\<lambda>d. int (length (filter (\<lambda>s. subUserId s = userId \<and> subPlanId s = pid) (subs d)))))"

definition getUserGroupByIdTx :: "int \<Rightarrow> string io" where
  "getUserGroupByIdTx userId =
     (if userId \<le> 0 then err (Msg ''invalid userId'')
      else query (\<lambda>d. case find (live_user userId) (users d) of None \<Rightarrow> '''' | Some u \<Rightarrow> uGroup u))"

definition set_group :: "int \<Rightarrow> string \<Rightarrow> unit io" where
  "set_group userId g = exec (set_users userId (\<lambda>u. u\<lparr>uGroup := g\<rparr>))"

text \<open>\<^verbatim>\<open>Order("end_time asc, id asc")\<close>.\<close>

definition by_end :: "user_subscription list \<Rightarrow> user_subscription list" where
  "by_end ss = sort_key subEndTime (sort_key subId ss)"

definition save_sub :: "env \<Rightarrow> user_subscription \<Rightarrow> unit io" where
  "save_sub E s = exec (\<lambda>d. d\<lparr>subs := save_row subId (s\<lparr>subUpdatedAt := appNow E\<rparr>) (subs d)\<rparr>)"

text \<open>The check for another active upgrading subscription ignores a failed query.\<close>

definition other_upgrade :: "int \<Rightarrow> int \<Rightarrow> int option \<Rightarrow> bool io" where
  "other_upgrade userId now except =
     handle (query (\<lambda>d. filter (\<lambda>s. subUserId s = userId \<and> subStatus s = ''active'' \<and> subEndTime s > now
                        \<and> Some (subId s) \<noteq> except \<and> subUpgradeGroup s \<noteq> '''') (subs d)))
        (\<lambda>_. ret False) (\<lambda>ss. ret (ss \<noteq> []))"

definition downgradeUserGroupForSubscriptionTx :: "user_subscription \<Rightarrow> int \<Rightarrow> string io" where
  "downgradeUserGroupForSubscriptionTx s now =
     (let upgradeGroup = TrimSpace (subUpgradeGroup s) in
      if upgradeGroup = '''' then ret ''''
      else chk (getUserGroupByIdTx (subUserId s)) (\<lambda>currentGroup.
        if currentGroup \<noteq> upgradeGroup then ret ''''
        else chk (other_upgrade (subUserId s) now (Some (subId s))) (\<lambda>found.
          if found then ret ''''
          else let prevGroup = TrimSpace (subPrevUserGroup s) in
            if prevGroup = '''' \<or> prevGroup = currentGroup then ret ''''
            else chk (set_group (subUserId s) prevGroup) (\<lambda>_. ret prevGroup))))"

section \<open>Creating subscriptions\<close>

definition insert_sub :: "env \<Rightarrow> user_subscription \<Rightarrow> user_subscription io" where
  "insert_sub E s = stmt (\<lambda>d.
     let s' = s\<lparr>subId := fresh_id (map subId (subs d)), subCreatedAt := appNow E, subUpdatedAt := appNow E\<rparr> in
     (s', d\<lparr>subs := subs d @ [s']\<rparr>))"

definition CreateUserSubscriptionFromPlanTx :: "env \<Rightarrow> int \<Rightarrow> subscription_plan \<Rightarrow> string \<Rightarrow> user_subscription io" where
  "CreateUserSubscriptionFromPlanTx E userId p source =
     (if planId p = 0 then err (Msg ''invalid plan'')
      else if userId \<le> 0 then err (Msg ''invalid user id'')
      else chk (if planMaxPurchasePerUser p > 0
                then chk (query (\<lambda>d. int (length (filter (\<lambda>s. subUserId s = userId \<and> subPlanId s = planId p) (subs d)))))
                       (\<lambda>n. if n \<ge> planMaxPurchasePerUser p then err PurchaseLimitReached else ret ())
                else ret ())
      (\<lambda>_. chk (GetDBTimestamp E) (\<lambda>now.
        (case calcPlanEndTime (tloc E) now p of
           Inl e \<Rightarrow> err e
         | Inr endUnix \<Rightarrow>
             let nextReset = calcNextResetTime (tloc E) now p endUnix;
                 lastReset = (if nextReset > 0 then now else 0);
                 upgradeGroup = TrimSpace (planUpgradeGroup p) in
             chk (if upgradeGroup \<noteq> ''''
                  then chk (getUserGroupByIdTx userId) (\<lambda>currentGroup.
                         if currentGroup \<noteq> upgradeGroup
                         then chk (set_group userId upgradeGroup) (\<lambda>_. ret currentGroup)
                         else ret '''')
                  else ret '''')
             (\<lambda>prevGroup. insert_sub E
                \<lparr>subId = 0, subUserId = userId, subPlanId = planId p, subAmountTotal = planTotalAmount p,
                 subAmountUsed = 0, subStartTime = now, subEndTime = endUnix, subStatus = ''active'',
                 subSource = source, subLastResetTime = lastReset, subNextResetTime = nextReset,
                 subUpgradeGroup = upgradeGroup, subPrevUserGroup = prevGroup,
                 subCreatedAt = appNow E, subUpdatedAt = appNow E\<rparr>)))))"

section \<open>Orders\<close>

definition upsertSubscriptionTopUpTx :: "env \<Rightarrow> subscription_order \<Rightarrow> unit io" where
  "upsertSubscriptionTopUpTx E od =
     handle (first (\<lambda>d. row tuTradeNo (ordTradeNo od) (topups d)))
        (\<lambda>e. if e = RecordNotFound then
          exec (\<lambda>d. d\<lparr>topups := topups d @
            [\<lparr>tuId = fresh_id (map tuId (topups d)), tuUserId = ordUserId od, tuAmount = 0, tuMoney = ordMoney od,
              tuTradeNo = ordTradeNo od, tuPaymentMethod = ordPaymentMethod od, tuCreateTime = ordCreateTime od,
              tuCompleteTime = appNow E, tuStatus = ''success''\<rparr>]\<rparr>)
          else err e)
        (\<lambda>t. exec (\<lambda>d. d\<lparr>topups := save_row tuId (t\<lparr>tuMoney := ordMoney od,
              tuPaymentMethod := (if tuPaymentMethod t = '''' then ordPaymentMethod od else tuPaymentMethod t),
              tuCreateTime := (if tuCreateTime t = 0 then ordCreateTime od else tuCreateTime t),
              tuCompleteTime := appNow E, tuStatus := ''success''\<rparr>) (topups d)\<rparr>))"

definition save_order :: "subscription_order \<Rightarrow> unit io" where
  "save_order od = exec (\<lambda>d. d\<lparr>orders := save_row ordId od (orders d)\<rparr>)"

definition order_Insert :: "env \<Rightarrow> subscription_order \<Rightarrow> unit io" where
  "order_Insert E od =
     (let od' = od\<lparr>ordCreateTime := (if ordCreateTime od = 0 then appNow E else ordCreateTime od)\<rparr> in
      chk (stmt (\<lambda>d. if row ordTradeNo (ordTradeNo od) (orders d) \<noteq> None then (False, d)
             else (True, d\<lparr>orders := orders d @ [od'\<lparr>ordId := fresh_id (map ordId (orders d))\<rparr>]\<rparr>)))
        (\<lambda>ok. if ok then ret () else err UniqueViolation))"

definition GetSubscriptionOrderByTradeNo :: "string \<Rightarrow> subscription_order option io" where
  "GetSubscriptionOrderByTradeNo tradeNo =
     (if tradeNo = '''' then ret None
      else handle (first (\<lambda>d. row ordTradeNo tradeNo (orders d))) (\<lambda>_. ret None) (\<lambda>od. ret (Some od)))"

text \<open>A failed look-up of the order, whatever the reason, is reported as not found.\<close>

definition find_order :: "string \<Rightarrow> subscription_order io" where
  "find_order tradeNo =
     handle (first (\<lambda>d. row ordTradeNo tradeNo (orders d)))
       (\<lambda>_. err (Msg ''subscription order not found'')) ret"

text \<open>The transaction returns what the code after it uses: the user and the plan's upgrade group.\<close>

definition CompleteSubscriptionOrder :: "env \<Rightarrow> string \<Rightarrow> string \<Rightarrow> unit io" where
  "CompleteSubscriptionOrder E tradeNo providerPayload =
     (if tradeNo = '''' then err (Msg ''tradeNo is empty'')
      else chk (transaction (chk (find_order tradeNo) (\<lambda>od.
        if ordStatus od = ''success'' then ret (0, '''')
        else if ordStatus od \<noteq> ''pending'' then err (Msg ''subscription order status invalid'')
        else chk (getSubscriptionPlanByIdTx (ordPlanId od)) (\<lambda>p.
             chk (CreateUserSubscriptionFromPlanTx E (ordUserId od) p ''order'') (\<lambda>_.
             chk (upsertSubscriptionTopUpTx E od) (\<lambda>_.
             chk (save_order (od\<lparr>ordStatus := ''success'', ordCompleteTime := appNow E,
                    ordProviderPayload := (if providerPayload \<noteq> '''' then providerPayload else ordProviderPayload od)\<rparr>)) (\<lambda>_.
             ret (ordUserId od, TrimSpace (planUpgradeGroup p)))))))))
      (\<lambda>(logUserId, upgradeGroup).
         if upgradeGroup \<noteq> '''' \<and> logUserId > 0
         then modify (UpdateUserGroupCache (econf E) logUserId upgradeGroup) else ret ()))"

definition ExpireSubscriptionOrder :: "env \<Rightarrow> string \<Rightarrow> unit io" where
  "ExpireSubscriptionOrder E tradeNo =
     (if tradeNo = '''' then err (Msg ''tradeNo is empty'')
      else transaction (chk (find_order tradeNo) (\<lambda>od.
        if ordStatus od \<noteq> ''pending'' then ret ()
        else save_order (od\<lparr>ordStatus := ''expired'', ordCompleteTime := appNow E\<rparr>))))"

definition AdminBindSubscription :: "env \<Rightarrow> int \<Rightarrow> int \<Rightarrow> string io" where
  "AdminBindSubscription E userId pid =
     (if userId \<le> 0 \<or> pid \<le> 0 then err (Msg ''invalid userId or planId'')
      else chk (getSubscriptionPlanByIdTx pid) (\<lambda>p.
           chk (transaction (chk (CreateUserSubscriptionFromPlanTx E userId p ''admin'') (\<lambda>_. ret ()))) (\<lambda>_.
             if TrimSpace (planUpgradeGroup p) \<noteq> ''''
             then chk (modify (UpdateUserGroupCache (econf E) userId (planUpgradeGroup p))) (\<lambda>_. ret (planUpgradeGroup p))
             else ret '''')))"

definition HasActiveUserSubscription :: "env \<Rightarrow> int \<Rightarrow> bool io" where
  "HasActiveUserSubscription E userId =
     (if userId \<le> 0 then err (Msg ''invalid userId'')
      else query (\<lambda>d. \<exists>s \<in> set (subs d). subUserId s = userId \<and> subStatus s = ''active'' \<and> subEndTime s > appNow E))"

text \<open>\<^verbatim>\<open>Order("end_time desc, id desc")\<close>; a summary wraps a copy of the row.\<close>

definition GetAllActiveUserSubscriptions :: "env \<Rightarrow> int \<Rightarrow> user_subscription list io" where
  "GetAllActiveUserSubscriptions E userId =
     (if userId \<le> 0 then err (Msg ''invalid userId'')
      else query (\<lambda>d. rev (by_end (filter (\<lambda>s. subUserId s = userId \<and> subStatus s = ''active'' \<and> subEndTime s > appNow E) (subs d)))))"

definition GetAllUserSubscriptions :: "int \<Rightarrow> user_subscription list io" where
  "GetAllUserSubscriptions userId =
     (if userId \<le> 0 then err (Msg ''invalid userId'')
      else query (\<lambda>d. rev (by_end (filter (\<lambda>s. subUserId s = userId) (subs d)))))"

section \<open>Cancelling, deleting and expiring\<close>

text \<open>Both admin operations end with the same refresh of the group cache. The sentence they return for
  display is represented by the group name it is built from, here and in \<open>AdminBindSubscription\<close>.\<close>

definition after_downgrade :: "env \<Rightarrow> int \<times> string \<Rightarrow> string io" where
  "after_downgrade E = (\<lambda>(userId, target).
     chk (if target \<noteq> '''' \<and> userId > 0 then modify (UpdateUserGroupCache (econf E) userId target) else ret ())
       (\<lambda>_. ret target))"

definition AdminInvalidateUserSubscription :: "env \<Rightarrow> int \<Rightarrow> string io" where
  "AdminInvalidateUserSubscription E i =
     (if i \<le> 0 then err (Msg ''invalid userSubscriptionId'')
      else chk (transaction (chk (first (\<lambda>d. row subId i (subs d))) (\<lambda>s.
             chk (exec (\<lambda>d. d\<lparr>subs := upd_where (\<lambda>r. subId r = i)
                    (\<lambda>r. r\<lparr>subStatus := ''cancelled'', subEndTime := appNow E, subUpdatedAt := appNow E\<rparr>) (subs d)\<rparr>)) (\<lambda>_.
             chk (downgradeUserGroupForSubscriptionTx s (appNow E)) (\<lambda>target. ret (subUserId s, target))))))
           (after_downgrade E))"

definition AdminDeleteUserSubscription :: "env \<Rightarrow> int \<Rightarrow> string io" where
  "AdminDeleteUserSubscription E i =
     (if i \<le> 0 then err (Msg ''invalid userSubscriptionId'')
      else chk (transaction (chk (first (\<lambda>d. row subId i (subs d))) (\<lambda>s.
             chk (downgradeUserGroupForSubscriptionTx s (appNow E)) (\<lambda>target.
             chk (exec (\<lambda>d. d\<lparr>subs := filter (\<lambda>r. subId r \<noteq> i) (subs d)\<rparr>)) (\<lambda>_. ret (subUserId s, target))))))
           (after_downgrade E))"

definition due :: "int \<Rightarrow> user_subscription \<Rightarrow> bool" where
  "due now s \<longleftrightarrow> subStatus s = ''active'' \<and> subEndTime s > 0 \<and> subEndTime s \<le> now"

text \<open>The transaction for one user; it returns the rows it expired and the group to cache.\<close>

definition expire_user :: "env \<Rightarrow> int \<Rightarrow> int \<Rightarrow> (int \<times> string) io" where
  "expire_user E now userId =
     transaction (chk (stmt (\<lambda>d. let hit = (\<lambda>s. subUserId s = userId \<and> due now s) in
         (int (length (filter hit (subs d))),
          d\<lparr>subs := upd_where hit (\<lambda>s. s\<lparr>subStatus := ''expired'', subUpdatedAt := appNow E\<rparr>) (subs d)\<rparr>)))
       (\<lambda>n. chk (other_upgrade userId now None) (\<lambda>found.
         if found then ret (n, '''')
         else handle (query (\<lambda>d. rev (by_end (filter (\<lambda>s. subUserId s = userId \<and> subStatus s = ''expired''
                                                     \<and> subUpgradeGroup s \<noteq> '''') (subs d)))))
           (\<lambda>_. ret (n, ''''))
           (\<lambda>ls. case ls of [] \<Rightarrow> ret (n, '''') | l # _ \<Rightarrow>
               (let upgradeGroup = TrimSpace (subUpgradeGroup l); prevGroup = TrimSpace (subPrevUserGroup l) in
                if upgradeGroup = '''' \<or> prevGroup = '''' then ret (n, '''')
                else chk (getUserGroupByIdTx userId) (\<lambda>currentGroup.
                  if currentGroup \<noteq> upgradeGroup \<or> currentGroup = prevGroup then ret (n, '''')
                  else chk (set_group userId prevGroup) (\<lambda>_. ret (n, prevGroup))))))))"

fun expire_users :: "env \<Rightarrow> int \<Rightarrow> int list \<Rightarrow> int \<Rightarrow> int io" where
  "expire_users E now [] cnt = ret cnt"
| "expire_users E now (u # us) cnt =
     chk (expire_user E now u) (\<lambda>(n, g).
     chk (if g \<noteq> '''' then modify (UpdateUserGroupCache (econf E) u g) else ret ()) (\<lambda>_.
     expire_users E now us (cnt + n)))"

text \<open>\<open>ord\<close> is the order in which Go ranges over the set of user ids.\<close>

definition ExpireDueSubscriptions :: "(int list \<Rightarrow> int list) \<Rightarrow> env \<Rightarrow> int \<Rightarrow> int io" where
  "ExpireDueSubscriptions ord E limit =
     (let limit = (if limit \<le> 0 then 200 else limit) in
      chk (GetDBTimestamp E) (\<lambda>now.
      chk (query (\<lambda>d. take (nat limit) (by_end (filter (due now) (subs d))))) (\<lambda>ss.
        if ss = [] then ret 0
        else expire_users E now (ord (filter (\<lambda>u. u > 0) (remdups (map subUserId ss)))) 0)))"

section \<open>Quota resets\<close>

text \<open>The loop of \<^verbatim>\<open>maybeResetUserSubscriptionWithPlanTx\<close>: the value \<^const>\<open>None\<close> means that it does
  not end.\<close>

partial_function (option) reset_loop ::
  "zone \<Rightarrow> subscription_plan \<Rightarrow> int \<Rightarrow> int \<Rightarrow> int \<Rightarrow> int \<Rightarrow> bool \<Rightarrow> (int \<times> int \<times> bool) option" where
  "reset_loop loc p endT now base next advanced =
     (if next > 0 \<and> next \<le> now
      then reset_loop loc p endT now next (calcNextResetTime loc next p endT) True
      else Some (base, next, advanced))"

definition maybeResetUserSubscriptionWithPlanTx ::
  "env \<Rightarrow> user_subscription \<Rightarrow> subscription_plan \<Rightarrow> int \<Rightarrow> user_subscription io" where
  "maybeResetUserSubscriptionWithPlanTx E s p now =
     (if subNextResetTime s > 0 \<and> subNextResetTime s > now then ret s
      else if NormalizeResetPeriod (planQuotaResetPeriod p) = ''never'' then ret s
      else let base = (if subLastResetTime s \<le> 0 then subStartTime s else subLastResetTime s) in
        case reset_loop (tloc E) p (subEndTime s) now base (calcNextResetTime (tloc E) base p (subEndTime s)) False of
          None \<Rightarrow> err NoReturn
        | Some (base', next, advanced) \<Rightarrow>
            if \<not> advanced
            then (if subNextResetTime s = 0 \<and> next > 0
                  then let s' = s\<lparr>subNextResetTime := next, subLastResetTime := base'\<rparr> in
                       chk (save_sub E s') (\<lambda>_. ret s')
                  else ret s)
            else let s' = s\<lparr>subAmountUsed := 0, subLastResetTime := base', subNextResetTime := next\<rparr> in
                 chk (save_sub E s') (\<lambda>_. ret s'))"

section \<open>Pre-consumption\<close>

record pre_consume_result =
  prUserSubscriptionId :: int
  prPreConsumed :: int
  prAmountTotal :: int
  prAmountUsedBefore :: int
  prAmountUsedAfter :: int

text \<open>\<^verbatim>\<open>tx.Create(record)\<close>: the unique index on the request id refuses a duplicate.\<close>

definition create_precon :: "env \<Rightarrow> string \<Rightarrow> int \<Rightarrow> int \<Rightarrow> int \<Rightarrow> unit io" where
  "create_precon E requestId userId sid amount =
     chk (stmt (\<lambda>d. if row pcRequestId requestId (precons d) \<noteq> None then (False, d)
       else (True, d\<lparr>precons := precons d @
         [\<lparr>pcId = fresh_id (map pcId (precons d)), pcRequestId = requestId, pcUserId = userId,
           pcUserSubscriptionId = sid, pcPreConsumed = amount, pcStatus = ''consumed'',
           pcCreatedAt = appNow E, pcUpdatedAt = appNow E\<rparr>]\<rparr>)))
     (\<lambda>ok. if ok then ret () else err UniqueViolation)"

fun consume_candidates ::
  "env \<Rightarrow> int \<Rightarrow> string \<Rightarrow> int \<Rightarrow> int \<Rightarrow> user_subscription list \<Rightarrow> pre_consume_result io" where
  "consume_candidates E now requestId userId amount [] =
     err (Msg (''subscription quota insufficient, need='' @ Itoa amount))"
| "consume_candidates E now requestId userId amount (c # cs) =
     chk (getSubscriptionPlanByIdTx (subPlanId c)) (\<lambda>p.
     chk (maybeResetUserSubscriptionWithPlanTx E c p now) (\<lambda>s.
       if subAmountTotal s > 0 \<and> i64 (subAmountTotal s - subAmountUsed s) < amount
       then consume_candidates E now requestId userId amount cs
       else handle (create_precon E requestId userId (subId s) amount)
           (\<lambda>e. handle (first (\<lambda>d. row pcRequestId requestId (precons d)))
              (\<lambda>_. err e)
              (\<lambda>dup. if pcStatus dup = ''refunded'' then err (Msg ''subscription pre-consume already refunded'')
                  else ret \<lparr>prUserSubscriptionId = subId s, prPreConsumed = pcPreConsumed dup,
                             prAmountTotal = subAmountTotal s, prAmountUsedBefore = subAmountUsed s,
                             prAmountUsedAfter = subAmountUsed s\<rparr>))
           (\<lambda>_. let s' = s\<lparr>subAmountUsed := i64 (subAmountUsed s + amount)\<rparr> in
             chk (save_sub E s') (\<lambda>_. ret
               \<lparr>prUserSubscriptionId = subId s, prPreConsumed = amount, prAmountTotal = subAmountTotal s,
                prAmountUsedBefore = subAmountUsed s, prAmountUsedAfter = subAmountUsed s'\<rparr>))))"

definition PreConsumeUserSubscription :: "env \<Rightarrow> string \<Rightarrow> int \<Rightarrow> int \<Rightarrow> pre_consume_result io" where
  "PreConsumeUserSubscription E requestId userId amount =
     (if userId \<le> 0 then err (Msg ''invalid userId'')
      else if TrimSpace requestId = '''' then err (Msg ''requestId is empty'')
      else if amount \<le> 0 then err (Msg ''amount must be > 0'')
      else chk (GetDBTimestamp E) (\<lambda>now.
        transaction (chk (query (\<lambda>d. row pcRequestId requestId (precons d))) (\<lambda>existing. case existing of
            Some r \<Rightarrow>
              if pcStatus r = ''refunded'' then err (Msg ''subscription pre-consume already refunded'')
              else chk (first (\<lambda>d. row subId (pcUserSubscriptionId r) (subs d))) (\<lambda>s. ret
                \<lparr>prUserSubscriptionId = subId s, prPreConsumed = pcPreConsumed r, prAmountTotal = subAmountTotal s,
                 prAmountUsedBefore = subAmountUsed s, prAmountUsedAfter = subAmountUsed s\<rparr>)
          | None \<Rightarrow>
              handle (query (\<lambda>d. by_end (filter (\<lambda>s. subUserId s = userId \<and> subStatus s = ''active'' \<and> subEndTime s > now) (subs d))))
                (\<lambda>_. err (Msg ''no active subscription''))
                (\<lambda>ss. if ss = [] then err (Msg ''no active subscription'')
                  else consume_candidates E now requestId userId amount ss)))))"

definition PostConsumeUserSubscriptionDelta :: "env \<Rightarrow> int \<Rightarrow> int \<Rightarrow> unit io" where
  "PostConsumeUserSubscriptionDelta E i delta =
     (if i \<le> 0 then err (Msg ''invalid userSubscriptionId'')
      else if delta = 0 then ret ()
      else transaction (chk (first (\<lambda>d. row subId i (subs d))) (\<lambda>s.
        let newUsed = max 0 (i64 (subAmountUsed s + delta)) in
        if subAmountTotal s > 0 \<and> newUsed > subAmountTotal s
        then err (Msg (''subscription used exceeds total, used='' @ Itoa newUsed @ '' total='' @ Itoa (subAmountTotal s)))
        else save_sub E (s\<lparr>subAmountUsed := newUsed\<rparr>))))"

text \<open>
  The refund runs inside a transaction, but the subscription is changed by
  \<^verbatim>\<open>PostConsumeUserSubscriptionDelta\<close> in a transaction of its own, on the global handle: once that has
  committed, a failure of the outer one does not undo it.
\<close>

definition save_precon :: "env \<Rightarrow> pre_consume_record \<Rightarrow> unit io" where
  "save_precon E r = exec (\<lambda>d. d\<lparr>precons := save_row pcId (r\<lparr>pcUpdatedAt := appNow E\<rparr>) (precons d)\<rparr>)"

definition RefundSubscriptionPreConsume :: "env \<Rightarrow> string \<Rightarrow> unit io" where
  "RefundSubscriptionPreConsume E requestId =
     (if TrimSpace requestId = '''' then err (Msg ''requestId is empty'')
      else chk (exec id) (\<lambda>_. chk (first (\<lambda>d. row pcRequestId requestId (precons d))) (\<lambda>r.
        if pcStatus r = ''refunded'' then commit (ret ())
        else if pcPreConsumed r \<le> 0 then commit (save_precon E (r\<lparr>pcStatus := ''refunded''\<rparr>))
        else chk (PostConsumeUserSubscriptionDelta E (pcUserSubscriptionId r) (i64 (- pcPreConsumed r)))
               (\<lambda>_. commit (save_precon E (r\<lparr>pcStatus := ''refunded''\<rparr>))))))"

section \<open>Maintenance\<close>

definition reset_due :: "int \<Rightarrow> user_subscription \<Rightarrow> bool" where
  "reset_due now s \<longleftrightarrow> subNextResetTime s > 0 \<and> subNextResetTime s \<le> now"

text \<open>One subscription of \<^verbatim>\<open>ResetDueSubscriptions\<close>: \<open>Inr n\<close> is what it adds to the count.\<close>

definition reset_one :: "env \<Rightarrow> int \<Rightarrow> user_subscription \<Rightarrow> int io" where
  "reset_one E now c =
     handle (getSubscriptionPlanByIdTx (subPlanId c)) (\<lambda>_. ret 0) (\<lambda>p.
       transaction (handle (first (\<lambda>d. find (\<lambda>s. subId s = subId c \<and> reset_due now s) (subs d)))
         (\<lambda>_. ret 0)
         (\<lambda>locked. chk (maybeResetUserSubscriptionWithPlanTx E locked p now) (\<lambda>_. ret 1))))"

fun reset_each :: "env \<Rightarrow> int \<Rightarrow> user_subscription list \<Rightarrow> int \<Rightarrow> int io" where
  "reset_each E now [] cnt = ret cnt"
| "reset_each E now (c # cs) cnt = chk (reset_one E now c) (\<lambda>n. reset_each E now cs (cnt + n))"

definition ResetDueSubscriptions :: "env \<Rightarrow> int \<Rightarrow> int io" where
  "ResetDueSubscriptions E limit =
     (let limit = (if limit \<le> 0 then 200 else limit) in
      chk (GetDBTimestamp E) (\<lambda>now.
      chk (query (\<lambda>d. take (nat limit) (sort_key subNextResetTime
               (filter (\<lambda>s. reset_due now s \<and> subStatus s = ''active'') (subs d))))) (\<lambda>ss.
        reset_each E now ss 0)))"

definition CleanupSubscriptionPreConsumeRecords :: "env \<Rightarrow> int \<Rightarrow> int io" where
  "CleanupSubscriptionPreConsumeRecords E olderThanSeconds =
     (let older = (if olderThanSeconds \<le> 0 then 7 * 24 * 3600 else olderThanSeconds) in
      chk (GetDBTimestamp E) (\<lambda>ts. let cutoff = i64 (ts - older) in
      stmt (\<lambda>d. (int (length (filter (\<lambda>r. pcUpdatedAt r < cutoff) (precons d))),
                  d\<lparr>precons := filter (\<lambda>r. \<not> pcUpdatedAt r < cutoff) (precons d)\<rparr>))))"

text \<open>One of the two loops of \<^verbatim>\<open>runSubscriptionQuotaResetOnce\<close>: call the step until it fails, does
  nothing or does less than a batch; \<^const>\<open>None\<close> when the rounds given do not suffice. The flag says
  that no call failed.\<close>

fun batches :: "int \<Rightarrow> int io \<Rightarrow> nat \<Rightarrow> world \<Rightarrow> (bool \<times> world) option" where
  "batches sz step 0 w = None"
| "batches sz step (Suc k) w =
     (case step w of
        (Inl _, w1) \<Rightarrow> Some (False, w1)
      | (Inr n, w1) \<Rightarrow> if n = 0 \<or> n < sz then Some (True, w1) else batches sz step k w1)"

abbreviation (input) subscriptionResetBatchSize :: int where "subscriptionResetBatchSize \<equiv> 300"

text \<open>The body of \<^verbatim>\<open>runSubscriptionQuotaResetOnce\<close> once its guard against a concurrent run is taken;
  \<open>lastC\<close> is \<^verbatim>\<open>subscriptionCleanupLast\<close>, the cleanup runs every half hour.\<close>

definition runSubscriptionQuotaResetOnce ::
  "(int list \<Rightarrow> int list) \<Rightarrow> env \<Rightarrow> nat \<Rightarrow> int \<Rightarrow> world \<Rightarrow> (int \<times> world) option" where
  "runSubscriptionQuotaResetOnce ord E k lastC w =
     (case batches subscriptionResetBatchSize (ExpireDueSubscriptions ord E subscriptionResetBatchSize) k w of
        None \<Rightarrow> None
      | Some (False, w1) \<Rightarrow> Some (lastC, w1)
      | Some (True, w1) \<Rightarrow>
          (case batches subscriptionResetBatchSize (ResetDueSubscriptions E subscriptionResetBatchSize) k w1 of
             None \<Rightarrow> None
           | Some (False, w2) \<Rightarrow> Some (lastC, w2)
           | Some (True, w2) \<Rightarrow>
               if appNow E - lastC \<ge> 30 * 60
               then (case CleanupSubscriptionPreConsumeRecords E (7 * 24 * 3600) w2 of
                       (Inl _, w3) \<Rightarrow> Some (lastC, w3)
                     | (Inr _, w3) \<Rightarrow> Some (appNow E, w3))
               else Some (lastC, w2)))"

end
