(* ===== verification/SubscriptionLaws.thy ===== *)
theory SubscriptionLaws
  imports Subscription
begin

text \<open>
  Proofs about the subscriptions: a capped subscription is never overdrawn, whatever statements
  fail; the resets end and land where they should; a request is charged once; a refund undoes a
  charge, and where it can be repeated.
\<close>

section \<open>A capped subscription is never overdrawn\<close>

text \<open>The amounts are 64-bit columns, so every cap is below \<open>2 ^ 63\<close>; a cap of 0 means unlimited.\<close>

definition capped :: "user_subscription \<Rightarrow> bool" where
  "capped s \<longleftrightarrow> (0 < subAmountTotal s \<and> subAmountTotal s < 2 ^ 63 \<longrightarrow>
     0 \<le> subAmountUsed s \<and> subAmountUsed s \<le> subAmountTotal s)"

definition all_capped :: "db \<Rightarrow> bool" where
  "all_capped d \<longleftrightarrow> list_all capped (subs d)"

lemma list_all_save_row: "list_all P xs \<Longrightarrow> P r \<Longrightarrow> list_all P (save_row key r xs)"
  by (auto simp: save_row_def list_all_iff)

lemma list_all_upd_where: "list_all P xs \<Longrightarrow> (\<And>x. P x \<Longrightarrow> P (f x)) \<Longrightarrow> list_all P (upd_where c f xs)"
  by (auto simp: upd_where_def list_all_iff)

lemma row_list_all: "row key k xs = Some x \<Longrightarrow> list_all P xs \<Longrightarrow> P x"
  by (auto simp: list_all_iff dest: row_SomeD)

lemma find_list_all: "find c xs = Some x \<Longrightarrow> list_all P xs \<Longrightarrow> P x"
  by (auto simp: list_all_iff find_Some_iff)

abbreviation keeps :: "(db \<Rightarrow> bool) \<Rightarrow> 'a io \<Rightarrow> bool" where
  "keeps P m \<equiv> triple P m (\<lambda>_. P) P"

lemma capped_save_sub: "capped s \<Longrightarrow> keeps all_capped (save_sub E s)"
  unfolding save_sub_def by (rule triple_exec) (auto simp: all_capped_def capped_def intro: list_all_save_row)

lemma keeps_plan: "keeps P (getSubscriptionPlanByIdTx i)"
  unfolding getSubscriptionPlanByIdTx_def
  by (intro triple_if triple_err triple_chk [where Q = "\<lambda>_. P"] triple_gets) (auto split: option.splits
      intro!: triple_chk [where Q = "\<lambda>_. P"] triple_first triple_modify triple_ret)

lemma keeps_timestamp: "keeps P (GetDBTimestamp E)"
  unfolding GetDBTimestamp_def by (rule triple_handle [where Q = "\<lambda>_. P" and F = P]) (auto intro: triple_query triple_ret)

lemma keeps_group: "keeps P (getUserGroupByIdTx u)"
  unfolding getUserGroupByIdTx_def by (intro triple_if triple_err triple_query) auto

lemma keeps_other_upgrade: "keeps P (other_upgrade u now x)"
  unfolding other_upgrade_def by (rule triple_handle [where Q = "\<lambda>_. P" and F = P]) (auto intro: triple_query triple_ret)

lemma capped_set_group: "keeps all_capped (set_group u g)"
  unfolding set_group_def by (rule triple_exec) (auto simp: all_capped_def)

lemma capped_downgrade: "keeps all_capped (downgradeUserGroupForSubscriptionTx s now)"
  unfolding downgradeUserGroupForSubscriptionTx_def Let_def
  by (intro triple_if triple_ret triple_chk [where Q = "\<lambda>_. all_capped"] keeps_group keeps_other_upgrade capped_set_group) auto

lemma capped_upd [simp]:
  "capped (s\<lparr>subNextResetTime := a, subLastResetTime := b\<rparr>) = capped s"
  "capped (s\<lparr>subAmountUsed := 0, subLastResetTime := a, subNextResetTime := b\<rparr>)"
  by (simp_all add: capped_def)

lemma triple_maybeReset:
  assumes "triple P (ret s) Q F" "triple P (err NoReturn) Q F"
    and "\<And>a b. triple P (chk (save_sub E (s\<lparr>subNextResetTime := a, subLastResetTime := b\<rparr>))
                        (\<lambda>_. ret (s\<lparr>subNextResetTime := a, subLastResetTime := b\<rparr>))) Q F"
    and "\<And>a b. triple P (chk (save_sub E (s\<lparr>subAmountUsed := 0, subLastResetTime := a, subNextResetTime := b\<rparr>))
                        (\<lambda>_. ret (s\<lparr>subAmountUsed := 0, subLastResetTime := a, subNextResetTime := b\<rparr>))) Q F"
  shows "triple P (maybeResetUserSubscriptionWithPlanTx E s p now) Q F"
  unfolding maybeResetUserSubscriptionWithPlanTx_def Let_def
  by (intro triple_if assms(1)) (auto split: option.split prod.split intro: assms)

lemma capped_maybeReset:
  assumes "capped s"
  shows "triple all_capped (maybeResetUserSubscriptionWithPlanTx E s p now)
     (\<lambda>s' d. all_capped d \<and> capped s' \<and> subAmountTotal s' = subAmountTotal s \<and> subId s' = subId s) all_capped"
  by (rule triple_maybeReset; (intro triple_chk [where Q = "\<lambda>_. all_capped"] capped_save_sub triple_ret triple_err)?) (simp_all add: assms)

lemma keeps_create_precon: "keeps all_capped (create_precon E r u i a)"
  unfolding create_precon_def
  by (rule triple_chk [where Q = "\<lambda>_. all_capped"]) (auto simp: all_capped_def intro!: triple_stmt triple_if triple_ret triple_err)

lemma capped_consume:
  "capped s \<Longrightarrow> 0 < amount \<Longrightarrow> \<not> (subAmountTotal s > 0 \<and> i64 (subAmountTotal s - subAmountUsed s) < amount) \<Longrightarrow>
   capped (s\<lparr>subAmountUsed := i64 (subAmountUsed s + amount)\<rparr>)"
  by (auto simp: capped_def in64_def)

lemma capped_candidates:
  assumes "0 < amount"
  shows "list_all capped cs \<Longrightarrow> keeps all_capped (consume_candidates E now r u amount cs)"
proof (induction cs)
  case Nil
  then show ?case by (auto intro: triple_err)
next
  case (Cons c cs)
  then have IH: "keeps all_capped (consume_candidates E now r u amount cs)" and c: "capped c" by auto
  have use: "keeps all_capped (handle (create_precon E r u (subId s) amount)
      (\<lambda>e. handle (first (\<lambda>d. row pcRequestId r (precons d))) (\<lambda>_. err e)
         (\<lambda>dup. if pcStatus dup = ''refunded'' then err (Msg ''subscription pre-consume already refunded'')
             else ret (k dup)))
      (\<lambda>_. chk (save_sub E (s\<lparr>subAmountUsed := i64 (subAmountUsed s + amount)\<rparr>)) (\<lambda>_. ret k')))"
    if "capped (s\<lparr>subAmountUsed := i64 (subAmountUsed s + amount)\<rparr>)" for s k k'
    by (intro triple_handle [where Q = "\<lambda>_. all_capped" and F = all_capped] keeps_create_precon triple_first triple_err
        triple_if triple_ret triple_chk [where Q = "\<lambda>_. all_capped"] capped_save_sub that) auto
  show ?case
    unfolding consume_candidates.simps Let_def
  proof (rule triple_chk [where Q = "\<lambda>_. all_capped"], rule keeps_plan, rule triple_chk, rule capped_maybeReset [OF c])
    fix p s
    show "triple (\<lambda>d. all_capped d \<and> capped s \<and> subAmountTotal s = subAmountTotal c \<and> subId s = subId c)
      (if subAmountTotal s > 0 \<and> i64 (subAmountTotal s - subAmountUsed s) < amount
       then consume_candidates E now r u amount cs else handle (create_precon E r u (subId s) amount)
      (\<lambda>e. handle (first (\<lambda>d. row pcRequestId r (precons d))) (\<lambda>_. err e)
         (\<lambda>dup. if pcStatus dup = ''refunded'' then err (Msg ''subscription pre-consume already refunded'')
             else ret \<lparr>prUserSubscriptionId = subId s, prPreConsumed = pcPreConsumed dup,
                             prAmountTotal = subAmountTotal s, prAmountUsedBefore = subAmountUsed s,
                             prAmountUsedAfter = subAmountUsed s\<rparr>))
      (\<lambda>_. chk (save_sub E (s\<lparr>subAmountUsed := i64 (subAmountUsed s + amount)\<rparr>)) (\<lambda>_. ret
         \<lparr>prUserSubscriptionId = subId s, prPreConsumed = amount, prAmountTotal = subAmountTotal s,
                prAmountUsedBefore = subAmountUsed s, prAmountUsedAfter = subAmountUsed (s\<lparr>subAmountUsed := i64 (subAmountUsed s + amount)\<rparr>)\<rparr>)))
      (\<lambda>_. all_capped) all_capped"
      apply (cases "capped s")
      apply (rule triple_if)
      apply (rule triple_weaken [OF IH]; simp)
      apply (rule triple_weaken [OF use]; simp add: capped_consume [OF _ assms])
      apply (simp add: triple_def)
      done
  qed
qed
lemma capped_PreConsume: "keeps all_capped (PreConsumeUserSubscription E r u amount)"
proof (cases "0 < amount")
  case True
  have list: "list_all capped (by_end (filter c (subs d)))" if "all_capped d" for c d
    using that by (auto simp: by_end_def all_capped_def list_all_iff)
  have cands: "keeps all_capped (handle (query (\<lambda>d. by_end (filter c (subs d)))) (\<lambda>_. err e)
      (\<lambda>ss. if ss = [] then err e else consume_candidates E now r u amount ss))" for c e now
  proof (rule triple_handle [where Q = "\<lambda>ss d. all_capped d \<and> list_all capped ss" and F = all_capped])
    fix ss
    show "triple (\<lambda>d. all_capped d \<and> list_all capped ss) (if ss = [] then err e else consume_candidates E now r u amount ss)
        (\<lambda>_. all_capped) all_capped"
      using capped_candidates [OF True, of ss E now r u]
      by (cases "list_all capped ss") (auto simp: triple_def err_def)
  qed (auto intro!: triple_query triple_err simp: list)
  show ?thesis
    unfolding PreConsumeUserSubscription_def
    by (intro triple_if triple_err triple_chk [where Q = "\<lambda>_. all_capped"] keeps_timestamp triple_transaction [where F = all_capped])
      (auto split: option.split intro!: triple_query triple_if triple_err triple_chk [where Q = "\<lambda>_. all_capped"]
        triple_first triple_ret cands)
qed (auto simp: PreConsumeUserSubscription_def intro!: triple_if triple_err)

lemma capped_PostConsume: "keeps all_capped (PostConsumeUserSubscriptionDelta E i delta)"
  unfolding PostConsumeUserSubscriptionDelta_def Let_def
proof (intro triple_if triple_err triple_ret triple_transaction [where F = all_capped]
    triple_chk [where Q = "\<lambda>s d. all_capped d \<and> capped s"] triple_first)
  fix s :: user_subscription
  assume "\<not> (subAmountTotal s > 0 \<and> max 0 (i64 (subAmountUsed s + delta)) > subAmountTotal s)"
  then have "capped (s\<lparr>subAmountUsed := max 0 (i64 (subAmountUsed s + delta))\<rparr>)" by (auto simp: capped_def)
  then show "triple (\<lambda>d. all_capped d \<and> capped s) (save_sub E (s\<lparr>subAmountUsed := max 0 (i64 (subAmountUsed s + delta))\<rparr>))
      (\<lambda>_. all_capped) all_capped"
    by (rule triple_weaken [OF capped_save_sub]) auto
qed (auto simp: all_capped_def dest: row_list_all)

lemma capped_save_precon: "keeps all_capped (save_precon E r)"
  unfolding save_precon_def by (rule triple_exec) (auto simp: all_capped_def)

lemma capped_Refund: "keeps all_capped (RefundSubscriptionPreConsume E r)"
  unfolding RefundSubscriptionPreConsume_def
  by (intro triple_if triple_err triple_chk [where Q = "\<lambda>_. all_capped"] triple_exec triple_first capped_PostConsume
      triple_commit [where F = all_capped] capped_save_precon triple_ret) auto

lemma capped_reset_locked:
  "keeps all_capped (handle (first (\<lambda>d. find c (subs d))) (\<lambda>_. ret (0 :: int))
     (\<lambda>locked. chk (maybeResetUserSubscriptionWithPlanTx E locked p now) (\<lambda>_. ret 1)))"
proof (rule triple_handle [where Q = "\<lambda>s d. all_capped d \<and> capped s" and F = all_capped])
  fix s
  show "triple (\<lambda>d. all_capped d \<and> capped s) (chk (maybeResetUserSubscriptionWithPlanTx E s p now) (\<lambda>_. ret (1 :: int))) (\<lambda>_. all_capped) all_capped"
  proof (cases "capped s")
    case True
    have "keeps all_capped (chk (maybeResetUserSubscriptionWithPlanTx E s p now) (\<lambda>_. ret (1 :: int)))"
      by (rule triple_chk [OF capped_maybeReset [OF True]]) (auto intro: triple_ret)
    then show ?thesis by (rule triple_weaken) auto
  qed (simp add: triple_def)
qed (auto intro!: triple_first triple_ret simp: all_capped_def dest: find_list_all)

lemma capped_reset_one: "keeps all_capped (reset_one E now c)"
  unfolding reset_one_def
  by (rule triple_handle [where Q = "\<lambda>_. all_capped" and F = all_capped])
    (auto intro!: keeps_plan triple_ret triple_transaction [where F = all_capped] capped_reset_locked)

lemma capped_reset_each: "keeps all_capped (reset_each E now cs n)"
  by (induction cs arbitrary: n) (auto intro!: triple_ret triple_chk [where Q = "\<lambda>_. all_capped"] capped_reset_one)

lemma capped_ResetDue: "keeps all_capped (ResetDueSubscriptions E limit)"
  unfolding ResetDueSubscriptions_def Let_def
  by (intro triple_chk [where Q = "\<lambda>_. all_capped"] keeps_timestamp triple_query capped_reset_each) auto

lemma capped_expire_rows:
  "all_capped d \<Longrightarrow> all_capped (d\<lparr>subs := upd_where c (\<lambda>s. s\<lparr>subStatus := x, subUpdatedAt := y\<rparr>) (subs d)\<rparr>)"
  "all_capped d \<Longrightarrow> all_capped (d\<lparr>subs := upd_where c (\<lambda>s. s\<lparr>subStatus := x, subEndTime := z, subUpdatedAt := y\<rparr>) (subs d)\<rparr>)"
  by (auto simp: all_capped_def capped_def intro!: list_all_upd_where)

lemma capped_expire_user: "keeps all_capped (expire_user E now u)"
  unfolding expire_user_def Let_def
  by (intro triple_transaction [where F = all_capped] triple_chk [where Q = "\<lambda>_. all_capped"] triple_stmt keeps_other_upgrade
      triple_if triple_ret triple_handle [where Q = "\<lambda>_. all_capped" and F = all_capped] triple_query)
    (auto split: list.split simp: capped_expire_rows intro!: triple_ret triple_if
      triple_chk [where Q = "\<lambda>_. all_capped"] keeps_group capped_set_group)

lemma UpdateUserGroupCache_db [simp]: "db (UpdateUserGroupCache cfg i g w) = db w"
  by (simp add: UpdateUserGroupCache_def split: option.split)

lemma keeps_group_cache: "keeps P (modify (UpdateUserGroupCache cfg i g))"
  by (rule triple_modify) auto

lemma capped_expire_users: "keeps all_capped (expire_users E now us n)"
  by (induction us arbitrary: n) (auto intro!: triple_ret triple_chk [where Q = "\<lambda>_. all_capped"] triple_if
      keeps_group_cache capped_expire_user split: prod.split)

lemma capped_ExpireDue: "keeps all_capped (ExpireDueSubscriptions ord E limit)"
  unfolding ExpireDueSubscriptions_def Let_def
  by (intro triple_chk [where Q = "\<lambda>_. all_capped"] keeps_timestamp triple_query triple_if triple_ret capped_expire_users) auto

lemma capped_insert: "capped s \<Longrightarrow> keeps all_capped (insert_sub E s)"
  unfolding insert_sub_def Let_def by (rule triple_stmt) (auto simp: all_capped_def capped_def)

lemma capped_Create: "keeps all_capped (CreateUserSubscriptionFromPlanTx E u p src)"
  unfolding CreateUserSubscriptionFromPlanTx_def Let_def
  by (intro triple_if triple_err triple_chk [where Q = "\<lambda>_. all_capped"] triple_query triple_ret keeps_timestamp)
    (auto split: sum.split intro!: triple_err triple_chk [where Q = "\<lambda>_. all_capped"] triple_if triple_ret keeps_group
      capped_set_group capped_insert simp: capped_def)

lemma capped_upsert: "keeps all_capped (upsertSubscriptionTopUpTx E od)"
  unfolding upsertSubscriptionTopUpTx_def
  by (rule triple_handle [where Q = "\<lambda>_. all_capped" and F = all_capped])
    (auto intro!: triple_first triple_if triple_exec triple_err simp: all_capped_def)

lemma keeps_find_order: "keeps P (find_order t)"
  unfolding find_order_def
  by (rule triple_handle [where Q = "\<lambda>_. P" and F = P]) (auto intro!: triple_first triple_err triple_ret)

lemma capped_save_order: "keeps all_capped (save_order od)"
  unfolding save_order_def by (rule triple_exec) (auto simp: all_capped_def)

lemma capped_Complete: "keeps all_capped (CompleteSubscriptionOrder E t pl)"
  unfolding CompleteSubscriptionOrder_def
  by (intro triple_if triple_err triple_chk [where Q = "\<lambda>_. all_capped"] triple_transaction [where F = all_capped] keeps_find_order
      triple_ret keeps_plan capped_Create capped_upsert capped_save_order)
    (auto split: prod.split intro!: triple_if triple_ret keeps_group_cache)

lemma capped_ExpireOrder: "keeps all_capped (ExpireSubscriptionOrder E t)"
  unfolding ExpireSubscriptionOrder_def
  by (intro triple_if triple_err triple_transaction [where F = all_capped] triple_chk [where Q = "\<lambda>_. all_capped"] keeps_find_order
      triple_ret capped_save_order) auto

lemma capped_AdminBind: "keeps all_capped (AdminBindSubscription E u p)"
  unfolding AdminBindSubscription_def
  by (intro triple_if triple_err triple_chk [where Q = "\<lambda>_. all_capped"] triple_transaction [where F = all_capped] keeps_plan
      capped_Create triple_ret keeps_group_cache) auto

lemma keeps_after_downgrade: "keeps P (after_downgrade E x)"
  unfolding after_downgrade_def
  by (cases x) (auto intro!: triple_chk [where Q = "\<lambda>_. P"] triple_if triple_ret keeps_group_cache)

lemma capped_Invalidate: "keeps all_capped (AdminInvalidateUserSubscription E i)"
  unfolding AdminInvalidateUserSubscription_def
  by (intro triple_if triple_err triple_chk [where Q = "\<lambda>_. all_capped"] triple_transaction [where F = all_capped] triple_first
      triple_exec capped_downgrade triple_ret keeps_after_downgrade) (auto simp: capped_expire_rows)

lemma capped_Delete: "keeps all_capped (AdminDeleteUserSubscription E i)"
  unfolding AdminDeleteUserSubscription_def
  by (intro triple_if triple_err triple_chk [where Q = "\<lambda>_. all_capped"] triple_transaction [where F = all_capped] triple_first
      triple_exec capped_downgrade triple_ret keeps_after_downgrade) (auto simp: all_capped_def list_all_iff)

lemma capped_Cleanup: "keeps all_capped (CleanupSubscriptionPreConsumeRecords E n)"
  unfolding CleanupSubscriptionPreConsumeRecords_def Let_def
  by (intro triple_chk [where Q = "\<lambda>_. all_capped"] keeps_timestamp triple_stmt) (auto simp: all_capped_def)

section \<open>The resets\<close>

definition resets_ok :: "subscription_plan \<Rightarrow> bool" where
  "resets_ok p \<longleftrightarrow> NormalizeResetPeriod (planQuotaResetPeriod p) = ''custom'' \<longrightarrow>
     planQuotaResetCustomSeconds p \<le> 9223372036"

lemma midnight_bounds:
  assumes "0 \<le> base" "base \<le> 2 ^ 60" "k \<le> 32" "0 \<le> k"
  shows "in64 (midnight off (local_day (fixed_zone off) base + k))"
  using midnight_local_day [of off base] assms unfolding midnight_add in64_def by simp

lemma weekday_range: "1 \<le> (let wd = Weekday loc t in if wd = 0 then 7 else wd) \<and> (let wd = Weekday loc t in if wd = 0 then 7 else wd) \<le> 7"
  by (auto simp: Weekday_def Let_def)

text \<open>In a zone with a fixed offset the next reset is later than the base, by at most 32 days or the
  plan's own period.\<close>

lemma next_reset_after:
  assumes base: "0 \<le> base" "base \<le> 2 ^ 60" and ok: "resets_ok p"
  shows "calcNextResetTime (fixed_zone off) base p endT = 0 \<or> base < calcNextResetTime (fixed_zone off) base p endT"
proof -
  let ?z = "fixed_zone off" and ?n = "local_day (fixed_zone off) base"
  obtain y m d where c: "civil_of_days ?n = (y, m, d)" by (cases "civil_of_days ?n") auto
  have D: "Date ?z y m d 0 = midnight off ?n"
    using midnight_bounds [OF base, of 0 off] days_civil_days [OF c] by (simp add: Date_midnight)
  have A: "AddDate ?z (Date ?z y m d 0) 0 0 k = midnight off (?n + k)" if "0 \<le> k" "k \<le> 32" for k
    unfolding D using that midnight_bounds [OF base] by (intro AddDate_days [OF c]) auto
  have gt: "base < midnight off (?n + k)" if "1 \<le> k" for k
    using midnight_local_day [of off base] midnight_mono [of "?n + 1" "?n + k" off] that by simp
  define wd where "wd = (let wd = Weekday ?z base in if wd = 0 then 7 else wd)"
  have wd: "1 \<le> 8 - wd" "8 - wd \<le> 7" using weekday_range [of ?z base] by (simp_all add: wd_def)
  have first: "civil_of_days (days_of_civil y m 1) = (y, m, 1)" by (rule civil_first [OF c])
  let ?f = "days_of_civil y m 1" and ?nx = "days_of_civil y (m + 1) 1"
  have nx: "?n < ?nx" "?f \<le> ?n" "?nx \<le> ?n + 31" "?nx \<le> ?f + 31"
    using next_month_after [OF c] next_month_within [OF c] next_month_within [OF first] by simp_all
  have "in64 (midnight off ?f)" "in64 (midnight off ?nx)"
    using midnight_local_day [of off base] base nx midnight_mono [of ?f ?n off] midnight_mono [of ?nx "?n + 31" off] midnight_mono [of ?n ?nx off]
      midnight_add [of off ?n 31] midnight_add [of off ?n 1] midnight_mono [of "?nx" "?f + 31" off] midnight_add [of off ?f 31] by (auto simp: in64_def)
  then have M: "AddDate ?z (Date ?z y m 1 0) 0 1 0 = midnight off ?nx"
    using AddDate_month [OF first] by (simp add: Date_midnight)
  have mgt: "base < midnight off ?nx"
    using gt [of 1] midnight_mono [of "?n + 1" ?nx off] nx by simp
  have cust: "base < Add base (i64 (planQuotaResetCustomSeconds p * Second))"
    if "NormalizeResetPeriod (planQuotaResetPeriod p) = ''custom''" "0 < planQuotaResetCustomSeconds p"
  proof -
    have "planQuotaResetCustomSeconds p \<le> 9223372036" using ok that by (simp add: resets_ok_def)
    then show ?thesis using that base by (simp add: Add_def Second_def in64_def)
  qed
  show ?thesis
    unfolding calcNextResetTime_def Let_def c
    using A [of 1] gt [of 1] A [of "8 - wd"] gt [of "8 - wd"] wd M mgt cust
    by (auto simp: wd_def Let_def)
qed

text \<open>The loop ends; it leaves the last reset time not after \<open>now\<close> (or the base it started from) and
  the next one after \<open>now\<close>, or none.\<close>

lemma reset_loop_ends:
  assumes "resets_ok p" "now \<le> 2 ^ 60"
  shows "0 \<le> base \<Longrightarrow> base \<le> 2 ^ 60 \<Longrightarrow> next = calcNextResetTime (fixed_zone off) base p endT \<Longrightarrow>
    \<exists>base' next'. reset_loop (fixed_zone off) p endT now base next adv = Some (base', next', adv \<or> 0 < next \<and> next \<le> now) \<and>
      \<not> (0 < next' \<and> next' \<le> now) \<and> next' = calcNextResetTime (fixed_zone off) base' p endT \<and>
      base \<le> base' \<and> base' \<le> max base now"
proof (induction "nat (now - base)" arbitrary: base "next" adv rule: less_induct)
  case less
  show ?case
  proof (cases "next > 0 \<and> next \<le> now")
    case False
    then show ?thesis using less.prems by (subst reset_loop.simps) auto
  next
    case True
    then have gt: "base < next" using next_reset_after [OF less.prems(1,2) assms(1), of off endT] less.prems(3) by auto
    with True have "nat (now - next) < nat (now - base)" "0 \<le> next" "next \<le> 2 ^ 60" using assms(2) by auto
    from less.hyps [OF this refl, of True] obtain b n where
      "reset_loop (fixed_zone off) p endT now next (calcNextResetTime (fixed_zone off) next p endT) True = Some (b, n, True)"
      "\<not> (0 < n \<and> n \<le> now)" "n = calcNextResetTime (fixed_zone off) b p endT" "next \<le> b" "b \<le> max next now"
      by auto
    with True gt show ?thesis by (subst reset_loop.simps) auto
  qed
qed

text \<open>A custom period of \<open>2 ^ 55\<close> seconds is a multiple of \<open>2 ^ 64\<close> nanoseconds: the duration is 0, the
  next reset is the base itself and the loop never ends.\<close>

lemma reset_loop_stuck:
  assumes "NormalizeResetPeriod (planQuotaResetPeriod p) = ''custom''" "planQuotaResetCustomSeconds p = 2 ^ 55"
    and "0 < base" "base \<le> now" "base < 2 ^ 63" "endT \<le> 0 \<or> base \<le> endT"
  shows "reset_loop loc p endT now base base adv = None"
proof -
  have nxt: "calcNextResetTime loc base p endT = base"
    using assms by (auto simp: calcNextResetTime_def Let_def Add_def Second_def i64_def in64_def split: prod.split)
  define Q :: "zone \<Rightarrow> subscription_plan \<Rightarrow> int \<Rightarrow> int \<Rightarrow> int \<Rightarrow> int \<Rightarrow> bool \<Rightarrow> int \<times> int \<times> bool \<Rightarrow> bool"
    where "Q = (\<lambda>l q e t b n a r. \<not> (l = loc \<and> q = p \<and> e = endT \<and> t = now \<and> b = base \<and> n = base))"
  have "Q loc p endT now base base adv r" if "reset_loop loc p endT now base base adv = Some r" for r
    by (rule reset_loop.raw_induct [of Q, OF _ that]) (use assms nxt in \<open>auto simp: Q_def split: if_splits\<close>)
  then show ?thesis by (cases "reset_loop loc p endT now base base adv") (auto simp: Q_def)
qed

section \<open>One charge per request\<close>

lemma triple_False: "triple (\<lambda>_. False) m Q E"
  by (simp add: triple_def)

definition charged :: "string \<Rightarrow> int \<Rightarrow> int \<Rightarrow> pre_consume_result \<Rightarrow> db \<Rightarrow> bool" where
  "charged r u amount x d \<longleftrightarrow>
     (\<exists>s. row subId (prUserSubscriptionId x) (subs d) = Some s \<and> subUserId s = u \<and>
        subAmountUsed s = prAmountUsedAfter x \<and> subAmountTotal s = prAmountTotal x) \<and>
     prPreConsumed x = amount \<and> prAmountUsedAfter x = i64 (prAmountUsedBefore x + amount) \<and>
     (\<exists>rec. row pcRequestId r (precons d) = Some rec \<and> pcStatus rec = ''consumed'' \<and> pcPreConsumed rec = amount \<and>
        pcUserSubscriptionId rec = prUserSubscriptionId x)"

definition uncharged :: "string \<Rightarrow> db \<Rightarrow> bool" where
  "uncharged r d \<longleftrightarrow> row pcRequestId r (precons d) = None"

lemma uncharged_save_sub: "triple (uncharged r) (save_sub E s) (\<lambda>_ d. uncharged r d \<and> row subId (subId s) (subs d) = Some (s\<lparr>subUpdatedAt := appNow E\<rparr>)) (\<lambda>_. True)"
  unfolding save_sub_def by (rule triple_exec) (auto simp: uncharged_def row_save_row)

lemma uncharged_maybeReset:
  "triple (uncharged r) (maybeResetUserSubscriptionWithPlanTx E s p now)
     (\<lambda>s' d. uncharged r d \<and> subUserId s' = subUserId s) (\<lambda>_. True)"
  by (rule triple_maybeReset; (intro triple_chk [OF uncharged_save_sub] triple_ret triple_err)?) simp_all

definition recorded :: "string \<Rightarrow> int \<Rightarrow> int \<Rightarrow> db \<Rightarrow> bool" where
  "recorded r sid amount d \<longleftrightarrow>
     (\<exists>rec. row pcRequestId r (precons d) = Some rec \<and> pcStatus rec = ''consumed'' \<and> pcPreConsumed rec = amount \<and>
        pcUserSubscriptionId rec = sid)"

lemma create_precon_records:
  "triple (uncharged r) (create_precon E r u sid amount) (\<lambda>_. recorded r sid amount) (uncharged r)"
  unfolding create_precon_def
  by (rule triple_chk [where Q = "\<lambda>ok d. ok \<and> recorded r sid amount d"])
    (auto simp: uncharged_def recorded_def row_append intro!: triple_stmt triple_if triple_ret triple_err)

lemma recorded_save_sub: "triple (recorded r i a) (save_sub E s)
    (\<lambda>_ d. recorded r i a d \<and> row subId (subId s) (subs d) = Some (s\<lparr>subUpdatedAt := appNow E\<rparr>)) (\<lambda>_. True)"
  unfolding save_sub_def by (rule triple_exec) (auto simp: recorded_def row_save_row)

lemma consume_candidates_charges:
  "list_all (\<lambda>c. subUserId c = u) cs \<Longrightarrow>
   triple (uncharged r) (consume_candidates E now r u amount cs) (charged r u amount) (\<lambda>_. True)"
proof (induction cs)
  case Nil
  then show ?case by (auto intro: triple_err)
next
  case (Cons c cs)
  show ?case
    unfolding consume_candidates.simps Let_def
  proof (rule triple_chk [where Q = "\<lambda>_. uncharged r"], rule triple_weaken [OF keeps_plan], assumption, assumption, rule TrueI, rule triple_chk, rule uncharged_maybeReset,
      rule triple_if)
    fix p and s :: user_subscription
    assume "0 < subAmountTotal s \<and> i64 (subAmountTotal s - subAmountUsed s) < amount"
    show "triple (\<lambda>d. uncharged r d \<and> subUserId s = subUserId c) (consume_candidates E now r u amount cs) (charged r u amount) (\<lambda>_. True)"
      using Cons by (intro triple_weaken [OF Cons.IH]) auto
  next
    fix p and s :: user_subscription
    assume "\<not> (0 < subAmountTotal s \<and> i64 (subAmountTotal s - subAmountUsed s) < amount)"
    let ?s = "s\<lparr>subAmountUsed := i64 (subAmountUsed s + amount)\<rparr>"
    let ?x = "\<lparr>prUserSubscriptionId = subId s, prPreConsumed = amount, prAmountTotal = subAmountTotal s,
                prAmountUsedBefore = subAmountUsed s, prAmountUsedAfter = subAmountUsed ?s\<rparr>"
    have fin: "triple (recorded r (subId s) amount) (chk (save_sub E ?s) (\<lambda>_. ret ?x)) (charged r u amount) (\<lambda>_. True)" if "subUserId s = u"
      by (rule triple_chk [OF recorded_save_sub]) (auto intro!: triple_ret simp: charged_def recorded_def that)
    have dup: "triple (uncharged r) (handle (first (\<lambda>d. row pcRequestId r (precons d))) (\<lambda>_. err e) k) (charged r u amount) (\<lambda>_. True)" for e k
      by (rule triple_handle [where Q = "\<lambda>_ _. False" and F = "\<lambda>_. True"]) (auto intro!: triple_first triple_err triple_False simp: uncharged_def)
    show "triple (\<lambda>d. uncharged r d \<and> subUserId s = subUserId c) (handle (create_precon E r u (subId s) amount)
       (\<lambda>e. handle (first (\<lambda>d. row pcRequestId r (precons d))) (\<lambda>_. err e)
         (\<lambda>dup. if pcStatus dup = ''refunded'' then err (Msg ''subscription pre-consume already refunded'')
             else ret \<lparr>prUserSubscriptionId = subId s, prPreConsumed = pcPreConsumed dup,
                             prAmountTotal = subAmountTotal s, prAmountUsedBefore = subAmountUsed s,
                             prAmountUsedAfter = subAmountUsed s\<rparr>))
       (\<lambda>_. chk (save_sub E ?s) (\<lambda>_. ret ?x))) (charged r u amount) (\<lambda>_. True)"
    proof (cases "subUserId s = subUserId c")
      case True
      then have "subUserId s = u" using Cons.prems by simp
      then show ?thesis
        by (intro triple_weaken [OF triple_handle [OF create_precon_records dup fin]]) auto
    qed (simp add: triple_def)
  qed
qed

lemma PreConsume_charges:
  "triple (\<lambda>d. d = d0 \<and> uncharged r d) (PreConsumeUserSubscription E r u amount) (charged r u amount) (\<lambda>d. d = d0)"
proof -
  let ?P = "\<lambda>d. d = d0 \<and> uncharged r d"
  have cands: "triple ?P (handle (query (\<lambda>d. by_end (filter (\<lambda>s. subUserId s = u \<and> c s) (subs d)))) (\<lambda>_. err e)
      (\<lambda>ss. if ss = [] then err e else consume_candidates E now r u amount ss)) (charged r u amount) (\<lambda>_. True)" for c e now
  proof (rule triple_handle [where Q = "\<lambda>ss d. ?P d \<and> list_all (\<lambda>s. subUserId s = u) ss" and F = "\<lambda>_. True"])
    fix ss
    show "triple (\<lambda>d. ?P d \<and> list_all (\<lambda>s. subUserId s = u) ss) (if ss = [] then err e else consume_candidates E now r u amount ss)
        (charged r u amount) (\<lambda>_. True)"
    proof (cases "list_all (\<lambda>s. subUserId s = u) ss")
      case True
      show ?thesis
        by (rule triple_if, rule triple_err, simp, rule triple_weaken [OF consume_candidates_charges [OF True]]) auto
    qed (simp add: triple_def)
  qed (auto intro!: triple_query triple_err simp: by_end_def list_all_iff)
  show ?thesis
    unfolding PreConsumeUserSubscription_def
    apply (intro triple_if triple_err)
    apply simp_all
    apply (rule triple_chk [where Q = "\<lambda>_. ?P"], rule triple_weaken [OF keeps_timestamp], assumption, assumption, simp)
    apply (rule triple_transaction [where F = "\<lambda>_. True"])
    apply (rule triple_chk [where Q = "\<lambda>x d. ?P d \<and> x = None"])
    apply (rule triple_query; simp add: uncharged_def)
    subgoal for now x
    proof (cases x)
      case None
      show ?thesis unfolding None option.case by (rule triple_weaken [OF cands]) auto
    qed (rule triple_weaken [OF triple_False], auto)
    apply simp
    done
qed

lemma PreConsume_again:
  assumes "row pcRequestId r (precons d0) = Some rec"
  shows "triple (\<lambda>d. d = d0) (PreConsumeUserSubscription E r u amount)
    (\<lambda>x d. d = d0 \<and> prPreConsumed x = pcPreConsumed rec \<and> prUserSubscriptionId x = pcUserSubscriptionId rec \<and> pcStatus rec \<noteq> ''refunded'')
    (\<lambda>d. d = d0)"
proof -
  let ?P = "\<lambda>d. d = d0"
  show ?thesis
    unfolding PreConsumeUserSubscription_def
    apply (intro triple_if triple_err)
    apply simp_all
    apply (rule triple_chk [where Q = "\<lambda>_. ?P"], rule keeps_timestamp)
    apply (rule triple_transaction [where F = ?P])
    apply (rule triple_chk [where Q = "\<lambda>x d. ?P d \<and> x = Some rec"])
    apply (rule triple_query; simp add: assms)
    subgoal for now x
    proof (cases "x = Some rec")
      case True
      then show ?thesis
        by (auto intro!: triple_if triple_err triple_chk [where Q = "\<lambda>s d. d = d0 \<and> subId s = pcUserSubscriptionId rec"]
            triple_first triple_ret dest: row_SomeD)
    qed (auto intro: triple_weaken [OF triple_False])
    apply simp
    done
qed

section \<open>An order is fulfilled once\<close>

lemma row_save_other:
  "row k2 t xs = Some x \<Longrightarrow> k2 r = t \<Longrightarrow> key r = key x \<Longrightarrow> row k2 t (save_row key r xs) = Some r"
proof -
  assume a: "row k2 t xs = Some x" "k2 r = t" "key r = key x"
  then have "\<exists>y\<in>set xs. key y = key r" by (auto dest: row_SomeD)
  moreover have "row k2 t (map (\<lambda>y. if key y = key r then r else y) xs) = Some r"
    using a by (induction xs) (auto split: if_splits)
  ultimately show ?thesis by (simp add: save_row_def)
qed

definition so :: "user_subscription list \<Rightarrow> subscription_order list \<Rightarrow> db \<Rightarrow> bool" where
  "so ss os d \<longleftrightarrow> subs d = ss \<and> orders d = os"

definition fresh_sub :: "int \<Rightarrow> user_subscription \<Rightarrow> bool" where
  "fresh_sub u s \<longleftrightarrow> subUserId s = u \<and> subAmountUsed s = 0 \<and> subStatus s = ''active''"

lemma fresh_subI: "subUserId s = u \<Longrightarrow> subAmountUsed s = 0 \<Longrightarrow> subStatus s = ''active'' \<Longrightarrow> fresh_sub u s"
  by (simp add: fresh_sub_def)

lemma so_set_group: "keeps (so ss os) (set_group u g)"
  unfolding set_group_def by (rule triple_exec) (auto simp: so_def)

lemma so_insert: "fresh_sub u s \<Longrightarrow>
  triple (so ss os) (insert_sub E s) (\<lambda>s' d. so (ss @ [s']) os d \<and> fresh_sub u s') (so ss os)"
  unfolding insert_sub_def Let_def by (rule triple_stmt) (auto simp: so_def fresh_sub_def)

lemma so_Create:
  "triple (so ss os) (CreateUserSubscriptionFromPlanTx E u p src) (\<lambda>s d. so (ss @ [s]) os d \<and> fresh_sub u s) (so ss os)"
  unfolding CreateUserSubscriptionFromPlanTx_def Let_def
  by (intro triple_if triple_err triple_chk [where Q = "\<lambda>_. so ss os"] triple_query triple_ret keeps_timestamp)
    (auto split: sum.split intro!: triple_err triple_chk [where Q = "\<lambda>_. so ss os"] triple_if triple_ret keeps_group
      so_set_group so_insert fresh_subI)

lemma so_upsert: "keeps (so ss os) (upsertSubscriptionTopUpTx E od)"
  unfolding upsertSubscriptionTopUpTx_def
  by (rule triple_handle [where Q = "\<lambda>_. so ss os" and F = "so ss os"])
    (auto intro!: triple_first triple_if triple_exec triple_err simp: so_def)

lemma so_save_order: "triple (so ss os) (save_order od) (\<lambda>_. so ss (save_row ordId od os)) (so ss os)"
  unfolding save_order_def by (rule triple_exec) (auto simp: so_def)

lemma triple_find_order:
  "triple P (find_order t) (\<lambda>od d. P d \<and> row ordTradeNo t (orders d) = Some od) P"
  unfolding find_order_def
  by (rule triple_handle [where Q = "\<lambda>od d. P d \<and> row ordTradeNo t (orders d) = Some od" and F = P])
    (auto intro!: triple_first triple_err triple_ret)

definition fulfilled :: "string \<Rightarrow> int \<Rightarrow> db \<Rightarrow> db \<Rightarrow> bool" where
  "fulfilled t u d0 d \<longleftrightarrow> (\<exists>s. subs d = subs d0 @ [s] \<and> fresh_sub u s) \<and>
     (\<exists>od. row ordTradeNo t (orders d) = Some od \<and> ordStatus od = ''success'')"

lemma triple_Pconst: "(b \<Longrightarrow> triple P m Q E) \<Longrightarrow> triple (\<lambda>d. P d \<and> b) m Q E"
  by (cases b) (simp_all add: triple_False)

lemma Complete_pending:
  assumes "row ordTradeNo t (orders d0) = Some od" "ordStatus od = ''pending''"
  shows "triple (\<lambda>d. d = d0) (CompleteSubscriptionOrder E t pl) (\<lambda>_. fulfilled t (ordUserId od) d0) (\<lambda>d. d = d0)"
proof -
  have t: "ordTradeNo od = t" using assms(1) by (auto dest: row_SomeD)
  let ?od = "\<lambda>od. od\<lparr>ordStatus := ''success'', ordCompleteTime := appNow E,
       ordProviderPayload := (if pl \<noteq> '''' then pl else ordProviderPayload od)\<rparr>"
  have fin: "triple (so (subs d0 @ [s]) (orders d0)) (chk (save_order (?od od)) (\<lambda>_. ret x)) (\<lambda>_. fulfilled t (ordUserId od) d0) (\<lambda>_. True)"
    if "fresh_sub (ordUserId od) s" for s x
    using that row_save_other [OF assms(1), of "?od od" ordId] t
    by (intro triple_chk [OF triple_weaken [OF so_save_order]] triple_ret) (auto simp: fulfilled_def so_def)
  have body: "triple (\<lambda>d. d = d0) (chk (getSubscriptionPlanByIdTx (ordPlanId od)) (\<lambda>p.
             chk (CreateUserSubscriptionFromPlanTx E (ordUserId od) p ''order'') (\<lambda>_.
             chk (upsertSubscriptionTopUpTx E od) (\<lambda>_. chk (save_order (?od od)) (\<lambda>_. ret (x p))))))
      (\<lambda>_. fulfilled t (ordUserId od) d0) (\<lambda>_. True)" for x
    apply (rule triple_chk [where Q = "\<lambda>_. so (subs d0) (orders d0)"], rule triple_weaken [OF keeps_plan [of "\<lambda>d. d = d0"]])
    apply (simp, simp add: so_def, simp)
    apply (rule triple_chk [OF triple_weaken [OF so_Create [of "subs d0" "orders d0"]]], simp add: so_def, assumption, simp)
    subgoal for p s
      by (rule triple_Pconst, rule triple_chk [OF triple_weaken [OF so_upsert [of "subs d0 @ [s]" "orders d0"]]],
          assumption, assumption, simp, rule fin, assumption)
    done
  show ?thesis
    unfolding CompleteSubscriptionOrder_def
  proof (intro triple_if triple_err, simp, rule triple_chk, rule triple_transaction [where F = "\<lambda>_. True" and Q = "\<lambda>_. fulfilled t (ordUserId od) d0"])
    show "triple (\<lambda>d. d = d0) (chk (find_order t) (\<lambda>od.
        if ordStatus od = ''success'' then ret (0, '''')
        else if ordStatus od \<noteq> ''pending'' then err (Msg ''subscription order status invalid'')
        else chk (getSubscriptionPlanByIdTx (ordPlanId od)) (\<lambda>p.
             chk (CreateUserSubscriptionFromPlanTx E (ordUserId od) p ''order'') (\<lambda>_.
             chk (upsertSubscriptionTopUpTx E od) (\<lambda>_. chk (save_order (?od od)) (\<lambda>_. ret (ordUserId od, TrimSpace (planUpgradeGroup p))))))))
      (\<lambda>_. fulfilled t (ordUserId od) d0) (\<lambda>_. True)"
    proof (rule triple_chk [OF triple_weaken [OF triple_find_order]], assumption, assumption, simp)
      fix od'
      show "triple (\<lambda>d. d = d0 \<and> row ordTradeNo t (orders d) = Some od') (if ordStatus od' = ''success'' then ret (0, '''')
        else if ordStatus od' \<noteq> ''pending'' then err (Msg ''subscription order status invalid'')
        else chk (getSubscriptionPlanByIdTx (ordPlanId od')) (\<lambda>p.
             chk (CreateUserSubscriptionFromPlanTx E (ordUserId od') p ''order'') (\<lambda>_.
             chk (upsertSubscriptionTopUpTx E od') (\<lambda>_. chk (save_order (?od od')) (\<lambda>_. ret (ordUserId od', TrimSpace (planUpgradeGroup p)))))))
        (\<lambda>_. fulfilled t (ordUserId od) d0) (\<lambda>_. True)"
      proof (cases "od' = od")
        case True
        have ne: "ordStatus od \<noteq> ''success''" "\<not> ordStatus od \<noteq> ''pending''" using assms(2) by simp_all
        show ?thesis
          unfolding True if_not_P [OF ne(1)] if_not_P [OF ne(2)] by (rule triple_weaken [OF body]) auto
      qed (rule triple_weaken [OF triple_False], use assms in auto)
    qed
  qed (auto split: prod.split intro!: triple_if triple_ret triple_modify)
qed

lemma Complete_done:
  assumes "row ordTradeNo t (orders d0) = Some od" "ordStatus od = ''success''"
  shows "keeps (\<lambda>d. d = d0) (CompleteSubscriptionOrder E t pl)"
  unfolding CompleteSubscriptionOrder_def
proof (intro triple_if triple_err, simp, rule triple_chk [where Q = "\<lambda>_ d. d = d0"], rule triple_transaction [where F = "\<lambda>_. True"])
  let ?od = "\<lambda>od. od\<lparr>ordStatus := ''success'', ordCompleteTime := appNow E,
       ordProviderPayload := (if pl \<noteq> '''' then pl else ordProviderPayload od)\<rparr>"
  show "triple (\<lambda>d. d = d0) (chk (find_order t) (\<lambda>od.
        if ordStatus od = ''success'' then ret (0, '''')
        else if ordStatus od \<noteq> ''pending'' then err (Msg ''subscription order status invalid'')
        else chk (getSubscriptionPlanByIdTx (ordPlanId od)) (\<lambda>p.
             chk (CreateUserSubscriptionFromPlanTx E (ordUserId od) p ''order'') (\<lambda>_.
             chk (upsertSubscriptionTopUpTx E od) (\<lambda>_. chk (save_order (?od od)) (\<lambda>_. ret (ordUserId od, TrimSpace (planUpgradeGroup p))))))))
      (\<lambda>_ d. d = d0) (\<lambda>_. True)"
  proof (rule triple_chk [OF triple_weaken [OF triple_find_order]], assumption, assumption, simp)
    fix od'
    show "triple (\<lambda>d. d = d0 \<and> row ordTradeNo t (orders d) = Some od') (if ordStatus od' = ''success'' then ret (0, '''')
        else if ordStatus od' \<noteq> ''pending'' then err (Msg ''subscription order status invalid'')
        else chk (getSubscriptionPlanByIdTx (ordPlanId od')) (\<lambda>p.
             chk (CreateUserSubscriptionFromPlanTx E (ordUserId od') p ''order'') (\<lambda>_.
             chk (upsertSubscriptionTopUpTx E od') (\<lambda>_. chk (save_order (?od od')) (\<lambda>_. ret (ordUserId od', TrimSpace (planUpgradeGroup p)))))))
        (\<lambda>_ d. d = d0) (\<lambda>_. True)"
    proof (cases "od' = od")
      case True
      show ?thesis unfolding True if_P [OF assms(2)] by (rule triple_ret) simp
    qed (rule triple_weaken [OF triple_False], use assms in auto)
  qed
qed (auto split: prod.split intro!: triple_if triple_ret triple_modify)

section \<open>Refunds\<close>

lemma stmt_None: "faults w = None # fs \<Longrightarrow> stmt f w = (Inr (fst (f (db w))), w\<lparr>db := snd (f (db w)), faults := fs\<rparr>)"
  by (simp add: stmt_def split: prod.split)

lemma stmt_Some: "faults w = Some t # fs \<Longrightarrow> stmt f w = (Inl (DriverErr t), w\<lparr>faults := fs\<rparr>)"
  by (simp add: stmt_def)

lemmas run_defs = transaction_def commit_def chk_def handle_def ret_def err_def first_def query_def exec_def gets_def modify_def Let_def

definition with_used :: "env \<Rightarrow> user_subscription \<Rightarrow> int \<Rightarrow> db \<Rightarrow> db" where
  "with_used E s n d = d\<lparr>subs := save_row subId (s\<lparr>subAmountUsed := n, subUpdatedAt := appNow E\<rparr>) (subs d)\<rparr>"

lemma PostConsume_ok:
  assumes "faults w = []" "0 < i" "delta \<noteq> 0" "row subId i (subs (db w)) = Some s"
    and "\<not> (subAmountTotal s > 0 \<and> max 0 (i64 (subAmountUsed s + delta)) > subAmountTotal s)"
  shows "PostConsumeUserSubscriptionDelta E i delta w = (Inr (), w\<lparr>db := with_used E s (max 0 (i64 (subAmountUsed s + delta))) (db w)\<rparr>)"
  using assms by (simp add: PostConsumeUserSubscriptionDelta_def run_defs save_sub_def with_used_def)

lemma PostConsume_sched:
  assumes "faults w = None # None # None # None # fs" "0 < i" "delta \<noteq> 0" "row subId i (subs (db w)) = Some s"
    and "\<not> (subAmountTotal s > 0 \<and> max 0 (i64 (subAmountUsed s + delta)) > subAmountTotal s)"
  shows "PostConsumeUserSubscriptionDelta E i delta w =
    (Inr (), w\<lparr>db := with_used E s (max 0 (i64 (subAmountUsed s + delta))) (db w), faults := fs\<rparr>)"
  using assms by (simp add: PostConsumeUserSubscriptionDelta_def run_defs save_sub_def with_used_def stmt_None)

lemma Refund_ok:
  assumes "faults w = []" "TrimSpace r \<noteq> ''''" "row pcRequestId r (precons (db w)) = Some rec" "pcStatus rec \<noteq> ''refunded''"
    and "0 < pcPreConsumed rec" "pcPreConsumed rec < 2 ^ 63" "0 < pcUserSubscriptionId rec"
    and "row subId (pcUserSubscriptionId rec) (subs (db w)) = Some s"
    and "0 \<le> subAmountUsed s" "subAmountUsed s < 2 ^ 63" "capped s" "subAmountTotal s < 2 ^ 63"
  shows "RefundSubscriptionPreConsume E r w = (Inr (), w\<lparr>db := (with_used E s (max 0 (subAmountUsed s - pcPreConsumed rec)) (db w))
     \<lparr>precons := save_row pcId (rec\<lparr>pcStatus := ''refunded'', pcUpdatedAt := appNow E\<rparr>) (precons (db w))\<rparr>\<rparr>)"
proof -
  have i: "i64 (- pcPreConsumed rec) = - pcPreConsumed rec" "i64 (subAmountUsed s - pcPreConsumed rec) = subAmountUsed s - pcPreConsumed rec"
    using assms by (auto simp: in64_def)
  have "\<not> (subAmountTotal s > 0 \<and> max 0 (i64 (subAmountUsed s + - pcPreConsumed rec)) > subAmountTotal s)"
    using assms by (auto simp: i capped_def)
  note post = PostConsume_ok [OF assms(1,7) _ assms(8) this]
  show ?thesis
    using assms(1-6) post [of E]
    by (simp add: RefundSubscriptionPreConsume_def run_defs save_precon_def i with_used_def)
qed

lemma Refund_again:
  assumes "row pcRequestId r (precons d0) = Some rec" "pcStatus rec = ''refunded''"
  shows "keeps (\<lambda>d. d = d0) (RefundSubscriptionPreConsume E r)"
proof -
  have inner: "keeps (\<lambda>d. d = d0) (chk (first (\<lambda>d. row pcRequestId r (precons d))) (\<lambda>r.
      if pcStatus r = ''refunded'' then commit (ret ()) else k r))" for k
  proof (rule triple_chk [where Q = "\<lambda>x d. d = d0 \<and> x = rec"])
    fix x
    show "triple (\<lambda>d. d = d0 \<and> x = rec) (if pcStatus x = ''refunded'' then commit (ret ()) else k x) (\<lambda>_ d. d = d0) (\<lambda>d. d = d0)"
      using assms(2) by (intro triple_Pconst) (simp add: triple_commit [where F = "\<lambda>d. d = d0"] triple_ret)
  qed (rule triple_first; use assms in auto)
  show ?thesis
    unfolding RefundSubscriptionPreConsume_def
    by (rule triple_if, rule triple_err, assumption, rule triple_chk [where Q = "\<lambda>_ d. d = d0"], rule triple_exec, simp, assumption, rule inner)
qed

section \<open>The subscriptions as a state machine\<close>

text \<open>Every operation that changes subscriptions, with any arguments, at any time, with any
  statements failing.\<close>

inductive sub_step :: "world \<Rightarrow> world \<Rightarrow> bool" where
  pre_consume: "sub_step w (snd (PreConsumeUserSubscription E r u a w))"
| post_consume: "sub_step w (snd (PostConsumeUserSubscriptionDelta E i delta w))"
| refund: "sub_step w (snd (RefundSubscriptionPreConsume E r w))"
| reset: "sub_step w (snd (ResetDueSubscriptions E limit w))"
| expire: "sub_step w (snd (ExpireDueSubscriptions ord E limit w))"
| complete: "sub_step w (snd (CompleteSubscriptionOrder E t pl w))"
| expire_order: "sub_step w (snd (ExpireSubscriptionOrder E t w))"
| bind: "sub_step w (snd (AdminBindSubscription E u p w))"
| invalidate: "sub_step w (snd (AdminInvalidateUserSubscription E i w))"
| delete: "sub_step w (snd (AdminDeleteUserSubscription E i w))"
| cleanup: "sub_step w (snd (CleanupSubscriptionPreConsumeRecords E n w))"
| schedule: "sub_step w (w\<lparr>faults := fs\<rparr>)"

inductive_cases sub_stepE: "sub_step w w'"

lemma sub_step_capped: "sub_step w w' \<Longrightarrow> all_capped (db w) \<Longrightarrow> all_capped (db w')"
  by (erule sub_stepE) (auto intro: triple_keeps capped_PreConsume capped_PostConsume capped_Refund capped_ResetDue
      capped_ExpireDue capped_Complete capped_ExpireOrder capped_AdminBind capped_Invalidate capped_Delete capped_Cleanup)

section \<open>Properties\<close>

text \<open>C9. No sequence of subscription operations, whatever their arguments and times and whichever
  database statements fail in between, ever takes a subscription with a quota above its total or
  below zero.\<close>

theorem subscriptions_never_overdrawn:
  assumes "sub_step\<^sup>*\<^sup>* w w'" "list_all capped (subs (db w))"
  shows "list_all capped (subs (db w'))"
  using assms
proof (induction rule: rtranclp_induct)
  case (step y z)
  then show ?case using sub_step_capped [of y z] by (simp add: all_capped_def)
qed

definition ex_sub :: "int \<Rightarrow> int \<Rightarrow> int \<Rightarrow> int \<Rightarrow> user_subscription" where
  "ex_sub i u tot used = \<lparr>subId = i, subUserId = u, subPlanId = 1, subAmountTotal = tot, subAmountUsed = used,
     subStartTime = 1000, subEndTime = 0, subStatus = ''active'', subSource = ''order'', subLastResetTime = 0,
     subNextResetTime = 0, subUpgradeGroup = '''', subPrevUserGroup = '''', subCreatedAt = 0, subUpdatedAt = 0\<rparr>"

definition ex_env :: env where
  "ex_env = \<lparr>econf = ex_conf False False, dbNow = 5000, appNow = 5000, tloc = fixed_zone 0\<rparr>"

theorem subscriptions_never_overdrawn_witness:
  "list_all capped (subs (db (snd (PostConsumeUserSubscriptionDelta ex_env 7 50
     (ex_world ((ex_db [] [])\<lparr>subs := [ex_sub 7 1 100 60]\<rparr>))))))"
  by (rule subscriptions_never_overdrawn [of "ex_world ((ex_db [] [])\<lparr>subs := [ex_sub 7 1 100 60]\<rparr>)"])
    (simp_all add: ex_defs ex_sub_def capped_def r_into_rtranclp post_consume)


definition ex_plan :: "string \<Rightarrow> int \<Rightarrow> int \<Rightarrow> subscription_plan" where
  "ex_plan period secs tot = \<lparr>planId = 1, planTitle = ''p'', planPriceAmount = 1, planDurationUnit = ''hour'', planDurationValue = 1,
     planCustomSeconds = 0, planEnabled = True, planMaxPurchasePerUser = 0, planUpgradeGroup = '''', planTotalAmount = tot,
     planQuotaResetPeriod = period, planQuotaResetCustomSeconds = secs\<rparr>"

lemma trim_literals [simp]:
  "TrimSpace ''custom'' = ''custom''" "TrimSpace ''never'' = ''never''" "TrimSpace ''r'' = ''r''" "TrimSpace [] = []"
  by (simp_all add: TrimSpace_printable printable_def)



definition ex_sub_world :: world where
  "ex_sub_world = ex_world ((ex_db [ex_user 1 0] [])\<lparr>plans := [ex_plan ''never'' 0 100],
     subs := [(ex_sub 7 1 100 60)\<lparr>subEndTime := 9000\<rparr>]\<rparr>)"

lemma ex_preconsume: "\<exists>x w1. PreConsumeUserSubscription ex_env ''r'' 1 40 ex_sub_world = (Inr x, w1) \<and> prAmountUsedAfter x = 100"
  by (simp add: PreConsumeUserSubscription_def run_defs ex_sub_world_def ex_world_def ex_db_def ex_sub_def ex_plan_def ex_env_def
      GetDBTimestamp_def by_end_def getSubscriptionPlanByIdTx_def maybeResetUserSubscriptionWithPlanTx_def NormalizeResetPeriod_def
      create_precon_def save_sub_def in64_def)


text \<open>C19. A refund gives back exactly what the request was charged: when no statement fails it takes the
  recorded amount off the subscription's used amount (not below zero) and marks the record, after
  which further refunds of that request, whatever fails, change nothing.\<close>

theorem RefundSubscriptionPreConsume_undoes:
  assumes "faults w = []" "TrimSpace r \<noteq> ''''" "row pcRequestId r (precons (db w)) = Some rec" "pcStatus rec = ''consumed''"
    and "0 < pcPreConsumed rec" "pcPreConsumed rec < 2 ^ 63" "0 < pcUserSubscriptionId rec"
    and "row subId (pcUserSubscriptionId rec) (subs (db w)) = Some s"
    and "0 \<le> subAmountUsed s" "subAmountUsed s < 2 ^ 63" "capped s" "subAmountTotal s < 2 ^ 63"
  shows "\<exists>w1. RefundSubscriptionPreConsume E r w = (Inr (), w1) \<and>
    (\<exists>s'. row subId (pcUserSubscriptionId rec) (subs (db w1)) = Some s' \<and> subAmountUsed s' = max 0 (subAmountUsed s - pcPreConsumed rec)) \<and>
    (\<forall>E' fs. db (snd (RefundSubscriptionPreConsume E' r (w1\<lparr>faults := fs\<rparr>))) = db w1)"
proof -
  let ?rec = "rec\<lparr>pcStatus := ''refunded'', pcUpdatedAt := appNow E\<rparr>"
  let ?d = "(with_used E s (max 0 (subAmountUsed s - pcPreConsumed rec)) (db w))\<lparr>precons := save_row pcId ?rec (precons (db w))\<rparr>"
  have ok: "RefundSubscriptionPreConsume E r w = (Inr (), w\<lparr>db := ?d\<rparr>)"
    using Refund_ok [OF assms(1-3) _ assms(5-12), of E] assms(4) by simp
  have id: "subId s = pcUserSubscriptionId rec" "pcRequestId rec = r" using assms(3,8) by (auto dest: row_SomeD)
  have again: "row pcRequestId r (precons ?d) = Some ?rec"
    using row_save_other [OF assms(3), of ?rec pcId] id by simp
  have "keeps (\<lambda>d. d = ?d) (RefundSubscriptionPreConsume E' r)" for E'
    by (rule Refund_again [OF again]) simp
  then have "db (snd (RefundSubscriptionPreConsume E' r (w\<lparr>db := ?d, faults := fs\<rparr>))) = ?d" for E' fs
    using triple_keeps [of "\<lambda>d. d = ?d" "RefundSubscriptionPreConsume E' r" "w\<lparr>db := ?d, faults := fs\<rparr>"] by simp
  with ok id show ?thesis by (simp add: with_used_def row_save_row)
qed

definition ex_precon :: pre_consume_record where
  "ex_precon = \<lparr>pcId = 3, pcRequestId = ''r'', pcUserId = 1, pcUserSubscriptionId = 7, pcPreConsumed = 40,
     pcStatus = ''consumed'', pcCreatedAt = 0, pcUpdatedAt = 0\<rparr>"

theorem RefundSubscriptionPreConsume_undoes_witness:
  "\<exists>w1 s'. RefundSubscriptionPreConsume ex_env ''r'' (ex_world ((ex_db [] [])\<lparr>subs := [ex_sub 7 1 100 60], precons := [ex_precon]\<rparr>)) = (Inr (), w1) \<and>
     row subId 7 (subs (db w1)) = Some s' \<and> subAmountUsed s' = 20"
  using RefundSubscriptionPreConsume_undoes [of "ex_world ((ex_db [] [])\<lparr>subs := [ex_sub 7 1 100 60], precons := [ex_precon]\<rparr>)" "''r''" ex_precon
      "ex_sub 7 1 100 60" ex_env]
  by (auto simp: ex_world_def ex_db_def ex_precon_def ex_sub_def capped_def)

text \<open>C20. An order is fulfilled once: completing a pending order creates exactly one active, unused
  subscription for the buyer and marks the order, or fails and changes nothing; completing it again,
  with any payload and any statements failing, changes nothing.\<close>

theorem CompleteSubscriptionOrder_once:
  assumes "row ordTradeNo t (orders (db w)) = Some od" "ordStatus od = ''pending''"
  shows "case CompleteSubscriptionOrder E t pl w of
      (Inl _, w1) \<Rightarrow> db w1 = db w
    | (Inr _, w1) \<Rightarrow> fulfilled t (ordUserId od) (db w) (db w1) \<and>
        (\<forall>E' pl' fs. db (snd (CompleteSubscriptionOrder E' t pl' (w1\<lparr>faults := fs\<rparr>))) = db w1)"
proof (cases "CompleteSubscriptionOrder E t pl w")
  case (Pair res w1)
  note t = Complete_pending [OF assms, of E pl]
  show ?thesis
  proof (cases res)
    case (Inl e)
    then show ?thesis using Pair tripleD_Inl [OF t, of w] by simp
  next
    case (Inr x)
    then have f: "fulfilled t (ordUserId od) (db w) (db w1)" using Pair tripleD [OF t, of w] by simp
    then obtain od' where "row ordTradeNo t (orders (db w1)) = Some od'" "ordStatus od' = ''success''" by (auto simp: fulfilled_def)
    then have "db (snd (CompleteSubscriptionOrder E' t pl' (w1\<lparr>faults := fs\<rparr>))) = db w1" for E' pl' fs
      using triple_keeps [OF Complete_done [where E = E' and pl = pl'], of t "db w1" od' "w1\<lparr>faults := fs\<rparr>"] by simp
    with f show ?thesis by (simp add: Pair Inr)
  qed
qed

definition ex_order :: subscription_order where
  "ex_order = \<lparr>ordId = 4, ordUserId = 1, ordPlanId = 1, ordMoney = 5, ordTradeNo = ''t'', ordPaymentMethod = ''x'',
     ordStatus = ''pending'', ordCreateTime = 0, ordCompleteTime = 0, ordProviderPayload = ''''\<rparr>"

theorem CompleteSubscriptionOrder_once_witness:
  "case CompleteSubscriptionOrder ex_env ''t'' '''' (ex_world ((ex_db [ex_user 1 0] [])\<lparr>plans := [ex_plan ''never'' 0 100], orders := [ex_order]\<rparr>)) of
      (Inl _, w1) \<Rightarrow> db w1 = (ex_db [ex_user 1 0] [])\<lparr>plans := [ex_plan ''never'' 0 100], orders := [ex_order]\<rparr>
    | (Inr _, w1) \<Rightarrow> length (subs (db w1)) = 1"
  using CompleteSubscriptionOrder_once [of "''t''" "ex_world ((ex_db [ex_user 1 0] [])\<lparr>plans := [ex_plan ''never'' 0 100], orders := [ex_order]\<rparr>)" ex_order, where E = ex_env and pl = "''''"]
  by (auto simp: ex_world_def ex_db_def ex_order_def fulfilled_def split: prod.splits sum.splits)

end
