(* ===== verification/ApiErrors.thy ===== *)
theory ApiErrors
  imports Store
begin

text \<open>
  The error value that travels through the relay (\<^verbatim>\<open>src/types/error.go\<close>): its constructors, options,
  classifications and rendering for clients. The masking of addresses in a text, which works by regular
  expressions, is an argument.
\<close>

section \<open>Values\<close>

text \<open>The \<^verbatim>\<open>Code\<close> field has type \<^verbatim>\<open>any\<close>: absent, a string, or another value with its printed form.\<close>

datatype any_code = NoCode | StrCode string | OtherCode string

record OpenAIError =
  oaMessage :: string
  oaType :: string
  oaParam :: string
  oaCode :: any_code
  oaMetadata :: string

record ClaudeError =
  clType :: string
  clMessage :: string

datatype relay_error = RelayNone | RelayOpenAI OpenAIError | RelayClaude ClaudeError

text \<open>\<open>errMsg\<close> is the text of \<^verbatim>\<open>Err\<close>, \<^const>\<open>None\<close> when it is nil.\<close>

record NewAPIError =
  errMsg :: "string option"
  RelayError :: relay_error
  skipRetry :: bool
  recordErrorLog :: "bool option"
  errorType :: string
  errorCode :: string
  StatusCode :: int
  Metadata :: string

text \<open>An \<^verbatim>\<open>error\<close> handed to a constructor: its text, and the \<^verbatim>\<open>NewAPIError\<close> that \<^verbatim>\<open>errors.As\<close> finds
  in its chain, if there is one.\<close>

datatype go_error = Plain string | Wrapped string NewAPIError

fun go_text :: "go_error \<Rightarrow> string" where
  "go_text (Plain t) = t"
| "go_text (Wrapped t _) = t"

type_synonym option_fn = "NewAPIError \<Rightarrow> NewAPIError"

section \<open>Reading an error\<close>

definition GetErrorCode :: "NewAPIError option \<Rightarrow> string" where
  "GetErrorCode e = (case e of None \<Rightarrow> '''' | Some e \<Rightarrow> errorCode e)"

definition GetErrorType :: "NewAPIError option \<Rightarrow> string" where
  "GetErrorType e = (case e of None \<Rightarrow> '''' | Some e \<Rightarrow> errorType e)"

definition Error :: "NewAPIError option \<Rightarrow> string" where
  "Error e =
     (case e of None \<Rightarrow> '''' | Some e \<Rightarrow> (case errMsg e of None \<Rightarrow> errorCode e | Some t \<Rightarrow> t))"

definition ErrorWithStatusCode :: "NewAPIError option \<Rightarrow> string" where
  "ErrorWithStatusCode eo =
     (case eo of
        None \<Rightarrow> ''''
      | Some e \<Rightarrow>
          let msg = Error eo in
          if StatusCode e = 0 then msg
          else if msg = '''' then ''status_code='' @ Itoa (StatusCode e)
          else ''status_code='' @ Itoa (StatusCode e) @ '', '' @ msg)"

definition SetMessage :: "string \<Rightarrow> NewAPIError \<Rightarrow> NewAPIError" where
  "SetMessage m e = e\<lparr>errMsg := Some m\<rparr>"

definition IsChannelError :: "NewAPIError option \<Rightarrow> bool" where
  "IsChannelError e = (case e of None \<Rightarrow> False | Some e \<Rightarrow> prefix ''channel:'' (errorCode e))"

definition IsSkipRetryError :: "NewAPIError option \<Rightarrow> bool" where
  "IsSkipRetryError e = (case e of None \<Rightarrow> False | Some e \<Rightarrow> skipRetry e)"

definition IsRecordErrorLog :: "NewAPIError option \<Rightarrow> bool" where
  "IsRecordErrorLog e =
     (case e of None \<Rightarrow> False
      | Some e \<Rightarrow> (case recordErrorLog e of None \<Rightarrow> True | Some b \<Rightarrow> b))"

section \<open>Rendering\<close>

text \<open>
  \<open>msk\<close> is \<^verbatim>\<open>common.MaskSensitiveInfo\<close>, which replaces addresses by regular expressions and is not modelled.
  A \<^verbatim>\<open>Code\<close> taken from \<^verbatim>\<open>errorCode\<close> has the type \<^verbatim>\<open>ErrorCode\<close>, so it is no plain string to a type switch.
\<close>

definition code_text :: "any_code \<Rightarrow> string" where
  "code_text c = (case c of NoCode \<Rightarrow> ''<nil>'' | StrCode s \<Rightarrow> s | OtherCode s \<Rightarrow> s)"

definition MaskSensitiveError :: "(string \<Rightarrow> string) \<Rightarrow> NewAPIError option \<Rightarrow> string" where
  "MaskSensitiveError msk eo =
     (case eo of
        None \<Rightarrow> ''''
      | Some e \<Rightarrow> (case errMsg e of
            None \<Rightarrow> errorCode e
          | Some t \<Rightarrow> if errorCode e = ''count_token_failed'' then t else msk t))"

definition MaskSensitiveErrorWithStatusCode :: "(string \<Rightarrow> string) \<Rightarrow> NewAPIError option \<Rightarrow> string" where
  "MaskSensitiveErrorWithStatusCode msk eo =
     (case eo of
        None \<Rightarrow> ''''
      | Some e \<Rightarrow>
          let msg = MaskSensitiveError msk eo in
          if StatusCode e = 0 then msg
          else if msg = '''' then ''status_code='' @ Itoa (StatusCode e)
          else ''status_code='' @ Itoa (StatusCode e) @ '', '' @ msg)"

definition final_message :: "(string \<Rightarrow> string) \<Rightarrow> NewAPIError \<Rightarrow> string \<Rightarrow> string" where
  "final_message msk e m =
     (let m1 = (if errorCode e \<noteq> ''count_token_failed'' then msk m else m) in if m1 = '''' then errorType e else m1)"

definition ToOpenAIError :: "(string \<Rightarrow> string) \<Rightarrow> NewAPIError \<Rightarrow> OpenAIError" where
  "ToOpenAIError msk e =
     (let none = \<lparr>oaMessage = '''', oaType = '''', oaParam = '''', oaCode = NoCode, oaMetadata = ''''\<rparr>;
          result = (if errorType e = ''openai_error''
                    then (case RelayError e of RelayOpenAI oa \<Rightarrow> oa | _ \<Rightarrow> none)
                    else if errorType e = ''claude_error''
                    then (case RelayError e of
                            RelayClaude ce \<Rightarrow> none\<lparr>oaMessage := Error (Some e), oaType := clType ce, oaCode := OtherCode (errorCode e)\<rparr>
                          | _ \<Rightarrow> none)
                    else none\<lparr>oaMessage := Error (Some e), oaType := errorType e, oaCode := OtherCode (errorCode e)\<rparr>) in
      result\<lparr>oaMessage := final_message msk e (oaMessage result)\<rparr>)"

definition ToClaudeError :: "(string \<Rightarrow> string) \<Rightarrow> NewAPIError \<Rightarrow> ClaudeError" where
  "ToClaudeError msk e =
     (let none = \<lparr>clType = '''', clMessage = ''''\<rparr>;
          result = (if errorType e = ''openai_error''
                    then (case RelayError e of
                            RelayOpenAI oa \<Rightarrow> \<lparr>clType = code_text (oaCode oa), clMessage = Error (Some e)\<rparr> | _ \<Rightarrow> none)
                    else if errorType e = ''claude_error''
                    then (case RelayError e of RelayClaude ce \<Rightarrow> ce | _ \<Rightarrow> none)
                    else \<lparr>clType = errorType e, clMessage = Error (Some e)\<rparr>) in
      result\<lparr>clMessage := final_message msk e (clMessage result)\<rparr>)"


section \<open>Options\<close>

definition ErrOptionWithSkipRetry :: option_fn where
  "ErrOptionWithSkipRetry e = e\<lparr>skipRetry := True\<rparr>"

definition ErrOptionWithNoRecordErrorLog :: option_fn where
  "ErrOptionWithNoRecordErrorLog e = e\<lparr>recordErrorLog := Some False\<rparr>"

definition ErrOptionWithStatusCode :: "int \<Rightarrow> option_fn" where
  "ErrOptionWithStatusCode c e = e\<lparr>StatusCode := c\<rparr>"

definition ErrOptionWithHideErrMsg :: "string \<Rightarrow> option_fn" where
  "ErrOptionWithHideErrMsg t e = e\<lparr>errMsg := Some t\<rparr>"

definition apply_options :: "option_fn list \<Rightarrow> option_fn" where
  "apply_options ops e = fold (\<lambda>f. f) ops e"

section \<open>Constructors\<close>

text \<open>A nil error is \<^const>\<open>None\<close>; \<^verbatim>\<open>errors.As\<close> on it finds nothing.\<close>

definition NewError :: "go_error option \<Rightarrow> string \<Rightarrow> option_fn list \<Rightarrow> NewAPIError" where
  "NewError ge code ops =
     (case ge of
        Some (Wrapped _ e) \<Rightarrow> apply_options ops e
      | _ \<Rightarrow> apply_options ops
          \<lparr>errMsg = map_option go_text ge, RelayError = RelayNone, skipRetry = False, recordErrorLog = None,
           errorType = ''new_api_error'', errorCode = code, StatusCode = 500, Metadata = ''''\<rparr>)"

definition NewErrorWithStatusCode :: "go_error \<Rightarrow> string \<Rightarrow> int \<Rightarrow> option_fn list \<Rightarrow> NewAPIError" where
  "NewErrorWithStatusCode ge code status ops =
     apply_options ops
       \<lparr>errMsg = Some (go_text ge),
        RelayError = RelayOpenAI \<lparr>oaMessage = go_text ge, oaType = code, oaParam = '''', oaCode = NoCode, oaMetadata = ''''\<rparr>,
        skipRetry = False, recordErrorLog = None, errorType = ''new_api_error'', errorCode = code,
        StatusCode = status, Metadata = ''''\<rparr>"

definition WithOpenAIError :: "OpenAIError \<Rightarrow> int \<Rightarrow> option_fn list \<Rightarrow> NewAPIError" where
  "WithOpenAIError oa status ops =
     (let code = (case oaCode oa of StrCode c \<Rightarrow> c | OtherCode c \<Rightarrow> c | NoCode \<Rightarrow> ''unknown_error'');
          oa1 = (if oaType oa = '''' then oa\<lparr>oaType := ''upstream_error''\<rparr> else oa);
          e = \<lparr>errMsg = Some (oaMessage oa1), RelayError = RelayOpenAI oa1, skipRetry = False, recordErrorLog = None,
               errorType = ''openai_error'', errorCode = code, StatusCode = status, Metadata = ''''\<rparr>;
          oa2 = oa1\<lparr>oaMessage := oaMessage oa1 @ '' ('' @ oaMetadata oa1 @ '')''\<rparr>;
          e1 = (if oaMetadata oa1 \<noteq> ''''
                then e\<lparr>Metadata := oaMetadata oa1, RelayError := RelayOpenAI oa2, errMsg := Some (oaMessage oa2)\<rparr>
                else e) in
      apply_options ops e1)"

definition NewOpenAIError :: "go_error \<Rightarrow> string \<Rightarrow> int \<Rightarrow> option_fn list \<Rightarrow> NewAPIError" where
  "NewOpenAIError ge code status ops =
     (case ge of
        Wrapped _ e \<Rightarrow>
          let e1 = (if RelayError e = RelayNone
                    then e\<lparr>RelayError := RelayOpenAI \<lparr>oaMessage = Error (Some e), oaType = code, oaParam = '''',
                             oaCode = OtherCode code, oaMetadata = ''''\<rparr>\<rparr>
                    else e) in
          apply_options ops e1
      | Plain t \<Rightarrow>
          WithOpenAIError \<lparr>oaMessage = t, oaType = code, oaParam = '''', oaCode = OtherCode code, oaMetadata = ''''\<rparr>
            status ops)"

definition InitOpenAIError :: "string \<Rightarrow> int \<Rightarrow> option_fn list \<Rightarrow> NewAPIError" where
  "InitOpenAIError code status ops =
     WithOpenAIError \<lparr>oaMessage = '''', oaType = code, oaParam = '''', oaCode = OtherCode code, oaMetadata = ''''\<rparr> status ops"

definition WithClaudeError :: "ClaudeError \<Rightarrow> int \<Rightarrow> option_fn list \<Rightarrow> NewAPIError" where
  "WithClaudeError ce status ops =
     (let ce1 = (if clType ce = '''' then ce\<lparr>clType := ''upstream_error''\<rparr> else ce) in
      apply_options ops
        \<lparr>errMsg = Some (clMessage ce1), RelayError = RelayClaude ce1, skipRetry = False, recordErrorLog = None,
         errorType = ''claude_error'', errorCode = clType ce1, StatusCode = status, Metadata = ''''\<rparr>)"

section \<open>Lemmas\<close>

lemma apply_options_simps [simp]: "apply_options [] e = e" "apply_options (f # fs) e = apply_options fs (f e)"
  by (simp_all add: apply_options_def)

lemmas option_defs = ErrOptionWithSkipRetry_def ErrOptionWithNoRecordErrorLog_def
  ErrOptionWithStatusCode_def ErrOptionWithHideErrMsg_def

lemma error_code_simps [simp]:
  "errorCode (NewErrorWithStatusCode ge c s [ErrOptionWithSkipRetry, ErrOptionWithNoRecordErrorLog]) = c"
  "errorCode (NewError (Some (Plain t)) c [ErrOptionWithSkipRetry]) = c"
  "skipRetry (NewErrorWithStatusCode ge c s [ErrOptionWithSkipRetry, ErrOptionWithNoRecordErrorLog])"
  "skipRetry (NewError (Some (Plain t)) c [ErrOptionWithSkipRetry])"
  by (simp_all add: NewErrorWithStatusCode_def NewError_def option_defs)

end
