(* ===== verification/Billing.thy ===== *)
theory Billing
  imports SubscriptionLaws ApiErrors
begin

text \<open>
  The billing of one request: the two sources of funds (\<^verbatim>\<open>src/service/funding_source.go\<close>), the session
  that pre-consumes, settles or refunds (\<^verbatim>\<open>src/service/billing_session.go\<close>), its entry points
  (\<^verbatim>\<open>src/service/billing.go\<close>) and the quota helpers of \<^verbatim>\<open>src/service/quota.go\<close>. A message shown to the
  user stands for itself as a short English text; the amounts quoted in it are left out.
\<close>

section \<open>Relay info\<close>

text \<open>The fields of \<^verbatim>\<open>relaycommon.RelayInfo\<close> that billing reads or writes; \<open>riTokenQuota\<close> is the request
  context's \<^verbatim>\<open>token_quota\<close>.\<close>

record relay_info =
  riUserId :: int
  riTokenId :: int
  riTokenKey :: string
  riTokenUnlimited :: bool
  riTokenQuota :: int
  riIsPlayground :: bool
  riForcePreConsume :: bool
  riRequestId :: string
  riBillingPreference :: string
  riUserQuota :: int
  riFinalPreConsumedQuota :: int
  riBillingSource :: string
  riSubscriptionId :: int
  riSubscriptionPreConsumed :: int
  riSubscriptionPostDelta :: int
  riSubscriptionAmountTotal :: int
  riSubscriptionAmountUsedAfter :: int
  riSubscriptionPlanId :: int
  riSubscriptionPlanTitle :: string

definition NormalizeBillingPreference :: "string \<Rightarrow> string" where
  "NormalizeBillingPreference pref =
     (let p = TrimSpace pref in
      if p \<in> set [''subscription_first'', ''wallet_first'', ''subscription_only'', ''wallet_only''] then p
      else ''subscription_first'')"

section \<open>Token and post-consumption\<close>

definition PreConsumeTokenQuota :: "env \<Rightarrow> relay_info \<Rightarrow> int \<Rightarrow> unit io" where
  "PreConsumeTokenQuota E ri quota =
     (if quota < 0 then err QuotaNegative
      else if riIsPlayground ri then ret ()
      else chk (GetTokenByKey (econf E) (riTokenKey ri) False) (\<lambda>t.
        if \<not> riTokenUnlimited ri \<and> tkRemainQuota t < quota then err TokenQuotaNotEnough
        else DecreaseTokenQuota (econf E) (appNow E) (riTokenId ri) (riTokenKey ri) quota))"

definition token_delta :: "env \<Rightarrow> relay_info \<Rightarrow> int \<Rightarrow> unit io" where
  "token_delta E ri quota =
     (if quota > 0 then DecreaseTokenQuota (econf E) (appNow E) (riTokenId ri) (riTokenKey ri) quota
      else IncreaseTokenQuota (econf E) (appNow E) (riTokenId ri) (riTokenKey ri) (i64 (- quota)))"

text \<open>Without the notification mail, which changes no quota.\<close>

definition PostConsumeQuota :: "env \<Rightarrow> relay_info \<Rightarrow> int \<Rightarrow> world \<Rightarrow> (unit res \<times> relay_info) \<times> world" where
  "PostConsumeQuota E ri quota w =
     (case (if riBillingSource ri = ''subscription''
            then if riSubscriptionId ri = 0 then err (Msg ''subscription id is missing'') w
                 else if quota \<noteq> 0 then PostConsumeUserSubscriptionDelta E (riSubscriptionId ri) quota w
                 else ret () w
            else if quota > 0 then DecreaseUserQuota (econf E) (riUserId ri) quota False w
            else IncreaseUserQuota (econf E) (riUserId ri) (i64 (- quota)) False w) of
        (Inl e, w1) \<Rightarrow> ((Inl e, ri), w1)
      | (Inr _, w1) \<Rightarrow>
          let ri' = (if riBillingSource ri = ''subscription'' \<and> quota \<noteq> 0
                     then ri\<lparr>riSubscriptionPostDelta := i64 (riSubscriptionPostDelta ri + quota)\<rparr> else ri) in
          if riIsPlayground ri then ((Inr (), ri'), w1)
          else (case token_delta E ri quota w1 of (r, w2) \<Rightarrow> ((r, ri'), w2)))"

section \<open>Funding sources\<close>

record WalletFunding =
  wfUserId :: int
  wfConsumed :: int

record SubscriptionFunding =
  sfRequestId :: string
  sfUserId :: int
  sfAmount :: int
  sfSubscriptionId :: int
  sfPreConsumed :: int
  sfAmountTotal :: int
  sfAmountUsedAfter :: int
  sfPlanId :: int
  sfPlanTitle :: string

datatype FundingSource = Wallet WalletFunding | Sub SubscriptionFunding

fun Source :: "FundingSource \<Rightarrow> string" where
  "Source (Wallet _) = ''wallet''"
| "Source (Sub _) = ''subscription''"

definition wallet_PreConsume :: "env \<Rightarrow> WalletFunding \<Rightarrow> int \<Rightarrow> WalletFunding io" where
  "wallet_PreConsume E f amount =
     (if amount \<le> 0 then ret f
      else chk (DecreaseUserQuota (econf E) (wfUserId f) amount False) (\<lambda>_. ret (f\<lparr>wfConsumed := amount\<rparr>)))"

definition wallet_Settle :: "env \<Rightarrow> WalletFunding \<Rightarrow> int \<Rightarrow> unit io" where
  "wallet_Settle E f delta =
     (if delta = 0 then ret ()
      else if delta > 0 then DecreaseUserQuota (econf E) (wfUserId f) delta False
      else IncreaseUserQuota (econf E) (wfUserId f) (i64 (- delta)) False)"

definition wallet_Refund :: "env \<Rightarrow> WalletFunding \<Rightarrow> unit io" where
  "wallet_Refund E f =
     (if wfConsumed f \<le> 0 then ret () else IncreaseUserQuota (econf E) (wfUserId f) (wfConsumed f) False)"

text \<open>The amount passed in is ignored; a plan that cannot be read leaves the plan fields empty.\<close>

definition subscription_PreConsume :: "env \<Rightarrow> SubscriptionFunding \<Rightarrow> SubscriptionFunding io" where
  "subscription_PreConsume E f =
     chk (PreConsumeUserSubscription E (sfRequestId f) (sfUserId f) (sfAmount f)) (\<lambda>r.
       let f' = f\<lparr>sfSubscriptionId := prUserSubscriptionId r, sfPreConsumed := prPreConsumed r,
                  sfAmountTotal := prAmountTotal r, sfAmountUsedAfter := prAmountUsedAfter r\<rparr> in
       handle (GetSubscriptionPlanInfoByUserSubscriptionId (prUserSubscriptionId r)) (\<lambda>_. ret f')
         (\<lambda>(pid, title). ret (f'\<lparr>sfPlanId := pid, sfPlanTitle := title\<rparr>)))"

definition subscription_Settle :: "env \<Rightarrow> SubscriptionFunding \<Rightarrow> int \<Rightarrow> unit io" where
  "subscription_Settle E f delta =
     (if delta = 0 then ret () else PostConsumeUserSubscriptionDelta E (sfSubscriptionId f) delta)"

text \<open>\<^verbatim>\<open>refundWithRetry\<close> with its \<^verbatim>\<open>maxAttempts\<close> attempts left; the pauses are not modelled.\<close>

fun retry_refund :: "nat \<Rightarrow> unit io \<Rightarrow> unit io" where
  "retry_refund 0 fn = ret ()"
| "retry_refund (Suc n) fn = handle fn (\<lambda>e. if n = 0 then err e else retry_refund n fn) ret"

definition refundWithRetry :: "unit io \<Rightarrow> unit io" where
  "refundWithRetry fn = retry_refund 3 fn"

definition subscription_Refund :: "env \<Rightarrow> SubscriptionFunding \<Rightarrow> unit io" where
  "subscription_Refund E f =
     (if sfPreConsumed f \<le> 0 then ret ()
      else refundWithRetry (RefundSubscriptionPreConsume E (sfRequestId f)))"

text \<open>The interface's methods, dispatched on the source.\<close>

fun fs_PreConsume :: "env \<Rightarrow> FundingSource \<Rightarrow> int \<Rightarrow> FundingSource io" where
  "fs_PreConsume E (Wallet f) amount = chk (wallet_PreConsume E f amount) (\<lambda>f'. ret (Wallet f'))"
| "fs_PreConsume E (Sub f) amount = chk (subscription_PreConsume E f) (\<lambda>f'. ret (Sub f'))"

fun fs_Settle :: "env \<Rightarrow> FundingSource \<Rightarrow> int \<Rightarrow> unit io" where
  "fs_Settle E (Wallet f) delta = wallet_Settle E f delta"
| "fs_Settle E (Sub f) delta = subscription_Settle E f delta"

fun fs_Refund :: "env \<Rightarrow> FundingSource \<Rightarrow> unit io" where
  "fs_Refund E (Wallet f) = wallet_Refund E f"
| "fs_Refund E (Sub f) = subscription_Refund E f"

section \<open>The session\<close>

record BillingSession =
  relayInfo :: relay_info
  funding :: FundingSource
  preConsumedQuota :: int
  tokenConsumed :: int
  fundingSettled :: bool
  settled :: bool
  refunded :: bool

definition fresh_session :: "relay_info \<Rightarrow> FundingSource \<Rightarrow> BillingSession" where
  "fresh_session ri f = \<lparr>relayInfo = ri, funding = f, preConsumedQuota = 0, tokenConsumed = 0,
     fundingSettled = False, settled = False, refunded = False\<rparr>"

text \<open>\<^verbatim>\<open>Settle\<close> returns the error, the session and the world. A token error after the funds are settled is
  returned, but the session counts as settled.\<close>

definition Settle :: "env \<Rightarrow> int \<Rightarrow> BillingSession \<Rightarrow> world \<Rightarrow> (unit res \<times> BillingSession) \<times> world" where
  "Settle E actualQuota s w =
     (if settled s then ((Inr (), s), w)
      else let delta = i64 (actualQuota - preConsumedQuota s) in
        if delta = 0 then ((Inr (), s\<lparr>settled := True\<rparr>), w)
        else case (if \<not> fundingSettled s then fs_Settle E (funding s) delta w else (Inr (), w)) of
            (Inl e, w1) \<Rightarrow> ((Inl e, s), w1)
          | (Inr _, w1) \<Rightarrow>
              let s1 = s\<lparr>fundingSettled := True\<rparr>;
                  (tokenErr, w2) = (if riIsPlayground (relayInfo s) then (Inr (), w1)
                                    else token_delta E (relayInfo s) delta w1);
                  ri = relayInfo s;
                  ri' = (if Source (funding s) = ''subscription''
                         then ri\<lparr>riSubscriptionPostDelta := i64 (riSubscriptionPostDelta ri + delta)\<rparr> else ri) in
              ((tokenErr, s1\<lparr>relayInfo := ri', settled := True\<rparr>), w2))"

definition needsRefundLocked :: "BillingSession \<Rightarrow> bool" where
  "needsRefundLocked s =
     (if settled s \<or> refunded s \<or> fundingSettled s then False
      else if tokenConsumed s > 0 then True
      else case funding s of Sub f \<Rightarrow> sfPreConsumed f > 0 | Wallet _ \<Rightarrow> False)"

text \<open>The closure that \<^verbatim>\<open>Refund\<close> hands to the goroutine pool, with the values it copies.\<close>

record refund_job =
  rjFunding :: FundingSource
  rjTokenId :: int
  rjTokenKey :: string
  rjIsPlayground :: bool
  rjTokenConsumed :: int

definition Refund :: "BillingSession \<Rightarrow> BillingSession \<times> refund_job option" where
  "Refund s =
     (if settled s \<or> refunded s \<or> \<not> needsRefundLocked s then (s, None)
      else (s\<lparr>refunded := True\<rparr>,
            Some \<lparr>rjFunding = funding s, rjTokenId = riTokenId (relayInfo s), rjTokenKey = riTokenKey (relayInfo s),
                  rjIsPlayground = riIsPlayground (relayInfo s), rjTokenConsumed = tokenConsumed s\<rparr>))"

text \<open>The closure's two steps; their errors are only logged.\<close>

definition run_refund :: "env \<Rightarrow> refund_job \<Rightarrow> world \<Rightarrow> world" where
  "run_refund E j w =
     (let w1 = snd (fs_Refund E (rjFunding j) w) in
      if rjTokenConsumed j > 0 \<and> \<not> rjIsPlayground j
      then snd (IncreaseTokenQuota (econf E) (appNow E) (rjTokenId j) (rjTokenKey j) (rjTokenConsumed j) w1)
      else w1)"

definition shouldTrust :: "env \<Rightarrow> BillingSession \<Rightarrow> bool" where
  "shouldTrust E s =
     (let ri = relayInfo s; trustQuota = TrustQuota (econf E) in
      if riForcePreConsume ri then False
      else if trustQuota \<le> 0 then False
      else if \<not> (riTokenUnlimited ri \<or> riTokenQuota ri > trustQuota) then False
      else case funding s of Wallet _ \<Rightarrow> riUserQuota ri > trustQuota | Sub _ \<Rightarrow> False)"

definition syncRelayInfo :: "BillingSession \<Rightarrow> BillingSession" where
  "syncRelayInfo s =
     (let ri = (relayInfo s)\<lparr>riFinalPreConsumedQuota := preConsumedQuota s, riBillingSource := Source (funding s)\<rparr> in
      s\<lparr>relayInfo := (case funding s of
          Sub f \<Rightarrow> ri\<lparr>riSubscriptionId := sfSubscriptionId f, riSubscriptionPreConsumed := sfPreConsumed f,
                    riSubscriptionPostDelta := 0, riSubscriptionAmountTotal := sfAmountTotal f,
                    riSubscriptionAmountUsedAfter := sfAmountUsedAfter f, riSubscriptionPlanId := sfPlanId f,
                    riSubscriptionPlanTitle := sfPlanTitle f\<rparr>
        | Wallet _ \<Rightarrow> ri\<lparr>riSubscriptionId := 0, riSubscriptionPreConsumed := 0\<rparr>)\<rparr>)"

type_synonym 'a bio = "world \<Rightarrow> (NewAPIError + 'a) \<times> world"

definition insufficient :: "string \<Rightarrow> NewAPIError" where
  "insufficient t = NewErrorWithStatusCode (Plain t) ''insufficient_user_quota'' 403
     [ErrOptionWithSkipRetry, ErrOptionWithNoRecordErrorLog]"

definition funding_error :: "gerr \<Rightarrow> NewAPIError" where
  "funding_error e =
     (if Contains (errText e) ''no active subscription'' \<or> Contains (errText e) ''subscription quota insufficient''
      then insufficient (errText e)
      else NewError (Some (Plain (errText e))) ''update_data_error'' [ErrOptionWithSkipRetry])"

definition preConsume :: "env \<Rightarrow> int \<Rightarrow> BillingSession \<Rightarrow> BillingSession bio" where
  "preConsume E quota s w =
     (let effectiveQuota = (if shouldTrust E s then 0 else quota) in
      case (if effectiveQuota > 0 then PreConsumeTokenQuota E (relayInfo s) effectiveQuota w else (Inr (), w)) of
        (Inl e, w1) \<Rightarrow>
          (Inl (NewErrorWithStatusCode (Plain (errText e)) ''pre_consume_token_quota_failed'' 403
                  [ErrOptionWithSkipRetry, ErrOptionWithNoRecordErrorLog]), w1)
      | (Inr _, w1) \<Rightarrow>
          let s1 = s\<lparr>tokenConsumed := (if effectiveQuota > 0 then effectiveQuota else tokenConsumed s)\<rparr> in
          (case fs_PreConsume E (funding s) effectiveQuota w1 of
             (Inl e, w2) \<Rightarrow>
               (Inl (funding_error e),
                if tokenConsumed s1 > 0 \<and> \<not> riIsPlayground (relayInfo s)
                then snd (IncreaseTokenQuota (econf E) (appNow E) (riTokenId (relayInfo s)) (riTokenKey (relayInfo s)) (tokenConsumed s1) w2)
                else w2)
           | (Inr f, w2) \<Rightarrow>
               (Inr (syncRelayInfo (s1\<lparr>funding := f, preConsumedQuota := effectiveQuota\<rparr>)), w2)))"

text \<open>The wallet attempt also records the user's quota in the relay info, which outlives a failure.\<close>

definition tryWallet :: "env \<Rightarrow> int \<Rightarrow> relay_info \<Rightarrow> world \<Rightarrow> ((NewAPIError + BillingSession) \<times> relay_info) \<times> world" where
  "tryWallet E preConsumed ri w =
     (case GetUserQuota (econf E) (riUserId ri) False w of
        (Inl e, w1) \<Rightarrow> ((Inl (NewError (Some (Plain (errText e))) ''query_data_error'' [ErrOptionWithSkipRetry]), ri), w1)
      | (Inr userQuota, w1) \<Rightarrow>
          if userQuota \<le> 0 then ((Inl (insufficient ''user quota is not enough''), ri), w1)
          else if i64 (userQuota - preConsumed) < 0
          then ((Inl (insufficient ''user quota does not cover the pre-consumption''), ri), w1)
          else let ri' = ri\<lparr>riUserQuota := userQuota\<rparr>;
                   (r, w2) = preConsume E preConsumed
                     (fresh_session ri' (Wallet \<lparr>wfUserId = riUserId ri, wfConsumed = 0\<rparr>)) w1 in
               ((r, ri'), w2))"

definition trySubscription :: "env \<Rightarrow> int \<Rightarrow> relay_info \<Rightarrow> BillingSession bio" where
  "trySubscription E preConsumed ri =
     (let subConsume = (if preConsumed \<le> 0 then 1 else preConsumed) in
      preConsume E subConsume (fresh_session ri
        (Sub \<lparr>sfRequestId = riRequestId ri, sfUserId = riUserId ri, sfAmount = subConsume, sfSubscriptionId = 0,
              sfPreConsumed = 0, sfAmountTotal = 0, sfAmountUsedAfter = 0, sfPlanId = 0, sfPlanTitle = ''''\<rparr>)))"

definition NewBillingSession :: "env \<Rightarrow> int \<Rightarrow> relay_info \<Rightarrow> BillingSession bio" where
  "NewBillingSession E preConsumed ri w =
     (let pref = NormalizeBillingPreference (riBillingPreference ri) in
      if pref = ''subscription_only'' then trySubscription E preConsumed ri w
      else if pref = ''wallet_only''
      then (case tryWallet E preConsumed ri w of ((r, _), w1) \<Rightarrow> (r, w1))
      else if pref = ''wallet_first''
      then (case tryWallet E preConsumed ri w of
              ((Inl e, ri'), w1) \<Rightarrow>
                if GetErrorCode (Some e) = ''insufficient_user_quota'' then trySubscription E preConsumed ri' w1
                else (Inl e, w1)
            | ((Inr s, _), w1) \<Rightarrow> (Inr s, w1))
      else (case HasActiveUserSubscription E (riUserId ri) w of
              (Inl e, w1) \<Rightarrow> (Inl (NewError (Some (Plain (errText e))) ''query_data_error'' [ErrOptionWithSkipRetry]), w1)
            | (Inr False, w1) \<Rightarrow> (case tryWallet E preConsumed ri w1 of ((r, _), w2) \<Rightarrow> (r, w2))
            | (Inr True, w1) \<Rightarrow>
                (case trySubscription E preConsumed ri w1 of
                   (Inl e, w2) \<Rightarrow>
                     if GetErrorCode (Some e) = ''insufficient_user_quota''
                     then (case tryWallet E preConsumed ri w2 of ((r, _), w3) \<Rightarrow> (r, w3))
                     else (Inl e, w2)
                 | (Inr s, w2) \<Rightarrow> (Inr s, w2))))"

section \<open>Entry points\<close>

text \<open>\<^verbatim>\<open>PreConsumeBilling\<close> stores the session it gets, which is what \<open>NewBillingSession\<close> returns here.
  \<^verbatim>\<open>SettleBilling\<close> settles a session, or without one falls back to the old path; notifications are
  left out.\<close>

definition SettleBilling ::
  "env \<Rightarrow> relay_info \<Rightarrow> BillingSession option \<Rightarrow> int \<Rightarrow> world \<Rightarrow> (unit res \<times> BillingSession option \<times> relay_info) \<times> world" where
  "SettleBilling E ri billing actualQuota w =
     (case billing of
        Some s \<Rightarrow> (case Settle E actualQuota s w of ((r, s'), w1) \<Rightarrow> ((r, Some s', relayInfo s'), w1))
      | None \<Rightarrow>
          let quotaDelta = i64 (actualQuota - riFinalPreConsumedQuota ri) in
          if quotaDelta \<noteq> 0
          then (case PostConsumeQuota E ri quotaDelta w of ((r, ri'), w1) \<Rightarrow> ((r, None, ri'), w1))
          else ((Inr (), None, ri), w))"

end
