(* ===== verification/BillingLaws.thy ===== *)
theory BillingLaws
  imports Billing
begin

text \<open>
  What a billing session promises. The contract of a source of funds is a locale: settling takes the
  difference from it, refunding gives the pre-consumed amount back, and the token's operations leave it
  alone. The session's laws are proved over that contract, and the wallet and the subscription provide
  it.
\<close>

section \<open>Two halves of the books\<close>

definition token_side :: "int \<Rightarrow> world \<Rightarrow> bool \<times> int \<times> int" where
  "token_side i w = (token_exists i w, allowance i w, pending BatchUpdateTypeTokenQuota i w)"

definition user_side :: "int \<Rightarrow> world \<Rightarrow> bool \<times> int \<times> int" where
  "user_side i w = (user_exists i w, wallet i w, pending BatchUpdateTypeUserQuota i w)"

lemma side_cong:
  assumes "db w' = db w" "batch w' = batch w"
  shows "token_side i w' = token_side i w" "user_side i w' = user_side i w"
  using assms by (simp_all add: token_side_def user_side_def token_exists_def user_exists_def allowance_def wallet_def
      token_quota_def user_quota_def pending_def)

lemma token_side_user_ops:
  assumes "faults w = []"
  shows "token_side j (snd (IncreaseUserQuota cfg i q inDB w)) = token_side j w"
    and "token_side j (snd (DecreaseUserQuota cfg i q inDB w)) = token_side j w"
  using assms
  by (simp_all add: IncreaseUserQuota_def DecreaseUserQuota_def increaseUserQuota_def decreaseUserQuota_def Let_def
      token_side_def allowance_def token_exists_def token_quota_def pending_def addNewRecord_def)

lemma user_side_token_ops:
  assumes "faults w = []"
  shows "user_side j (snd (IncreaseTokenQuota cfg now i k q w)) = user_side j w"
    and "user_side j (snd (DecreaseTokenQuota cfg now i k q w)) = user_side j w"
  using assms
  by (simp_all add: IncreaseTokenQuota_def DecreaseTokenQuota_def increaseTokenQuota_def decreaseTokenQuota_def Let_def
      user_side_def wallet_def user_exists_def user_quota_def pending_def addNewRecord_def)

lemma subs_token_ops:
  assumes "faults w = []"
  shows "subs (db (snd (IncreaseTokenQuota cfg now i k q w))) = subs (db w)"
    and "subs (db (snd (DecreaseTokenQuota cfg now i k q w))) = subs (db w)"
    and "precons (db (snd (IncreaseTokenQuota cfg now i k q w))) = precons (db w)"
    and "precons (db (snd (DecreaseTokenQuota cfg now i k q w))) = precons (db w)"
  using assms
  by (simp_all add: IncreaseTokenQuota_def DecreaseTokenQuota_def increaseTokenQuota_def decreaseTokenQuota_def Let_def)

section \<open>The contract of a funding source\<close>

text \<open>
  \<open>spent\<close> is what the source has been charged so far; \<open>ready d\<close> says that it can take the further
  difference \<open>d\<close>, \<open>returnable\<close> that the pre-consumed amount \<open>taken\<close> can be given back.
\<close>

locale funding_source =
  fixes E :: env
    and F :: FundingSource
    and spent :: "world \<Rightarrow> int"
    and ready :: "int \<Rightarrow> world \<Rightarrow> bool"
    and returnable :: "world \<Rightarrow> bool"
    and taken :: int
  assumes settle: "\<lbrakk>faults w = []; d \<noteq> 0; ready d w\<rbrakk> \<Longrightarrow> \<exists>w'. fs_Settle E F d w = (Inr (), w') \<and> faults w' = [] \<and>
      spent w' = spent w + d \<and> (\<forall>i. token_side i w' = token_side i w)"
    and refund: "\<lbrakk>faults w = []; returnable w\<rbrakk> \<Longrightarrow> \<exists>w'. fs_Refund E F w = (Inr (), w') \<and> faults w' = [] \<and>
      spent w' = spent w - taken \<and> (\<forall>i. token_side i w' = token_side i w)"
    and spent_token_up: "faults w = [] \<Longrightarrow> spent (snd (IncreaseTokenQuota cfg now i k q w)) = spent w"
    and spent_token_down: "faults w = [] \<Longrightarrow> spent (snd (DecreaseTokenQuota cfg now i k q w)) = spent w"
begin

definition token_fits :: "relay_info \<Rightarrow> int \<Rightarrow> world \<Rightarrow> bool" where
  "token_fits ri d w \<longleftrightarrow> riIsPlayground ri \<or>
     (token_exists (riTokenId ri) w \<and> room (econf E) BatchUpdateTypeTokenQuota (riTokenId ri) (- d) w)"

definition token_change :: "relay_info \<Rightarrow> int \<Rightarrow> int" where
  "token_change ri d = (if riIsPlayground ri then 0 else d)"

lemma token_fits_side: "token_side (riTokenId ri) w' = token_side (riTokenId ri) w \<Longrightarrow> token_fits ri d w' = token_fits ri d w"
  by (simp add: token_fits_def token_side_def room_def)

lemma token_delta_books:
  assumes "faults w = []" "d \<noteq> 0" "in64 d" "token_fits ri d w" "\<not> riIsPlayground ri"
  shows "\<exists>w'. token_delta E ri d w = (Inr (), w') \<and> faults w' = [] \<and> spent w' = spent w \<and>
    allowance (riTokenId ri) w' = allowance (riTokenId ri) w - d"
proof -
  have r: "token_exists (riTokenId ri) w" "room (econf E) BatchUpdateTypeTokenQuota (riTokenId ri) (- d) w" "in64 (- d)"
    using assms by (auto simp: token_fits_def room_def)
  show ?thesis
  proof (cases "d > 0")
    case True
    let ?r = "DecreaseTokenQuota (econf E) (appNow E) (riTokenId ri) (riTokenKey ri) d w"
    have "fst ?r = Inr ()" "faults (snd ?r) = []" "spent (snd ?r) = spent w" "allowance (riTokenId ri) (snd ?r) = allowance (riTokenId ri) w - d"
      using True r assms(1) by (simp_all add: quota_ops_Inr quota_ops_faults spent_token_down allowance_Decrease)
    with True show ?thesis by (metis prod.collapse token_delta_def)
  next
    case False
    let ?r = "IncreaseTokenQuota (econf E) (appNow E) (riTokenId ri) (riTokenKey ri) (- d) w"
    have "fst ?r = Inr ()" "faults (snd ?r) = []" "spent (snd ?r) = spent w" "allowance (riTokenId ri) (snd ?r) = allowance (riTokenId ri) w - d"
      using False r assms(1) by (simp_all add: quota_ops_Inr quota_ops_faults spent_token_up allowance_Increase)
    with False r(3) show ?thesis by (metis i64_id prod.collapse token_delta_def)
  qed
qed

text \<open>Settling charges the difference to the source and to the token, whichever way it goes.\<close>

lemma settle_session:
  assumes "faults w = []" "funding s = F" "\<not> settled s" "\<not> fundingSettled s"
    and d: "d = q - preConsumedQuota s" "in64 d" and "d \<noteq> 0 \<Longrightarrow> ready d w" "token_fits (relayInfo s) d w"
  shows "\<exists>s' w'. Settle E q s w = ((Inr (), s'), w') \<and> settled s' \<and> faults w' = [] \<and> spent w' = spent w + d \<and>
    allowance (riTokenId (relayInfo s)) w' = allowance (riTokenId (relayInfo s)) w - token_change (relayInfo s) d"
proof (cases "d = 0")
  case True
  with assms show ?thesis by (simp add: Settle_def token_change_def)
next
  case False
  with settle [of w d] assms obtain w1 where w1: "fs_Settle E F d w = (Inr (), w1)" "faults w1 = []"
    "spent w1 = spent w + d" "\<And>i. token_side i w1 = token_side i w" by auto
  have al: "allowance (riTokenId (relayInfo s)) w1 = allowance (riTokenId (relayInfo s)) w"
    using w1(4) [of "riTokenId (relayInfo s)"] by (simp add: token_side_def)
  show ?thesis
  proof (cases "riIsPlayground (relayInfo s)")
    case True
    with False assms w1 al show ?thesis by (simp add: Settle_def Let_def token_change_def)
  next
    case nplay: False
    have "token_fits (relayInfo s) d w1" using assms(8) token_fits_side [OF w1(4)] by simp
    from token_delta_books [OF w1(2) False d(2) this nplay] obtain w2 where
      "token_delta E (relayInfo s) d w1 = (Inr (), w2)" "faults w2 = []" "spent w2 = spent w1"
      "allowance (riTokenId (relayInfo s)) w2 = allowance (riTokenId (relayInfo s)) w1 - d" by auto
    with False nplay assms w1 al show ?thesis by (simp add: Settle_def Let_def token_change_def)
  qed
qed

text \<open>A refund job gives the pre-consumed amounts back.\<close>

lemma refund_session:
  assumes "faults w = []" "funding s = F" "Refund s = (s', Some j)" "returnable w" "0 \<le> tokenConsumed s"
    and "token_fits (relayInfo s) (- tokenConsumed s) w"
  shows "spent (run_refund E j w) = spent w - taken \<and> refunded s' \<and>
    allowance (riTokenId (relayInfo s)) (run_refund E j w) = allowance (riTokenId (relayInfo s)) w + token_change (relayInfo s) (tokenConsumed s)"
proof -
  have j: "rjFunding j = F" "rjTokenId j = riTokenId (relayInfo s)" "rjTokenKey j = riTokenKey (relayInfo s)"
    "rjIsPlayground j = riIsPlayground (relayInfo s)" "rjTokenConsumed j = tokenConsumed s" "refunded s'"
    using assms(2,3) by (auto simp: Refund_def split: if_splits)
  from refund [OF assms(1,4)] obtain w1 where w1: "fs_Refund E F w = (Inr (), w1)" "faults w1 = []"
    "spent w1 = spent w - taken" "\<And>i. token_side i w1 = token_side i w" by auto
  have al: "allowance (riTokenId (relayInfo s)) w1 = allowance (riTokenId (relayInfo s)) w"
    using w1(4) [of "riTokenId (relayInfo s)"] by (simp add: token_side_def)
  show ?thesis
  proof (cases "tokenConsumed s > 0 \<and> \<not> riIsPlayground (relayInfo s)")
    case True
    have "token_fits (relayInfo s) (- tokenConsumed s) w1" using assms(6) token_fits_side [OF w1(4)] by simp
    with True have "token_exists (riTokenId (relayInfo s)) w1"
      "room (econf E) BatchUpdateTypeTokenQuota (riTokenId (relayInfo s)) (tokenConsumed s) w1" by (auto simp: token_fits_def)
    with True j w1 al show ?thesis
      by (simp add: run_refund_def Let_def allowance_Increase spent_token_up token_change_def)
  next
    case False
    with assms(5) have "token_change (relayInfo s) (tokenConsumed s) = 0" by (auto simp: token_change_def)
    with False j w1 al show ?thesis by (auto simp: run_refund_def Let_def)
  qed
qed

end

section \<open>The wallet as a funding source\<close>

definition wallet_ready :: "env \<Rightarrow> int \<Rightarrow> int \<Rightarrow> world \<Rightarrow> bool" where
  "wallet_ready E u d w \<longleftrightarrow> user_exists u w \<and> in64 d \<and> room (econf E) BatchUpdateTypeUserQuota u (- d) w"

lemma wallet_settle:
  assumes "faults w = []" "d \<noteq> 0" "wallet_ready E u d w"
  shows "\<exists>w'. fs_Settle E (Wallet \<lparr>wfUserId = u, wfConsumed = c\<rparr>) d w = (Inr (), w') \<and> faults w' = [] \<and>
    - wallet u w' = - wallet u w + d \<and> (\<forall>i. token_side i w' = token_side i w)"
proof -
  have r: "user_exists u w" "room (econf E) BatchUpdateTypeUserQuota u (- d) w" "in64 (- d)"
    using assms by (auto simp: wallet_ready_def room_def)
  let ?r = "if d > 0 then DecreaseUserQuota (econf E) u d False w else IncreaseUserQuota (econf E) u (- d) False w"
  have "fst ?r = Inr ()" "faults (snd ?r) = []" "- wallet u (snd ?r) = - wallet u w + d" "\<And>i. token_side i (snd ?r) = token_side i w"
    using r assms(1) by (simp_all add: quota_ops_Inr quota_ops_faults wallet_Decrease wallet_Increase token_side_user_ops)
  moreover have "fs_Settle E (Wallet \<lparr>wfUserId = u, wfConsumed = c\<rparr>) d w = ?r"
    using assms(2) r(3) by (simp add: wallet_Settle_def)
  ultimately show ?thesis by (metis prod.collapse)
qed

lemma wallet_refund:
  assumes "faults w = []" "0 \<le> c \<and> wallet_ready E u (- c) w"
  shows "\<exists>w'. fs_Refund E (Wallet \<lparr>wfUserId = u, wfConsumed = c\<rparr>) w = (Inr (), w') \<and> faults w' = [] \<and>
    - wallet u w' = - wallet u w - c \<and> (\<forall>i. token_side i w' = token_side i w)"
proof (cases "c = 0")
  case True
  with assms show ?thesis by (simp add: wallet_Refund_def ret_def)
next
  case False
  let ?r = "IncreaseUserQuota (econf E) u c False w"
  have "fst ?r = Inr ()" "faults (snd ?r) = []" "- wallet u (snd ?r) = - wallet u w - c" "\<And>i. token_side i (snd ?r) = token_side i w"
    using False assms by (simp_all add: wallet_ready_def quota_ops_Inr quota_ops_faults wallet_Increase token_side_user_ops)
  moreover have "fs_Refund E (Wallet \<lparr>wfUserId = u, wfConsumed = c\<rparr>) w = ?r" using False assms(2) by (simp add: wallet_Refund_def)
  ultimately show ?thesis by (metis prod.collapse)
qed

lemma wallet_token_ops:
  "faults w = [] \<Longrightarrow> - wallet u (snd (IncreaseTokenQuota cfg now i k q w)) = - wallet u w"
  "faults w = [] \<Longrightarrow> - wallet u (snd (DecreaseTokenQuota cfg now i k q w)) = - wallet u w"
  using user_side_token_ops [of w u cfg now i k q] by (simp_all add: user_side_def)

interpretation wfund: funding_source E "Wallet \<lparr>wfUserId = u, wfConsumed = c\<rparr>" "\<lambda>w. - wallet u w" "wallet_ready E u"
  "\<lambda>w. 0 \<le> c \<and> wallet_ready E u (- c) w" c for E u c
  by (intro funding_source.intro wallet_settle wallet_refund wallet_token_ops)

section \<open>A subscription as a funding source\<close>

definition sub_used :: "int \<Rightarrow> world \<Rightarrow> int" where
  "sub_used i w = (case row subId i (subs (db w)) of None \<Rightarrow> 0 | Some s \<Rightarrow> subAmountUsed s)"

definition sub_ready :: "int \<Rightarrow> int \<Rightarrow> world \<Rightarrow> bool" where
  "sub_ready i d w \<longleftrightarrow> 0 < i \<and> (\<exists>s. row subId i (subs (db w)) = Some s \<and> 0 \<le> subAmountUsed s + d \<and>
     subAmountUsed s + d < 2 ^ 63 \<and> (subAmountTotal s > 0 \<longrightarrow> subAmountUsed s + d \<le> subAmountTotal s))"

definition sub_returnable :: "string \<Rightarrow> int \<Rightarrow> int \<Rightarrow> world \<Rightarrow> bool" where
  "sub_returnable r i c w \<longleftrightarrow> TrimSpace r \<noteq> '''' \<and> 0 < c \<and> c < 2 ^ 63 \<and> 0 < i \<and>
     (\<exists>rec s. row pcRequestId r (precons (db w)) = Some rec \<and> pcStatus rec = ''consumed'' \<and> pcPreConsumed rec = c \<and>
        pcUserSubscriptionId rec = i \<and> row subId i (subs (db w)) = Some s \<and> c \<le> subAmountUsed s \<and>
        subAmountUsed s < 2 ^ 63 \<and> capped s \<and> subAmountTotal s < 2 ^ 63)"

lemma sub_used_with_used: "subId s = i \<Longrightarrow> sub_used i (w\<lparr>db := with_used E s n d\<rparr>) = n"
  by (simp add: sub_used_def with_used_def row_save_row)

lemma token_side_subs:
  "token_side j (w\<lparr>db := with_used E s n (db w)\<rparr>) = token_side j w"
  "token_side j (w\<lparr>db := (with_used E s n (db w))\<lparr>precons := ps\<rparr>\<rparr>) = token_side j w"
  by (simp_all add: token_side_def token_exists_def allowance_def token_quota_def pending_def with_used_def)

lemma sub_settle:
  assumes "faults w = []" "d \<noteq> 0" "sub_ready (sfSubscriptionId f) d w"
  shows "\<exists>w'. fs_Settle E (Sub f) d w = (Inr (), w') \<and> faults w' = [] \<and>
    sub_used (sfSubscriptionId f) w' = sub_used (sfSubscriptionId f) w + d \<and> (\<forall>i. token_side i w' = token_side i w)"
proof -
  from assms(3) obtain s where s: "0 < sfSubscriptionId f" "row subId (sfSubscriptionId f) (subs (db w)) = Some s"
    "0 \<le> subAmountUsed s + d" "subAmountUsed s + d < 2 ^ 63" "subAmountTotal s > 0 \<longrightarrow> subAmountUsed s + d \<le> subAmountTotal s"
    by (auto simp: sub_ready_def)
  have i: "i64 (subAmountUsed s + d) = subAmountUsed s + d" using s by (simp add: in64_def)
  have "\<not> (subAmountTotal s > 0 \<and> max 0 (i64 (subAmountUsed s + d)) > subAmountTotal s)" using s i by auto
  from PostConsume_ok [OF assms(1) s(1) assms(2) s(2) this, of E]
  have "fs_Settle E (Sub f) d w = (Inr (), w\<lparr>db := with_used E s (subAmountUsed s + d) (db w)\<rparr>)"
    using s(3) i assms(2) by (simp add: subscription_Settle_def max_def)
  moreover have "subId s = sfSubscriptionId f" using s(2) by (auto dest: row_SomeD)
  ultimately show ?thesis
    using assms(1) s(2) by (simp add: sub_used_with_used token_side_subs) (simp add: sub_used_def)
qed

lemma sub_refund:
  assumes "faults w = []" "sub_returnable (sfRequestId f) (sfSubscriptionId f) (sfPreConsumed f) w"
  shows "\<exists>w'. fs_Refund E (Sub f) w = (Inr (), w') \<and> faults w' = [] \<and>
    sub_used (sfSubscriptionId f) w' = sub_used (sfSubscriptionId f) w - sfPreConsumed f \<and> (\<forall>i. token_side i w' = token_side i w)"
proof -
  from assms(2) obtain rec s where a: "TrimSpace (sfRequestId f) \<noteq> ''''" "0 < sfPreConsumed f" "sfPreConsumed f < 2 ^ 63" "0 < sfSubscriptionId f"
    "row pcRequestId (sfRequestId f) (precons (db w)) = Some rec" "pcStatus rec = ''consumed''" "pcPreConsumed rec = sfPreConsumed f"
    "pcUserSubscriptionId rec = sfSubscriptionId f" "row subId (sfSubscriptionId f) (subs (db w)) = Some s" "sfPreConsumed f \<le> subAmountUsed s"
    "subAmountUsed s < 2 ^ 63" "capped s" "subAmountTotal s < 2 ^ 63"
    by (auto simp: sub_returnable_def)
  let ?w = "w\<lparr>db := (with_used E s (subAmountUsed s - sfPreConsumed f) (db w))
     \<lparr>precons := save_row pcId (rec\<lparr>pcStatus := ''refunded'', pcUpdatedAt := appNow E\<rparr>) (precons (db w))\<rparr>\<rparr>"
  have "RefundSubscriptionPreConsume E (sfRequestId f) w = (Inr (), ?w)"
    using Refund_ok [OF assms(1) a(1) a(5), of s E] a by (simp add: max_def)
  then have "fs_Refund E (Sub f) w = (Inr (), ?w)"
    using a(2) by (simp add: subscription_Refund_def refundWithRetry_def numeral_3_eq_3 handle_def ret_def)
  moreover have "subId s = sfSubscriptionId f" using a(9) by (auto dest: row_SomeD)
  moreover have "sub_used (sfSubscriptionId f) ?w = subAmountUsed s - sfPreConsumed f"
    using \<open>subId s = _\<close> by (simp add: sub_used_def with_used_def row_save_row)
  ultimately show ?thesis
    using assms(1) a(9) by (simp add: token_side_subs) (simp add: sub_used_def)
qed

lemma sub_token_ops:
  "faults w = [] \<Longrightarrow> sub_used j (snd (IncreaseTokenQuota cfg now i k q w)) = sub_used j w"
  "faults w = [] \<Longrightarrow> sub_used j (snd (DecreaseTokenQuota cfg now i k q w)) = sub_used j w"
  by (simp_all add: sub_used_def subs_token_ops)

interpretation sfund: funding_source E "Sub f" "sub_used (sfSubscriptionId f)" "sub_ready (sfSubscriptionId f)"
  "sub_returnable (sfRequestId f) (sfSubscriptionId f) (sfPreConsumed f)" "sfPreConsumed f" for E f
  by (intro funding_source.intro sub_settle sub_refund sub_token_ops)

section \<open>What leaves the books alone\<close>

definition same_books :: "world \<Rightarrow> world \<Rightarrow> bool" where
  "same_books w w' \<longleftrightarrow> faults w' = [] \<and> (\<forall>i. user_side i w' = user_side i w) \<and> (\<forall>i. token_side i w' = token_side i w) \<and>
     subs (db w') = subs (db w) \<and> precons (db w') = precons (db w)"

lemma same_books_refl: "faults w = [] \<Longrightarrow> same_books w w"
  by (simp add: same_books_def)

lemma same_books_trans: "same_books w w1 \<Longrightarrow> same_books w1 w2 \<Longrightarrow> same_books w w2"
  by (simp add: same_books_def)

lemma same_booksI: "faults w' = [] \<Longrightarrow> db w' = db w \<Longrightarrow> batch w' = batch w \<Longrightarrow> same_books w w'"
  unfolding same_books_def by (intro conjI allI side_cong) simp_all

text \<open>Computations that touch neither the batch stores nor, when nothing is scheduled to fail, the
  schedule.\<close>

definition quiet :: "'a io \<Rightarrow> bool" where
  "quiet m \<longleftrightarrow> (\<forall>w. batch (snd (m w)) = batch w \<and> (faults w = [] \<longrightarrow> faults (snd (m w)) = []))"

named_theorems quiet_rules \<open>rules for \<open>quiet\<close>, one per statement form\<close>

lemma quietD: "quiet m \<Longrightarrow> batch (snd (m w)) = batch w" "quiet m \<Longrightarrow> faults w = [] \<Longrightarrow> faults (snd (m w)) = []"
  by (simp_all add: quiet_def)

lemma quiet_stmt [quiet_rules]: "quiet (stmt f)"
  unfolding quiet_def
proof
  fix w
  show "batch (snd (stmt f w)) = batch w \<and> (faults w = [] \<longrightarrow> faults (snd (stmt f w)) = [])"
    by (cases rule: stmt_cases [of w f]) auto
qed

lemma quiet_ret [quiet_rules]: "quiet (ret x)" and quiet_err [quiet_rules]: "quiet (err e)"
  and quiet_gets [quiet_rules]: "quiet (gets g)"
  by (simp_all add: quiet_def ret_def err_def gets_def)

lemma quiet_modify [quiet_rules]:
  "(\<And>w. batch (f w) = batch w) \<Longrightarrow> (\<And>w. faults (f w) = faults w) \<Longrightarrow> quiet (modify f)"
  by (simp add: quiet_def modify_def)

lemma quiet_chk [quiet_rules]:
  assumes "quiet m" "\<And>x. quiet (k x)"
  shows "quiet (chk m k)"
  unfolding quiet_def
proof
  fix w
  obtain r w1 where m: "m w = (r, w1)" by fastforce
  then show "batch (snd (chk m k w)) = batch w \<and> (faults w = [] \<longrightarrow> faults (snd (chk m k w)) = [])"
    using quietD [OF assms(1), of w] quietD [OF assms(2), where w = w1] by (cases r) (auto simp: chk_def)
qed

lemma quiet_handle [quiet_rules]:
  assumes "quiet m" "\<And>e. quiet (h e)" "\<And>x. quiet (k x)"
  shows "quiet (handle m h k)"
  unfolding quiet_def
proof
  fix w
  obtain r w1 where m: "m w = (r, w1)" by fastforce
  then show "batch (snd (handle m h k w)) = batch w \<and> (faults w = [] \<longrightarrow> faults (snd (handle m h k w)) = [])"
    using quietD [OF assms(1), of w] quietD [OF assms(2), where w = w1] quietD [OF assms(3), where w = w1]
    by (cases r) (auto simp: handle_def)
qed

lemma quiet_if [quiet_rules]: "quiet m \<Longrightarrow> quiet m' \<Longrightarrow> quiet (if b then m else m')"
  by simp

lemma quiet_query [quiet_rules]: "quiet (query q)" and quiet_exec [quiet_rules]: "quiet (exec f)"
  by (simp_all add: query_def exec_def quiet_stmt)

lemma quiet_first [quiet_rules]: "quiet (first q)"
  unfolding first_def by (intro quiet_rules) (simp add: quiet_ret quiet_err split: option.split)

lemma quiet_commit [quiet_rules]:
  assumes "quiet m"
  shows "quiet (commit m)"
  unfolding quiet_def
proof
  fix w
  obtain r w1 where m: "m w = (r, w1)" by fastforce
  obtain r2 w2 where e: "exec id w1 = (r2, w2)" by fastforce
  show "batch (snd (commit m w)) = batch w \<and> (faults w = [] \<longrightarrow> faults (snd (commit m w)) = [])"
    using quietD [OF assms, of w] quietD [OF quiet_exec [of id], of w1] m e
    by (cases r; cases r2) (auto simp: commit_def)
qed

lemma quiet_transaction [quiet_rules]: "quiet m \<Longrightarrow> quiet (transaction m)"
  unfolding transaction_def by (intro quiet_rules)

lemma quiet_plan: "quiet (getSubscriptionPlanByIdTx i)"
  unfolding getSubscriptionPlanByIdTx_def
  by (intro quiet_rules) (auto split: option.split intro!: quiet_rules)

lemma quiet_maybeReset: "quiet (maybeResetUserSubscriptionWithPlanTx E s p now)"
  unfolding maybeResetUserSubscriptionWithPlanTx_def save_sub_def
  by (auto simp: Let_def split: option.split intro!: quiet_rules)

lemma quiet_candidates: "quiet (consume_candidates E now r u a cs)"
proof (induction cs)
  case Nil
  then show ?case by (simp add: quiet_err)
next
  case (Cons c cs)
  then show ?case
    unfolding consume_candidates.simps create_precon_def save_sub_def
    by (auto simp: Let_def intro!: quiet_rules quiet_plan quiet_maybeReset)
qed

lemma quiet_PreConsume: "quiet (PreConsumeUserSubscription E r u a)"
  unfolding PreConsumeUserSubscription_def GetDBTimestamp_def
  by (auto simp: Let_def split: option.split intro!: quiet_rules quiet_candidates)

lemma PreConsume_Inl_db: "PreConsumeUserSubscription E r u a w = (Inl e, w') \<Longrightarrow> db w' = db w"
proof -
  have "triple (\<lambda>d. d = db w) (PreConsumeUserSubscription E r u a) (\<lambda>_ _. True) (\<lambda>d. d = db w)"
    unfolding PreConsumeUserSubscription_def GetDBTimestamp_def
    by (intro triple_if triple_err triple_chk [where Q = "\<lambda>_ d. d = db w"] triple_transaction [where F = "\<lambda>_. True"]
        triple_handle [where Q = "\<lambda>_ d. d = db w" and F = "\<lambda>d. d = db w"] triple_query triple_ret) (auto simp: triple_def split: prod.splits sum.splits)
  then show "PreConsumeUserSubscription E r u a w = (Inl e, w') \<Longrightarrow> db w' = db w" by (rule tripleD_Inl) simp_all
qed

lemma PreConsume_fails_quietly:
  assumes "faults w = []" "PreConsumeUserSubscription E r u a w = (Inl e, w')"
  shows "same_books w w'"
  using quietD [OF quiet_PreConsume [of E r u a], where w = w] PreConsume_Inl_db [OF assms(2)] assms by (intro same_booksI) auto

section \<open>Opening a session\<close>

text \<open>\<open>moves cfg u du t dt\<close>: the wallet of \<open>u\<close> has changed by \<open>du\<close> and the token \<open>t\<close> by \<open>dt\<close>, nothing else.\<close>

definition moves :: "conf \<Rightarrow> int \<Rightarrow> int \<Rightarrow> int \<Rightarrow> int \<Rightarrow> world \<Rightarrow> world \<Rightarrow> bool" where
  "moves cfg u du t dt w w' \<longleftrightarrow> faults w' = [] \<and> subs (db w') = subs (db w) \<and> precons (db w') = precons (db w) \<and>
     (\<forall>j. user_exists j w' = user_exists j w \<and> wallet j w' = wallet j w + (if j = u then du else 0) \<and>
        pending BatchUpdateTypeUserQuota j w' = pending BatchUpdateTypeUserQuota j w + (if j = u \<and> BatchUpdateEnabled cfg then du else 0)) \<and>
     (\<forall>j. token_exists j w' = token_exists j w \<and> allowance j w' = allowance j w + (if j = t then dt else 0) \<and>
        pending BatchUpdateTypeTokenQuota j w' = pending BatchUpdateTypeTokenQuota j w + (if j = t \<and> BatchUpdateEnabled cfg then dt else 0))"

lemma moves_same: "same_books w w' \<Longrightarrow> moves cfg u 0 t 0 w w'"
  by (simp add: moves_def same_books_def user_side_def token_side_def)

lemma moves_trans:
  "moves cfg u du t dt w w1 \<Longrightarrow> moves cfg u du' t dt' w1 w2 \<Longrightarrow> moves cfg u (du + du') t (dt + dt') w w2"
  by (auto simp: moves_def)

lemma moves_0: "moves cfg u 0 t 0 w w' \<Longrightarrow> moves cfg u' 0 t' 0 w w'"
  by (simp add: moves_def)

text \<open>The pending batch amounts are far from the edges of 64 bits.\<close>

definition calm :: "conf \<Rightarrow> nat \<Rightarrow> int \<Rightarrow> int \<Rightarrow> world \<Rightarrow> bool" where
  "calm cfg ty i n w \<longleftrightarrow> (BatchUpdateEnabled cfg \<longrightarrow> \<bar>pending ty i w\<bar> \<le> n)"

lemma calm_room: "calm cfg ty i n w \<Longrightarrow> \<bar>d\<bar> \<le> m \<Longrightarrow> 0 \<le> n \<Longrightarrow> n + m < 2 ^ 63 \<Longrightarrow> room cfg ty i d w"
  by (auto simp: calm_def room_def in64_def)

lemma calm_moves:
  assumes "moves cfg u du t dt w w'"
  shows "calm cfg BatchUpdateTypeUserQuota u n w \<Longrightarrow> \<bar>du\<bar> \<le> m \<Longrightarrow> calm cfg BatchUpdateTypeUserQuota u (n + m) w'"
    and "calm cfg BatchUpdateTypeTokenQuota t n w \<Longrightarrow> \<bar>dt\<bar> \<le> m \<Longrightarrow> calm cfg BatchUpdateTypeTokenQuota t (n + m) w'"
  using assms by (auto simp: calm_def moves_def)

lemma pending_user_ops:
  assumes "faults w = []" "0 \<le> q"
  shows "room cfg BatchUpdateTypeUserQuota i q w \<Longrightarrow> pending BatchUpdateTypeUserQuota j (snd (IncreaseUserQuota cfg i q False w)) =
      pending BatchUpdateTypeUserQuota j w + (if j = i \<and> BatchUpdateEnabled cfg then q else 0)"
    and "room cfg BatchUpdateTypeUserQuota i (- q) w \<Longrightarrow> pending BatchUpdateTypeUserQuota j (snd (DecreaseUserQuota cfg i q False w)) =
      pending BatchUpdateTypeUserQuota j w + (if j = i \<and> BatchUpdateEnabled cfg then - q else 0)"
  using assms by (auto simp: IncreaseUserQuota_ok DecreaseUserQuota_ok room_def pending_addNewRecord)

lemma pending_token_ops:
  assumes "faults w = []" "0 \<le> q"
  shows "room cfg BatchUpdateTypeTokenQuota i q w \<Longrightarrow> pending BatchUpdateTypeTokenQuota j (snd (IncreaseTokenQuota cfg now i k q w)) =
      pending BatchUpdateTypeTokenQuota j w + (if j = i \<and> BatchUpdateEnabled cfg then q else 0)"
    and "room cfg BatchUpdateTypeTokenQuota i (- q) w \<Longrightarrow> pending BatchUpdateTypeTokenQuota j (snd (DecreaseTokenQuota cfg now i k q w)) =
      pending BatchUpdateTypeTokenQuota j w + (if j = i \<and> BatchUpdateEnabled cfg then - q else 0)"
  using assms by (auto simp: IncreaseTokenQuota_ok DecreaseTokenQuota_ok room_def pending_addNewRecord Let_def)

lemma subs_user_ops:
  assumes "faults w = []"
  shows "subs (db (snd (DecreaseUserQuota cfg i q False w))) = subs (db w)"
    and "precons (db (snd (DecreaseUserQuota cfg i q False w))) = precons (db w)"
  using assms by (simp_all add: DecreaseUserQuota_def decreaseUserQuota_def Let_def)

lemma moves_user_down:
  assumes "faults w = []" "0 \<le> q" "user_exists u w" "room cfg BatchUpdateTypeUserQuota u (- q) w"
  shows "moves cfg u (- q) t 0 w (snd (DecreaseUserQuota cfg u q False w))"
  using assms token_side_user_ops(2) [OF assms(1)]
  by (simp add: moves_def quota_ops_faults subs_user_ops wallet_Decrease pending_user_ops token_side_def)

lemma moves_token_down:
  assumes "faults w = []" "0 \<le> q" "token_exists t w" "room cfg BatchUpdateTypeTokenQuota t (- q) w"
  shows "moves cfg u 0 t (- q) w (snd (DecreaseTokenQuota cfg now t k q w))"
  using assms user_side_token_ops(2) [OF assms(1)]
  by (simp add: moves_def quota_ops_faults subs_token_ops allowance_Decrease pending_token_ops user_side_def del: One_nat_def)

lemma moves_token_up:
  assumes "faults w = []" "0 \<le> q" "token_exists t w" "room cfg BatchUpdateTypeTokenQuota t q w"
  shows "moves cfg u 0 t q w (snd (IncreaseTokenQuota cfg now t k q w))"
  using assms user_side_token_ops(1) [OF assms(1)]
  by (simp add: moves_def quota_ops_faults subs_token_ops allowance_Increase pending_token_ops user_side_def del: One_nat_def)

lemma GetTokenByKey_books: "faults w = [] \<Longrightarrow> same_books w (snd (GetTokenByKey cfg key b w))"
  by (intro same_booksI) (simp_all add: GetTokenByKey_def split: option.splits)

lemma GetUserQuota_books: "faults w = [] \<Longrightarrow> same_books w (snd (GetUserQuota cfg i b w))"
  by (intro same_booksI) (simp_all add: GetUserQuota_def GetUserCache_def GetUserById_def Let_def split: option.splits sum.splits)

text \<open>The state a request's bill starts from: its user and, unless it comes from the playground, its
  token exist.\<close>

definition billable :: "env \<Rightarrow> relay_info \<Rightarrow> int \<Rightarrow> world \<Rightarrow> bool" where
  "billable E ri n w \<longleftrightarrow> faults w = [] \<and> user_exists (riUserId ri) w \<and> calm (econf E) BatchUpdateTypeUserQuota (riUserId ri) n w \<and>
     (riIsPlayground ri \<or> token_exists (riTokenId ri) w \<and> calm (econf E) BatchUpdateTypeTokenQuota (riTokenId ri) n w)"

definition token_part :: "relay_info \<Rightarrow> int \<Rightarrow> int" where
  "token_part ri d = (if riIsPlayground ri then 0 else d)"

abbreviation moved :: "env \<Rightarrow> relay_info \<Rightarrow> int \<Rightarrow> int \<Rightarrow> world \<Rightarrow> world \<Rightarrow> bool" where
  "moved E ri du dt \<equiv> moves (econf E) (riUserId ri) du (riTokenId ri) dt"

lemma billable_moved:
  assumes "billable E ri n w" "moved E ri du dt w w'" "\<bar>du\<bar> \<le> m" "\<bar>dt\<bar> \<le> m"
  shows "billable E ri (n + m) w'"
  using assms calm_moves [OF assms(2)] by (auto simp: billable_def) (auto simp: moves_def)

lemma PreConsumeTokenQuota_moves:
  assumes "billable E ri n w" "0 \<le> q" "0 \<le> n" "n + q < 2 ^ 63" "PreConsumeTokenQuota E ri q w = (r, w1)"
  shows "moved E ri 0 (case r of Inl _ \<Rightarrow> 0 | Inr _ \<Rightarrow> token_part ri (- q)) w w1"
proof -
  have f: "faults w = []" using assms(1) by (simp add: billable_def)
  show ?thesis
  proof (cases "riIsPlayground ri")
    case True
    with assms f show ?thesis
      by (auto simp: PreConsumeTokenQuota_def ret_def token_part_def intro!: moves_same same_books_refl)
  next
    case False
    obtain r0 v where g: "GetTokenByKey (econf E) (riTokenKey ri) False w = (r0, v)" by fastforce
    have b: "same_books w v" using GetTokenByKey_books [OF f, of "econf E" "riTokenKey ri" False] g by simp
    have m0: "moved E ri 0 0 w v" by (rule moves_same [OF b])
    have bv: "billable E ri (n + 0) v" by (rule billable_moved [OF assms(1) m0]) simp_all
    have room: "room (econf E) BatchUpdateTypeTokenQuota (riTokenId ri) (- q) v" "token_exists (riTokenId ri) v" "faults v = []"
      using bv False assms(2-4) calm_room [of "econf E" BatchUpdateTypeTokenQuota "riTokenId ri" n v "- q" q]
      by (auto simp: billable_def)
    let ?d = "DecreaseTokenQuota (econf E) (appNow E) (riTokenId ri) (riTokenKey ri) q v"
    have d: "fst ?d = Inr ()" using room assms(2) by (intro quota_ops_Inr) (auto simp: room_def)
    have m1: "moved E ri (0 + 0) (0 + - q) w (snd ?d)"
      by (rule moves_trans [OF m0 moves_token_down]) (use room assms(2) in simp_all)
    show ?thesis
      using assms(2,5) False g d m0 m1
      by (cases r0; cases ?d) (auto simp: PreConsumeTokenQuota_def chk_def err_def token_part_def split: if_splits)
  qed
qed

text \<open>Opening a session fails without a trace: the token's share is given back when the funds refuse.\<close>

lemma preConsume_fails:
  assumes b: "billable E (relayInfo s) n w" and q: "0 \<le> q" "0 \<le> n" "n + 2 * q < 2 ^ 63"
    and s: "tokenConsumed s = 0" and r: "preConsume E q s w = (Inl e, w')"
    and f: "\<And>a v v' x. faults v = [] \<Longrightarrow> user_exists (riUserId (relayInfo s)) v \<Longrightarrow> a = 0 \<or> a = q \<Longrightarrow>
      fs_PreConsume E (funding s) a v = (Inl x, v') \<Longrightarrow> same_books v v'"
  shows "moved E (relayInfo s) 0 0 w w'"
proof -
  let ?ri = "relayInfo s" and ?p = "if shouldTrust E s then 0 else q"
  obtain r1 w1 where t: "(if ?p > 0 then PreConsumeTokenQuota E ?ri ?p w else (Inr (), w)) = (r1, w1)" by fastforce
  let ?dt = "case r1 of Inl _ \<Rightarrow> 0 | Inr _ \<Rightarrow> token_part ?ri (- ?p)"
  have m1: "moved E ?ri 0 ?dt w w1"
  proof (cases "?p > 0")
    case True
    with t PreConsumeTokenQuota_moves [OF b, of ?p r1 w1] q show ?thesis by auto
  next
    case False
    with t q b show ?thesis by (auto simp: token_part_def billable_def intro!: moves_same same_books_refl split: if_splits)
  qed
  show ?thesis
  proof (cases r1)
    case (Inl x)
    with r t m1 show ?thesis by (simp add: preConsume_def Let_def split: if_splits)
  next
    case (Inr x)
    have b1: "billable E ?ri (n + q) w1" by (rule billable_moved [OF b m1]) (use q Inr in \<open>auto simp: token_part_def\<close>)
    obtain r2 w2 where f2: "fs_PreConsume E (funding s) ?p w1 = (r2, w2)" by fastforce
    from r t Inr f2 obtain y where y: "r2 = Inl y" and w': "w' = (if ?p > 0 \<and> \<not> riIsPlayground ?ri
        then snd (IncreaseTokenQuota (econf E) (appNow E) (riTokenId ?ri) (riTokenKey ?ri) ?p w2) else w2)"
      by (cases r2) (auto simp: preConsume_def Let_def s split: if_splits)
    have sb: "same_books w1 w2" using f [of w1 ?p y w2] b1 f2 y by (auto simp: billable_def)
    have m2: "moved E ?ri 0 0 w1 w2" by (rule moves_same [OF sb])
    have b2: "billable E ?ri (n + q + 0) w2" by (rule billable_moved [OF b1 m2]) simp_all
    have m12: "moved E ?ri (0 + 0) (token_part ?ri (- ?p) + 0) w w2" using moves_trans [OF m1 m2] Inr by simp
    show ?thesis
    proof (cases "?p > 0 \<and> \<not> riIsPlayground ?ri")
      case True
      have room: "room (econf E) BatchUpdateTypeTokenQuota (riTokenId ?ri) ?p w2" "token_exists (riTokenId ?ri) w2" "faults w2 = []"
        using b2 True q calm_room [of "econf E" BatchUpdateTypeTokenQuota "riTokenId ?ri" "n + q" w2 ?p q] by (auto simp: billable_def)
      have "moved E ?ri (0 + 0 + 0) (token_part ?ri (- ?p) + 0 + ?p) w w'"
        unfolding w' if_P [OF True] by (rule moves_trans [OF m12 moves_token_up]) (use room q in auto)
      with True show ?thesis by (simp add: token_part_def)
    next
      case False
      with q have "token_part ?ri (- ?p) = 0" by (auto simp: token_part_def)
      with m12 show ?thesis unfolding w' if_not_P [OF False] by simp
    qed
  qed
qed

lemma wallet_PreConsume_quiet:
  assumes "faults v = []" "0 \<le> a" "a < 2 ^ 63"
  shows "fs_PreConsume E (Wallet f) a v \<noteq> (Inl x, v')"
proof -
  have "fst (DecreaseUserQuota (econf E) (wfUserId f) a False v) = Inr ()"
    using assms by (intro quota_ops_Inr) (auto simp: in64_def)
  then show ?thesis by (auto simp: wallet_PreConsume_def chk_def ret_def split: prod.splits sum.splits)
qed

lemma sub_PreConsume_quiet:
  assumes "faults v = []" "fs_PreConsume E (Sub f) a v = (Inl x, v')"
  shows "same_books v v'"
proof -
  have "handle m (\<lambda>_. ret g) (\<lambda>(p, t). ret (h p t)) v1 \<noteq> (Inl y, v2)" for m :: "(int \<times> string) io" and g :: SubscriptionFunding and h v1 v2 y
    by (auto simp: handle_def ret_def split: prod.splits sum.splits)
  then have "\<exists>y. PreConsumeUserSubscription E (sfRequestId f) (sfUserId f) (sfAmount f) v = (Inl y, v')"
    using assms(2) by (auto simp: subscription_PreConsume_def chk_def ret_def Let_def split: prod.splits sum.splits)
  with assms(1) show ?thesis by (auto intro: PreConsume_fails_quietly)
qed

text \<open>A wallet session takes the same amount, possibly nothing for a trusted user, from the wallet and the
  token.\<close>

definition opened :: "relay_info \<Rightarrow> FundingSource \<Rightarrow> int \<Rightarrow> BillingSession \<Rightarrow> bool" where
  "opened ri f p s \<longleftrightarrow> funding s = f \<and> preConsumedQuota s = p \<and> tokenConsumed s = p \<and> \<not> settled s \<and> \<not> fundingSettled s \<and>
     \<not> refunded s \<and> riUserId (relayInfo s) = riUserId ri \<and> riTokenId (relayInfo s) = riTokenId ri \<and>
     riIsPlayground (relayInfo s) = riIsPlayground ri \<and> riBillingSource (relayInfo s) = Source f"

lemma opened_sync:
  assumes "\<not> settled s" "\<not> fundingSettled s" "\<not> refunded s" "relayInfo s = ri"
  shows "opened ri f p (syncRelayInfo (s\<lparr>funding := f, tokenConsumed := p, preConsumedQuota := p\<rparr>))"
  using assms by (cases f) (simp_all add: opened_def syncRelayInfo_def Let_def)

lemma preConsume_Inr:
  assumes b: "billable E ri n w" and q: "0 \<le> q" "0 \<le> n" "n + q < 2 ^ 63"
    and r: "preConsume E q (fresh_session ri f) w = (Inr s, w')"
  obtains w1 f' p where "p = 0 \<or> p = q" "p = 0 \<and> shouldTrust E (fresh_session ri f) \<or> p = q"
    "moved E ri 0 (token_part ri (- p)) w w1" "fs_PreConsume E f p w1 = (Inr f', w')" "opened ri f' p s"
proof -
  let ?s = "fresh_session ri f"
  let ?p = "if shouldTrust E ?s then 0 else q"
  have ri: "relayInfo ?s = ri" "funding ?s = f" "tokenConsumed ?s = 0" by (simp_all add: fresh_session_def)
  obtain r1 w1 where t: "(if ?p > 0 then PreConsumeTokenQuota E ri ?p w else (Inr (), w)) = (r1, w1)" by fastforce
  with r obtain x where x: "r1 = Inr x" by (cases r1) (auto simp: preConsume_def Let_def ri split: if_splits)
  have m1: "moved E ri 0 (token_part ri (- ?p)) w w1"
  proof (cases "?p > 0")
    case True
    with t x PreConsumeTokenQuota_moves [OF b, of ?p r1 w1] q show ?thesis by auto
  next
    case False
    with t q b show ?thesis by (auto simp: token_part_def billable_def intro!: moves_same same_books_refl split: if_splits)
  qed
  obtain r2 w2 where f2: "fs_PreConsume E f ?p w1 = (r2, w2)" by fastforce
  with r t x obtain f' where f': "r2 = Inr f'" "w' = w2"
    "s = syncRelayInfo (?s\<lparr>funding := f', tokenConsumed := (if ?p > 0 then ?p else 0), preConsumedQuota := ?p\<rparr>)"
    by (cases r2) (auto simp: preConsume_def Let_def ri fresh_session_def split: if_splits)
  have "(if ?p > 0 then ?p else 0) = ?p" using q by simp
  with f'(3) have "opened ri f' ?p s" using opened_sync [of ?s ri f' ?p] by (simp add: fresh_session_def)
  with that [of ?p w1 f'] m1 f2 f' show ?thesis by auto
qed

lemma preConsume_wallet:
  assumes b: "billable E ri n w" and q: "0 \<le> q" "0 \<le> n" "n + 2 * q < 2 ^ 63"
    and r: "preConsume E q (fresh_session ri (Wallet \<lparr>wfUserId = riUserId ri, wfConsumed = 0\<rparr>)) w = (Inr s, w')"
  obtains p where "0 \<le> p" "p \<le> q" "opened ri (Wallet \<lparr>wfUserId = riUserId ri, wfConsumed = p\<rparr>) p s"
    "moved E ri (- p) (token_part ri (- p)) w w'"
proof -
  have "n + q < 2 ^ 63" using q by linarith
  then obtain w1 f' p where p: "p = 0 \<or> p = q" and "p = 0 \<and> shouldTrust E (fresh_session ri (Wallet \<lparr>wfUserId = riUserId ri, wfConsumed = 0\<rparr>)) \<or> p = q"
    and m1: "moved E ri 0 (token_part ri (- p)) w w1"
    and f: "fs_PreConsume E (Wallet \<lparr>wfUserId = riUserId ri, wfConsumed = 0\<rparr>) p w1 = (Inr f', w')" and op: "opened ri f' p s"
    by (rule preConsume_Inr [OF b q(1,2) _ r])
  have b1: "billable E ri (n + q) w1" by (rule billable_moved [OF b m1]) (use p q in \<open>auto simp: token_part_def\<close>)
  have room: "room (econf E) BatchUpdateTypeUserQuota (riUserId ri) (- p) w1" "user_exists (riUserId ri) w1" "faults w1 = []"
    using b1 p q calm_room [of "econf E" BatchUpdateTypeUserQuota "riUserId ri" "n + q" w1 "- p" q] by (auto simp: billable_def)
  let ?d = "DecreaseUserQuota (econf E) (riUserId ri) p False w1"
  have d: "fst ?d = Inr ()" using room p q by (intro quota_ops_Inr) (auto simp: room_def)
  show ?thesis
  proof (cases "p = 0")
    case True
    with f m1 op show ?thesis by (intro that [of 0]) (use q in \<open>auto simp: wallet_PreConsume_def chk_def ret_def token_part_def\<close>)
  next
    case False
    with f d p q have fw: "f' = Wallet \<lparr>wfUserId = riUserId ri, wfConsumed = p\<rparr>" "w' = snd ?d"
      by (cases ?d; auto simp: wallet_PreConsume_def chk_def ret_def)+
    have "moved E ri (0 + - p) (token_part ri (- p) + 0) w w'"
      unfolding fw by (rule moves_trans [OF m1 moves_user_down]) (use room p q in auto)
    then show ?thesis using that [of p] op fw p q by auto
  qed
qed

text \<open>Charging a subscription touches neither users nor tokens.\<close>

definition accounts :: "user list \<Rightarrow> token list \<Rightarrow> db \<Rightarrow> bool" where
  "accounts us ts d \<longleftrightarrow> users d = us \<and> tokens d = ts"

lemma keeps_chk: "keeps P m \<Longrightarrow> (\<And>x. keeps P (k x)) \<Longrightarrow> keeps P (chk m k)"
  and keeps_handle: "keeps P m \<Longrightarrow> (\<And>e. keeps P (h e)) \<Longrightarrow> (\<And>x. keeps P (k' x)) \<Longrightarrow> keeps P (handle m h k')"
  by (auto intro: triple_chk triple_handle)

lemma keeps_basic: "keeps P (ret x)" "keeps P (err e)" "keeps P (query q)" "keeps P (first f)" "keeps P (gets g)"
  by (auto intro: triple_ret triple_err triple_query triple_first triple_gets)

lemma accounts_save_sub: "keeps (accounts us ts) (save_sub E s)"
  unfolding save_sub_def by (rule triple_exec) (auto simp: accounts_def)

lemma accounts_maybeReset: "keeps (accounts us ts) (maybeResetUserSubscriptionWithPlanTx E s p now)"
  by (rule triple_maybeReset) (auto intro!: keeps_chk keeps_basic accounts_save_sub)

lemma accounts_create_precon: "keeps (accounts us ts) (create_precon E r u i a)"
  unfolding create_precon_def by (intro keeps_chk triple_stmt triple_if keeps_basic) (auto simp: accounts_def)

lemma accounts_candidates: "keeps (accounts us ts) (consume_candidates E now r u a cs)"
  by (induction cs) (auto simp: Let_def intro!: keeps_chk keeps_handle keeps_basic keeps_plan accounts_maybeReset
      accounts_create_precon accounts_save_sub triple_if)

lemma accounts_PreConsume: "keeps (accounts us ts) (PreConsumeUserSubscription E r u a)"
  unfolding PreConsumeUserSubscription_def
  by (auto split: option.split intro!: triple_if keeps_chk keeps_handle keeps_basic keeps_timestamp
      triple_transaction [where F = "accounts us ts"] accounts_candidates)

lemma accounts_PlanInfo: "keeps P (GetSubscriptionPlanInfoByUserSubscriptionId i)"
  unfolding GetSubscriptionPlanInfoByUserSubscriptionId_def
  by (auto split: option.split intro!: triple_if keeps_chk keeps_basic keeps_plan triple_modify)

lemma quiet_PlanInfo: "quiet (GetSubscriptionPlanInfoByUserSubscriptionId i)"
  unfolding GetSubscriptionPlanInfoByUserSubscriptionId_def
  by (auto split: option.split intro!: quiet_rules quiet_plan)

lemma accounts_side:
  assumes "accounts (users (db w)) (tokens (db w)) (db w')" "batch w' = batch w"
  shows "token_side i w' = token_side i w" "user_side i w' = user_side i w"
  using assms by (simp_all add: accounts_def token_side_def user_side_def token_exists_def user_exists_def allowance_def wallet_def
      token_quota_def user_quota_def pending_def)

text \<open>A subscription session: the request is charged once, to one subscription of the user, with the
  amount that the session remembers.\<close>

lemma subscription_PreConsume_Inr:
  assumes "faults w = []" "row pcRequestId (sfRequestId f) (precons (db w)) = None" "subscription_PreConsume E f w = (Inr g, w')"
  shows "faults w' = []" "\<And>i. token_side i w' = token_side i w" "\<And>i. user_side i w' = user_side i w"
    "sfPreConsumed g = sfAmount f" "sfRequestId g = sfRequestId f" "recorded (sfRequestId f) (sfSubscriptionId g) (sfAmount f) (db w')"
    "sub_used (sfSubscriptionId g) w' = sfAmountUsedAfter g"
proof -
  obtain r w1 where p: "PreConsumeUserSubscription E (sfRequestId f) (sfUserId f) (sfAmount f) w = (r, w1)" by fastforce
  with assms(3) obtain x where x: "r = Inr x" by (cases r) (auto simp: subscription_PreConsume_def chk_def)
  have c: "charged (sfRequestId f) (sfUserId f) (sfAmount f) x (db w1)"
    using tripleD [OF PreConsume_charges, of w "db w"] p x assms(2) by (simp add: uncharged_def)
  have q1: "batch w1 = batch w" "faults w1 = []"
    using quietD [OF quiet_PreConsume, where w = w] p assms(1) by (metis snd_conv)+
  have a1: "accounts (users (db w)) (tokens (db w)) (db w1)"
    by (rule tripleD [OF accounts_PreConsume _ p [unfolded x]]) (simp add: accounts_def)
  obtain r2 w2 where i: "GetSubscriptionPlanInfoByUserSubscriptionId (prUserSubscriptionId x) w1 = (r2, w2)" by fastforce
  have d2: "db w2 = db w1"
    using triple_keeps [OF accounts_PlanInfo [of "\<lambda>d. d = db w1"], where w = w1] i by (metis snd_conv)
  have q2: "batch w2 = batch w1" "faults w2 = []"
    using quietD [OF quiet_PlanInfo, where w = w1] i q1 by (metis snd_conv)+
  have g: "w' = w2" "sfPreConsumed g = prPreConsumed x" "sfSubscriptionId g = prUserSubscriptionId x"
    "sfAmountUsedAfter g = prAmountUsedAfter x" "sfRequestId g = sfRequestId f"
    using assms(3) p x i by (cases r2; auto simp: subscription_PreConsume_def chk_def handle_def ret_def Let_def split: prod.splits)+
  show "faults w' = []" "sfPreConsumed g = sfAmount f" "sfRequestId g = sfRequestId f"
    using g q2 c by (auto simp: charged_def)
  show "token_side i w' = token_side i w" "user_side i w' = user_side i w" for i
    using accounts_side [of w w' i] a1 d2 g q1 q2 by simp_all
  show "recorded (sfRequestId f) (sfSubscriptionId g) (sfAmount f) (db w')"
    using c g d2 by (auto simp: charged_def recorded_def)
  show "sub_used (sfSubscriptionId g) w' = sfAmountUsedAfter g"
    using c g d2 by (auto simp: charged_def sub_used_def)
qed

section \<open>Sessions by preference\<close>

abbreviation (input) small :: "int \<Rightarrow> bool" where "small q \<equiv> 0 \<le> q \<and> q \<le> 2 ^ 60"

lemma with_user_quota [simp]:
  "billable E (ri\<lparr>riUserQuota := x\<rparr>) n w = billable E ri n w" "opened (ri\<lparr>riUserQuota := x\<rparr>) f p s = opened ri f p s"
  "token_part (ri\<lparr>riUserQuota := x\<rparr>) d = token_part ri d"
  by (simp_all add: billable_def opened_def token_part_def)

definition wallet_opened :: "env \<Rightarrow> relay_info \<Rightarrow> int \<Rightarrow> BillingSession \<Rightarrow> world \<Rightarrow> world \<Rightarrow> bool" where
  "wallet_opened E ri q s w w' \<longleftrightarrow> (\<exists>p. 0 \<le> p \<and> p \<le> q \<and> opened ri (Wallet \<lparr>wfUserId = riUserId ri, wfConsumed = p\<rparr>) p s \<and>
     moved E ri (- p) (token_part ri (- p)) w w')"

lemma tryWallet_books:
  assumes b: "billable E ri (2 ^ 61) w" and q: "small q" and t: "tryWallet E q ri w = ((r, ri'), w')"
  shows "(case r of Inl _ \<Rightarrow> moved E ri 0 0 w w' | Inr s \<Rightarrow> wallet_opened E ri q s w w') \<and>
    (\<exists>x. ri' = ri\<lparr>riUserQuota := x\<rparr>)"
proof -
  have fw: "faults w = []" using b by (simp add: billable_def)
  obtain r0 v where g: "GetUserQuota (econf E) (riUserId ri) False w = (r0, v)" by fastforce
  have m0: "moved E ri 0 0 w v" using moves_same [OF GetUserQuota_books [OF fw]] g by (metis snd_conv)
  have bv: "billable E ri (2 ^ 61) v" using billable_moved [OF b m0, of 0] by simp
  let ?same = "\<exists>x. ri = ri\<lparr>riUserQuota := x\<rparr>"
  have same: ?same by (rule exI [of _ "riUserQuota ri"]) simp
  show ?thesis
  proof (cases "\<exists>a. r0 = Inr a \<and> a > 0 \<and> \<not> i64 (a - q) < 0")
    case False
    then have "(\<exists>e. r = Inl e) \<and> ri' = ri \<and> w' = v" using t g by (cases r0) (auto simp: tryWallet_def split: if_splits)
    with m0 same show ?thesis by auto
  next
    case True
    then obtain a where a: "r0 = Inr a" "a > 0" "\<not> i64 (a - q) < 0" by blast
    let ?ri = "ri\<lparr>riUserQuota := a\<rparr>" and ?f = "Wallet \<lparr>wfUserId = riUserId ri, wfConsumed = 0\<rparr>"
    have p: "preConsume E q (fresh_session ?ri ?f) v = (r, w')" and ri': "ri' = ?ri"
      using t g a by (auto simp: tryWallet_def Let_def split: prod.splits)
    have bv': "billable E (relayInfo (fresh_session ?ri ?f)) (2 ^ 61) v" using bv by (simp add: fresh_session_def)
    show ?thesis
    proof (cases r)
      case (Inl e)
      have "moved E (relayInfo (fresh_session ?ri ?f)) 0 0 v w'"
      proof (rule preConsume_fails [OF bv', of q e])
        show "preConsume E q (fresh_session ?ri ?f) v = (Inl e, w')" using p Inl by simp
      qed (use q wallet_PreConsume_quiet in \<open>fastforce simp: fresh_session_def\<close>)+
      then have "moved E ri 0 0 v w'" by (simp add: fresh_session_def)
      from moves_trans [OF m0 this] show ?thesis using Inl ri' by auto
    next
      case (Inr s)
      have f: "?f = Wallet \<lparr>wfUserId = riUserId ?ri, wfConsumed = 0\<rparr>" by simp
      obtain k where k: "0 \<le> k" "k \<le> q" "opened ?ri (Wallet \<lparr>wfUserId = riUserId ?ri, wfConsumed = k\<rparr>) k s"
        "moved E ?ri (- k) (token_part ?ri (- k)) v w'"
        by (rule preConsume_wallet [of E ?ri "2 ^ 61" v q s w']) (use bv q p Inr in auto)
      then have "moved E ri (0 + - k) (0 + token_part ri (- k)) w w'" using moves_trans [OF m0] by simp
      with k Inr ri' show ?thesis by (auto simp: wallet_opened_def)
    qed
  qed
qed

lemma trySubscription_fails:
  assumes b: "billable E ri (2 ^ 61) w" and q: "small q" and t: "trySubscription E q ri w = (Inl e, w')"
  shows "moved E ri 0 0 w w'"
proof -
  let ?q = "if q \<le> 0 then 1 else q"
  let ?f = "Sub \<lparr>sfRequestId = riRequestId ri, sfUserId = riUserId ri, sfAmount = ?q, sfSubscriptionId = 0,
              sfPreConsumed = 0, sfAmountTotal = 0, sfAmountUsedAfter = 0, sfPlanId = 0, sfPlanTitle = ''''\<rparr>"
  have "moved E (relayInfo (fresh_session ri ?f)) 0 0 w w'"
  proof (rule preConsume_fails [where n = "2 ^ 61" and q = ?q and e = e])
    show "preConsume E ?q (fresh_session ri ?f) w = (Inl e, w')" using t by (simp add: trySubscription_def Let_def)
  qed (use q b in \<open>auto simp: fresh_session_def simp del: fs_PreConsume.simps intro: sub_PreConsume_quiet\<close>)
  then show ?thesis by (simp add: fresh_session_def)
qed

lemma trySubscription_source:
  assumes "trySubscription E q ri w = (Inr s, w')"
  shows "\<exists>f. funding s = Sub f"
  using assms
  by (auto simp: trySubscription_def preConsume_def fresh_session_def syncRelayInfo_def Let_def chk_def ret_def split: prod.splits sum.splits if_splits)

lemma HasActive_moved:
  assumes "faults w = []" "HasActiveUserSubscription E u w = (r, w1)"
  shows "moved E' ri 0 0 w w1"
proof -
  have "quiet (HasActiveUserSubscription E u)" "keeps (\<lambda>d. d = db w) (HasActiveUserSubscription E u)"
    unfolding HasActiveUserSubscription_def by (auto intro!: quiet_rules triple_if keeps_basic)
  then have "batch w1 = batch w" "faults w1 = []" "db w1 = db w"
    using assms quietD [where w = w and m = "HasActiveUserSubscription E u"] triple_keeps [where w = w and m = "HasActiveUserSubscription E u"] by auto
  then show ?thesis by (intro moves_same same_booksI)
qed

text \<open>Whatever the preference and the fallbacks taken, a session opened on the wallet has moved one amount
  and a failure has moved nothing.\<close>

lemma NewBillingSession_books:
  assumes b: "billable E ri (2 ^ 61) w" and q: "small q" and r: "NewBillingSession E q ri w = (r, w')"
  shows "case r of Inl _ \<Rightarrow> moved E ri 0 0 w w'
    | Inr s \<Rightarrow> (\<exists>f. funding s = Sub f) \<or> wallet_opened E ri q s w w'"
proof -
  have step: "case r' of Inl _ \<Rightarrow> moved E ri 0 0 w v' | Inr s \<Rightarrow> (\<exists>f. funding s = Sub f) \<or> wallet_opened E ri q s w v'"
    if m: "moved E ri 0 0 w v" and t: "tryWallet E q ri v = ((r', ri'), v')" for v v' r' ri'
  proof -
    have bv: "billable E ri (2 ^ 61) v" using billable_moved [OF b m, of 0] by simp
    show ?thesis
      using tryWallet_books [OF bv q t] moves_trans [OF m] by (force simp: wallet_opened_def split: sum.splits)
  qed
  have sub: "case r' of Inl _ \<Rightarrow> moved E ri 0 0 w v' | Inr s \<Rightarrow> \<exists>f. funding s = Sub f"
    if m: "moved E ri 0 0 w v" and t: "trySubscription E q (ri\<lparr>riUserQuota := x\<rparr>) v = (r', v')" for v v' r' x
  proof -
    have bv: "billable E (ri\<lparr>riUserQuota := x\<rparr>) (2 ^ 61) v" using billable_moved [OF b m, of 0] by simp
    show ?thesis
      using trySubscription_fails [OF bv q] trySubscription_source [of E q "ri\<lparr>riUserQuota := x\<rparr>" v] t moves_trans [OF m, of 0 0 v']
      by (cases r') auto
  qed
  have fw: "faults w = []" using b by (simp add: billable_def)
  have m0: "moved E ri 0 0 w w" by (intro moves_same same_books_refl fw)
  obtain r1 ri1 w1 where tw: "tryWallet E q ri w = ((r1, ri1), w1)" by (metis prod.collapse)
  obtain x where x: "ri1 = ri\<lparr>riUserQuota := x\<rparr>" using tryWallet_books [OF b q tw] by blast
  obtain h w2 where ha: "HasActiveUserSubscription E (riUserId ri) w = (h, w2)" by fastforce
  have m2: "moved E ri 0 0 w w2" by (rule HasActive_moved [OF fw ha])
  obtain r3 ri3 w3 where tw2: "tryWallet E q ri w2 = ((r3, ri3), w3)" by (metis prod.collapse)
  obtain r4 w4 where ts: "trySubscription E q (ri\<lparr>riUserQuota := riUserQuota ri\<rparr>) w2 = (r4, w4)" by fastforce
  obtain r5 ri5 w5 where tw4: "tryWallet E q ri w4 = ((r5, ri5), w5)" by (metis prod.collapse)
  obtain r6 w6 where ts1: "trySubscription E q (ri\<lparr>riUserQuota := x\<rparr>) w1 = (r6, w6)" by fastforce
  obtain r7 w7 where ts0: "trySubscription E q (ri\<lparr>riUserQuota := riUserQuota ri\<rparr>) w = (r7, w7)" by fastforce
  note W = step [OF m0 tw] and W2 = step [OF m2 tw2] and S0 = sub [OF m0 ts0] and S2 = sub [OF m2 ts]
  have W4: "case r5 of Inl _ \<Rightarrow> moved E ri 0 0 w w5 | Inr s \<Rightarrow> (\<exists>f. funding s = Sub f) \<or> wallet_opened E ri q s w w5"
    if "r4 = Inl e" for e using S2 that step [OF _ tw4] by simp
  have S1: "case r6 of Inl _ \<Rightarrow> moved E ri 0 0 w w6 | Inr s \<Rightarrow> \<exists>f. funding s = Sub f"
    if "r1 = Inl e" for e using W that sub [OF _ ts1] by simp
  let ?pref = "NormalizeBillingPreference (riBillingPreference ri)"
  consider "?pref = ''subscription_only''" | "?pref = ''wallet_only''" | "?pref = ''wallet_first''"
    | "?pref \<noteq> ''subscription_only''" "?pref \<noteq> ''wallet_only''" "?pref \<noteq> ''wallet_first''" by blast
  then show ?thesis
  proof cases
    case 1
    with r ts0 S0 show ?thesis by (auto simp: NewBillingSession_def Let_def split: sum.splits)
  next
    case 2
    with r tw W show ?thesis by (auto simp: NewBillingSession_def Let_def)
  next
    case 3
    with r tw W ts1 S1 x show ?thesis by (cases r1) (auto simp: NewBillingSession_def Let_def split: if_splits sum.splits)
  next
    case 4
    show ?thesis
    proof (cases h)
      case (Inl e)
      with 4 r ha m2 show ?thesis by (auto simp: NewBillingSession_def Let_def)
    next
      case (Inr hs)
      show ?thesis
      proof (cases hs)
        case False
        with 4 Inr r ha tw2 W2 show ?thesis by (auto simp: NewBillingSession_def Let_def)
      next
        case True
        show ?thesis
        proof (cases r4)
          case (Inl e)
          with 4 \<open>h = Inr hs\<close> True r ha ts tw4 W4 [OF Inl] S2 show ?thesis
            by (auto simp: NewBillingSession_def Let_def split: if_splits)
        next
          case (Inr s)
          with 4 \<open>h = Inr hs\<close> True r ha ts S2 show ?thesis by (auto simp: NewBillingSession_def Let_def)
        qed
      qed
    qed
  qed
qed

lemma trySubscription_opened:
  assumes b: "billable E ri (2 ^ 61) w" and q: "small q" and r: "row pcRequestId (riRequestId ri) (precons (db w)) = None"
    and t: "trySubscription E q ri w = (Inr s, w')"
  obtains f where "opened ri (Sub f) (max 1 q) s" "sfPreConsumed f = max 1 q" "faults w' = []"
    "sub_used (sfSubscriptionId f) w' = sfAmountUsedAfter f" "recorded (riRequestId ri) (sfSubscriptionId f) (max 1 q) (db w')"
    "\<forall>i. allowance i w' = allowance i w - (if i = riTokenId ri then token_part ri (max 1 q) else 0)"
    "\<forall>i. wallet i w' = wallet i w" "billable E ri (2 ^ 61 + 2 ^ 60) w'"
proof -
  let ?q = "max 1 q"
  let ?f = "\<lparr>sfRequestId = riRequestId ri, sfUserId = riUserId ri, sfAmount = ?q, sfSubscriptionId = 0,
              sfPreConsumed = 0, sfAmountTotal = 0, sfAmountUsedAfter = 0, sfPlanId = 0, sfPlanTitle = ''''\<rparr>"
  have p: "preConsume E ?q (fresh_session ri (Sub ?f)) w = (Inr s, w')"
    using t by (cases "q \<le> 0") (simp_all add: trySubscription_def Let_def max_def)
  have nt: "\<not> shouldTrust E (fresh_session ri (Sub ?f))" by (simp add: shouldTrust_def fresh_session_def Let_def)
  have "0 \<le> ?q" "2 ^ 61 + ?q < 2 ^ 63" using q by (auto simp: max_def)
  then obtain w1 f' k where k: "k = ?q" and m: "moved E ri 0 (token_part ri (- k)) w w1"
    and pc: "fs_PreConsume E (Sub ?f) k w1 = (Inr f', w')" and op: "opened ri f' k s"
    using preConsume_Inr [OF b _ _ _ p] nt by (metis zero_le_numeral zero_le_power)
  from pc obtain g where g: "f' = Sub g" "subscription_PreConsume E ?f w1 = (Inr g, w')"
    by (auto simp: chk_def ret_def split: prod.splits sum.splits)
  have w1: "faults w1 = []" "row pcRequestId (sfRequestId ?f) (precons (db w1)) = None" using m r by (simp_all add: moves_def)
  note S = subscription_PreConsume_Inr [OF w1 g(2)]
  have tk: "token_exists i w' = token_exists i w \<and> allowance i w' = allowance i w + (if i = riTokenId ri then token_part ri (- k) else 0) \<and>
      pending BatchUpdateTypeTokenQuota i w' = pending BatchUpdateTypeTokenQuota i w1" for i
    using S(2) [of i] m by (simp add: token_side_def moves_def)
  have us: "user_exists i w' = user_exists i w \<and> wallet i w' = wallet i w \<and> pending BatchUpdateTypeUserQuota i w' = pending BatchUpdateTypeUserQuota i w1" for i
    using S(3) [of i] m by (simp add: user_side_def moves_def)
  have "billable E ri (2 ^ 61 + 2 ^ 60) w1" by (rule billable_moved [OF b m]) (use k q in \<open>auto simp: token_part_def max_def\<close>)
  then have "billable E ri (2 ^ 61 + 2 ^ 60) w'" using S(1) tk us m by (auto simp: billable_def calm_def moves_def)
  then show thesis
    using that [of g] op g k S tk us by (auto simp: token_part_def)
qed

lemma NewBillingSession_sub:
  assumes b: "billable E ri (2 ^ 61) w" and q: "small q" and r: "NewBillingSession E q ri w = (Inr s, w')" and f: "funding s = Sub f"
  obtains x v where "moved E ri 0 0 w v" "trySubscription E q (ri\<lparr>riUserQuota := x\<rparr>) v = (Inr s, w')"
proof -
  have nw: "\<not> wallet_opened E ri q s v v'" for v v' using f by (auto simp: wallet_opened_def opened_def)
  have fw: "faults w = []" using b by (simp add: billable_def)
  have m0: "moved E ri 0 0 w w" by (intro moves_same same_books_refl fw)
  obtain r1 ri1 w1 where tw: "tryWallet E q ri w = ((r1, ri1), w1)" by (metis prod.collapse)
  obtain x where x: "ri1 = ri\<lparr>riUserQuota := x\<rparr>" and W: "r1 = Inl e \<Longrightarrow> moved E ri 0 0 w w1" "r1 \<noteq> Inr s" for e
    using tryWallet_books [OF b q tw] nw by (auto split: sum.splits)
  obtain h w2 where ha: "HasActiveUserSubscription E (riUserId ri) w = (h, w2)" by fastforce
  have m2: "moved E ri 0 0 w w2" by (rule HasActive_moved [OF fw ha])
  have b2: "billable E ri (2 ^ 61) v" if "moved E ri 0 0 w v" for v using billable_moved [OF b that, of 0] by simp
  have W2: "tryWallet E q ri v \<noteq> ((Inr s, y), v')" if "moved E ri 0 0 w v" for v v' y
    using tryWallet_books [OF b2 [OF that] q, of "Inr s" y v'] nw by auto
  have ri: "ri\<lparr>riUserQuota := riUserQuota ri\<rparr> = ri" by simp
  have S: thesis if "moved E ri 0 0 w v" "trySubscription E q ri v = (Inr s, w')" for v
    using \<open>\<And>v x. moved E ri 0 0 w v \<Longrightarrow> trySubscription E q (ri\<lparr>riUserQuota := x\<rparr>) v = (Inr s, w') \<Longrightarrow> thesis\<close> [of v "riUserQuota ri"] that ri by simp
  have F: "moved E ri 0 0 w v'" if "trySubscription E q ri w2 = (Inl e, v')" for e v'
    using moves_trans [OF m2 trySubscription_fails [OF b2 [OF m2] q that]] by simp
  let ?pref = "NormalizeBillingPreference (riBillingPreference ri)"
  consider "?pref = ''subscription_only''" | "?pref = ''wallet_only''" | "?pref = ''wallet_first''"
    | "?pref \<noteq> ''subscription_only''" "?pref \<noteq> ''wallet_only''" "?pref \<noteq> ''wallet_first''" by blast
  then show thesis
  proof cases
    case 1
    with r S [OF m0] show ?thesis by (simp add: NewBillingSession_def Let_def)
  next
    case 2
    with r tw W show ?thesis by (auto simp: NewBillingSession_def Let_def)
  next
    case 3
    with r tw W x that [of w1 x] show ?thesis by (cases r1) (auto simp: NewBillingSession_def Let_def split: if_splits)
  next
    case 4
    show ?thesis
    proof (cases h)
      case (Inl e)
      with 4 r ha show ?thesis by (auto simp: NewBillingSession_def Let_def)
    next
      case (Inr hs)
      then show ?thesis
        using 4 r ha S [OF m2] W2 [OF m2] W2 F
        by (cases hs) (auto simp: NewBillingSession_def Let_def split: if_splits prod.splits sum.splits)
    qed
  qed
qed

section \<open>Wallet sessions at any later time\<close>

lemma billable_mono: "billable E ri n w \<Longrightarrow> n \<le> m \<Longrightarrow> billable E ri m w"
  by (auto simp: billable_def calm_def)

text \<open>A wallet session that has been opened: what it took, and that the books still fit.\<close>

lemma wallet_session_opened:
  assumes "billable E ri (2 ^ 61) w" "0 \<le> q0" "q0 \<le> 2 ^ 60" "NewBillingSession E q0 ri w = (Inr s, w1)" "funding s = Wallet f"
  obtains p where "0 \<le> p" "p \<le> 2 ^ 60" "opened ri (Wallet \<lparr>wfUserId = riUserId ri, wfConsumed = p\<rparr>) p s"
    "moved E ri (- p) (token_part ri (- p)) w w1" "billable E ri (2 ^ 61 + 2 ^ 60) w1"
proof -
  have "wallet_opened E ri q0 s w w1" using NewBillingSession_books [OF assms(1) _ assms(4)] assms(2,3,5) by simp
  then obtain p where p: "0 \<le> p" "p \<le> q0" and op: "opened ri (Wallet \<lparr>wfUserId = riUserId ri, wfConsumed = p\<rparr>) p s"
    and m: "moved E ri (- p) (token_part ri (- p)) w w1" by (auto simp: wallet_opened_def)
  have "billable E ri (2 ^ 61 + 2 ^ 60) w1" by (rule billable_moved [OF assms(1) m]) (use p assms(3) in \<open>auto simp: token_part_def\<close>)
  with p assms(3) op m show thesis by (intro that [of p]) auto
qed

text \<open>Whenever an open wallet session is settled, it adds what is missing of the actual quota.\<close>

lemma wallet_settle_charges:
  assumes op: "opened ri (Wallet \<lparr>wfUserId = riUserId ri, wfConsumed = p\<rparr>) p s" and b: "billable E ri (2 ^ 62) v"
    and p: "0 \<le> p" "p \<le> 2 ^ 60" and q: "0 \<le> q" "q \<le> 2 ^ 60"
  shows "\<exists>s' v'. Settle E q s v = ((Inr (), s'), v') \<and> settled s' \<and> wallet (riUserId ri) v' = wallet (riUserId ri) v + p - q \<and>
    allowance (riTokenId ri) v' = allowance (riTokenId ri) v + token_part ri (p - q)"
proof -
  have d: "\<bar>q - p\<bar> \<le> 2 ^ 60" "in64 (q - p)" using p q by (auto simp: in64_def)
  note o = op [unfolded opened_def]
  have "\<exists>s' w2. Settle E q s v = ((Inr (), s'), w2) \<and> settled s' \<and> faults w2 = [] \<and> - wallet (riUserId ri) w2 = - wallet (riUserId ri) v + (q - p) \<and>
    allowance (riTokenId (relayInfo s)) w2 = allowance (riTokenId (relayInfo s)) v - wfund.token_change (relayInfo s) (q - p)"
  proof (rule wfund.settle_session [where c = p])
    show "wallet_ready E (riUserId ri) (q - p) v"
      using b d calm_room [of "econf E" BatchUpdateTypeUserQuota "riUserId ri" "2 ^ 62" v "- (q - p)" "2 ^ 60"]
      by (simp add: wallet_ready_def billable_def)
    show "wfund.token_fits E (relayInfo s) (q - p) v"
      using b d o calm_room [of "econf E" BatchUpdateTypeTokenQuota "riTokenId ri" "2 ^ 62" v "- (q - p)" "2 ^ 60"]
      by (auto simp: wfund.token_fits_def billable_def)
  qed (use o d b in \<open>auto simp: billable_def\<close>)
  with o show ?thesis by (fastforce simp: wfund.token_change_def token_part_def)
qed

text \<open>Whenever the refund of an open wallet session runs, it gives back what the session took.\<close>

lemma wallet_refund_returns:
  assumes op: "opened ri (Wallet \<lparr>wfUserId = riUserId ri, wfConsumed = p\<rparr>) p s" and b: "billable E ri (2 ^ 62) v"
    and p: "0 \<le> p" "p \<le> 2 ^ 60"
  shows "let v' = (case snd (Refund s) of None \<Rightarrow> v | Some j \<Rightarrow> run_refund E j v) in
    wallet (riUserId ri) v' = wallet (riUserId ri) v + p \<and> allowance (riTokenId ri) v' = allowance (riTokenId ri) v + token_part ri p"
proof (cases "Refund s")
  case (Pair s' jo)
  note o = op [unfolded opened_def]
  show ?thesis
  proof (cases jo)
    case None
    with Pair o have "p \<le> 0" by (auto simp: Refund_def needsRefundLocked_def split: if_splits)
    with p None Pair show ?thesis by (simp add: token_part_def)
  next
    case (Some j)
    have c: "wallet_ready E (riUserId ri) (- p) v"
      using b p calm_room [of "econf E" BatchUpdateTypeUserQuota "riUserId ri" "2 ^ 62" v p "2 ^ 60"]
      by (simp add: wallet_ready_def billable_def in64_def)
    have t: "wfund.token_fits E (relayInfo s) (- tokenConsumed s) v"
      using b p o calm_room [of "econf E" BatchUpdateTypeTokenQuota "riTokenId ri" "2 ^ 62" v p "2 ^ 60"]
      by (auto simp: wfund.token_fits_def billable_def)
    have "- wallet (riUserId ri) (run_refund E j v) = - wallet (riUserId ri) v - p \<and> refunded s' \<and>
      allowance (riTokenId (relayInfo s)) (run_refund E j v) = allowance (riTokenId (relayInfo s)) v + wfund.token_change (relayInfo s) (tokenConsumed s)"
      by (rule wfund.refund_session [where c = p]) (use o b c p t Pair Some in \<open>auto simp: billable_def\<close>)
    with Some Pair o show ?thesis by (auto simp: wfund.token_change_def token_part_def)
  qed
qed

section \<open>Properties\<close>

text \<open>C3. A request billed to the wallet costs exactly what it used: however much was pre-consumed
  (nothing for a trusted user, and after whichever fallback between the sources), settling with the
  actual quota leaves the wallet and the token charged by that quota in total.\<close>

theorem wallet_session_charges_actual:
  assumes "billable E ri (2 ^ 61) w" "0 \<le> q0" "q0 \<le> 2 ^ 60" "0 \<le> q" "q \<le> 2 ^ 60"
    and "NewBillingSession E q0 ri w = (Inr s, w1)" "funding s = Wallet f"
  shows "\<exists>s' w2. Settle E q s w1 = ((Inr (), s'), w2) \<and> settled s' \<and>
    wallet (riUserId ri) w2 = wallet (riUserId ri) w - q \<and>
    allowance (riTokenId ri) w2 = allowance (riTokenId ri) w - token_part ri q"
proof -
  obtain p where p: "0 \<le> p" "p \<le> 2 ^ 60" and op: "opened ri (Wallet \<lparr>wfUserId = riUserId ri, wfConsumed = p\<rparr>) p s"
    and m: "moved E ri (- p) (token_part ri (- p)) w w1" and b: "billable E ri (2 ^ 61 + 2 ^ 60) w1"
    by (rule wallet_session_opened [OF assms(1-3,6,7)])
  from b have "billable E ri (2 ^ 62) w1" by (rule billable_mono) simp
  from wallet_settle_charges [OF op this p assms(4,5)] m show ?thesis by (fastforce simp: moves_def token_part_def)
qed

definition ex_ri :: "string \<Rightarrow> relay_info" where
  "ex_ri pref = \<lparr>riUserId = 1, riTokenId = 2, riTokenKey = ''k'', riTokenUnlimited = False, riTokenQuota = 500, riIsPlayground = False,
     riForcePreConsume = False, riRequestId = ''r'', riBillingPreference = pref, riUserQuota = 0, riFinalPreConsumedQuota = 0,
     riBillingSource = '''', riSubscriptionId = 0, riSubscriptionPreConsumed = 0, riSubscriptionPostDelta = 0,
     riSubscriptionAmountTotal = 0, riSubscriptionAmountUsedAfter = 0, riSubscriptionPlanId = 0, riSubscriptionPlanTitle = ''''\<rparr>"

definition ex_bill :: world where
  "ex_bill = ex_world (ex_db [ex_user 1 5000] [ex_token 2 1 3000])"

lemma ex_billable: "billable ex_env (ex_ri pref) (2 ^ 61) ex_bill"
  by (simp add: billable_def ex_bill_def ex_ri_def ex_env_def ex_defs user_exists_def token_exists_def live_user_def live_token_def calm_def)

lemma ex_wallet_only: "NormalizeBillingPreference ''wallet_only'' = ''wallet_only''"
  by (simp add: NormalizeBillingPreference_def TrimSpace_printable printable_def)

lemmas ex_billing_defs = NewBillingSession_def tryWallet_def preConsume_def GetUserQuota_def GetTokenByKey_def cacheGetTokenByKey_def
  PreConsumeTokenQuota_def wallet_PreConsume_def shouldTrust_def fresh_session_def Let_def ex_bill_def ex_ri_def ex_env_def ex_defs
  chk_def ret_def query_def live_user_def live_token_def key_token_def DecreaseTokenQuota_def decreaseTokenQuota_def
  DecreaseUserQuota_def decreaseUserQuota_def set_users_def set_tokens_def in64_def

lemma ex_wallet_session: "\<exists>s w1 f. NewBillingSession ex_env 100 (ex_ri ''wallet_only'') ex_bill = (Inr s, w1) \<and> funding s = Wallet f \<and> tokenConsumed s = 100"
  by (simp add: ex_billing_defs ex_wallet_only syncRelayInfo_def)

theorem wallet_session_charges_actual_witness:
  "\<exists>s w1 s' w2. NewBillingSession ex_env 100 (ex_ri ''wallet_only'') ex_bill = (Inr s, w1) \<and> Settle ex_env 130 s w1 = ((Inr (), s'), w2) \<and>
     wallet 1 w2 = 4870 \<and> allowance 2 w2 = 2870"
proof -
  obtain s w1 f where s: "NewBillingSession ex_env 100 (ex_ri ''wallet_only'') ex_bill = (Inr s, w1)" "funding s = Wallet f"
    using ex_wallet_session by blast
  have "wallet 1 ex_bill = 5000" "allowance 2 ex_bill = 3000"
    by (simp_all add: ex_bill_def wallet_def allowance_def user_quota_def token_quota_def pending_def live_user_def live_token_def ex_defs)
  with wallet_session_charges_actual [OF ex_billable _ _ _ _ s, of 130] s show ?thesis
    by (fastforce simp: ex_ri_def token_part_def)
qed

text \<open>A refunded wallet session leaves no charge: if the session has something to refund, running
  the refund job brings the wallet and the token back to where they were before the session; if it has
  nothing to refund, nothing was taken.\<close>

theorem wallet_session_refund_restores:
  assumes "billable E ri (2 ^ 61) w" "0 \<le> q0" "q0 \<le> 2 ^ 60"
    and "NewBillingSession E q0 ri w = (Inr s, w1)" "funding s = Wallet f"
  shows "let w2 = (case snd (Refund s) of None \<Rightarrow> w1 | Some j \<Rightarrow> run_refund E j w1) in
    wallet (riUserId ri) w2 = wallet (riUserId ri) w \<and> allowance (riTokenId ri) w2 = allowance (riTokenId ri) w"
proof -
  obtain p where p: "0 \<le> p" "p \<le> 2 ^ 60" and op: "opened ri (Wallet \<lparr>wfUserId = riUserId ri, wfConsumed = p\<rparr>) p s"
    and m: "moved E ri (- p) (token_part ri (- p)) w w1" and b: "billable E ri (2 ^ 61 + 2 ^ 60) w1"
    by (rule wallet_session_opened [OF assms])
  from b have "billable E ri (2 ^ 62) w1" by (rule billable_mono) simp
  from wallet_refund_returns [OF op this] p m show ?thesis by (auto simp: moves_def token_part_def Let_def split: if_splits)
qed

theorem wallet_session_refund_restores_witness:
  "\<exists>s w1 s' j. NewBillingSession ex_env 100 (ex_ri ''wallet_only'') ex_bill = (Inr s, w1) \<and> Refund s = (s', Some j) \<and>
     wallet 1 (run_refund ex_env j w1) = 5000 \<and> allowance 2 (run_refund ex_env j w1) = 3000"
proof -
  obtain s w1 f where s: "NewBillingSession ex_env 100 (ex_ri ''wallet_only'') ex_bill = (Inr s, w1)" "funding s = Wallet f" "tokenConsumed s = 100"
    using ex_wallet_session by blast
  have "\<exists>s' j. Refund s = (s', Some j)"
    using NewBillingSession_books [OF ex_billable _ s(1)] s(2,3) by (auto simp: wallet_opened_def opened_def Refund_def needsRefundLocked_def)
  moreover have "wallet 1 ex_bill = 5000" "allowance 2 ex_bill = 3000"
    by (simp_all add: ex_bill_def wallet_def allowance_def user_quota_def token_quota_def pending_def live_user_def live_token_def ex_defs)
  ultimately show ?thesis
    using wallet_session_refund_restores [OF ex_billable _ _ s(1,2)] s(1) by (auto simp: Let_def ex_ri_def)
qed

text \<open>C12. A request that cannot be paid for leaves no trace: when no session can be opened, after every
  source the preference allows has been tried, all wallets and tokens have their balance back and no
  subscription or pre-consumption record has changed.\<close>

theorem NewBillingSession_failure_keeps_books:
  assumes "billable E ri (2 ^ 61) w" "0 \<le> q0" "q0 \<le> 2 ^ 60" "NewBillingSession E q0 ri w = (Inl e, w')"
  shows "(\<forall>i. wallet i w' = wallet i w) \<and> (\<forall>i. allowance i w' = allowance i w) \<and>
    subs (db w') = subs (db w) \<and> precons (db w') = precons (db w)"
  using NewBillingSession_books [OF assms(1) _ assms(4)] assms(2,3) by (auto simp: moves_def)

definition ex_sub_bill :: world where
  "ex_sub_bill = ex_world ((ex_db [ex_user 1 50] [ex_token 2 1 3000])\<lparr>plans := [ex_plan ''never'' 0 100],
     subs := [(ex_sub 7 1 100 60)\<lparr>subEndTime := 9000\<rparr>]\<rparr>)"

lemma ex_sub_billable: "billable ex_env (ex_ri pref) (2 ^ 61) ex_sub_bill"
  by (simp add: billable_def ex_sub_bill_def ex_ri_def ex_env_def ex_defs user_exists_def token_exists_def live_user_def live_token_def calm_def)

lemma ex_prefs: "NormalizeBillingPreference ''subscription_first'' = ''subscription_first''"
  "NormalizeBillingPreference ''subscription_only'' = ''subscription_only''"
  by (simp_all add: NormalizeBillingPreference_def TrimSpace_printable printable_def)

lemmas ex_sub_defs = trySubscription_def subscription_PreConsume_def HasActiveUserSubscription_def PreConsumeUserSubscription_def run_defs
  ex_sub_bill_def ex_sub_def ex_plan_def GetDBTimestamp_def by_end_def getSubscriptionPlanByIdTx_def
  maybeResetUserSubscriptionWithPlanTx_def NormalizeResetPeriod_def create_precon_def save_sub_def
  GetSubscriptionPlanInfoByUserSubscriptionId_def funding_error_def insufficient_def GetErrorCode_def

lemma ex_funding_error: "errorCode (funding_error (Msg (''subscription quota insufficient, need='' @ t))) = ''insufficient_user_quota''"
proof -
  have "Contains (''subscription quota insufficient'' @ x) ''subscription quota insufficient''" for x
    by (simp add: prefix_def)
  from this [of "'', need='' @ t"] show ?thesis by (simp add: funding_error_def insufficient_def)
qed

lemma ex_sub_refuses:
  "\<exists>t w1. trySubscription ex_env 90 (ex_ri pref) ex_sub_bill = (Inl (funding_error (Msg (''subscription quota insufficient, need='' @ t))), w1) \<and>
     users (db w1) = [ex_user 1 50] \<and> faults w1 = []"
  by (rule exI [of _ "Itoa 90"]) (simp add: trySubscription_def subscription_PreConsume_def PreConsumeUserSubscription_def run_defs
      ex_sub_bill_def ex_sub_def ex_plan_def GetDBTimestamp_def by_end_def getSubscriptionPlanByIdTx_def
      maybeResetUserSubscriptionWithPlanTx_def NormalizeResetPeriod_def IncreaseTokenQuota_def increaseTokenQuota_def ex_billing_defs)

lemma ex_no_funds: "\<exists>e w1. NewBillingSession ex_env 90 (ex_ri ''subscription_first'') ex_sub_bill = (Inl e, w1)"
proof -
  obtain t w1 where t: "trySubscription ex_env 90 (ex_ri ''subscription_first'') ex_sub_bill =
      (Inl (funding_error (Msg (''subscription quota insufficient, need='' @ t))), w1)"
    and u: "users (db w1) = [ex_user 1 50]" "faults w1 = []" using ex_sub_refuses by blast
  have h: "HasActiveUserSubscription ex_env 1 ex_sub_bill = (Inr True, ex_sub_bill)"
    by (simp add: HasActiveUserSubscription_def ex_sub_bill_def ex_defs ex_env_def ex_sub_def)
  have "\<exists>e v. tryWallet ex_env 90 (ex_ri ''subscription_first'') w1 = ((Inl e, ex_ri ''subscription_first''), v)"
    using u by (simp add: tryWallet_def GetUserQuota_def Let_def ex_env_def ex_conf_def ex_ri_def ex_user_def live_user_def in64_def)
  with t h ex_funding_error [of t] show ?thesis
    by (auto simp: NewBillingSession_def ex_prefs GetErrorCode_def ex_ri_def)
qed

theorem NewBillingSession_failure_keeps_books_witness:
  "\<exists>e w1. NewBillingSession ex_env 90 (ex_ri ''subscription_first'') ex_sub_bill = (Inl e, w1) \<and>
     allowance 2 w1 = allowance 2 ex_sub_bill \<and> subs (db w1) = subs (db ex_sub_bill)"
proof -
  obtain e w1 where r: "NewBillingSession ex_env 90 (ex_ri ''subscription_first'') ex_sub_bill = (Inl e, w1)" using ex_no_funds by blast
  from NewBillingSession_failure_keeps_books [OF ex_sub_billable _ _ this] r show ?thesis by auto
qed


lemma ex_sub_session: "\<exists>s w1 f. NewBillingSession ex_env 20 (ex_ri ''subscription_only'') ex_sub_bill = (Inr s, w1) \<and> funding s = Sub f \<and>
   sfSubscriptionId f = 7 \<and> sub_ready 7 5 w1 \<and> sub_used 7 w1 = 80"
  by (simp add: ex_prefs ex_sub_defs ex_billing_defs syncRelayInfo_def sub_ready_def sub_used_def row_save_row)


text \<open>The life of a session: any sequence of settlements, refund requests and executions of the refund
  jobs issued so far.\<close>

datatype session_event = EvSettle int | EvRefund | EvRunJob

fun session_step :: "env \<Rightarrow> session_event \<Rightarrow> BillingSession \<times> refund_job list \<times> refund_job list \<times> world \<Rightarrow>
    BillingSession \<times> refund_job list \<times> refund_job list \<times> world" where
  "session_step E (EvSettle q) (s, js, done, w) = (case Settle E q s w of ((_, s'), w') \<Rightarrow> (s', js, done, w'))"
| "session_step E EvRefund (s, js, done, w) =
     (case Refund s of (s', None) \<Rightarrow> (s', js, done, w) | (s', Some j) \<Rightarrow> (s', js @ [j], done, w))"
| "session_step E EvRunJob (s, js, done, w) =
     (case js of [] \<Rightarrow> (s, js, done, w) | j # js' \<Rightarrow> (s, js', done @ [j], run_refund E j w))"

definition session_run :: "env \<Rightarrow> session_event list \<Rightarrow> BillingSession \<times> refund_job list \<times> refund_job list \<times> world \<Rightarrow>
    BillingSession \<times> refund_job list \<times> refund_job list \<times> world" where
  "session_run E evs st = fold (session_step E) evs st"

definition one_refund :: "BillingSession \<times> refund_job list \<times> refund_job list \<times> world \<Rightarrow> bool" where
  "one_refund st = (case st of (s, js, done, w) \<Rightarrow> length js + length done \<le> 1 \<and> (js @ done \<noteq> [] \<longrightarrow> refunded s))"

lemma Settle_refunded: "Settle E q s w = ((r, s'), w') \<Longrightarrow> refunded s' = refunded s"
  by (auto simp: Settle_def Let_def split: if_splits prod.splits sum.splits)

lemma one_refund_step: "one_refund st \<Longrightarrow> one_refund (session_step E ev st)"
  by (cases st; cases ev) (auto simp: one_refund_def Refund_def split: prod.splits list.splits option.splits if_splits dest: Settle_refunded)

lemma one_refund_run: "one_refund st \<Longrightarrow> one_refund (session_run E evs st)"
  unfolding session_run_def by (induction evs arbitrary: st) (simp_all add: one_refund_step)

lemma settled_step:
  assumes "settled s" "ev \<noteq> EvRunJob"
  shows "session_step E ev (s, js, done, w) = (s, js, done, w)"
  using assms by (cases ev) (auto simp: Settle_def Refund_def)

text \<open>C13. A session refunds at most once and never after it is settled: along any sequence of
  settlements, refunds and job executions, whatever statements fail, at most one refund job exists or has
  run, and from a settled session no event but the execution of an already issued job changes anything.\<close>

theorem session_refunds_at_most_once:
  assumes "\<not> refunded s"
  shows "case session_run E evs (s, [], [], w) of (s', js, done, w') \<Rightarrow>
    length js + length done \<le> 1 \<and>
    (settled s' \<longrightarrow> (\<forall>ev. ev \<noteq> EvRunJob \<longrightarrow> session_step E ev (s', js, done, w') = (s', js, done, w')))"
proof -
  have "one_refund (session_run E evs (s, [], [], w))" by (rule one_refund_run) (simp add: one_refund_def)
  then show ?thesis by (auto simp: one_refund_def settled_step split: prod.split)
qed

theorem session_refunds_at_most_once_witness:
  "case session_run ex_env [EvRefund, EvRefund, EvRunJob, EvRefund]
      ((fresh_session (ex_ri '''') (Wallet \<lparr>wfUserId = 1, wfConsumed = 9\<rparr>))\<lparr>tokenConsumed := 9\<rparr>, [], [], ex_bill) of
    (s', js, done, w') \<Rightarrow> length js + length done \<le> 1"
  using session_refunds_at_most_once [of "(fresh_session (ex_ri '''') (Wallet \<lparr>wfUserId = 1, wfConsumed = 9\<rparr>))\<lparr>tokenConsumed := 9\<rparr>"
      ex_env "[EvRefund, EvRefund, EvRunJob, EvRefund]" ex_bill]
  by (auto simp: fresh_session_def split: prod.splits)

section \<open>A refund that is repeated\<close>

definition ex_unlucky :: world where
  "ex_unlucky = (ex_world ((ex_db [] [])\<lparr>subs := [ex_sub 7 1 200 120], precons := [ex_precon]\<rparr>))
     \<lparr>faults := concat (replicate 3 [None, None, None, None, None, None, Some ''lost''])\<rparr>"

text \<open>The retried refund of a subscription is not idempotent when statements fail: the amount is given
  back in a transaction of its own, so when marking the record fails the next attempt gives it back again.
  Here a request that was charged 40 fails to be refunded three times and is credited 120.\<close>

theorem refund_retry_repeats:
  "\<exists>e w'. subscription_Refund ex_env
      \<lparr>sfRequestId = ''r'', sfUserId = 1, sfAmount = 40, sfSubscriptionId = 7, sfPreConsumed = 40, sfAmountTotal = 200,
       sfAmountUsedAfter = 120, sfPlanId = 1, sfPlanTitle = ''''\<rparr> ex_unlucky = (Inl e, w') \<and>
    sub_used 7 ex_unlucky = 120 \<and> sub_used 7 w' = 0"
  by (simp add: subscription_Refund_def refundWithRetry_def numeral_3_eq_3 RefundSubscriptionPreConsume_def PostConsumeUserSubscriptionDelta_def
      run_defs stmt_None stmt_Some save_sub_def save_precon_def ex_unlucky_def ex_defs ex_sub_def ex_precon_def ex_env_def
      TrimSpace_printable printable_def row_save_row sub_used_def in64_def save_row_def)

end
