(* ===== verification/Channels.thy ===== *)
theory Channels
  imports Quota ApiErrors "HOL-Library.AList"
begin

text \<open>
  Channels: their keys (\<^verbatim>\<open>src/model/channel.go\<close>), the abilities that say which channel serves which model
  of which group (\<^verbatim>\<open>src/model/ability.go\<close>), the in-memory copy of both and the weighted choice among the
  channels of a priority (\<^verbatim>\<open>src/model/channel_cache.go\<close>). Random numbers are an argument, read as Go's
  \<^verbatim>\<open>rand.Intn\<close>. \<open>now\<close> is the application's clock.
\<close>

abbreviation (input) ChannelStatusEnabled :: int where "ChannelStatusEnabled \<equiv> 1"
abbreviation (input) ChannelStatusManuallyDisabled :: int where "ChannelStatusManuallyDisabled \<equiv> 2"
abbreviation (input) ChannelStatusAutoDisabled :: int where "ChannelStatusAutoDisabled \<equiv> 3"

section \<open>Reading a channel\<close>

definition GetKeys :: "conf \<Rightarrow> channel \<Rightarrow> string list" where
  "GetKeys cfg c =
     (if chKey c = '''' then []
      else if chKeys c \<noteq> [] then chKeys c
      else let trimmed = TrimSpace (chKey c) in
        case (if prefix ''['' trimmed then decodeArray cfg trimmed else None) of
          Some arr \<Rightarrow> arr
        | None \<Rightarrow> Split (Trim (chKey c) CHR 0x0A) CHR 0x0A)"

definition GetModels :: "channel \<Rightarrow> string list" where
  "GetModels c = (if chModels c = '''' then [] else Split (Trim (chModels c) CHR '','') CHR '','')"

definition GetGroups :: "channel \<Rightarrow> string list" where
  "GetGroups c = (if chGroup c = '''' then [] else map TrimSpace (Split (Trim (chGroup c) CHR '','') CHR '',''))"

definition GetTag :: "channel \<Rightarrow> string" where
  "GetTag c = (case chTag c of None \<Rightarrow> '''' | Some t \<Rightarrow> t)"

definition GetAutoBan :: "channel \<Rightarrow> bool" where
  "GetAutoBan c = (case chAutoBan c of None \<Rightarrow> False | Some b \<Rightarrow> b = 1)"

definition GetPriority :: "channel \<Rightarrow> int" where
  "GetPriority c = (case chPriority c of None \<Rightarrow> 0 | Some p \<Rightarrow> p)"

definition GetWeight :: "channel \<Rightarrow> int" where
  "GetWeight c = (case chWeight c of None \<Rightarrow> 0 | Some n \<Rightarrow> i64 (int n))"

definition GetChannelById :: "int \<Rightarrow> channel io" where
  "GetChannelById i = first (\<lambda>d. row chId i (channels d))"

section \<open>Choosing a key\<close>

definition getStatus :: "channel \<Rightarrow> nat \<Rightarrow> int" where
  "getStatus c idx = (case map_of (ciMultiKeyStatusList (chInfo c)) idx of None \<Rightarrow> ChannelStatusEnabled | Some s \<Rightarrow> s)"

definition enabledIdx :: "channel \<Rightarrow> nat \<Rightarrow> nat list" where
  "enabledIdx c n = filter (\<lambda>i. getStatus c i = ChannelStatusEnabled) [0..<n]"

definition SaveChannelInfo :: "channel \<Rightarrow> unit io" where
  "SaveChannelInfo c = exec (\<lambda>d. d\<lparr>channels := upd_where (\<lambda>r. chId r = chId c) (\<lambda>r. r\<lparr>chInfo := chInfo c\<rparr>) (channels d)\<rparr>)"

definition CacheGetChannel :: "conf \<Rightarrow> int \<Rightarrow> channel io" where
  "CacheGetChannel cfg i =
     (if \<not> MemoryCacheEnabled cfg then GetChannelById i
      else chk (gets (\<lambda>w. channelsIDM w i)) (\<lambda>c. case c of
             None \<Rightarrow> err (Msg (''channel '' @ Itoa i @ '' does not exist'')) | Some c \<Rightarrow> ret c))"

definition CacheGetChannelInfo :: "conf \<Rightarrow> int \<Rightarrow> channel_info io" where
  "CacheGetChannelInfo cfg i = chk (CacheGetChannel cfg i) (\<lambda>c. ret (chInfo c))"

text \<open>The loop of the polling mode: the first enabled index at or after \<open>start\<close>, cyclically, within the
  \<open>k\<close> steps left.\<close>

fun poll_from :: "channel \<Rightarrow> nat \<Rightarrow> nat \<Rightarrow> nat \<Rightarrow> nat option" where
  "poll_from c n start 0 = None"
| "poll_from c n start (Suc k) =
     (let idx = start mod n in
      if getStatus c idx = ChannelStatusEnabled then Some idx else poll_from c n (Suc start) k)"

text \<open>
  The result, the channel with its polling index moved on, and the world. With the memory cache the
  channel is the cached object itself, so the moved index is the cached one; without it the channel's
  info is saved, a failure being ignored.
\<close>

definition GetNextEnabledKey ::
  "conf \<Rightarrow> (nat \<Rightarrow> nat) \<Rightarrow> channel \<Rightarrow> world \<Rightarrow> ((NewAPIError + string \<times> nat) \<times> channel) \<times> world" where
  "GetNextEnabledKey cfg rnd c w =
     (if \<not> ciIsMultiKey (chInfo c) then ((Inr (chKey c, 0), c), w)
      else let keys = GetKeys cfg c; n = length keys; en = enabledIdx c n in
        if keys = [] then ((Inl (NewError (Some (Plain ''no keys available'')) ''channel:no_available_key'' []), c), w)
        else if en = [] then ((Inl (NewError (Some (Plain ''no enabled keys'')) ''channel:no_available_key'' []), c), w)
        else if ciMultiKeyMode (chInfo c) = ''random''
        then let i = en ! rnd (length en) in ((Inr (keys ! i, i), c), w)
        else if ciMultiKeyMode (chInfo c) = ''polling''
        then (case CacheGetChannelInfo cfg (chId c) w of
                (Inl e, w1) \<Rightarrow> ((Inl (NewError (Some (Plain (errText e))) ''get_channel_failed'' [ErrOptionWithSkipRetry]), c), w1)
              | (Inr info, w1) \<Rightarrow>
                  let p = ciMultiKeyPollingIndex info; start = (if p < 0 \<or> p \<ge> int n then 0 else nat p);
                      (idx, c') = (case poll_from c n start n of
                          Some i \<Rightarrow> (i, c\<lparr>chInfo := (chInfo c)\<lparr>ciMultiKeyPollingIndex := int ((i + 1) mod n)\<rparr>\<rparr>)
                        | None \<Rightarrow> (hd en, c));
                      w2 = (if \<not> MemoryCacheEnabled cfg then snd (SaveChannelInfo c' w1)
                            else w1\<lparr>channelsIDM := (channelsIDM w1)(chId c \<mapsto> c')\<rparr>) in
                  ((Inr (keys ! idx, idx), c'), w2))
        else ((Inr (keys ! hd en, hd en), c), w))"

section \<open>Abilities\<close>

text \<open>\<^verbatim>\<open>lo.Chunk\<close>: consecutive pieces of at most \<open>n\<close> elements.\<close>

fun chunks :: "nat \<Rightarrow> nat \<Rightarrow> 'a list \<Rightarrow> 'a list list" where
  "chunks 0 n xs = []"
| "chunks (Suc k) n xs = (if xs = [] then [] else take n xs # chunks k n (drop n xs))"

definition Chunk :: "nat \<Rightarrow> 'a list \<Rightarrow> 'a list list" where
  "Chunk n xs = chunks (length xs) n xs"

text \<open>The abilities of a channel, one per group and model, in the order of the loops; a pair whose key was
  seen before is skipped.\<close>

fun dedup_pairs :: "string list \<Rightarrow> (string \<times> string) list \<Rightarrow> (string \<times> string) list" where
  "dedup_pairs seen [] = []"
| "dedup_pairs seen ((m, g) # ps) =
     (let key = g @ ''|'' @ m in
      if key \<in> set seen then dedup_pairs seen ps else (m, g) # dedup_pairs (key # seen) ps)"

definition channel_abilities :: "channel \<Rightarrow> ability list" where
  "channel_abilities c =
     map (\<lambda>(m, g). \<lparr>abGroup = g, abModel = m, abChannelId = chId c, abEnabled = (chStatus c = ChannelStatusEnabled),
                    abPriority = chPriority c, abWeight = nat (GetWeight c mod 2 ^ 64), abTag = chTag c\<rparr>)
       (dedup_pairs [] (List.product (Split (chModels c) CHR '','') (Split (chGroup c) CHR '','')))"

definition ability_key :: "ability \<Rightarrow> string \<times> string \<times> int" where
  "ability_key a = (abGroup a, abModel a, abChannelId a)"

text \<open>\<^verbatim>\<open>OnConflict{DoNothing: true}\<close>: rows whose primary key is taken are not inserted.\<close>

definition create_abilities :: "ability list \<Rightarrow> unit io" where
  "create_abilities as = exec (\<lambda>d. d\<lparr>abilities :=
     fold (\<lambda>a rows. if ability_key a \<in> ability_key ` set rows then rows else rows @ [a]) as (abilities d)\<rparr>)"

fun create_chunks :: "ability list list \<Rightarrow> unit io" where
  "create_chunks [] = ret ()"
| "create_chunks (as # ass) = chk (create_abilities as) (\<lambda>_. create_chunks ass)"

definition AddAbilities :: "channel \<Rightarrow> unit io" where
  "AddAbilities c = create_chunks (Chunk 50 (channel_abilities c))"

definition DeleteAbilities :: "channel \<Rightarrow> unit io" where
  "DeleteAbilities c = exec (\<lambda>d. d\<lparr>abilities := filter (\<lambda>a. abChannelId a \<noteq> chId c) (abilities d)\<rparr>)"

text \<open>Inside the caller's transaction, and in one of its own.\<close>

definition UpdateAbilities_tx :: "channel \<Rightarrow> unit io" where
  "UpdateAbilities_tx c = chk (DeleteAbilities c) (\<lambda>_. create_chunks (Chunk 50 (channel_abilities c)))"

definition UpdateAbilities :: "channel \<Rightarrow> unit io" where
  "UpdateAbilities c = transaction (UpdateAbilities_tx c)"

definition UpdateAbilityStatus :: "int \<Rightarrow> bool \<Rightarrow> unit io" where
  "UpdateAbilityStatus i b = exec (\<lambda>d. d\<lparr>abilities := upd_where (\<lambda>a. abChannelId a = i) (\<lambda>a. a\<lparr>abEnabled := b\<rparr>) (abilities d)\<rparr>)"

definition UpdateAbilityStatusByTag :: "string \<Rightarrow> bool \<Rightarrow> unit io" where
  "UpdateAbilityStatusByTag t b =
     exec (\<lambda>d. d\<lparr>abilities := upd_where (\<lambda>a. abTag a = Some t) (\<lambda>a. a\<lparr>abEnabled := b\<rparr>) (abilities d)\<rparr>)"

text \<open>\<^verbatim>\<open>Updates\<close> with a struct writes only the fields that are not zero: a weight of 0 is not written.\<close>

definition UpdateAbilityByTag :: "string \<Rightarrow> string option \<Rightarrow> int option \<Rightarrow> nat option \<Rightarrow> unit io" where
  "UpdateAbilityByTag t newTag priority weight =
     exec (\<lambda>d. d\<lparr>abilities := upd_where (\<lambda>a. abTag a = Some t) (\<lambda>a. a\<lparr>
        abTag := (case newTag of None \<Rightarrow> abTag a | Some x \<Rightarrow> Some x),
        abPriority := (case priority of None \<Rightarrow> abPriority a | Some x \<Rightarrow> Some x),
        abWeight := (case weight of None \<Rightarrow> abWeight a | Some x \<Rightarrow> if x = 0 then abWeight a else x)\<rparr>) (abilities d)\<rparr>)"

section \<open>Changing channels\<close>

definition channel_Insert :: "channel \<Rightarrow> channel io" where
  "channel_Insert c =
     chk (stmt (\<lambda>d. let c' = c\<lparr>chId := fresh_id (map chId (channels d))\<rparr> in
                    (c', d\<lparr>channels := channels d @ [c'\<lparr>chKeys := []\<rparr>]\<rparr>)))
       (\<lambda>c'. chk (AddAbilities c') (\<lambda>_. ret c'))"

text \<open>The key list that \<^verbatim>\<open>Update\<close> counts: unlike \<open>GetKeys\<close> it falls back to lines for an empty array.\<close>

definition count_keys :: "conf \<Rightarrow> string \<Rightarrow> nat" where
  "count_keys cfg keyStr =
     (if keyStr = '''' then 0
      else let trimmed = TrimSpace keyStr;
               keys = (case (if prefix ''['' trimmed then decodeArray cfg trimmed else None) of Some arr \<Rightarrow> arr | None \<Rightarrow> []) in
        length (if keys = [] then Split (Trim keyStr CHR 0x0A) CHR 0x0A else keys))"

text \<open>\<^verbatim>\<open>DB.Model(channel).Updates(channel)\<close>: the non-zero fields of \<open>c\<close> over the row \<open>r\<close>.\<close>

definition zero_info :: channel_info where
  "zero_info = \<lparr>ciIsMultiKey = False, ciMultiKeySize = 0, ciMultiKeyStatusList = [], ciMultiKeyDisabledReason = [],
     ciMultiKeyDisabledTime = [], ciMultiKeyPollingIndex = 0, ciMultiKeyMode = ''''\<rparr>"

definition merge_channel :: "channel \<Rightarrow> channel \<Rightarrow> channel" where
  "merge_channel c r = r\<lparr>
     chType := (if chType c = 0 then chType r else chType c),
     chKey := (if chKey c = '''' then chKey r else chKey c),
     chStatus := (if chStatus c = 0 then chStatus r else chStatus c),
     chName := (if chName c = '''' then chName r else chName c),
     chWeight := (case chWeight c of None \<Rightarrow> chWeight r | x \<Rightarrow> x),
     chModels := (if chModels c = '''' then chModels r else chModels c),
     chGroup := (if chGroup c = '''' then chGroup r else chGroup c),
     chUsedQuota := (if chUsedQuota c = 0 then chUsedQuota r else chUsedQuota c),
     chPriority := (case chPriority c of None \<Rightarrow> chPriority r | x \<Rightarrow> x),
     chAutoBan := (case chAutoBan c of None \<Rightarrow> chAutoBan r | x \<Rightarrow> x),
     chStatusReason := (if chStatusReason c = '''' then chStatusReason r else chStatusReason c),
     chStatusTime := (if chStatusTime c = 0 then chStatusTime r else chStatusTime c),
     chTag := (case chTag c of None \<Rightarrow> chTag r | x \<Rightarrow> x),
     chInfo := (if chInfo c = zero_info then chInfo r else chInfo c),
     chModelMapping := (case chModelMapping c of None \<Rightarrow> chModelMapping r | x \<Rightarrow> x),
     chParamOverride := (case chParamOverride c of None \<Rightarrow> chParamOverride r | x \<Rightarrow> x),
     chHeaderOverride := (case chHeaderOverride c of None \<Rightarrow> chHeaderOverride r | x \<Rightarrow> x)\<rparr>"

definition resize_keys :: "nat \<Rightarrow> channel \<Rightarrow> channel" where
  "resize_keys n c = c\<lparr>chInfo := (chInfo c)\<lparr>ciMultiKeySize := int n,
     ciMultiKeyStatusList := filter (\<lambda>(i, _). i < n) (ciMultiKeyStatusList (chInfo c))\<rparr>\<rparr>"

text \<open>The re-reading of the row ignores an error; then the channel stays as it was passed in.\<close>

definition channel_Update :: "conf \<Rightarrow> channel \<Rightarrow> channel io" where
  "channel_Update cfg c =
     chk (if ciIsMultiKey (chInfo c)
          then chk (if chKey c \<noteq> '''' then ret (chKey c)
                    else handle (GetChannelById (chId c)) (\<lambda>_. ret '''') (\<lambda>e. ret (chKey e)))
                 (\<lambda>keyStr. ret (resize_keys (count_keys cfg keyStr) c))
          else ret c)
     (\<lambda>c1. chk (exec (\<lambda>d. d\<lparr>channels := upd_where (\<lambda>r. chId r = chId c) (merge_channel c1) (channels d)\<rparr>)) (\<lambda>_.
       handle (first (\<lambda>d. row chId (chId c) (channels d)))
         (\<lambda>_. chk (UpdateAbilities c1) (\<lambda>_. ret c1))
         (\<lambda>c2. chk (UpdateAbilities c2) (\<lambda>_. ret c2))))"

definition channel_Delete :: "channel \<Rightarrow> unit io" where
  "channel_Delete c =
     chk (exec (\<lambda>d. d\<lparr>channels := filter (\<lambda>r. chId r \<noteq> chId c) (channels d)\<rparr>)) (\<lambda>_. DeleteAbilities c)"

definition SaveWithoutKey :: "channel \<Rightarrow> unit io" where
  "SaveWithoutKey c =
     (if chId c = 0 then err (Msg ''channel ID is 0'')
      else exec (\<lambda>d. d\<lparr>channels :=
        (case row chId (chId c) (channels d) of
           None \<Rightarrow> channels d @ [c\<lparr>chKey := '''', chKeys := []\<rparr>]
         | Some r \<Rightarrow> save_row chId (c\<lparr>chKey := chKey r, chKeys := []\<rparr>) (channels d))\<rparr>))"

text \<open>Deleting by status leaves the abilities of the deleted channels in place.\<close>

definition DeleteChannelByStatus :: "int \<Rightarrow> int io" where
  "DeleteChannelByStatus st = stmt (\<lambda>d. (int (length (filter (\<lambda>c. chStatus c = st) (channels d))),
     d\<lparr>channels := filter (\<lambda>c. chStatus c \<noteq> st) (channels d)\<rparr>))"

definition DeleteDisabledChannel :: "int io" where
  "DeleteDisabledChannel =
     (let off = (\<lambda>c. chStatus c = ChannelStatusAutoDisabled \<or> chStatus c = ChannelStatusManuallyDisabled) in
      stmt (\<lambda>d. (int (length (filter off (channels d))), d\<lparr>channels := filter (\<lambda>c. \<not> off c) (channels d)\<rparr>)))"

fun delete_chunks :: "int list list \<Rightarrow> unit io" where
  "delete_chunks [] = ret ()"
| "delete_chunks (ids # idss) =
     chk (exec (\<lambda>d. d\<lparr>channels := filter (\<lambda>c. chId c \<notin> set ids) (channels d)\<rparr>)) (\<lambda>_.
     chk (exec (\<lambda>d. d\<lparr>abilities := filter (\<lambda>a. abChannelId a \<notin> set ids) (abilities d)\<rparr>)) (\<lambda>_. delete_chunks idss))"

definition BatchDeleteChannels :: "int list \<Rightarrow> unit io" where
  "BatchDeleteChannels ids = (if ids = [] then ret () else transaction (delete_chunks (Chunk 200 ids)))"

fun add_each :: "channel list \<Rightarrow> unit io" where
  "add_each [] = ret ()"
| "add_each (c # cs) = chk (AddAbilities c) (\<lambda>_. add_each cs)"

text \<open>\<^verbatim>\<open>tx.Create\<close> of a slice gives the new rows consecutive ids.\<close>

fun number_from :: "int \<Rightarrow> channel list \<Rightarrow> channel list" where
  "number_from n [] = []"
| "number_from n (c # cs) = c\<lparr>chId := n, chKeys := []\<rparr> # number_from (n + 1) cs"

fun insert_chunks :: "channel list list \<Rightarrow> unit io" where
  "insert_chunks [] = ret ()"
| "insert_chunks (cs # css) =
     chk (stmt (\<lambda>d. let cs' = number_from (fresh_id (map chId (channels d))) cs in
                    (cs', d\<lparr>channels := channels d @ cs'\<rparr>))) (\<lambda>cs'.
     chk (add_each cs') (\<lambda>_. insert_chunks css))"

definition BatchInsertChannels :: "channel list \<Rightarrow> unit io" where
  "BatchInsertChannels cs = (if cs = [] then ret () else transaction (insert_chunks (Chunk 50 cs)))"

section \<open>Status and tags\<close>

fun index_of :: "string \<Rightarrow> string list \<Rightarrow> nat option" where
  "index_of k [] = None"
| "index_of k (x # xs) = (if x = k then Some 0 else map_option Suc (index_of k xs))"

text \<open>A key that is not in the list counts as the first one: \<^verbatim>\<open>keyIndex\<close> keeps its zero value.\<close>

definition handlerMultiKeyUpdate :: "conf \<Rightarrow> int \<Rightarrow> channel \<Rightarrow> string \<Rightarrow> int \<Rightarrow> string \<Rightarrow> channel" where
  "handlerMultiKeyUpdate cfg now c usingKey status reason =
     (let keys = GetKeys cfg c in
      if keys = [] then c\<lparr>chStatus := status\<rparr>
      else let i = (case index_of usingKey keys of None \<Rightarrow> 0 | Some k \<Rightarrow> k);
               info = chInfo c;
               info' = (if status = ChannelStatusEnabled
                        then info\<lparr>ciMultiKeyStatusList := AList.delete i (ciMultiKeyStatusList info)\<rparr>
                        else info\<lparr>ciMultiKeyStatusList := AList.update i status (ciMultiKeyStatusList info),
                                  ciMultiKeyDisabledReason := AList.update i reason (ciMultiKeyDisabledReason info),
                                  ciMultiKeyDisabledTime := AList.update i now (ciMultiKeyDisabledTime info)\<rparr>);
               c' = c\<lparr>chInfo := info'\<rparr> in
        if int (length (ciMultiKeyStatusList info')) \<ge> ciMultiKeySize info'
        then c'\<lparr>chStatus := ChannelStatusAutoDisabled, chStatusReason := ''All keys are disabled'', chStatusTime := now\<rparr>
        else c')"

text \<open>Removing an id from a slice of the cache: its first occurrence only.\<close>

definition CacheUpdateChannelStatus :: "conf \<Rightarrow> int \<Rightarrow> int \<Rightarrow> world \<Rightarrow> world" where
  "CacheUpdateChannelStatus cfg i status w =
     (if \<not> MemoryCacheEnabled cfg then w
      else let w1 = (case channelsIDM w i of
                       None \<Rightarrow> w | Some c \<Rightarrow> w\<lparr>channelsIDM := (channelsIDM w)(i \<mapsto> c\<lparr>chStatus := status\<rparr>)\<rparr>) in
        if status \<noteq> ChannelStatusEnabled
        then w1\<lparr>group2model2channels := (\<lambda>g. map_option (\<lambda>ms m. remove1 i (ms m)) (group2model2channels w1 g))\<rparr>
        else w1)"

text \<open>The part of \<^verbatim>\<open>UpdateChannelStatus\<close> on the memory cache: \<^const>\<open>None\<close> when the function returns there.\<close>

definition status_in_cache :: "conf \<Rightarrow> int \<Rightarrow> int \<Rightarrow> string \<Rightarrow> int \<Rightarrow> string \<Rightarrow> world \<Rightarrow> world option" where
  "status_in_cache cfg now i usingKey status reason w =
     (if \<not> MemoryCacheEnabled cfg then Some w
      else case channelsIDM w i of
          None \<Rightarrow> None
        | Some c \<Rightarrow>
            if ciIsMultiKey (chInfo c)
            then Some (w\<lparr>channelsIDM := (channelsIDM w)(i \<mapsto> handlerMultiKeyUpdate cfg now c usingKey status reason)\<rparr>)
            else if chStatus c = status then None
            else Some (CacheUpdateChannelStatus cfg i status w))"

definition UpdateChannelStatus :: "conf \<Rightarrow> int \<Rightarrow> int \<Rightarrow> string \<Rightarrow> int \<Rightarrow> string \<Rightarrow> world \<Rightarrow> bool \<times> world" where
  "UpdateChannelStatus cfg now i usingKey status reason w =
     (case status_in_cache cfg now i usingKey status reason w of
        None \<Rightarrow> (False, w)
      | Some w1 \<Rightarrow>
          (case GetChannelById i w1 of
             (Inl _, w2) \<Rightarrow> (False, w2)
           | (Inr c, w2) \<Rightarrow>
               if chStatus c = status then (False, w2)
               else let c' = (if ciIsMultiKey (chInfo c) then handlerMultiKeyUpdate cfg now c usingKey status reason
                              else c\<lparr>chStatusReason := reason, chStatusTime := now, chStatus := status\<rparr>);
                        abil = (if ciIsMultiKey (chInfo c) then chStatus c \<noteq> chStatus c' else True);
                        (r, w3) = SaveWithoutKey c' w2;
                        w4 = (if abil then snd (UpdateAbilityStatus i (status = ChannelStatusEnabled) w3) else w3) in
                    ((case r of Inl _ \<Rightarrow> False | Inr _ \<Rightarrow> True), w4)))"

definition EnableChannelByTag :: "string \<Rightarrow> unit io" where
  "EnableChannelByTag t =
     chk (exec (\<lambda>d. d\<lparr>channels := upd_where (\<lambda>c. chTag c = Some t) (\<lambda>c. c\<lparr>chStatus := ChannelStatusEnabled\<rparr>) (channels d)\<rparr>))
       (\<lambda>_. UpdateAbilityStatusByTag t True)"

definition DisableChannelByTag :: "string \<Rightarrow> unit io" where
  "DisableChannelByTag t =
     chk (exec (\<lambda>d. d\<lparr>channels := upd_where (\<lambda>c. chTag c = Some t) (\<lambda>c. c\<lparr>chStatus := ChannelStatusManuallyDisabled\<rparr>) (channels d)\<rparr>))
       (\<lambda>_. UpdateAbilityStatusByTag t False)"

text \<open>The loop over the channels of a tag only logs a failure.\<close>

fun update_each :: "channel list \<Rightarrow> unit io" where
  "update_each [] = ret ()"
| "update_each (c # cs) = handle (UpdateAbilities c) (\<lambda>_. update_each cs) (\<lambda>_. update_each cs)"

definition EditChannelByTag ::
  "string \<Rightarrow> string option \<Rightarrow> string option \<Rightarrow> string option \<Rightarrow> string option \<Rightarrow> int option \<Rightarrow> nat option \<Rightarrow>
   string option \<Rightarrow> string option \<Rightarrow> unit io" where
  "EditChannelByTag t newTag modelMapping models grp priority weight paramOverride headerOverride =
     (let given = (\<lambda>x. case x of None \<Rightarrow> False | Some s \<Rightarrow> s \<noteq> '''');
          updatedTag = (case newTag of None \<Rightarrow> t | Some x \<Rightarrow> x);
          recreate = given models \<or> given grp in
      chk (exec (\<lambda>d. d\<lparr>channels := upd_where (\<lambda>c. chTag c = Some t) (\<lambda>c. c\<lparr>
          chTag := Some updatedTag,
          chModelMapping := (if given modelMapping then modelMapping else chModelMapping c),
          chModels := (if given models then the models else chModels c),
          chGroup := (if given grp then the grp else chGroup c),
          chPriority := (case priority of None \<Rightarrow> chPriority c | x \<Rightarrow> x),
          chWeight := (case weight of None \<Rightarrow> chWeight c | x \<Rightarrow> x),
          chParamOverride := (case paramOverride of None \<Rightarrow> chParamOverride c | x \<Rightarrow> x),
          chHeaderOverride := (case headerOverride of None \<Rightarrow> chHeaderOverride c | x \<Rightarrow> x)\<rparr>) (channels d)\<rparr>))
      (\<lambda>_. if recreate
           then handle (query (\<lambda>d. filter (\<lambda>c. chTag c = Some updatedTag) (channels d))) (\<lambda>_. ret ()) update_each
           else UpdateAbilityByTag t newTag priority weight))"

text \<open>The channels are read back on the global handle, not on the transaction: what the transaction has
  written is not in them.\<close>

fun update_each_tx :: "channel list \<Rightarrow> unit io" where
  "update_each_tx [] = ret ()"
| "update_each_tx (c # cs) = chk (UpdateAbilities_tx c) (\<lambda>_. update_each_tx cs)"

definition BatchSetChannelTag :: "int list \<Rightarrow> string option \<Rightarrow> unit io" where
  "BatchSetChannelTag ids t =
     chk (gets db) (\<lambda>d0. transaction (
       chk (exec (\<lambda>d. d\<lparr>channels := upd_where (\<lambda>c. chId c \<in> set ids) (\<lambda>c. c\<lparr>chTag := t\<rparr>) (channels d)\<rparr>)) (\<lambda>_.
       chk (query (\<lambda>_. filter (\<lambda>c. chId c \<in> set ids) (channels d0))) update_each_tx)))"

section \<open>The memory cache\<close>

definition is_polling :: "channel \<Rightarrow> bool" where
  "is_polling c \<longleftrightarrow> ciIsMultiKey (chInfo c) \<and> ciMultiKeyMode (chInfo c) = ''polling''"

text \<open>What a channel of the new cache takes over from the channel \<open>old\<close> with its id in the old one.\<close>

definition carry_over :: "conf \<Rightarrow> channel option \<Rightarrow> channel \<Rightarrow> channel" where
  "carry_over cfg old c =
     (if \<not> ciIsMultiKey (chInfo c) then c
      else let c1 = c\<lparr>chKeys := GetKeys cfg c\<rparr> in
        case old of
          Some oldc \<Rightarrow> if is_polling c \<and> is_polling oldc
            then c1\<lparr>chInfo := (chInfo c1)\<lparr>ciMultiKeyPollingIndex := ciMultiKeyPollingIndex (chInfo oldc)\<rparr>\<rparr> else c1
        | None \<Rightarrow> c1)"

text \<open>One id is appended per enabled channel and occurrence of the group and the model in its lists.\<close>

definition served_ids :: "channel list \<Rightarrow> string \<Rightarrow> string \<Rightarrow> int list" where
  "served_ids cs g m = concat (map (\<lambda>c.
     if chStatus c = ChannelStatusEnabled
     then concat (map (\<lambda>g'. concat (map (\<lambda>m'. if g' = g \<and> m' = m then [chId c] else []) (Split (chModels c) CHR '','')))
            (Split (chGroup c) CHR '',''))
     else []) cs)"

text \<open>
  A failed read counts as an empty table. An enabled channel with a group that no ability mentions makes
  the code write into a nil map, which panics before the cache is replaced. Go does not say in which
  order channels of equal priority end up; here they keep theirs.
\<close>

definition InitChannelCache :: "conf \<Rightarrow> unit io" where
  "InitChannelCache cfg =
     (if \<not> MemoryCacheEnabled cfg then ret ()
      else chk (handle (query channels) (\<lambda>_. ret []) ret) (\<lambda>cs.
           chk (handle (query abilities) (\<lambda>_. ret []) ret) (\<lambda>as.
             let groups = map abGroup as;
                 prio = (\<lambda>i. case row chId i cs of None \<Rightarrow> 0 | Some c \<Rightarrow> GetPriority c) in
             if \<exists>c \<in> set cs. chStatus c = ChannelStatusEnabled \<and> (\<exists>g \<in> set (Split (chGroup c) CHR '',''). g \<notin> set groups)
             then err (Msg ''panic: assignment to entry in nil map'')
             else modify (\<lambda>w. w\<lparr>
               group2model2channels := (\<lambda>g. if g \<in> set groups
                 then Some (\<lambda>m. sort_key (\<lambda>i. - prio i) (served_ids cs g m)) else None),
               channelsIDM := (\<lambda>i. map_option (carry_over cfg (channelsIDM w i)) (row chId i cs))\<rparr>))))"

definition handleThinkingBudgetModel :: "string \<Rightarrow> string \<Rightarrow> string \<Rightarrow> string" where
  "handleThinkingBudgetModel name pre wildcard =
     (if prefix pre name \<and> Contains name ''-thinking-'' then wildcard else name)"

definition FormatMatchingModelName :: "string \<Rightarrow> string" where
  "FormatMatchingModelName name =
     (let name1 = (if prefix ''gemini-2.5-flash-lite'' name
                   then handleThinkingBudgetModel name ''gemini-2.5-flash-lite'' ''gemini-2.5-flash-lite-thinking-*''
                   else if prefix ''gemini-2.5-flash'' name
                   then handleThinkingBudgetModel name ''gemini-2.5-flash'' ''gemini-2.5-flash-thinking-*''
                   else if prefix ''gemini-2.5-pro'' name
                   then handleThinkingBudgetModel name ''gemini-2.5-pro'' ''gemini-2.5-pro-thinking-*''
                   else name);
          name2 = (if prefix ''gpt-4-gizmo'' name1 then ''gpt-4-gizmo-*'' else name1) in
      if prefix ''gpt-4o-gizmo'' name2 then ''gpt-4o-gizmo-*'' else name2)"

section \<open>Choosing a channel\<close>

definition cached_ids :: "world \<Rightarrow> string \<Rightarrow> string \<Rightarrow> int list" where
  "cached_ids w g m = (case group2model2channels w g of None \<Rightarrow> [] | Some ms \<Rightarrow> ms m)"

fun lookup_all :: "(int \<Rightarrow> channel option) \<Rightarrow> int list \<Rightarrow> channel list res" where
  "lookup_all idm [] = Inr []"
| "lookup_all idm (i # is) =
     (case idm i of
        None \<Rightarrow> Inl (Msg (''inconsistent database: channel '' @ Itoa i @ '' does not exist''))
      | Some c \<Rightarrow> (case lookup_all idm is of Inl e \<Rightarrow> Inl e | Inr cs \<Rightarrow> Inr (c # cs)))"

definition priorities :: "channel list \<Rightarrow> int list" where
  "priorities cs = rev (sort (remdups (map GetPriority cs)))"

text \<open>Walking down the weights: the first channel at which the remaining random value drops below zero.\<close>

fun pick_channel :: "int \<Rightarrow> int \<Rightarrow> int \<Rightarrow> channel list \<Rightarrow> channel option" where
  "pick_channel factor adj r [] = None"
| "pick_channel factor adj r (c # cs) =
     (let r' = i64 (r - i64 (i64 (GetWeight c * factor) + adj)) in if r' < 0 then Some c else pick_channel factor adj r' cs)"

definition weight_sum :: "channel list \<Rightarrow> int" where
  "weight_sum cs = fold (\<lambda>c s. i64 (s + GetWeight c)) cs 0"

definition smoothing :: "channel list \<Rightarrow> int \<times> int \<times> int" where
  "smoothing cs =
     (let sumWeight = weight_sum cs in
      if sumWeight = 0 then (i64 (int (length cs) * 100), 1, 100)
      else if sumWeight div int (length cs) < 10 then (sumWeight, 100, 0)
      else (sumWeight, 1, 0))"

definition pick_weighted :: "(int \<Rightarrow> int) \<Rightarrow> channel list \<Rightarrow> channel option" where
  "pick_weighted rnd cs = (case smoothing cs of (sw, factor, adj) \<Rightarrow> pick_channel factor adj (rnd (i64 (sw * factor))) cs)"

text \<open>\<^verbatim>\<open>GetRandomSatisfiedChannel\<close> with the memory cache on; \<open>Inr None\<close> is a nil channel without an error.\<close>

definition GetRandomSatisfiedChannel_cached :: "(int \<Rightarrow> int) \<Rightarrow> string \<Rightarrow> string \<Rightarrow> int \<Rightarrow> world \<Rightarrow> channel option res" where
  "GetRandomSatisfiedChannel_cached rnd g m retry w =
     (let ids0 = cached_ids w g m;
          ids = (if ids0 = [] then cached_ids w g (FormatMatchingModelName m) else ids0) in
      if ids = [] then Inr None
      else case lookup_all (channelsIDM w) ids of
          Inl e \<Rightarrow> Inl e
        | Inr cs \<Rightarrow>
            if length ids = 1 then Inr (Some (hd cs))
            else let ps = priorities cs;
                     retry = (if retry \<ge> int (length ps) then int (length ps) - 1 else retry);
                     target = ps ! nat retry;
                     targets = filter (\<lambda>c. GetPriority c = target) cs in
              if targets = [] then Inl (Msg ''no channel found'')
              else (case pick_weighted rnd targets of
                      None \<Rightarrow> Inl (Msg ''channel not found'') | Some c \<Rightarrow> Inr (Some c)))"

text \<open>The same choice from the abilities table, with the memory cache off.\<close>

definition serves :: "string \<Rightarrow> string \<Rightarrow> ability \<Rightarrow> bool" where
  "serves g m a \<longleftrightarrow> abGroup a = g \<and> abModel a = m \<and> abEnabled a"

text \<open>A row without a priority has the column's default.\<close>

definition ab_priority :: "ability \<Rightarrow> int" where
  "ab_priority a = (case abPriority a of None \<Rightarrow> 0 | Some p \<Rightarrow> p)"

definition db_priorities :: "string \<Rightarrow> string \<Rightarrow> db \<Rightarrow> int list" where
  "db_priorities g m d = rev (sort (remdups (map ab_priority (filter (serves g m) (abilities d)))))"

definition getPriority :: "string \<Rightarrow> string \<Rightarrow> int \<Rightarrow> int io" where
  "getPriority g m retry =
     chk (query (db_priorities g m))
       (\<lambda>ps. if ps = [] then err (Msg ''database consistency broken'')
             else ret (if retry \<ge> int (length ps) then last ps else ps ! nat retry))"

fun pick_ability :: "int \<Rightarrow> ability list \<Rightarrow> ability option" where
  "pick_ability r [] = None"
| "pick_ability r (a # as) = (let r' = i64 (r - i64 (i64 (int (abWeight a)) + 10)) in if r' \<le> 0 then Some a else pick_ability r' as)"

text \<open>The query of \<^verbatim>\<open>getChannelQuery\<close>, run and ordered by descending weight: at the first attempt the
  highest priority, later the priority of the attempt.\<close>

definition getChannelQuery :: "string \<Rightarrow> string \<Rightarrow> int \<Rightarrow> ability list io" where
  "getChannelQuery g m retry =
     (let run = (\<lambda>ok. query (\<lambda>d. rev (sort_key abWeight (rev (filter (\<lambda>a. serves g m a \<and> ok d a) (abilities d)))))) in
      if retry = 0 then run (\<lambda>d a. ab_priority a = Max (set (map ab_priority (filter (serves g m) (abilities d)))))
      else chk (getPriority g m retry) (\<lambda>p. run (\<lambda>d a. ab_priority a = p)))"

text \<open>A channel and an error, both possibly nil. When the row of the chosen ability's channel cannot be read,
  both are set: the channel then has its id only.\<close>

definition zero_channel :: channel where
  "zero_channel = \<lparr>chId = 0, chType = 0, chKey = '''', chStatus = 0, chName = '''', chWeight = None, chModels = '''', chGroup = '''',
     chUsedQuota = 0, chPriority = None, chAutoBan = None, chStatusReason = '''', chStatusTime = 0, chTag = None, chInfo = zero_info,
     chModelMapping = None, chParamOverride = None, chHeaderOverride = None, chKeys = []\<rparr>"

definition GetChannel :: "(int \<Rightarrow> int) \<Rightarrow> string \<Rightarrow> string \<Rightarrow> int \<Rightarrow> world \<Rightarrow> (channel option \<times> gerr option) \<times> world" where
  "GetChannel rnd g m retry w =
     (case getChannelQuery g m retry w of
        (Inl e, w1) \<Rightarrow> ((None, Some e), w1)
      | (Inr as, w1) \<Rightarrow>
          if as = [] then ((None, None), w1)
          else let weightSum = i64 (sum_list (map (\<lambda>a. int (abWeight a) + 10) as));
                   cid = (case pick_ability (rnd weightSum) as of None \<Rightarrow> 0 | Some a \<Rightarrow> abChannelId a) in
            (case first (\<lambda>d. row chId cid (channels d)) w1 of
               (Inl e, w2) \<Rightarrow> ((Some (zero_channel\<lparr>chId := cid\<rparr>), Some e), w2)
             | (Inr c, w2) \<Rightarrow> ((Some c, None), w2)))"

definition GetRandomSatisfiedChannel ::
  "conf \<Rightarrow> (int \<Rightarrow> int) \<Rightarrow> string \<Rightarrow> string \<Rightarrow> int \<Rightarrow> world \<Rightarrow> (channel option \<times> gerr option) \<times> world" where
  "GetRandomSatisfiedChannel cfg rnd g m retry w =
     (if \<not> MemoryCacheEnabled cfg then GetChannel rnd g m retry w
      else ((case GetRandomSatisfiedChannel_cached rnd g m retry w of Inl e \<Rightarrow> (None, Some e) | Inr c \<Rightarrow> (c, None)), w))"

section \<open>Who may use a channel\<close>

text \<open>\<^verbatim>\<open>src/model/channel_satisfy.go\<close>: a failed count is no.\<close>

definition ability_count :: "string \<Rightarrow> string \<Rightarrow> int \<Rightarrow> world \<Rightarrow> bool \<times> world" where
  "ability_count g m i w =
     (case query (\<lambda>d. length (filter (\<lambda>a. serves g m a \<and> abChannelId a = i) (abilities d))) w of
        (Inl _, w') \<Rightarrow> (False, w') | (Inr n, w') \<Rightarrow> (n > 0, w'))"

definition isChannelEnabledForGroupModelDB :: "string \<Rightarrow> string \<Rightarrow> int \<Rightarrow> world \<Rightarrow> bool \<times> world" where
  "isChannelEnabledForGroupModelDB g m i w =
     (let (found, w1) = ability_count g m i w; normalized = FormatMatchingModelName m in
      if found then (True, w1)
      else if normalized = '''' \<or> normalized = m then (False, w1)
      else ability_count g normalized i w1)"

definition IsChannelEnabledForGroupModel :: "conf \<Rightarrow> string \<Rightarrow> string \<Rightarrow> int \<Rightarrow> world \<Rightarrow> bool \<times> world" where
  "IsChannelEnabledForGroupModel cfg g m i w =
     (if g = '''' \<or> m = '''' \<or> i \<le> 0 then (False, w)
      else if \<not> MemoryCacheEnabled cfg then isChannelEnabledForGroupModelDB g m i w
      else let normalized = FormatMatchingModelName m in
        (if i \<in> set (cached_ids w g m) then True
         else if normalized \<noteq> '''' \<and> normalized \<noteq> m then i \<in> set (cached_ids w g normalized)
         else False, w))"

fun IsChannelEnabledForAnyGroupModel :: "conf \<Rightarrow> string list \<Rightarrow> string \<Rightarrow> int \<Rightarrow> world \<Rightarrow> bool \<times> world" where
  "IsChannelEnabledForAnyGroupModel cfg [] m i w = (False, w)"
| "IsChannelEnabledForAnyGroupModel cfg (g # gs) m i w =
     (let (found, w1) = IsChannelEnabledForGroupModel cfg g m i w in
      if found then (True, w1) else IsChannelEnabledForAnyGroupModel cfg gs m i w1)"

section \<open>Rebuilding the abilities\<close>

text \<open>The two counters of \<^verbatim>\<open>FixAbility\<close>: channels whose abilities were added, and failures.\<close>

fun fix_each :: "channel list \<Rightarrow> nat \<times> nat \<Rightarrow> (nat \<times> nat) io" where
  "fix_each [] n = ret n"
| "fix_each (c # cs) n = handle (AddAbilities c) (\<lambda>_. fix_each cs (fst n, snd n + 1)) (\<lambda>_. fix_each cs (fst n + 1, snd n))"

fun fix_chunks :: "channel list list \<Rightarrow> nat \<times> nat \<Rightarrow> (nat \<times> nat) io" where
  "fix_chunks [] n = ret n"
| "fix_chunks (cs # css) n =
     handle (exec (\<lambda>d. d\<lparr>abilities := filter (\<lambda>a. abChannelId a \<notin> chId ` set cs) (abilities d)\<rparr>))
       (\<lambda>_. fix_chunks css (fst n, snd n + length cs))
       (\<lambda>_. chk (fix_each cs n) (\<lambda>n'. fix_chunks css n'))"

text \<open>Once the lock against a second run is taken.\<close>

definition FixAbility :: "conf \<Rightarrow> (nat \<times> nat) io" where
  "FixAbility cfg =
     chk (exec (\<lambda>d. d\<lparr>abilities := []\<rparr>)) (\<lambda>_.
     chk (query channels) (\<lambda>cs.
       if cs = [] then ret (0, 0)
       else chk (fix_chunks (Chunk 50 cs) (0, 0)) (\<lambda>n. chk (InitChannelCache cfg) (\<lambda>_. ret n))))"

end
