(* ===== verification/ChannelLaws.thy ===== *)
theory ChannelLaws
  imports Channels
begin

text \<open>
  Proofs about channels: the weighted choice gives every channel exactly its share, the choice respects
  priorities, the memory cache agrees with the tables, polling serves every enabled key in turn, and a
  disabled channel or key is no longer offered.
\<close>

section \<open>The weighted choice\<close>

definition share_of :: "int \<Rightarrow> int \<Rightarrow> channel \<Rightarrow> int" where
  "share_of factor adj c = GetWeight c * factor + adj"

definition light :: "int \<Rightarrow> int \<Rightarrow> channel list \<Rightarrow> bool" where
  "light factor adj cs \<longleftrightarrow> 0 \<le> factor \<and> 0 \<le> adj \<and> adj < 2 ^ 62 \<and> (\<forall>c \<in> set cs. 0 \<le> GetWeight c) \<and>
     sum_list (map (share_of factor adj) cs) < 2 ^ 62"

lemma light_Cons:
  assumes "light factor adj (c # cs)"
  shows "light factor adj cs" "0 \<le> share_of factor adj c" "share_of factor adj c < 2 ^ 62"
    "i64 (i64 (GetWeight c * factor) + adj) = share_of factor adj c"
proof -
  have nn: "0 \<le> share_of factor adj x" if "x \<in> set (c # cs)" for x
    using assms that by (auto simp: light_def share_of_def)
  have s: "0 \<le> sum_list (map (share_of factor adj) cs)" using nn by (intro sum_list_nonneg) auto
  show "0 \<le> share_of factor adj c" using nn by simp
  show lt: "share_of factor adj c < 2 ^ 62" using assms s by (simp add: light_def)
  show "light factor adj cs" using assms nn [of c] by (auto simp: light_def)
  have "0 \<le> GetWeight c * factor" "GetWeight c * factor < 2 ^ 62" using assms lt by (auto simp: light_def share_of_def)
  then show "i64 (i64 (GetWeight c * factor) + adj) = share_of factor adj c"
    using lt nn [of c] by (simp add: share_of_def in64_def)
qed

text \<open>The values of the random number that lead to \<open>c\<close> are an interval as long as its share.\<close>

lemma pick_channel_interval:
  assumes "light factor adj (xs @ c # ys)" "distinct (xs @ c # ys)" "0 \<le> r" "r < 2 ^ 62"
  shows "pick_channel factor adj r (xs @ c # ys) = Some c \<longleftrightarrow>
    (let s = sum_list (map (share_of factor adj) xs) in s \<le> r \<and> r < s + share_of factor adj c)"
  using assms
proof (induction xs arbitrary: r)
  case Nil
  have l: "i64 (i64 (GetWeight c * factor) + adj) = share_of factor adj c" "0 \<le> share_of factor adj c" "share_of factor adj c < 2 ^ 62"
    using light_Cons [of factor adj c ys] Nil.prems by simp_all
  have "pick_channel factor adj x zs \<noteq> Some c" if "c \<notin> set zs" for x zs
    using that by (induction zs arbitrary: x) (auto simp: Let_def)
  then show ?case using Nil.prems l by (simp add: Let_def in64_def)
next
  case (Cons x xs)
  have l: "i64 (i64 (GetWeight x * factor) + adj) = share_of factor adj x" "0 \<le> share_of factor adj x" "share_of factor adj x < 2 ^ 62"
    "light factor adj (xs @ c # ys)"
    using light_Cons [of factor adj x "xs @ c # ys"] Cons.prems by simp_all
  have "0 \<le> sum_list (map (share_of factor adj) xs)"
    using l(4) by (intro sum_list_nonneg) (auto simp: light_def share_of_def)
  moreover have "i64 (r - share_of factor adj x) = r - share_of factor adj x" using Cons.prems l by (simp add: in64_def)
  ultimately show ?case
    using Cons.IH [of "r - share_of factor adj x"] Cons.prems l by (auto simp: Let_def)
qed

lemma pick_channel_total:
  assumes "light factor adj cs" "0 \<le> r" "r < sum_list (map (share_of factor adj) cs)"
  shows "\<exists>c \<in> set cs. pick_channel factor adj r cs = Some c"
  using assms
proof (induction cs arbitrary: r)
  case (Cons x xs)
  have l: "i64 (i64 (GetWeight x * factor) + adj) = share_of factor adj x" "0 \<le> share_of factor adj x" "share_of factor adj x < 2 ^ 62"
    "light factor adj xs"
    using light_Cons [of factor adj x xs] Cons.prems by simp_all
  have "r < 2 ^ 62" using Cons.prems by (simp add: light_def)
  then have "i64 (r - share_of factor adj x) = r - share_of factor adj x" using Cons.prems l by (simp add: in64_def)
  then show ?case
    using Cons.IH [of "r - share_of factor adj x"] Cons.prems l by (auto simp: Let_def)
qed simp

text \<open>The weights of the channels of a priority, far from the edges of 64 bits.\<close>

definition modest :: "channel list \<Rightarrow> bool" where
  "modest cs \<longleftrightarrow> (\<forall>c \<in> set cs. 0 \<le> GetWeight c) \<and> sum_list (map GetWeight cs) < 2 ^ 54 \<and> int (length cs) < 2 ^ 54"

lemma weight_sum_modest:
  assumes "modest cs"
  shows "weight_sum cs = sum_list (map GetWeight cs)"
proof -
  have "fold (\<lambda>c s. i64 (s + GetWeight c)) xs a = a + sum_list (map GetWeight xs)"
    if "0 \<le> a" "\<forall>c \<in> set xs. 0 \<le> GetWeight c" "a + sum_list (map GetWeight xs) < 2 ^ 54" for xs a
    using that
  proof (induction xs arbitrary: a)
    case (Cons x xs)
    have "0 \<le> sum_list (map GetWeight xs)" using Cons.prems by (intro sum_list_nonneg) auto
    then have "in64 (a + GetWeight x)" using Cons.prems by (auto simp: in64_def)
    with Cons show ?case by simp
  qed simp
  from this [of 0 cs] assms show ?thesis by (simp add: weight_sum_def modest_def)
qed

definition effective :: "channel list \<Rightarrow> channel \<Rightarrow> int" where
  "effective cs c =
     (let s = sum_list (map GetWeight cs) in
      if s = 0 then 100 else if s div int (length cs) < 10 then GetWeight c * 100 else GetWeight c)"

lemma smoothing_shares:
  assumes "modest cs" "cs \<noteq> []" "smoothing cs = (sw, factor, adj)"
  shows "light factor adj cs" "\<And>c. c \<in> set cs \<Longrightarrow> share_of factor adj c = effective cs c"
    "i64 (sw * factor) = sum_list (map (effective cs) cs)" "0 < sum_list (map (effective cs) cs)"
proof -
  let ?s = "sum_list (map GetWeight cs)"
  have s: "weight_sum cs = ?s" by (rule weight_sum_modest [OF assms(1)])
  have nn: "0 \<le> ?s" "?s < 2 ^ 54" "int (length cs) < 2 ^ 54" "0 < int (length cs)"
    using assms(1,2) by (auto simp: modest_def intro!: sum_list_nonneg)
  have zero: "GetWeight c = 0" if "?s = 0" "c \<in> set cs" for c
    using that assms(1) sum_list_nonneg_eq_0_iff [of "map GetWeight cs"] by (auto simp: modest_def)
  have sums: "sum_list (map (\<lambda>c. GetWeight c * 100) cs) = ?s * 100" by (simp add: sum_list_mult_const)
  consider (z) "?s = 0" "factor = 1" "adj = 100" "sw = i64 (int (length cs) * 100)"
    | (small) "?s \<noteq> 0" "?s div int (length cs) < 10" "factor = 100" "adj = 0" "sw = ?s"
    | (big) "?s \<noteq> 0" "\<not> ?s div int (length cs) < 10" "factor = 1" "adj = 0" "sw = ?s"
    using assms(3) s by (auto simp: smoothing_def Let_def split: if_splits)
  note C = this
  show sh: "share_of factor adj c = effective cs c" if "c \<in> set cs" for c
    using that zero by (cases rule: C) (auto simp: share_of_def effective_def)
  then have m: "map (share_of factor adj) cs = map (effective cs) cs" by simp
  have e: "sum_list (map (effective cs) cs) = (if ?s = 0 then int (length cs) * 100 else if ?s div int (length cs) < 10 then ?s * 100 else ?s)"
    using sums by (auto simp: effective_def [abs_def] Let_def sum_list_triv)
  show "0 < sum_list (map (effective cs) cs)" using e nn by auto
  show "i64 (sw * factor) = sum_list (map (effective cs) cs)"
    using e nn by (cases rule: C) (auto simp: in64_def)
  show "light factor adj cs"
    unfolding light_def m using e nn assms(1) by (cases rule: C) (auto simp: modest_def)
qed


definition ex_channel :: "int \<Rightarrow> int \<Rightarrow> nat \<Rightarrow> channel" where
  "ex_channel i p n = \<lparr>chId = i, chType = 1, chKey = ''k'', chStatus = 1, chName = ''c'', chWeight = Some n, chModels = ''m'', chGroup = ''g'',
     chUsedQuota = 0, chPriority = Some p, chAutoBan = Some 1, chStatusReason = '''', chStatusTime = 0, chTag = None, chInfo = zero_info,
     chModelMapping = None, chParamOverride = None, chHeaderOverride = None, chKeys = []\<rparr>"


section \<open>The choice by priority\<close>

lemma lookup_all_ok: "(\<And>i. i \<in> set is \<Longrightarrow> idm i \<noteq> None) \<Longrightarrow> lookup_all idm is = Inr (map (\<lambda>i. the (idm i)) is)"
  by (induction "is") (auto split: option.split)

lemma priorities_set: "set (priorities cs) = GetPriority ` set cs"
  by (simp add: priorities_def)

lemma priorities_nth:
  assumes "cs \<noteq> []" "k < length (priorities cs)"
  shows "\<exists>c \<in> set cs. GetPriority c = priorities cs ! k"
proof -
  have "priorities cs ! k \<in> set (priorities cs)" using assms(2) by (rule nth_mem)
  then show ?thesis by (auto simp: priorities_set)
qed

text \<open>The channels that may serve a request: those listed for the model, or for its normalised name.\<close>

definition candidates :: "world \<Rightarrow> string \<Rightarrow> string \<Rightarrow> int list" where
  "candidates w g m = (if cached_ids w g m = [] then cached_ids w g (FormatMatchingModelName m) else cached_ids w g m)"

text \<open>The priority of the given attempt: the highest first, the lowest once they are used up.\<close>

definition attempt_priority :: "channel list \<Rightarrow> nat \<Rightarrow> int" where
  "attempt_priority cs k = priorities cs ! min k (length (priorities cs) - 1)"

text \<open>C25. A choice from the cache honours group, model and priority: with a consistent cache and at least
  one candidate, for every random number the code returns a candidate, of the attempt's priority.\<close>

theorem GetRandomSatisfiedChannel_cached_ok:
  assumes "candidates w g m \<noteq> []" "\<forall>i \<in> set (candidates w g m). \<exists>c. channelsIDM w i = Some c"
    and "modest (map (\<lambda>i. the (channelsIDM w i)) (candidates w g m))" "0 \<le> retry" "\<forall>n. 0 < n \<longrightarrow> 0 \<le> rnd n \<and> rnd n < n"
  shows "\<exists>c i. GetRandomSatisfiedChannel_cached rnd g m retry w = Inr (Some c) \<and> i \<in> set (candidates w g m) \<and> channelsIDM w i = Some c \<and>
    GetPriority c = attempt_priority (map (\<lambda>i. the (channelsIDM w i)) (candidates w g m)) (nat retry)"
proof -
  let ?ids = "candidates w g m"
  let ?cs = "map (\<lambda>i. the (channelsIDM w i)) ?ids"
  have lk: "lookup_all (channelsIDM w) ?ids = Inr ?cs" using assms(2) by (intro lookup_all_ok) auto
  have mem: "\<exists>i \<in> set ?ids. channelsIDM w i = Some c" if "c \<in> set ?cs" for c using that assms(2) by force
  let ?ps = "priorities ?cs"
  have ne: "?cs \<noteq> []" "?ps \<noteq> []" using assms(1) priorities_set [of ?cs] by auto
  define k where "k = min (nat retry) (length ?ps - 1)"
  have k: "k < length ?ps" using ne(2) by (cases ?ps) (auto simp: k_def)
  have kk: "nat (if retry \<ge> int (length ?ps) then int (length ?ps) - 1 else retry) = k"
    using assms(4) k by (auto simp: k_def min_def nat_diff_distrib)
  let ?ts = "filter (\<lambda>c. GetPriority c = ?ps ! k) ?cs"
  have ts: "?ts \<noteq> []" using priorities_nth [OF ne(1) k] by (auto simp: filter_empty_conv)
  have md: "modest ?ts"
  proof -
    have nn: "\<forall>c \<in> set ?cs. 0 \<le> GetWeight c" using assms(3) by (simp add: modest_def)
    have "sum_list (map GetWeight (filter P xs)) \<le> sum_list (map GetWeight xs)" if "\<forall>c \<in> set xs. 0 \<le> GetWeight c" for P xs
      using that by (induction xs) auto
    from this [OF nn] show ?thesis using assms(3) nn length_filter_le [of "\<lambda>c. GetPriority c = ?ps ! k" ?cs]
      by (auto simp: modest_def simp del: length_filter_le intro: order.strict_trans1)
  qed
  obtain sw factor adj where sm: "smoothing ?ts = (sw, factor, adj)" by (metis prod.collapse)
  note S = smoothing_shares [OF md ts sm]
  have mm: "map (share_of factor adj) ?ts = map (effective ?ts) ?ts" using S(2) by simp
  obtain c where c: "c \<in> set ?ts" "pick_weighted rnd ?ts = Some c"
    using pick_channel_total [OF S(1), of "rnd (i64 (sw * factor))"] assms(5) S(3,4) by (auto simp: pick_weighted_def sm mm)
  show ?thesis
  proof (cases "length ?ids = 1")
    case True
    then obtain i where i: "?ids = [i]" by (cases ?ids) auto
    then have "k = 0" using True by (simp add: k_def priorities_def)
    with i lk show ?thesis
      using assms(2) by (force simp: GetRandomSatisfiedChannel_cached_def Let_def attempt_priority_def priorities_def simp flip: candidates_def)
  next
    case False
    have "GetRandomSatisfiedChannel_cached rnd g m retry w = Inr (Some c)"
      using False lk assms(1) ts c(2) kk by (simp add: GetRandomSatisfiedChannel_cached_def Let_def flip: candidates_def)
    moreover have "GetPriority c = attempt_priority ?cs (nat retry)" using c(1) by (simp add: attempt_priority_def k_def)
    ultimately show ?thesis using mem [of c] c(1) by auto
  qed
qed

definition ex_cached :: world where
  "ex_cached = (ex_world (ex_db [] []))\<lparr>group2model2channels := [''g'' \<mapsto> (\<lambda>_. [1, 2])],
     channelsIDM := [1 \<mapsto> ex_channel 1 5 10, 2 \<mapsto> ex_channel 2 3 10]\<rparr>"

theorem GetRandomSatisfiedChannel_cached_ok_witness:
  "\<exists>c. GetRandomSatisfiedChannel_cached (\<lambda>_. 0) ''g'' ''m'' 1 ex_cached = Inr (Some c) \<and> GetPriority c = 3"
proof -
  have c: "candidates ex_cached ''g'' ''m'' = [1, 2]" by (simp add: candidates_def cached_ids_def ex_cached_def)
  have "modest (map (\<lambda>i. the (channelsIDM ex_cached i)) [1, 2])"
    by (simp add: modest_def ex_cached_def ex_channel_def GetWeight_def in64_def)
  moreover have "attempt_priority (map (\<lambda>i. the (channelsIDM ex_cached i)) [1, 2]) (nat 1) = 3"
    by (simp add: attempt_priority_def priorities_def ex_cached_def ex_channel_def GetPriority_def)
  moreover have "\<forall>i \<in> set [1, 2]. \<exists>c. channelsIDM ex_cached i = Some c" by (simp add: ex_cached_def)
  ultimately show ?thesis
    using GetRandomSatisfiedChannel_cached_ok [of ex_cached "''g''" "''m''" 1 "\<lambda>_. 0"] by (auto simp: c)
qed

section \<open>Abilities follow their channels\<close>

abbreviation groups_of :: "channel \<Rightarrow> string list" where "groups_of c \<equiv> Split (chGroup c) CHR '',''"
abbreviation models_of :: "channel \<Rightarrow> string list" where "models_of c \<equiv> Split (chModels c) CHR '',''"

definition offers :: "string \<Rightarrow> string \<Rightarrow> channel \<Rightarrow> bool" where
  "offers g m c \<longleftrightarrow> chStatus c = ChannelStatusEnabled \<and> g \<in> set (groups_of c) \<and> m \<in> set (models_of c)"

text \<open>The rows \<open>as\<close> are the abilities of \<open>c\<close>.\<close>

definition rows_of :: "channel \<Rightarrow> ability list \<Rightarrow> bool" where
  "rows_of c as \<longleftrightarrow> (\<forall>a \<in> set as. abEnabled a = (chStatus c = ChannelStatusEnabled) \<and> abPriority a = chPriority c) \<and>
     (\<lambda>a. (abModel a, abGroup a)) ` set as = set (models_of c) \<times> set (groups_of c)"

definition synced :: "db \<Rightarrow> bool" where
  "synced d \<longleftrightarrow> distinct (map chId (channels d)) \<and> abChannelId ` set (abilities d) \<subseteq> chId ` set (channels d) \<and>
     (\<forall>c \<in> set (channels d). rows_of c (filter (\<lambda>a. abChannelId a = chId c) (abilities d)))"

lemma split_bar:
  assumes "CHR ''|'' \<notin> set g" "CHR ''|'' \<notin> set g'" "g @ ''|'' @ m = g' @ ''|'' @ m'"
  shows "g = g' \<and> m = m'"
proof -
  have t: "takeWhile (\<lambda>x. x \<noteq> CHR ''|'') (h @ CHR ''|'' # n) = h" if "CHR ''|'' \<notin> set h" for h n
    using that by (induction h) auto
  from assms have e: "g @ CHR ''|'' # m = g' @ CHR ''|'' # m'" by simp
  then have "g = g'" using t [OF assms(1), of m] t [OF assms(2), of m'] by simp
  with e show ?thesis by simp
qed

lemma dedup_pairs_spec:
  assumes "\<forall>(m, g) \<in> set ps. CHR ''|'' \<notin> set g"
  shows "set (dedup_pairs seen ps) = {(m, g) \<in> set ps. g @ ''|'' @ m \<notin> set seen} \<and> distinct (dedup_pairs seen ps)"
  using assms
proof (induction ps arbitrary: seen)
  case (Cons p ps)
  obtain m g where p: "p = (m, g)" by fastforce
  have g: "CHR ''|'' \<notin> set g" using Cons.prems p by auto
  have same: "g' @ ''|'' @ m' = g @ ''|'' @ m \<longleftrightarrow> m' = m \<and> g' = g" if "(m', g') \<in> set ps" for m' g'
    using split_bar [of g' g m' m] g that Cons.prems by auto
  show ?case
  proof (cases "g @ ''|'' @ m \<in> set seen")
    case True
    with Cons p show ?thesis by (auto simp: Let_def)
  next
    case False
    have "set (dedup_pairs ((g @ ''|'' @ m) # seen) ps) = {(m', g') \<in> set ps. g' @ ''|'' @ m' \<notin> set ((g @ ''|'' @ m) # seen)} \<and>
        distinct (dedup_pairs ((g @ ''|'' @ m) # seen) ps)"
      by (rule Cons.IH) (use Cons.prems in auto)
    with False p same show ?thesis by (auto simp: Let_def)
  qed
qed simp

lemma Split_chars: "x \<in> set (Split s c) \<Longrightarrow> set x \<subseteq> set s"
proof (induction s arbitrary: x)
  case (Cons a s)
  then show ?case by (auto split: if_splits list.splits) (metis list.set_intros subset_iff)+
qed simp

definition plain_groups :: "channel \<Rightarrow> bool" where
  "plain_groups c \<longleftrightarrow> CHR ''|'' \<notin> set (chGroup c)"

lemma channel_abilities_rows:
  assumes "plain_groups c"
  shows "rows_of c (channel_abilities c)" "distinct (map ability_key (channel_abilities c))"
    "\<forall>a \<in> set (channel_abilities c). abChannelId a = chId c"
proof -
  let ?ps = "List.product (models_of c) (groups_of c)"
  have g: "\<forall>(m, g) \<in> set ?ps. CHR ''|'' \<notin> set g"
    using assms Split_chars [of _ "chGroup c" "CHR '',''"] by (fastforce simp: plain_groups_def)
  have s: "set (dedup_pairs [] ?ps) = set (models_of c) \<times> set (groups_of c)" and d: "distinct (dedup_pairs [] ?ps)"
    using dedup_pairs_spec [OF g, of "[]"] by auto
  have "(\<lambda>a. (abModel a, abGroup a)) ` set (channel_abilities c) = set (dedup_pairs [] ?ps)"
    by (force simp: channel_abilities_def image_iff)
  with s show "rows_of c (channel_abilities c)" by (auto simp: rows_of_def) (auto simp: channel_abilities_def)
  have "map ability_key (channel_abilities c) = map (\<lambda>(m, g). (g, m, chId c)) (dedup_pairs [] ?ps)"
    by (auto simp: channel_abilities_def ability_key_def)
  with d show "distinct (map ability_key (channel_abilities c))" by (auto simp: distinct_map inj_on_def)
  show "\<forall>a \<in> set (channel_abilities c). abChannelId a = chId c" by (auto simp: channel_abilities_def)
qed

lemma concat_chunks: "0 < n \<Longrightarrow> length xs \<le> k \<Longrightarrow> concat (chunks k n xs) = xs"
proof (induction k arbitrary: xs)
  case (Suc k)
  then show ?case by (cases "xs = []") (simp_all add: Suc.IH)
qed simp

lemma concat_Chunk: "0 < n \<Longrightarrow> concat (Chunk n xs) = xs"
  by (simp add: Chunk_def concat_chunks)

definition add_rows :: "ability list \<Rightarrow> ability list \<Rightarrow> ability list" where
  "add_rows as rows = fold (\<lambda>a rows. if ability_key a \<in> ability_key ` set rows then rows else rows @ [a]) as rows"

lemma add_rows_new:
  "distinct (map ability_key as) \<Longrightarrow> (\<And>a r. a \<in> set as \<Longrightarrow> r \<in> set rows \<Longrightarrow> ability_key a \<noteq> ability_key r) \<Longrightarrow>
   add_rows as rows = rows @ as"
  unfolding add_rows_def
proof (induction as arbitrary: rows)
  case (Cons a as)
  have "ability_key a \<notin> ability_key ` set rows" using Cons.prems(2) [of a] by force
  moreover have "fold (\<lambda>a rows. if ability_key a \<in> ability_key ` set rows then rows else rows @ [a]) as (rows @ [a]) = (rows @ [a]) @ as"
    by (rule Cons.IH) (use Cons.prems in \<open>auto simp: image_iff\<close>)
  ultimately show ?case by simp
qed simp

lemma create_chunks_ok:
  "faults w = [] \<Longrightarrow> create_chunks ass w = (Inr (), w\<lparr>db := (db w)\<lparr>abilities := add_rows (concat ass) (abilities (db w))\<rparr>\<rparr>)"
proof (induction ass arbitrary: w)
  case Nil
  then show ?case by (simp add: ret_def add_rows_def)
next
  case (Cons as ass)
  then show ?case by (simp add: chk_def create_abilities_def add_rows_def)
qed

lemma AddAbilities_ok:
  assumes "faults w = []" "plain_groups c" "chId c \<notin> abChannelId ` set (abilities (db w))"
  shows "AddAbilities c w = (Inr (), w\<lparr>db := (db w)\<lparr>abilities := abilities (db w) @ channel_abilities c\<rparr>\<rparr>)"
proof -
  have "add_rows (channel_abilities c) (abilities (db w)) = abilities (db w) @ channel_abilities c"
    using channel_abilities_rows [OF assms(2)] assms(3) by (intro add_rows_new) (force simp: ability_key_def)+
  with assms(1) show ?thesis by (simp add: AddAbilities_def create_chunks_ok concat_Chunk)
qed

definition replace_rows :: "channel \<Rightarrow> ability list \<Rightarrow> ability list" where
  "replace_rows c rows = filter (\<lambda>a. abChannelId a \<noteq> chId c) rows @ channel_abilities c"

lemma UpdateAbilities_tx_ok:
  assumes "faults w = []" "plain_groups c"
  shows "UpdateAbilities_tx c w = (Inr (), w\<lparr>db := (db w)\<lparr>abilities := replace_rows c (abilities (db w))\<rparr>\<rparr>)"
proof -
  have "add_rows (channel_abilities c) (filter (\<lambda>a. abChannelId a \<noteq> chId c) (abilities (db w))) = replace_rows c (abilities (db w))"
    unfolding replace_rows_def using channel_abilities_rows [OF assms(2)] by (intro add_rows_new) (force simp: ability_key_def)+
  with assms(1) show ?thesis
    by (simp add: UpdateAbilities_tx_def DeleteAbilities_def chk_def create_chunks_ok concat_Chunk)
qed

lemma UpdateAbilities_ok:
  assumes "faults w = []" "plain_groups c"
  shows "UpdateAbilities c w = (Inr (), w\<lparr>db := (db w)\<lparr>abilities := replace_rows c (abilities (db w))\<rparr>\<rparr>)"
  unfolding UpdateAbilities_def
  using transaction_ok [where m = "UpdateAbilities_tx c", OF assms(1) UpdateAbilities_tx_ok [OF assms]] assms(1) by simp

lemma filter_own: "plain_groups c \<Longrightarrow> filter (\<lambda>a. abChannelId a = chId c) (channel_abilities c) = channel_abilities c"
  using channel_abilities_rows(3) [of c] by (simp add: filter_id_conv)

lemma filter_other: "plain_groups c \<Longrightarrow> i \<noteq> chId c \<Longrightarrow> filter (\<lambda>a. abChannelId a = i) (channel_abilities c) = []"
  using channel_abilities_rows(3) [of c] by (auto simp: filter_empty_conv)

lemma filter_replace_rows:
  assumes "plain_groups c"
  shows "filter (\<lambda>a. abChannelId a = i) (replace_rows c rows) =
    (if i = chId c then channel_abilities c else filter (\<lambda>a. abChannelId a = i) rows)"
proof (cases "i = chId c")
  case True
  then show ?thesis using assms by (simp add: replace_rows_def filter_own filter_empty_conv)
next
  case False
  have "filter (\<lambda>a. abChannelId a = i) (filter (\<lambda>a. abChannelId a \<noteq> chId c) rows) = filter (\<lambda>a. abChannelId a = i) rows"
    using False by (auto intro: filter_cong)
  with False assms show ?thesis by (simp add: replace_rows_def filter_other)
qed

lemma synced_insert:
  assumes "synced d" "chId c \<notin> chId ` set (channels d)" "plain_groups c"
  shows "synced (d\<lparr>channels := channels d @ [c\<lparr>chKeys := []\<rparr>], abilities := abilities d @ channel_abilities c\<rparr>)"
proof -
  have none: "filter (\<lambda>a. abChannelId a = chId c) (abilities d) = []"
    using assms(1,2) unfolding synced_def filter_empty_conv by (metis image_eqI subsetD)
  have "rows_of (c\<lparr>chKeys := []\<rparr>) (channel_abilities c)"
    using channel_abilities_rows(1) [OF assms(3)] by (simp add: rows_of_def)
  then have new: "rows_of (c\<lparr>chKeys := []\<rparr>) (filter (\<lambda>a. abChannelId a = chId c) (abilities d @ channel_abilities c))"
    by (simp add: none filter_own [OF assms(3)])
  have old: "rows_of x (filter (\<lambda>a. abChannelId a = chId x) (abilities d @ channel_abilities c))" if "x \<in> set (channels d)" for x
  proof -
    have "chId x \<noteq> chId c" using that assms(2) by (metis image_eqI)
    with that assms(1) show ?thesis by (simp add: filter_other [OF assms(3)] synced_def)
  qed
  have "abChannelId ` set (channel_abilities c) \<subseteq> {chId c}" using channel_abilities_rows(3) [OF assms(3)] by auto
  with new old assms(1,2) show ?thesis by (auto simp: synced_def)
qed

lemma synced_replace:
  assumes "synced d" "row chId i (channels d) = Some r" "chId c = i" "plain_groups c"
  shows "synced (d\<lparr>channels := upd_where (\<lambda>x. chId x = i) (\<lambda>_. c) (channels d), abilities := replace_rows c (abilities d)\<rparr>)"
proof -
  have ids: "map chId (upd_where (\<lambda>x. chId x = i) (\<lambda>_. c) (channels d)) = map chId (channels d)"
    by (rule map_upd_where) (simp add: assms(3))
  then have im: "chId ` set (upd_where (\<lambda>x. chId x = i) (\<lambda>_. c) (channels d)) = chId ` set (channels d)" by (metis set_map)
  have r: "i \<in> chId ` set (channels d)" using assms(2) by (auto dest: row_SomeD)
  have "abChannelId ` set (replace_rows c (abilities d)) \<subseteq> chId ` set (channels d)"
    using assms(1,3) r channel_abilities_rows(3) [OF assms(4)] by (auto simp: replace_rows_def synced_def)
  moreover have "rows_of x (filter (\<lambda>a. abChannelId a = chId x) (replace_rows c (abilities d)))"
    if "x \<in> set (upd_where (\<lambda>x. chId x = i) (\<lambda>_. c) (channels d))" for x
    using that assms(1,3) channel_abilities_rows(1) [OF assms(4)]
    by (auto simp: upd_where_def filter_replace_rows [OF assms(4)] synced_def)
  ultimately show ?thesis using assms(1) ids im by (simp add: synced_def)
qed

lemma synced_delete:
  assumes "synced d"
  shows "synced (d\<lparr>channels := filter (\<lambda>r. chId r \<notin> I) (channels d), abilities := filter (\<lambda>a. abChannelId a \<notin> I) (abilities d)\<rparr>)"
proof -
  have "rows_of c (filter (\<lambda>a. abChannelId a = chId c) (filter (\<lambda>a. abChannelId a \<notin> I) (abilities d)))"
    if "c \<in> set (channels d)" "chId c \<notin> I" for c
  proof -
    have "filter (\<lambda>a. abChannelId a = chId c) (filter (\<lambda>a. abChannelId a \<notin> I) (abilities d)) = filter (\<lambda>a. abChannelId a = chId c) (abilities d)"
      using that(2) by (auto intro: filter_cong)
    with that(1) assms show ?thesis by (simp only: synced_def)
  qed
  with assms show ?thesis unfolding synced_def by (auto simp: distinct_map inj_on_def simp del: filter_filter)
qed

lemma synced_status:
  assumes "synced d" "row chId i (channels d) = Some r" "chId c = i" "chModels c = chModels r" "chGroup c = chGroup r" "chPriority c = chPriority r"
    and "chStatus c = ChannelStatusEnabled \<longleftrightarrow> b"
  shows "synced (d\<lparr>channels := save_row chId c (channels d), abilities := upd_where (\<lambda>a. abChannelId a = i) (\<lambda>a. a\<lparr>abEnabled := b\<rparr>) (abilities d)\<rparr>)"
proof -
  have ids: "map chId (save_row chId c (channels d)) = map chId (channels d)"
    using row_SomeD [OF assms(2)] assms(3) by (intro map_key_save_row) (metis image_eqI)
  then have im: "chId ` set (save_row chId c (channels d)) = chId ` set (channels d)" by (metis set_map)
  have abs: "abChannelId ` set (upd_where (\<lambda>a. abChannelId a = i) (\<lambda>a. a\<lparr>abEnabled := b\<rparr>) (abilities d)) = abChannelId ` set (abilities d)"
    by (simp flip: set_map)
  have f: "filter (\<lambda>a. abChannelId a = j) (upd_where (\<lambda>a. abChannelId a = i) (\<lambda>a. a\<lparr>abEnabled := b\<rparr>) as) =
      (if j = i then map (\<lambda>a. a\<lparr>abEnabled := b\<rparr>) (filter (\<lambda>a. abChannelId a = i) as) else filter (\<lambda>a. abChannelId a = j) as)" for j as
    by (induction as) auto
  have r: "r \<in> set (channels d)" "chId r = i" using assms(2) by (auto dest: row_SomeD)
  have "rows_of r (filter (\<lambda>a. abChannelId a = i) (abilities d))" using assms(1) r by (auto simp: synced_def)
  then have "rows_of c (map (\<lambda>a. a\<lparr>abEnabled := b\<rparr>) (filter (\<lambda>a. abChannelId a = i) (abilities d)))"
    using assms(4-7) by (auto simp: rows_of_def image_image)
  moreover have "x = c \<or> x \<in> set (channels d) \<and> chId x \<noteq> i" if "x \<in> set (save_row chId c (channels d))" for x
    using that assms(3) by (auto simp: save_row_def split: if_splits)
  ultimately have "rows_of x (filter (\<lambda>a. abChannelId a = chId x) (upd_where (\<lambda>a. abChannelId a = i) (\<lambda>a. a\<lparr>abEnabled := b\<rparr>) (abilities d)))"
    if "x \<in> set (save_row chId c (channels d))" for x
    using that assms(1,3) by (cases "x = c") (auto simp: synced_def f)
  then show ?thesis using assms(1) ids im abs by (simp add: synced_def)
qed

text \<open>What the administration keeps of the two tables: the abilities are those of the channels, ids are positive,
  and no group holds the separator of the deduplication key.\<close>

definition well_kept :: "world \<Rightarrow> bool" where
  "well_kept w \<longleftrightarrow> faults w = [] \<and> synced (db w) \<and> (\<forall>c \<in> set (channels (db w)). 0 < chId c \<and> plain_groups c)"

lemma channel_Insert_kept:
  assumes "well_kept w" "plain_groups c" "channel_Insert c w = (r, w')"
  shows "well_kept w'"
proof -
  define c' where "c' = c\<lparr>chId := fresh_id (map chId (channels (db w)))\<rparr>"
  have pg: "plain_groups c'" and new: "chId c' \<notin> chId ` set (channels (db w))"
    using assms(2) fresh_id_fresh [of "map chId (channels (db w))"] by (simp_all add: c'_def plain_groups_def)
  define d where "d = (db w)\<lparr>channels := channels (db w) @ [c'\<lparr>chKeys := []\<rparr>]\<rparr>"
  have "chId c' \<notin> abChannelId ` set (abilities d)"
    using assms(1) new by (auto simp: well_kept_def synced_def d_def)
  then have "AddAbilities c' (w\<lparr>db := d\<rparr>) = (Inr (), w\<lparr>db := d\<lparr>abilities := abilities d @ channel_abilities c'\<rparr>\<rparr>)"
    using AddAbilities_ok [of "w\<lparr>db := d\<rparr>" c'] assms(1) pg by (simp add: well_kept_def)
  with assms have "w' = w\<lparr>db := d\<lparr>abilities := abilities d @ channel_abilities c'\<rparr>\<rparr>"
    by (auto simp: channel_Insert_def chk_def ret_def well_kept_def Let_def c'_def d_def)
  then show ?thesis
    using assms(1) pg synced_insert [OF _ new pg] fresh_id_pos [of "map chId (channels (db w))"]
    by (auto simp: well_kept_def d_def c'_def plain_groups_def)
qed

lemma channel_Delete_kept:
  assumes "well_kept w" "channel_Delete c w = (r, w')"
  shows "well_kept w'"
  using assms synced_delete [of "db w" "{chId c}"]
  by (auto simp: channel_Delete_def DeleteAbilities_def chk_def ret_def well_kept_def)

lemma delete_chunks_ok:
  assumes "faults w = []"
  shows "delete_chunks idss w = (Inr (), w\<lparr>db := (db w)\<lparr>
    channels := filter (\<lambda>c. chId c \<notin> set (concat idss)) (channels (db w)),
    abilities := filter (\<lambda>a. abChannelId a \<notin> set (concat idss)) (abilities (db w))\<rparr>\<rparr>)"
  using assms
proof (induction idss arbitrary: w)
  case Nil
  then show ?case by (simp add: ret_def)
next
  case (Cons ids idss)
  then show ?case by (auto simp: chk_def ret_def conj_commute intro!: arg_cong2 [where f = "\<lambda>c a. w\<lparr>db := (db w)\<lparr>channels := c, abilities := a\<rparr>\<rparr>"] filter_cong)
qed

lemma BatchDeleteChannels_kept:
  assumes "well_kept w" "BatchDeleteChannels ids w = (r, w')"
  shows "well_kept w'"
proof (cases "ids = []")
  case True
  with assms show ?thesis by (simp add: BatchDeleteChannels_def ret_def)
next
  case False
  with assms transaction_ok [of w "delete_chunks (Chunk 200 ids)", OF _ delete_chunks_ok]
  show ?thesis using synced_delete [of "db w" "set ids"] by (auto simp: BatchDeleteChannels_def well_kept_def concat_Chunk)
qed

lemma channel_Update_kept:
  assumes "well_kept w" "plain_groups c" "row chId (chId c) (channels (db w)) = Some e" "channel_Update cfg c w = (r, w')"
  shows "well_kept w'"
proof -
  have fs: "faults w = []" using assms(1) by (simp add: well_kept_def)
  define c1 where "c1 = (if ciIsMultiKey (chInfo c)
    then resize_keys (count_keys cfg (if chKey c \<noteq> '''' then chKey c else chKey e)) c else c)"
  have c1: "chId c1 = chId c" "plain_groups c1" using assms(2) by (simp_all add: c1_def resize_keys_def plain_groups_def)
  have pre: "(if ciIsMultiKey (chInfo c)
          then chk (if chKey c \<noteq> '''' then ret (chKey c)
                    else handle (GetChannelById (chId c)) (\<lambda>_. ret '''') (\<lambda>e. ret (chKey e)))
                 (\<lambda>keyStr. ret (resize_keys (count_keys cfg keyStr) c))
          else ret c) w = (Inr c1, w)"
    using assms(3) fs by (auto simp: c1_def chk_def ret_def GetChannelById_def handle_def)
  have run: "(chk (exec (\<lambda>d. d\<lparr>channels := upd_where (\<lambda>r. chId r = chId c) (merge_channel c1) (channels d)\<rparr>)) (\<lambda>_.
       handle (first (\<lambda>d. row chId (chId c) (channels d)))
         (\<lambda>_. chk (UpdateAbilities c1) (\<lambda>_. ret c1)) (\<lambda>c2. chk (UpdateAbilities c2) (\<lambda>_. ret c2)))) w = (r, w')"
    using assms(4) unfolding channel_Update_def chk_def [of "if _ then _ else _"] pre by simp
  define c2 where "c2 = merge_channel c1 e"
  have e: "e \<in> set (channels (db w))" "chId e = chId c" using assms(3) by (auto dest: row_SomeD)
  have c2: "chId c2 = chId c" "plain_groups c2"
    using e c1 assms(1) by (auto simp: c2_def merge_channel_def well_kept_def plain_groups_def)
  have up: "upd_where (\<lambda>r. chId r = chId c) (merge_channel c1) (channels (db w)) = upd_where (\<lambda>r. chId r = chId c) (\<lambda>_. c2) (channels (db w))"
    using assms(1) e by (auto simp: upd_where_def well_kept_def synced_def distinct_map inj_on_def c2_def)
  have "row chId (chId c) (upd_where (\<lambda>r. chId r = chId c) (merge_channel c1) (channels (db w))) = Some c2"
    using assms(3) by (subst row_upd_where_same) (auto simp: c2_def merge_channel_def)
  then have "w' = w\<lparr>db := (db w)\<lparr>channels := upd_where (\<lambda>r. chId r = chId c) (\<lambda>_. c2) (channels (db w)),
      abilities := replace_rows c2 (abilities (db w))\<rparr>\<rparr>"
    using run fs c2 by (simp add: chk_def ret_def handle_def up UpdateAbilities_ok)
  then show ?thesis
    using assms(1) c2 synced_replace [OF _ assms(3) c2] e by (auto simp: well_kept_def upd_where_def)
qed

lemma status_in_cache_db:
  "status_in_cache cfg now i k st rs w = Some w1 \<Longrightarrow> db w1 = db w \<and> faults w1 = faults w"
  by (auto simp: status_in_cache_def CacheUpdateChannelStatus_def Let_def split: if_splits option.splits)

lemma handlerMultiKeyUpdate_fields:
  "chId (handlerMultiKeyUpdate cfg now c k st rs) = chId c" "chModels (handlerMultiKeyUpdate cfg now c k st rs) = chModels c"
  "chGroup (handlerMultiKeyUpdate cfg now c k st rs) = chGroup c" "chPriority (handlerMultiKeyUpdate cfg now c k st rs) = chPriority c"
  by (simp_all add: handlerMultiKeyUpdate_def Let_def)

lemma handlerMultiKeyUpdate_status:
  "chStatus (handlerMultiKeyUpdate cfg now c k st rs) \<in> {st, chStatus c, ChannelStatusAutoDisabled}"
  by (simp add: handlerMultiKeyUpdate_def Let_def)

text \<open>A key is only ever enabled on a channel whose row is not a multi-key one, or it is disabled.\<close>

lemma UpdateChannelStatus_kept:
  assumes "well_kept w" "UpdateChannelStatus cfg now i k st rs w = (r, w')"
    and "\<forall>c. row chId i (channels (db w)) = Some c \<and> ciIsMultiKey (chInfo c) \<longrightarrow> st \<noteq> ChannelStatusEnabled"
  shows "well_kept w'"
proof (cases "status_in_cache cfg now i k st rs w")
  case None
  with assms(1,2) show ?thesis by (simp add: UpdateChannelStatus_def)
next
  case (Some w1)
  then have w1: "db w1 = db w" "faults w1 = []" using status_in_cache_db assms(1) by (auto simp: well_kept_def)
  show ?thesis
  proof (cases "row chId i (channels (db w))")
    case None
    with Some assms(1,2) w1 show ?thesis by (auto simp: UpdateChannelStatus_def GetChannelById_def well_kept_def)
  next
    case (Some c)
    then have c: "c \<in> set (channels (db w))" "chId c = i" by (auto dest: row_SomeD)
    then have i: "i \<noteq> 0" using assms(1) by (auto simp: well_kept_def)
    show ?thesis
    proof (cases "chStatus c = st")
      case True
      with Some \<open>status_in_cache _ _ _ _ _ _ _ = _\<close> assms(1,2) w1 show ?thesis
        by (auto simp: UpdateChannelStatus_def GetChannelById_def well_kept_def)
    next
      case False
      define c' where "c' = (if ciIsMultiKey (chInfo c) then handlerMultiKeyUpdate cfg now c k st rs
        else c\<lparr>chStatusReason := rs, chStatusTime := now, chStatus := st\<rparr>)"
      define abil where "abil = (if ciIsMultiKey (chInfo c) then chStatus c \<noteq> chStatus c' else True)"
      define c'' where "c'' = c'\<lparr>chKey := chKey c, chKeys := []\<rparr>"
      define ab where "ab = (if abil then upd_where (\<lambda>a. abChannelId a = i) (\<lambda>a. a\<lparr>abEnabled := (st = ChannelStatusEnabled)\<rparr>) (abilities (db w)) else abilities (db w))"
      have f: "chId c'' = i" "chModels c'' = chModels c" "chGroup c'' = chGroup c" "chPriority c'' = chPriority c"
        using c by (simp_all add: c''_def c'_def handlerMultiKeyUpdate_fields)
      have db: "db w' = (db w)\<lparr>channels := save_row chId c'' (channels (db w)), abilities := ab\<rparr>" "faults w' = []"
        using assms(2) Some \<open>status_in_cache _ _ _ _ _ _ _ = _\<close> w1 False i f c
        by (auto simp: UpdateChannelStatus_def GetChannelById_def SaveWithoutKey_def UpdateAbilityStatus_def c'_def [symmetric]
            abil_def [symmetric] c''_def ab_def Let_def split: if_splits)
      have multi: "ciIsMultiKey (chInfo c) \<Longrightarrow> st \<noteq> ChannelStatusEnabled" using assms(3) Some by blast
      have sy: "synced (db w)" using assms(1) by (simp add: well_kept_def)
      have "\<exists>b. (chStatus c'' = ChannelStatusEnabled \<longleftrightarrow> b) \<and>
          ab = upd_where (\<lambda>a. abChannelId a = i) (\<lambda>a. a\<lparr>abEnabled := b\<rparr>) (abilities (db w))"
      proof (cases abil)
        case True
        then show ?thesis using multi handlerMultiKeyUpdate_status [of cfg now c k st rs]
          by (intro exI [of _ "st = ChannelStatusEnabled"]) (auto simp: ab_def abil_def c''_def c'_def split: if_splits)
      next
        case False
        then have "chStatus c'' = chStatus c" by (auto simp: abil_def c''_def split: if_splits)
        moreover have "\<forall>a \<in> set (abilities (db w)). abChannelId a = i \<longrightarrow> a\<lparr>abEnabled := (chStatus c = ChannelStatusEnabled)\<rparr> = a"
          using sy c by (auto simp: synced_def rows_of_def)
        then have "upd_where (\<lambda>a. abChannelId a = i) (\<lambda>a. a\<lparr>abEnabled := (chStatus c = ChannelStatusEnabled)\<rparr>) (abilities (db w)) = abilities (db w)"
          unfolding upd_where_def by (intro map_idI) auto
        ultimately show ?thesis using False by (intro exI [of _ "chStatus c = ChannelStatusEnabled"]) (simp add: ab_def)
      qed
      then have "synced (db w')" using synced_status [OF sy Some f] db(1) by auto
      moreover have "0 < chId x \<and> plain_groups x" if "x \<in> set (save_row chId c'' (channels (db w)))" for x
        using that assms(1) c f by (auto simp: save_row_def well_kept_def plain_groups_def split: if_splits)
      ultimately show ?thesis using db by (simp add: well_kept_def)
    qed
  qed
qed

text \<open>What an administrator, or the automatic disabling, does to the channels.\<close>

inductive chan_step :: "conf \<Rightarrow> world \<Rightarrow> world \<Rightarrow> bool" for cfg where
  insert: "plain_groups c \<Longrightarrow> channel_Insert c w = (r, w') \<Longrightarrow> chan_step cfg w w'"
| update: "plain_groups c \<Longrightarrow> row chId (chId c) (channels (db w)) = Some e \<Longrightarrow> channel_Update cfg c w = (r, w') \<Longrightarrow> chan_step cfg w w'"
| delete: "channel_Delete c w = (r, w') \<Longrightarrow> chan_step cfg w w'"
| batch_delete: "BatchDeleteChannels ids w = (r, w') \<Longrightarrow> chan_step cfg w w'"
| status: "\<forall>c. row chId i (channels (db w)) = Some c \<and> ciIsMultiKey (chInfo c) \<longrightarrow> st \<noteq> ChannelStatusEnabled \<Longrightarrow>
    UpdateChannelStatus cfg now i k st rs w = (b, w') \<Longrightarrow> chan_step cfg w w'"

lemma chan_step_kept: "chan_step cfg w w' \<Longrightarrow> well_kept w \<Longrightarrow> well_kept w'"
  by (induction rule: chan_step.induct)
    (blast intro: channel_Insert_kept channel_Update_kept channel_Delete_kept BatchDeleteChannels_kept UpdateChannelStatus_kept)+

lemma chan_steps_kept: "(chan_step cfg)\<^sup>*\<^sup>* w w' \<Longrightarrow> well_kept w \<Longrightarrow> well_kept w'"
  by (induction rule: rtranclp_induct) (blast intro: chan_step_kept)+

lemma synced_serves:
  assumes "synced d"
  shows "abChannelId ` {a \<in> set (abilities d). serves g m a} = chId ` {c \<in> set (channels d). offers g m c}"
proof (intro equalityI subsetI)
  fix i assume "i \<in> abChannelId ` {a \<in> set (abilities d). serves g m a}"
  then obtain a where a: "a \<in> set (abilities d)" "serves g m a" "abChannelId a = i" by auto
  then obtain c where c: "c \<in> set (channels d)" "chId c = i" using assms by (auto simp: synced_def)
  then have rows: "rows_of c (filter (\<lambda>a. abChannelId a = i) (abilities d))" using assms by (auto simp: synced_def)
  have "(abModel a, abGroup a) \<in> (\<lambda>a. (abModel a, abGroup a)) ` set (filter (\<lambda>a. abChannelId a = i) (abilities d))"
    using a by auto
  with rows a have "offers g m c" by (auto simp: rows_of_def offers_def serves_def)
  with c show "i \<in> chId ` {c \<in> set (channels d). offers g m c}" by auto
next
  fix i assume "i \<in> chId ` {c \<in> set (channels d). offers g m c}"
  then obtain c where c: "c \<in> set (channels d)" "offers g m c" "chId c = i" by auto
  then have rows: "rows_of c (filter (\<lambda>a. abChannelId a = i) (abilities d))" using assms by (auto simp: synced_def)
  have "(m, g) \<in> (\<lambda>a. (abModel a, abGroup a)) ` set (filter (\<lambda>a. abChannelId a = i) (abilities d))"
    using rows c by (auto simp: rows_of_def offers_def)
  then obtain a where a: "a \<in> set (abilities d)" "abChannelId a = i" "abModel a = m" "abGroup a = g" by auto
  moreover have "abEnabled a" using rows a c by (auto simp: rows_of_def offers_def)
  ultimately show "i \<in> abChannelId ` {a \<in> set (abilities d). serves g m a}" by (auto simp: serves_def)
qed


definition ex_added :: world where
  "ex_added = snd (channel_Insert (ex_channel 0 5 10) (ex_world (ex_db [] [])))"


section \<open>The memory cache mirrors the tables\<close>

lemma set_served_ids: "set (served_ids cs g m) = chId ` {c \<in> set cs. offers g m c}"
  by (force simp: served_ids_def offers_def split: if_splits)

lemma chPriority_carry_over [simp]: "GetPriority (carry_over cfg old c) = GetPriority c"
  by (simp add: carry_over_def GetPriority_def Let_def split: option.split)

lemma synced_priorities:
  assumes "synced d"
  shows "GetPriority ` {c \<in> set (channels d). offers g m c} = ab_priority ` {a \<in> set (abilities d). serves g m a}"
proof -
  let ?p = "\<lambda>i. case row chId i (channels d) of None \<Rightarrow> 0 | Some c \<Rightarrow> GetPriority c"
  have c: "GetPriority c = ?p (chId c)" if "c \<in> set (channels d)" for c
    using that assms distinct_row_iff [of chId "channels d" "chId c" c] by (simp add: synced_def)
  have a: "ab_priority a = ?p (abChannelId a)" if "a \<in> set (abilities d)" for a
  proof -
    have "abChannelId a \<in> chId ` set (channels d)" using that assms unfolding synced_def by blast
    then obtain c where k: "c \<in> set (channels d)" "chId c = abChannelId a" by auto
    then have "abPriority a = chPriority c" using that assms by (fastforce simp: synced_def rows_of_def)
    with c [OF k(1)] k show ?thesis by (simp add: ab_priority_def GetPriority_def)
  qed
  have "GetPriority ` {c \<in> set (channels d). offers g m c} = ?p ` chId ` {c \<in> set (channels d). offers g m c}"
    unfolding image_image by (intro image_cong) (auto simp: c)
  also have "\<dots> = ?p ` abChannelId ` {a \<in> set (abilities d). serves g m a}" by (simp add: synced_serves [OF assms])
  also have "\<dots> = ab_priority ` {a \<in> set (abilities d). serves g m a}"
    unfolding image_image by (intro image_cong) (auto simp: a)
  finally show ?thesis .
qed

lemma sort_remdups_cong: "set xs = set ys \<Longrightarrow> sort (remdups xs) = sort (remdups (ys :: int list))"
  by (metis sorted_list_of_set_sort_remdups)

lemma synced_groups:
  assumes "synced d" "c \<in> set (channels d)" "g \<in> set (groups_of c)"
  shows "g \<in> abGroup ` set (abilities d)"
proof -
  obtain m where "m \<in> set (models_of c)" by (metis Split_not_Nil list.set_intros(1) neq_Nil_conv)
  then have "(m, g) \<in> (\<lambda>a. (abModel a, abGroup a)) ` set (filter (\<lambda>a. abChannelId a = chId c) (abilities d))"
    using assms by (auto simp: synced_def rows_of_def)
  then show ?thesis by auto
qed

lemma InitChannelCache_ok:
  assumes "MemoryCacheEnabled cfg" "faults w = []" "synced (db w)"
  obtains w' where "InitChannelCache cfg w = (Inr (), w')" "db w' = db w"
    "\<forall>i. channelsIDM w' i = map_option (carry_over cfg (channelsIDM w i)) (row chId i (channels (db w)))"
    "\<forall>g m. set (cached_ids w' g m) = chId ` {c \<in> set (channels (db w)). offers g m c}"
proof -
  let ?p = "\<lambda>i. case row chId i (channels (db w)) of None \<Rightarrow> 0 | Some c \<Rightarrow> GetPriority c"
  define w' where "w' = w\<lparr>
    group2model2channels := (\<lambda>g. if g \<in> abGroup ` set (abilities (db w))
      then Some (\<lambda>m. sort_key (\<lambda>i. - ?p i) (served_ids (channels (db w)) g m)) else None),
    channelsIDM := (\<lambda>i. map_option (carry_over cfg (channelsIDM w i)) (row chId i (channels (db w))))\<rparr>"
  have "InitChannelCache cfg w = (Inr (), w')"
    using assms synced_groups [OF assms(3)]
    by (auto simp: InitChannelCache_def chk_def handle_def ret_def modify_def Let_def w'_def)
  moreover have "set (cached_ids w' g m) = chId ` {c \<in> set (channels (db w)). offers g m c}" for g m
  proof (cases "g \<in> abGroup ` set (abilities (db w))")
    case True
    then show ?thesis by (simp add: cached_ids_def w'_def set_served_ids)
  next
    case False
    then have "\<not> offers g m c" if "c \<in> set (channels (db w))" for c
      using synced_groups [OF assms(3) that] by (auto simp: offers_def)
    with False show ?thesis by (auto simp: cached_ids_def w'_def)
  qed
  ultimately show ?thesis by (intro that [of w']) (simp_all add: w'_def)
qed



section \<open>Keys\<close>

lemma enabledIdx_set: "set (enabledIdx c n) = {i. i < n \<and> getStatus c i = ChannelStatusEnabled}"
  by (auto simp: enabledIdx_def)

lemma poll_from_enabled: "0 < n \<Longrightarrow> poll_from c n s k = Some i \<Longrightarrow> i < n \<and> getStatus c i = ChannelStatusEnabled"
  by (induction c n s k rule: poll_from.induct) (auto simp: Let_def split: if_splits)

text \<open>C29. A multi-key channel hands out a key of its list whose status is enabled, in every mode, whatever the
  cache or the database holds.\<close>

theorem GetNextEnabledKey_enabled:
  assumes "ciIsMultiKey (chInfo c)" "\<forall>n. 0 < n \<longrightarrow> rnd n < n" "GetNextEnabledKey cfg rnd c w = ((Inr (k, i), c'), w')"
  shows "i < length (GetKeys cfg c) \<and> k = GetKeys cfg c ! i \<and> getStatus c i = ChannelStatusEnabled"
proof -
  let ?n = "length (GetKeys cfg c)"
  have en: "enabledIdx c ?n \<noteq> []" using assms(1,3) by (auto simp: GetNextEnabledKey_def Let_def split: if_splits)
  then have hd: "hd (enabledIdx c ?n) < ?n \<and> getStatus c (hd (enabledIdx c ?n)) = ChannelStatusEnabled"
    using enabledIdx_set [of c ?n] hd_in_set [OF en] by auto
  have "enabledIdx c ?n ! rnd (length (enabledIdx c ?n)) \<in> set (enabledIdx c ?n)" using en assms(2) by simp
  then have r: "enabledIdx c ?n ! rnd (length (enabledIdx c ?n)) < ?n \<and>
      getStatus c (enabledIdx c ?n ! rnd (length (enabledIdx c ?n))) = ChannelStatusEnabled"
    by (auto simp: enabledIdx_set)
  have n: "0 < ?n" using en by (auto simp: enabledIdx_def)
  show ?thesis
    using assms(1,3) hd r poll_from_enabled [OF n, of c]
    by (auto simp: GetNextEnabledKey_def Let_def split: if_splits option.splits sum.splits prod.splits)
qed

definition ex_multi :: "string \<Rightarrow> channel" where
  "ex_multi md = (ex_channel 7 0 1)\<lparr>chKeys := [''a'', ''b'', ''c''], chInfo := zero_info\<lparr>ciIsMultiKey := True, ciMultiKeySize := 3,
     ciMultiKeyStatusList := [(1, 3)], ciMultiKeyMode := md\<rparr>\<rparr>"

theorem GetNextEnabledKey_enabled_witness:
  "GetNextEnabledKey (ex_conf False False) (\<lambda>n. n - 1) (ex_multi ''random'') ex_cached = ((Inr (''c'', 2), ex_multi ''random''), ex_cached) \<and>
   getStatus (ex_multi ''random'') 2 = 1"
proof -
  have run: "GetNextEnabledKey (ex_conf False False) (\<lambda>n. n - 1) (ex_multi ''random'') ex_cached = ((Inr (''c'', 2), ex_multi ''random''), ex_cached)"
    by (simp add: GetNextEnabledKey_def GetKeys_def enabledIdx_def getStatus_def ex_multi_def ex_channel_def)
  show ?thesis using GetNextEnabledKey_enabled [OF _ _ run] run by (simp add: ex_multi_def)
qed

text \<open>The enabled keys in the order polling reaches them from \<open>s\<close>.\<close>

definition rota :: "channel \<Rightarrow> nat \<Rightarrow> nat \<Rightarrow> nat list" where
  "rota c n s = filter (\<lambda>i. getStatus c i = ChannelStatusEnabled) ([s..<n] @ [0..<s])"

lemma poll_from_find: "poll_from c n s k = find (\<lambda>i. getStatus c i = ChannelStatusEnabled) (map (\<lambda>j. j mod n) [s..<s + k])"
  by (induction c n s k rule: poll_from.induct) (auto simp: Let_def upt_conv_Cons simp del: upt_Suc)

lemma find_hd_filter: "filter P xs \<noteq> [] \<Longrightarrow> find P xs = Some (hd (filter P xs))"
  by (induction xs) auto

lemma upt_split: "a \<le> m \<Longrightarrow> m \<le> b \<Longrightarrow> [a..<b] = [a..<m] @ [m..<b]"
  by (metis le_add_diff_inverse upt_add_eq_append)

lemma mod_window:
  assumes "s < n"
  shows "map (\<lambda>j. j mod n) [s..<s + n] = [s..<n] @ [0..<s]"
proof -
  have "[s..<s + n] = [s..<n] @ map (\<lambda>j. j + n) [0..<s]"
    using assms upt_split [of s n "s + n"] by (simp add: map_add_upt)
  then show ?thesis using assms by (auto intro!: map_idI simp: comp_def)
qed

lemma set_rota: "s \<le> n \<Longrightarrow> set (rota c n s) = set (enabledIdx c n)"
  by (auto simp: rota_def enabledIdx_def)

lemma distinct_rota: "distinct (rota c n s)"
  by (auto simp: rota_def)

lemma poll_from_rota: "s < n \<Longrightarrow> rota c n s \<noteq> [] \<Longrightarrow> poll_from c n s n = Some (hd (rota c n s))"
  by (simp add: poll_from_find mod_window rota_def find_hd_filter)

lemma filter_hd_split:
  assumes "filter P [a..<b] = i # is"
  shows "a \<le> i" "i < b" "P i" "filter P [a..<i] = []" "filter P [Suc i..<b] = is"
proof -
  have "i \<in> set (filter P [a..<b])" by (simp only: assms list.set_intros)
  then show i: "a \<le> i" "i < b" "P i" by auto
  then have "[a..<b] = [a..<i] @ i # [Suc i..<b]"
    using upt_split [of a i b] by (simp add: upt_conv_Cons)
  then have e: "filter P [a..<i] @ i # filter P [Suc i..<b] = i # is" using assms i(3) by simp
  moreover have "i \<notin> set (filter P [a..<i])" by auto
  ultimately show "filter P [a..<i] = []" by (cases "filter P [a..<i]") auto
  with e show "filter P [Suc i..<b] = is" by simp
qed

lemma rota_next:
  assumes "s < n" "rota c n s = i # is"
  shows "rota c n (Suc i mod n) = is @ [i]" "i < n"
proof -
  let ?P = "\<lambda>i. getStatus c i = ChannelStatusEnabled"
  have *: "i < n \<and> rota c n (Suc i) = is @ [i]"
  proof (cases "filter ?P [s..<n]")
    case Nil
    with assms(2) have f: "filter ?P [0..<s] = i # is" by (simp add: rota_def)
    note h = filter_hd_split [OF f]
    have "[Suc i..<n] = [Suc i..<s] @ [s..<n]" using h assms(1) by (intro upt_split) auto
    with h Nil assms(1) show ?thesis by (simp add: rota_def)
  next
    case (Cons j js)
    with assms(2) have j: "j = i" "is = js @ filter ?P [0..<s]" by (auto simp: rota_def)
    note h = filter_hd_split [OF Cons [unfolded j]]
    have "[0..<i] = [0..<s] @ [s..<i]" using h by (intro upt_split) auto
    with h j show ?thesis by (simp add: rota_def)
  qed
  then show "i < n" by simp
  show "rota c n (Suc i mod n) = is @ [i]"
  proof (cases "Suc i = n")
    case True
    then have "rota c n (Suc i mod n) = rota c n (Suc i)" by (simp add: rota_def)
    with * show ?thesis by simp
  next
    case False
    with * show ?thesis by simp
  qed
qed

text \<open>The indices that \<open>k\<close> requests in a row get from the cached channel.\<close>

fun polls :: "conf \<Rightarrow> (nat \<Rightarrow> nat) \<Rightarrow> nat \<Rightarrow> channel \<Rightarrow> world \<Rightarrow> nat list" where
  "polls cfg rnd 0 c w = []"
| "polls cfg rnd (Suc k) c w =
     (case GetNextEnabledKey cfg rnd c w of ((Inr (_, i), c'), w') \<Rightarrow> i # polls cfg rnd k c' w' | _ \<Rightarrow> [])"

definition poll_start :: "channel \<Rightarrow> nat \<Rightarrow> nat" where
  "poll_start c n = (let p = ciMultiKeyPollingIndex (chInfo c) in if p < 0 \<or> p \<ge> int n then 0 else nat p)"

lemma GetNextEnabledKey_polling:
  assumes "is_polling c" "MemoryCacheEnabled cfg" "channelsIDM w (chId c) = Some c"
    and "n = length (GetKeys cfg c)" "rota c n (poll_start c n) = i # is"
  shows "\<exists>c' w'. GetNextEnabledKey cfg rnd c w = ((Inr (GetKeys cfg c ! i, i), c'), w') \<and> is_polling c' \<and>
    channelsIDM w' (chId c') = Some c' \<and> GetKeys cfg c' = GetKeys cfg c \<and> rota c' n (poll_start c' n) = is @ [i]"
proof -
  define c' where "c' = c\<lparr>chInfo := (chInfo c)\<lparr>ciMultiKeyPollingIndex := int (Suc i mod n)\<rparr>\<rparr>"
  have "0 < n" using assms(5) by (cases n) (simp_all add: rota_def poll_start_def Let_def)
  then have s: "poll_start c n < n" by (auto simp: poll_start_def Let_def)
  note i = rota_next [OF s assms(5)]
  have pf: "poll_from c n (poll_start c n) n = Some i" using poll_from_rota [OF s] assms(5) by simp
  have "i \<in> set (enabledIdx c n)" using set_rota [of "poll_start c n" n c] s assms(5) by auto
  then have "enabledIdx c n \<noteq> []" by auto
  then have "GetNextEnabledKey cfg rnd c w = ((Inr (GetKeys cfg c ! i, i), c'), w\<lparr>channelsIDM := (channelsIDM w)(chId c \<mapsto> c')\<rparr>)"
    using assms(1-4) pf \<open>0 < n\<close>
    by (auto simp: GetNextEnabledKey_def is_polling_def CacheGetChannelInfo_def CacheGetChannel_def chk_def gets_def ret_def
        poll_start_def Let_def c'_def)
  moreover have "getStatus c' = getStatus c" by (simp add: c'_def getStatus_def fun_eq_iff)
  then have "rota c' n t = rota c n t" for t by (simp add: rota_def)
  moreover have "poll_start c' n = Suc i mod n" using \<open>0 < n\<close> mod_less_divisor [of n "Suc i"]
    by (simp add: poll_start_def c'_def Let_def not_le del: mod_less_divisor)
  moreover have "GetKeys cfg c' = GetKeys cfg c" by (simp add: GetKeys_def c'_def Let_def cong: option.case_cong)
  ultimately show ?thesis using i assms(1) by (auto simp: c'_def is_polling_def)
qed

lemma polls_rota:
  assumes "is_polling c" "MemoryCacheEnabled cfg" "channelsIDM w (chId c) = Some c" "n = length (GetKeys cfg c)"
    and "rota c n (poll_start c n) = xs @ ys"
  shows "polls cfg rnd (length xs) c w = xs"
  using assms
proof (induction xs arbitrary: c w ys)
  case (Cons i xs)
  obtain c' w' where g: "GetNextEnabledKey cfg rnd c w = ((Inr (GetKeys cfg c ! i, i), c'), w')" and p: "is_polling c'"
    "channelsIDM w' (chId c') = Some c'" "GetKeys cfg c' = GetKeys cfg c" "rota c' n (poll_start c' n) = (xs @ ys) @ [i]"
    using GetNextEnabledKey_polling [OF Cons.prems(1-4), of i "xs @ ys" rnd] Cons.prems(5) by auto
  have "polls cfg rnd (length xs) c' w' = xs"
    using p Cons.prems(2,4) by (intro Cons.IH [of c' w' "ys @ [i]"]) simp_all
  with g show ?case by simp
qed simp



section \<open>Where the two tables part\<close>

text \<open>Tagging channels in a batch rebuilds their abilities from rows read outside the transaction, with the old
  tag; disabling the new tag then disables the channel and leaves its abilities enabled, and the choice from the
  tables still hands the disabled channel out.\<close>

theorem batch_tag_then_disable_keeps_serving:
  "fst (GetChannel (\<lambda>_. 0) ''g'' ''m'' 0 (snd (DisableChannelByTag ''t'' (snd (BatchSetChannelTag [1] (Some ''t'') ex_added))))) =
   (Some ((ex_channel 1 5 10)\<lparr>chTag := Some ''t'', chStatus := ChannelStatusManuallyDisabled\<rparr>), None)"
proof -
  have pg: "plain_groups (ex_channel i p n)" for i p n by (simp add: plain_groups_def ex_channel_def)
  have ab: "channel_abilities (ex_channel 1 5 10) = [\<lparr>abGroup = ''g'', abModel = ''m'', abChannelId = 1, abEnabled = True,
      abPriority = Some 5, abWeight = 10, abTag = None\<rparr>]"
    by (simp add: channel_abilities_def ex_channel_def GetWeight_def i64_def)
  have ex: "ex_added = ex_world ((ex_db [] [])\<lparr>channels := [ex_channel 1 5 10], abilities := channel_abilities (ex_channel 1 5 10)\<rparr>)"
    by (simp add: ex_added_def channel_Insert_def chk_def ret_def Let_def AddAbilities_ok plain_groups_def ex_channel_def ex_defs fresh_id_def)
  have upd: "UpdateAbilities_tx (ex_channel 1 5 10) (ex_added\<lparr>db := (db ex_added)\<lparr>channels := cs\<rparr>\<rparr>) =
      (Inr (), ex_added\<lparr>db := (db ex_added)\<lparr>channels := cs\<rparr>\<rparr>)" for cs
    by (subst UpdateAbilities_tx_ok) (simp_all add: pg replace_rows_def ab ex, simp_all add: ex_channel_def ex_defs)
  let ?m = "chk (exec (\<lambda>d. d\<lparr>channels := upd_where (\<lambda>c. chId c \<in> set [1]) (\<lambda>c. c\<lparr>chTag := Some ''t''\<rparr>) (channels d)\<rparr>)) (\<lambda>_.
       chk (query (\<lambda>_. filter (\<lambda>c. chId c \<in> set [1]) (channels (db ex_added)))) update_each_tx)"
  let ?w = "ex_added\<lparr>db := (db ex_added)\<lparr>channels := [(ex_channel 1 5 10)\<lparr>chTag := Some ''t''\<rparr>]\<rparr>\<rparr>"
  have body: "?m ex_added = (Inr (), ?w)"
  proof -
    have c: "channels (db ex_added) = [ex_channel 1 5 10]" "faults ex_added = []" by (simp_all add: ex ex_defs)
    have "chId (ex_channel 1 5 10) = 1" by (simp add: ex_channel_def)
    with c show ?thesis by (simp add: chk_def ret_def upd)
  qed
  have "transaction ?m ex_added = (Inr (), ?w)"
    using transaction_ok [where m = ?m, OF _ body] by (simp add: ex ex_defs)
  then have "snd (BatchSetChannelTag [1] (Some ''t'') ex_added) =
      ex_added\<lparr>db := (db ex_added)\<lparr>channels := [(ex_channel 1 5 10)\<lparr>chTag := Some ''t''\<rparr>]\<rparr>\<rparr>"
    by (simp add: BatchSetChannelTag_def chk_def [of "gets db"] gets_def)
  then have "snd (DisableChannelByTag ''t'' (snd (BatchSetChannelTag [1] (Some ''t'') ex_added))) =
      ex_added\<lparr>db := (db ex_added)\<lparr>channels := [(ex_channel 1 5 10)\<lparr>chTag := Some ''t'', chStatus := 2\<rparr>]\<rparr>\<rparr>"
    by (simp add: DisableChannelByTag_def UpdateAbilityStatusByTag_def chk_def ex ab ex_defs)
  moreover define w2 where "w2 = ex_added\<lparr>db := (db ex_added)\<lparr>channels := [(ex_channel 1 5 10)\<lparr>chTag := Some ''t'', chStatus := 2\<rparr>]\<rparr>\<rparr>"
  moreover have w2: "faults w2 = []" "abilities (db w2) = channel_abilities (ex_channel 1 5 10)"
    "channels (db w2) = [(ex_channel 1 5 10)\<lparr>chTag := Some ''t'', chStatus := 2\<rparr>]" by (simp_all add: w2_def ex ex_defs)
  moreover have "getChannelQuery ''g'' ''m'' 0 w2 = (Inr (channel_abilities (ex_channel 1 5 10)), w2)"
  proof -
    have "filter (serves ''g'' ''m'') (channel_abilities (ex_channel 1 5 10)) = channel_abilities (ex_channel 1 5 10)"
      by (simp add: serves_def ab)
    moreover have "Max (set (map ab_priority (channel_abilities (ex_channel 1 5 10)))) = 5" by (simp add: ab ab_priority_def)
    moreover have "filter (\<lambda>a. serves ''g'' ''m'' a \<and> ab_priority a = 5) (channel_abilities (ex_channel 1 5 10)) = channel_abilities (ex_channel 1 5 10)"
      by (simp add: ab ab_priority_def serves_def)
    moreover have "rev (sort_key abWeight (rev (channel_abilities (ex_channel 1 5 10)))) = channel_abilities (ex_channel 1 5 10)" by (simp add: ab)
    ultimately show ?thesis by (simp only: getChannelQuery_def Let_def query_ok [OF w2(1)] w2(2) simp_thms if_True)
  qed
  moreover have "pick_ability 0 (channel_abilities (ex_channel 1 5 10)) = Some (hd (channel_abilities (ex_channel 1 5 10)))"
    by (simp add: ab i64_def)
  moreover have "abChannelId (hd (channel_abilities (ex_channel 1 5 10))) = 1" "channel_abilities (ex_channel 1 5 10) \<noteq> []" by (simp_all add: ab)
  moreover have "chId ((ex_channel 1 5 10)\<lparr>chTag := Some ''t'', chStatus := 2\<rparr>) = 1" by (simp add: ex_channel_def)
  ultimately show ?thesis by (simp add: GetChannel_def Let_def)
qed

text \<open>A multi-key channel that was disabled stays disabled: enabling one of its keys again takes the key off the
  list of disabled keys, but leaves the status of the channel's row as it was or sets it to auto-disabled.\<close>

theorem multi_key_channel_stays_disabled:
  assumes "faults w = []" "row chId i (channels (db w)) = Some c" "i \<noteq> 0" "ciIsMultiKey (chInfo c)" "GetKeys cfg c \<noteq> []"
    and "chStatus c \<noteq> ChannelStatusEnabled" "UpdateChannelStatus cfg now i k ChannelStatusEnabled rs w = (b, w')"
  shows "\<exists>c'. row chId i (channels (db w')) = Some c' \<and> chStatus c' \<noteq> ChannelStatusEnabled"
proof (cases "status_in_cache cfg now i k ChannelStatusEnabled rs w")
  case None
  with assms show ?thesis by (auto simp: UpdateChannelStatus_def)
next
  case (Some w1)
  then have w1: "db w1 = db w" "faults w1 = []" using status_in_cache_db [OF Some] assms(1) by auto
  have id: "chId c = i" using assms(2) by (auto dest: row_SomeD)
  have st: "chStatus (handlerMultiKeyUpdate cfg now c k ChannelStatusEnabled rs) \<noteq> ChannelStatusEnabled"
    using assms(5,6) by (simp add: handlerMultiKeyUpdate_def Let_def)
  have "channels (db w') = save_row chId ((handlerMultiKeyUpdate cfg now c k ChannelStatusEnabled rs)\<lparr>chKey := chKey c, chKeys := []\<rparr>) (channels (db w))"
    using assms Some w1 id by (auto simp: UpdateChannelStatus_def GetChannelById_def SaveWithoutKey_def UpdateAbilityStatus_def
        handlerMultiKeyUpdate_fields Let_def split: if_splits)
  then show ?thesis using st id by (simp add: row_save_row handlerMultiKeyUpdate_fields)
qed

definition ex_off :: world where
  "ex_off = ex_world ((ex_db [] [])\<lparr>channels := [(ex_multi ''polling'')\<lparr>chStatus := 3\<rparr>]\<rparr>)"

theorem multi_key_channel_stays_disabled_witness:
  "\<exists>c'. row chId 7 (channels (db (snd (UpdateChannelStatus (ex_conf False False) 5 7 ''b'' 1 '''' ex_off)))) = Some c' \<and> chStatus c' \<noteq> 1"
  by (rule multi_key_channel_stays_disabled [of ex_off 7 "(ex_multi ''polling'')\<lparr>chStatus := 3\<rparr>" "ex_conf False False" 5 "''b''" "''''"
        "fst (UpdateChannelStatus (ex_conf False False) 5 7 ''b'' 1 '''' ex_off)"])
    (simp_all add: ex_off_def ex_multi_def ex_channel_def ex_defs GetKeys_def)

end
