(* ===== verification/StatusCodes.thy ===== *)
theory StatusCodes
  imports Store
begin

text \<open>
  The rules that say which HTTP status codes disable a channel and which are retried
  (\<^verbatim>\<open>src/setting/operation_setting/status_code_ranges.go\<close>): the parser of an operator's rule text, its
  printer, the merging of ranges and the matching of a code against them.
\<close>

section \<open>Ranges\<close>

datatype StatusCodeRange = Range (Start: int) (End: int)

text \<open>The order of the \<^verbatim>\<open>sort.Slice\<close> call: by start, then by end.\<close>

instantiation StatusCodeRange :: linorder
begin

definition less_eq_StatusCodeRange :: "StatusCodeRange \<Rightarrow> StatusCodeRange \<Rightarrow> bool" where
  "less_eq_StatusCodeRange r s \<longleftrightarrow> Start r < Start s \<or> (Start r = Start s \<and> End r \<le> End s)"

definition less_StatusCodeRange :: "StatusCodeRange \<Rightarrow> StatusCodeRange \<Rightarrow> bool" where
  "less_StatusCodeRange r s \<longleftrightarrow> Start r < Start s \<or> (Start r = Start s \<and> End r < End s)"

instance
  by standard (auto simp: less_eq_StatusCodeRange_def less_StatusCodeRange_def StatusCodeRange.expand)

end

definition AutomaticDisableStatusCodeRanges :: "StatusCodeRange list" where
  "AutomaticDisableStatusCodeRanges = [Range 401 401]"

definition AutomaticRetryStatusCodeRanges :: "StatusCodeRange list" where
  "AutomaticRetryStatusCodeRanges =
     [Range 100 199, Range 300 399, Range 401 407, Range 409 499, Range 500 503, Range 505 523, Range 525 599]"

definition alwaysSkipRetryStatusCodes :: "int list" where
  "alwaysSkipRetryStatusCodes = [504, 524]"

definition alwaysSkipRetryCodes :: "string list" where
  "alwaysSkipRetryCodes = [''bad_response_body'']"

section \<open>Matching\<close>

fun match_ranges :: "StatusCodeRange list \<Rightarrow> int \<Rightarrow> bool" where
  "match_ranges [] code = False"
| "match_ranges (r # rs) code =
     (if code < Start r then False else if code \<le> End r then True else match_ranges rs code)"

definition shouldMatchStatusCodeRanges :: "StatusCodeRange list \<Rightarrow> int \<Rightarrow> bool" where
  "shouldMatchStatusCodeRanges ranges code =
     (if code < 100 \<or> code > 599 then False else match_ranges ranges code)"

definition ShouldDisableByStatusCode :: "StatusCodeRange list \<Rightarrow> int \<Rightarrow> bool" where
  "ShouldDisableByStatusCode disable code = shouldMatchStatusCodeRanges disable code"

definition IsAlwaysSkipRetryStatusCode :: "int \<Rightarrow> bool" where
  "IsAlwaysSkipRetryStatusCode code \<longleftrightarrow> code \<in> set alwaysSkipRetryStatusCodes"

definition IsAlwaysSkipRetryCode :: "string \<Rightarrow> bool" where
  "IsAlwaysSkipRetryCode c \<longleftrightarrow> c \<in> set alwaysSkipRetryCodes"

definition ShouldRetryByStatusCode :: "StatusCodeRange list \<Rightarrow> int \<Rightarrow> bool" where
  "ShouldRetryByStatusCode retry code =
     (if IsAlwaysSkipRetryStatusCode code then False else shouldMatchStatusCodeRanges retry code)"

section \<open>Printing and parsing\<close>

definition range_text :: "StatusCodeRange \<Rightarrow> string" where
  "range_text r = (if Start r = End r then Itoa (Start r) else Itoa (Start r) @ ''-'' @ Itoa (End r))"

definition statusCodeRangesToString :: "StatusCodeRange list \<Rightarrow> string" where
  "statusCodeRangesToString ranges = (if ranges = [] then '''' else Join (map range_text ranges) '','')"

definition parseHTTPStatusCodeToken :: "string \<Rightarrow> StatusCodeRange res" where
  "parseHTTPStatusCodeToken tok =
     (let tok = ReplaceAll (TrimSpace tok) '' '' '''' in
      if tok = '''' then Inl (Msg ''empty token'')
      else if Contains tok ''-''
      then (case Split tok CHR ''-'' of
              [a, b] \<Rightarrow>
                if a = '''' \<or> b = '''' then Inl (Msg (''invalid range token: '' @ tok))
                else (case Atoi a of
                        None \<Rightarrow> Inl (Msg (''invalid range start: '' @ tok))
                      | Some start \<Rightarrow>
                          (case Atoi b of
                             None \<Rightarrow> Inl (Msg (''invalid range end: '' @ tok))
                           | Some stop \<Rightarrow>
                               if start > stop then Inl (Msg (''range start > end: '' @ tok))
                               else if start < 100 \<or> stop > 599 then Inl (Msg (''range out of bounds: '' @ tok))
                               else Inr (Range start stop)))
            | _ \<Rightarrow> Inl (Msg (''invalid range token: '' @ tok)))
      else (case Atoi tok of
              None \<Rightarrow> Inl (Msg (''invalid status code: '' @ tok))
            | Some code \<Rightarrow>
                if code < 100 \<or> code > 599 then Inl (Msg (''status code out of bounds: '' @ tok))
                else Inr (Range code code)))"

text \<open>The UTF-8 bytes of the full-width comma, which the parser accepts as a separator.\<close>

definition wide_comma :: string where
  "wide_comma = bytes [0xEF, 0xBC, 0x8C]"

text \<open>The non-empty segments of a rule text, trimmed.\<close>

definition rule_segments :: "string \<Rightarrow> string list" where
  "rule_segments input =
     filter (\<lambda>s. s \<noteq> '''') (map TrimSpace (Split (ReplaceAll (TrimSpace input) wide_comma '','') CHR '',''))"

text \<open>The loop over the segments collects the ranges and the segments that do not parse.\<close>

fun parse_segments :: "string list \<Rightarrow> StatusCodeRange list \<times> string list" where
  "parse_segments [] = ([], [])"
| "parse_segments (s # ss) =
     (let (ranges, invalid) = parse_segments ss in
      case parseHTTPStatusCodeToken s of
        Inl _ \<Rightarrow> (ranges, s # invalid)
      | Inr r \<Rightarrow> (r # ranges, invalid))"

text \<open>The merging loop; its first argument is the last element of \<^verbatim>\<open>merged\<close>.\<close>

fun merge_from :: "StatusCodeRange \<Rightarrow> StatusCodeRange list \<Rightarrow> StatusCodeRange list" where
  "merge_from l [] = [l]"
| "merge_from l (r # rs) =
     (if Start r \<le> i64 (End l + 1)
      then merge_from (if End r > End l then Range (Start l) (End r) else l) rs
      else l # merge_from r rs)"

definition ParseHTTPStatusCodeRanges :: "string \<Rightarrow> StatusCodeRange list res" where
  "ParseHTTPStatusCodeRanges input =
     (if TrimSpace input = '''' then Inr []
      else let (ranges, invalid) = parse_segments (rule_segments input) in
        if invalid \<noteq> [] then Inl (Msg (''invalid http status code rules: '' @ Join invalid '', ''))
        else (case sort ranges of [] \<Rightarrow> Inr [] | r # rs \<Rightarrow> Inr (merge_from r rs)))"

text \<open>The two settings: a text that does not parse leaves the setting as it was.\<close>

definition AutomaticDisableStatusCodesFromString ::
  "string \<Rightarrow> StatusCodeRange list \<Rightarrow> unit res \<times> StatusCodeRange list" where
  "AutomaticDisableStatusCodesFromString s cur =
     (case ParseHTTPStatusCodeRanges s of Inl e \<Rightarrow> (Inl e, cur) | Inr rs \<Rightarrow> (Inr (), rs))"

definition AutomaticRetryStatusCodesFromString ::
  "string \<Rightarrow> StatusCodeRange list \<Rightarrow> unit res \<times> StatusCodeRange list" where
  "AutomaticRetryStatusCodesFromString s cur =
     (case ParseHTTPStatusCodeRanges s of Inl e \<Rightarrow> (Inl e, cur) | Inr rs \<Rightarrow> (Inr (), rs))"

section \<open>Normal form\<close>

text \<open>What the parser delivers: proper ranges within the status codes, ascending, with a gap between
  any two.\<close>

definition proper :: "StatusCodeRange \<Rightarrow> bool" where
  "proper r \<longleftrightarrow> 100 \<le> Start r \<and> Start r \<le> End r \<and> End r \<le> 599"

fun normal :: "StatusCodeRange list \<Rightarrow> bool" where
  "normal [] = True"
| "normal [r] = proper r"
| "normal (r # s # rs) = (proper r \<and> End r + 1 < Start s \<and> normal (s # rs))"

definition in_range :: "int \<Rightarrow> StatusCodeRange \<Rightarrow> bool" where
  "in_range code r \<longleftrightarrow> Start r \<le> code \<and> code \<le> End r"

lemma normal_Cons: "normal (r # rs) \<longleftrightarrow> proper r \<and> normal rs \<and> (rs \<noteq> [] \<longrightarrow> End r + 1 < Start (hd rs))"
  by (cases rs) auto

lemma normal_proper: "normal rs \<Longrightarrow> r \<in> set rs \<Longrightarrow> proper r"
  by (induction rs) (auto simp: normal_Cons)

lemma normal_above: "normal (r # rs) \<Longrightarrow> s \<in> set rs \<Longrightarrow> End r + 1 < Start s"
proof (induction rs arbitrary: r)
  case (Cons t rs)
  show ?case
  proof (cases "s = t")
    case False
    with Cons have "End t + 1 < Start s" by (auto simp: normal_Cons)
    moreover have "End r + 1 < Start t" "Start t \<le> End t" using Cons.prems by (auto simp: normal_Cons proper_def)
    ultimately show ?thesis by linarith
  qed (use Cons.prems in simp)
qed simp

lemma match_normal: "normal rs \<Longrightarrow> match_ranges rs code \<longleftrightarrow> list_ex (in_range code) rs"
proof (induction rs)
  case (Cons r rs)
  then have IH: "match_ranges rs code \<longleftrightarrow> list_ex (in_range code) rs" by (simp add: normal_Cons)
  have "\<not> in_range code s" if "code < Start r" "s \<in> set rs" for s
    using normal_above [OF Cons.prems that(2)] normal_proper [OF Cons.prems, of r] that(1)
    by (auto simp: in_range_def proper_def)
  then have "\<not> list_ex (in_range code) rs" if "code < Start r" using that by (auto simp: list_ex_iff)
  with IH show ?case by (auto simp: in_range_def [of code r])
qed simp

abbreviation starts_sorted :: "StatusCodeRange list \<Rightarrow> bool" where
  "starts_sorted \<equiv> sorted_wrt (\<lambda>r s. Start r \<le> Start s)"

lemma sorted_starts: "sorted rs \<Longrightarrow> starts_sorted rs"
  by (rule sorted_wrt_mono_rel [of _ "(\<le>)"]) (auto simp: less_eq_StatusCodeRange_def)

lemma proper_in64: "proper r \<Longrightarrow> i64 (End r + 1) = End r + 1"
  by (simp add: proper_def in64_def)

lemma hd_merge_from: "Start (hd (merge_from l rs)) = Start l"
  by (induction l rs rule: merge_from.induct) auto

lemma merge_from_not_Nil [simp]: "merge_from l rs \<noteq> []"
  by (induction l rs rule: merge_from.induct) auto

lemma merge_from_normal:
  "starts_sorted (l # rs) \<Longrightarrow> list_all proper (l # rs) \<Longrightarrow>
   normal (merge_from l rs) \<and> (list_ex (in_range code) (merge_from l rs) \<longleftrightarrow> list_ex (in_range code) (l # rs))"
proof (induction l rs rule: merge_from.induct)
  case (2 l r rs)
  have e: "i64 (End l + 1) = End l + 1" using "2.prems" by (intro proper_in64) simp
  show ?case
  proof (cases "Start r \<le> End l + 1")
    case True
    let ?l = "if End r > End l then Range (Start l) (End r) else l"
    have "Start ?l = Start l" by simp
    then have s: "starts_sorted (?l # rs)" using "2.prems"(1) by simp
    have "proper ?l" using "2.prems"(2) by (auto simp: proper_def [of l] proper_def [of r] proper_def [of "Range _ _"])
    then have p: "list_all proper (?l # rs)" using "2.prems"(2) by simp
    have "in_range code ?l \<longleftrightarrow> in_range code l \<or> in_range code r"
      using True "2.prems" by (auto simp: in_range_def proper_def)
    with "2.IH"(1) s p True e show ?thesis by auto
  next
    case False
    with "2.IH"(2) "2.prems" e show ?thesis by (auto simp: normal_Cons hd_merge_from)
  qed
qed simp

section \<open>What the parser accepts\<close>

lemma parseToken_proper: "parseHTTPStatusCodeToken t = Inr r \<Longrightarrow> proper r"
  by (auto simp: parseHTTPStatusCodeToken_def proper_def Let_def split: if_splits option.splits list.splits)

definition rule_ranges :: "string \<Rightarrow> StatusCodeRange list" where
  "rule_ranges input = [r. Inr r \<leftarrow> map parseHTTPStatusCodeToken (rule_segments input)]"

definition bad_segments :: "string \<Rightarrow> string list" where
  "bad_segments input = filter (\<lambda>s. \<exists>e. parseHTTPStatusCodeToken s = Inl e) (rule_segments input)"

lemma parse_segments_eq:
  "parse_segments ss = ([r. Inr r \<leftarrow> map parseHTTPStatusCodeToken ss], filter (\<lambda>s. \<exists>e. parseHTTPStatusCodeToken s = Inl e) ss)"
  by (induction ss) (auto split: sum.splits)

lemma rule_ranges_proper: "list_all proper (rule_ranges input)"
proof -
  have "list_all proper [r. Inr r \<leftarrow> map parseHTTPStatusCodeToken ss]" for ss
    by (induction ss) (auto split: sum.splits dest: parseToken_proper)
  then show ?thesis by (simp add: rule_ranges_def)
qed

section \<open>Reading back what is printed\<close>

lemma digit_printable: "d < 10 \<Longrightarrow> printable (digit_char d)"
  using digit_char_inj [of d] by (simp add: printable_def)

lemma Itoa_printable: "0 \<le> i \<Longrightarrow> list_all printable (Itoa i)"
  by (auto simp: list_all_iff digit_printable dest: Itoa_nonneg_chars)

lemma Itoa_no: "0 \<le> i \<Longrightarrow> CHR ''-'' \<notin> set (Itoa i)" "0 \<le> i \<Longrightarrow> CHR '','' \<notin> set (Itoa i)" "0 \<le> i \<Longrightarrow> CHR '' '' \<notin> set (Itoa i)"
  by (auto dest!: Itoa_nonneg_chars dest: digit_char_neq [THEN not_sym] simp: digit_char_neq [THEN not_sym])

lemma range_text_chars:
  assumes "proper r"
  shows "list_all printable (range_text r)" "CHR '','' \<notin> set (range_text r)" "CHR '' '' \<notin> set (range_text r)"
    "range_text r \<noteq> ''''"
  using assms by (auto simp: range_text_def proper_def Itoa_printable Itoa_no printable_def [of "CHR ''-''"])

lemma parseToken_range_text:
  assumes "proper r"
  shows "parseHTTPStatusCodeToken (range_text r) = Inr r"
proof -
  have b: "0 \<le> Start r" "0 \<le> End r" "in64 (Start r)" "in64 (End r)" "Start r \<le> End r" "100 \<le> Start r" "End r \<le> 599"
    using assms by (auto simp: proper_def in64_def)
  have t: "ReplaceAll (TrimSpace (range_text r)) '' '' '''' = range_text r"
    using assms by (simp add: TrimSpace_printable range_text_chars ReplaceAll_absent)
  have dash: "Contains (range_text r) ''-'' \<longleftrightarrow> Start r \<noteq> End r"
    using b by (auto simp: range_text_def Contains_char Itoa_no)
  have sp: "Split (Itoa (Start r) @ CHR ''-'' # Itoa (End r)) CHR ''-'' = [Itoa (Start r), Itoa (End r)]"
    using b by (simp add: Split_append_sep Split_no_sep Itoa_no)
  have at: "Atoi (Itoa (Start r)) = Some (Start r)" "Atoi (Itoa (End r)) = Some (End r)"
    using b by (simp_all add: Atoi_Itoa)
  show ?thesis
  proof (cases "Start r = End r")
    case True
    with t dash at b range_text_chars(4) [OF assms] show ?thesis
      by (simp add: parseHTTPStatusCodeToken_def Let_def range_text_def StatusCodeRange.expand)
  next
    case False
    then have "range_text r = Itoa (Start r) @ CHR ''-'' # Itoa (End r)" by (simp add: range_text_def)
    with False t dash sp at b show ?thesis
      by (simp add: parseHTTPStatusCodeToken_def Let_def StatusCodeRange.expand)
  qed
qed

lemma Join_chars: "c \<in> set (Join xs sep) \<Longrightarrow> c \<in> set sep \<or> (\<exists>x \<in> set xs. c \<in> set x)"
  by (induction xs sep rule: Join.induct) auto

lemma Join_Nil_iff: "xs \<noteq> [] \<Longrightarrow> list_all (\<lambda>x. x \<noteq> []) xs \<Longrightarrow> Join xs sep \<noteq> []"
  by (induction xs sep rule: Join.induct) auto

lemma rule_segments_printed:
  assumes "rs \<noteq> []" "list_all proper rs"
  shows "rule_segments (statusCodeRangesToString rs) = map range_text rs"
    and "TrimSpace (statusCodeRangesToString rs) \<noteq> ''''"
proof -
  let ?s = "Join (map range_text rs) '',''"
  have pr: "list_all printable ?s"
    using assms(2) range_text_chars(1) by (fastforce simp: list_all_iff printable_def [of "CHR '',''"] dest!: Join_chars)
  then have "char_of (239 :: nat) \<notin> set ?s" by (auto simp: list_all_iff printable_def)
  then have ra: "ReplaceAll ?s wide_comma '','' = ?s"
    by (intro ReplaceAll_absent) (simp_all add: wide_comma_def bytes_def)
  have sp: "Split ?s CHR '','' = map range_text rs"
    using assms range_text_chars(2) by (intro Split_Join) (auto simp: list_all_iff)
  have "map TrimSpace (map range_text rs) = map range_text rs"
    using assms(2) range_text_chars(1) by (auto simp: list_all_iff [of proper] TrimSpace_printable)
  moreover have "filter (\<lambda>s. s \<noteq> '''') (map range_text rs) = map range_text rs"
    using assms(2) range_text_chars(4) by (auto simp: list_all_iff filter_id_conv)
  ultimately show "rule_segments (statusCodeRangesToString rs) = map range_text rs"
    using assms(1) pr ra sp by (simp add: rule_segments_def statusCodeRangesToString_def TrimSpace_printable del: filter_map map_map)
  have "?s \<noteq> ''''" using assms range_text_chars(4) by (intro Join_Nil_iff) (auto simp: list_all_iff)
  with assms(1) pr show "TrimSpace (statusCodeRangesToString rs) \<noteq> ''''"
    by (simp add: statusCodeRangesToString_def TrimSpace_printable)
qed

lemma parse_segments_range_text: "list_all proper rs \<Longrightarrow> parse_segments (map range_text rs) = (rs, [])"
  by (induction rs) (simp_all add: parseToken_range_text)

lemma normal_sorted: "normal rs \<Longrightarrow> sorted rs"
proof (induction rs)
  case (Cons r rs)
  have "r \<le> s" if "s \<in> set rs" for s
    using normal_above [OF Cons.prems that] normal_proper [OF Cons.prems, of r]
    by (auto simp: less_eq_StatusCodeRange_def proper_def)
  with Cons show ?case by (simp add: normal_Cons)
qed simp

lemma merge_from_id: "normal (l # rs) \<Longrightarrow> merge_from l rs = l # rs"
  by (induction l rs rule: merge_from.induct) (auto simp: normal_Cons proper_in64)

section \<open>Properties\<close>


text \<open>C38. Printing the ranges in force and parsing the text gives the same ranges back, so an
  operator who saves the displayed setting does not change it.\<close>

theorem statusCodeRanges_round_trip:
  assumes "normal rs"
  shows "ParseHTTPStatusCodeRanges (statusCodeRangesToString rs) = Inr rs"
proof (cases rs)
  case Nil
  then show ?thesis by (simp add: ParseHTTPStatusCodeRanges_def statusCodeRangesToString_def)
next
  case (Cons r rest)
  have p: "list_all proper rs" using normal_proper [OF assms] by (simp add: list_all_iff)
  have "sort rs = rs" using normal_sorted [OF assms] by (simp add: sorted_sort_id)
  then have "(case sort rs of [] \<Rightarrow> Inr [] | r # rs \<Rightarrow> Inr (merge_from r rs)) = Inr rs"
    using Cons merge_from_id [of r rest] assms by simp
  moreover have "rs \<noteq> []" using Cons by simp
  ultimately show ?thesis
    using p by (simp add: ParseHTTPStatusCodeRanges_def rule_segments_printed parse_segments_range_text)
qed

theorem statusCodeRanges_round_trip_witness:
  "ParseHTTPStatusCodeRanges (statusCodeRangesToString [Range 400 404, Range 500 500]) = Inr [Range 400 404, Range 500 500]"
  by (rule statusCodeRanges_round_trip) (simp add: proper_def)

text \<open>With the default settings the retry rule is the legacy one its comment describes: the
  codes 100 to 599 without the 2xx and without 400, 408, 504 and 524.\<close>

theorem default_retry_rule:
  "ShouldRetryByStatusCode AutomaticRetryStatusCodeRanges code \<longleftrightarrow>
     100 \<le> code \<and> code \<le> 599 \<and> \<not> (200 \<le> code \<and> code \<le> 299) \<and> code \<notin> {400, 408, 504, 524}"
  unfolding ShouldRetryByStatusCode_def IsAlwaysSkipRetryStatusCode_def alwaysSkipRetryStatusCodes_def
    shouldMatchStatusCodeRanges_def AutomaticRetryStatusCodeRanges_def
  by auto

end
