(* ===== verification/Retry.thy ===== *)
theory Retry
  imports Channels StatusCodes
begin

text \<open>
  The life of a request among channels: the groups a user may use (\<^verbatim>\<open>src/service/group.go\<close>), the selection of
  a channel for an attempt (\<^verbatim>\<open>src/service/channel_select.go\<close>, \<^verbatim>\<open>src/middleware/distributor.go\<close>), the decisions to retry
  and to disable a channel (\<^verbatim>\<open>src/controller/relay.go\<close>, \<^verbatim>\<open>src/service/channel.go\<close>, \<^verbatim>\<open>src/service/violation_fee.go\<close>) and
  the retry loop of \<^verbatim>\<open>Relay\<close>. The upstream call of an attempt is an argument of the loop.
\<close>

section \<open>Settings and context\<close>

text \<open>\<open>keywordHit\<close> is the search for the disabling keywords in the lower-cased message, done by an Aho-Corasick
  package. The special groups of a user group are given in the order the range loop visits the map.\<close>

record relay_conf =
  RetryTimes :: int
  autoGroups :: "string list"
  userUsableGroups :: "string \<Rightarrow> string option"
  GroupSpecialUsableGroup :: "string \<Rightarrow> (string \<times> string) list option"
  AutomaticDisableChannelEnabled :: bool
  AutomaticEnableChannelEnabled :: bool
  disableRanges :: "StatusCodeRange list"
  retryRanges :: "StatusCodeRange list"
  keywordHit :: "string \<Rightarrow> bool"
  maskInfo :: "string \<Rightarrow> string"

text \<open>The keys of the gin context that the code below reads or sets.\<close>

record relay_ctx =
  UserGroup :: string
  UsingGroup :: string
  TokenCrossGroupRetry :: bool
  AutoGroupIndex :: "int option"
  AutoGroupRetryIndex :: "int option"
  AutoGroup :: "string option"
  ctxChannelId :: int
  ctxChannelType :: int
  ctxChannelName :: string
  ctxAutoBan :: bool
  ctxChannelKey :: string
  ctxIsMultiKey :: bool
  ctxMultiKeyIndex :: int
  specific_channel_id :: "string option"
  affinitySkipRetry :: bool
  use_channel :: "int list"

section \<open>Groups\<close>

definition special_group :: "string \<times> string \<Rightarrow> (string \<Rightarrow> string option) \<Rightarrow> string \<Rightarrow> string option" where
  "special_group sd groups =
     (let (special, desc) = sd in
      if prefix ''-:'' special then groups(drop 2 special := None)
      else if prefix ''+:'' special then groups(drop 2 special := Some desc)
      else groups(special := Some desc))"

definition GetUserUsableGroups :: "relay_conf \<Rightarrow> string \<Rightarrow> string \<Rightarrow> string option" where
  "GetUserUsableGroups S ug =
     (let groups = userUsableGroups S in
      if ug = '''' then groups
      else let groups1 = (case GroupSpecialUsableGroup S ug of None \<Rightarrow> groups | Some specials \<Rightarrow> fold special_group specials groups) in
        if groups1 ug = None then groups1(ug := Some ''user group'') else groups1)"

definition GroupInUserUsableGroups :: "relay_conf \<Rightarrow> string \<Rightarrow> string \<Rightarrow> bool" where
  "GroupInUserUsableGroups S ug g \<longleftrightarrow> GetUserUsableGroups S ug g \<noteq> None"

definition GetUserAutoGroup :: "relay_conf \<Rightarrow> string \<Rightarrow> string list" where
  "GetUserAutoGroup S ug = filter (\<lambda>g. GetUserUsableGroups S ug g \<noteq> None) (autoGroups S)"

section \<open>Selecting a channel for an attempt\<close>

record RetryParam =
  Ctx :: relay_ctx
  TokenGroup :: string
  ModelName :: string
  Retry :: "int option"
  resetNextTry :: bool

definition GetRetry :: "RetryParam \<Rightarrow> int" where
  "GetRetry p = (case Retry p of None \<Rightarrow> 0 | Some r \<Rightarrow> r)"

definition SetRetry :: "int \<Rightarrow> RetryParam \<Rightarrow> RetryParam" where
  "SetRetry r p = p\<lparr>Retry := Some r\<rparr>"

definition IncreaseRetry :: "RetryParam \<Rightarrow> RetryParam" where
  "IncreaseRetry p =
     (if resetNextTry p then p\<lparr>resetNextTry := False\<rparr> else p\<lparr>Retry := Some (i64 (GetRetry p + 1))\<rparr>)"

definition ResetRetryNextTry :: "RetryParam \<Rightarrow> RetryParam" where
  "ResetRetryNextTry p = p\<lparr>resetNextTry := True\<rparr>"

text \<open>The loop over the auto groups, from index \<open>i\<close> on; \<open>rnd i\<close> is the random source of the choice in group \<open>i\<close>.
  The error of a choice is ignored, its channel is not.\<close>

fun try_auto_groups ::
  "relay_conf \<Rightarrow> conf \<Rightarrow> (int \<Rightarrow> int \<Rightarrow> int) \<Rightarrow> int \<Rightarrow> int \<Rightarrow> string list \<Rightarrow> string \<Rightarrow> RetryParam \<Rightarrow> world \<Rightarrow>
   (channel option \<times> string) \<times> RetryParam \<times> world" where
  "try_auto_groups S cfg rnd start i [] sel p w = ((None, sel), p, w)"
| "try_auto_groups S cfg rnd start i (g # gs) sel p w =
     (let priorityRetry = (if i > start then 0 else GetRetry p);
          ((ch, _), w1) = GetRandomSatisfiedChannel cfg (rnd i) g (ModelName p) priorityRetry w in
      case ch of
        None \<Rightarrow> try_auto_groups S cfg rnd start (i + 1) gs sel
                  (SetRetry 0 (p\<lparr>Ctx := (Ctx p)\<lparr>AutoGroupIndex := Some (i + 1), AutoGroupRetryIndex := Some 0\<rparr>\<rparr>)) w1
      | Some c \<Rightarrow>
          let p1 = p\<lparr>Ctx := (Ctx p)\<lparr>AutoGroup := Some g\<rparr>\<rparr> in
          if TokenCrossGroupRetry (Ctx p) \<and> priorityRetry \<ge> RetryTimes S
          then ((Some c, g), ResetRetryNextTry (SetRetry 0 (p1\<lparr>Ctx := (Ctx p1)\<lparr>AutoGroupIndex := Some (i + 1)\<rparr>\<rparr>)), w1)
          else ((Some c, g), p1\<lparr>Ctx := (Ctx p1)\<lparr>AutoGroupIndex := Some i\<rparr>\<rparr>, w1))"

text \<open>The channel, the group and the error it returns. The index in the context is never negative.\<close>

definition CacheGetRandomSatisfiedChannel ::
  "relay_conf \<Rightarrow> conf \<Rightarrow> (int \<Rightarrow> int \<Rightarrow> int) \<Rightarrow> RetryParam \<Rightarrow> world \<Rightarrow>
   (channel option \<times> string \<times> gerr option) \<times> RetryParam \<times> world" where
  "CacheGetRandomSatisfiedChannel S cfg rnd p w =
     (if TokenGroup p = ''auto''
      then if autoGroups S = [] then ((None, TokenGroup p, Some (Msg ''auto groups is not enabled'')), p, w)
        else let groups = GetUserAutoGroup S (UserGroup (Ctx p));
                 start = (case AutoGroupIndex (Ctx p) of None \<Rightarrow> 0 | Some idx \<Rightarrow> idx);
                 ((ch, sel), p', w') = try_auto_groups S cfg rnd start start (drop (nat start) groups) (TokenGroup p) p w in
             ((ch, sel, None), p', w')
      else case GetRandomSatisfiedChannel cfg (rnd 0) (TokenGroup p) (ModelName p) (GetRetry p) w of
          ((_, Some e), w') \<Rightarrow> ((None, TokenGroup p, Some e), p, w')
        | ((ch, None), w') \<Rightarrow> ((ch, TokenGroup p, None), p, w'))"

text \<open>What the retry loop reads again of the context of a channel; the overrides, settings and the base
  address handed to the adaptors are left out.\<close>

definition SetupContextForSelectedChannel ::
  "conf \<Rightarrow> (nat \<Rightarrow> nat) \<Rightarrow> channel option \<Rightarrow> relay_ctx \<Rightarrow> world \<Rightarrow> NewAPIError option \<times> relay_ctx \<times> world" where
  "SetupContextForSelectedChannel cfg rnd ch c w =
     (case ch of
        None \<Rightarrow> (Some (NewError (Some (Plain ''channel is nil'')) ''get_channel_failed'' [ErrOptionWithSkipRetry]), c, w)
      | Some channel \<Rightarrow>
          let c1 = c\<lparr>ctxChannelId := chId channel, ctxChannelName := chName channel, ctxChannelType := chType channel,
                     ctxAutoBan := GetAutoBan channel\<rparr> in
          (case GetNextEnabledKey cfg rnd channel w of
             ((Inl e, _), w') \<Rightarrow> (Some e, c1, w')
           | ((Inr (key, index), _), w') \<Rightarrow>
               let c2 = (if ciIsMultiKey (chInfo channel) then c1\<lparr>ctxIsMultiKey := True, ctxMultiKeyIndex := int index\<rparr>
                         else c1\<lparr>ctxIsMultiKey := False\<rparr>) in
               (None, c2\<lparr>ctxChannelKey := key\<rparr>, w')))"

section \<open>Which errors are retried\<close>

definition IsViolationFeeCode :: "string \<Rightarrow> bool" where
  "IsViolationFeeCode code \<longleftrightarrow> prefix ''violation_fee.'' code"

definition HasCSAMViolationMarker :: "relay_conf \<Rightarrow> NewAPIError option \<Rightarrow> bool" where
  "HasCSAMViolationMarker S eo =
     (case eo of
        None \<Rightarrow> False
      | Some e \<Rightarrow>
          if Contains (Error eo) ''Failed check: SAFETY_CHECK_TYPE'' \<or> Contains (Error eo) ''Content violates usage guidelines''
          then True
          else Contains (oaMessage (ToOpenAIError (maskInfo S) e)) ''Failed check: SAFETY_CHECK_TYPE'' \<or>
               Contains (Error eo) ''Content violates usage guidelines'')"

definition WrapAsViolationFeeGrokCSAM :: "relay_conf \<Rightarrow> NewAPIError option \<Rightarrow> NewAPIError option" where
  "WrapAsViolationFeeGrokCSAM S eo =
     (case eo of
        None \<Rightarrow> None
      | Some e \<Rightarrow> Some (WithOpenAIError
          ((ToOpenAIError (maskInfo S) e)\<lparr>oaType := ''violation_fee.grok.csam'', oaCode := StrCode ''violation_fee.grok.csam''\<rparr>)
          (StatusCode e) [ErrOptionWithSkipRetry]))"

definition NormalizeViolationFeeError :: "relay_conf \<Rightarrow> NewAPIError option \<Rightarrow> NewAPIError option" where
  "NormalizeViolationFeeError S eo =
     (case eo of
        None \<Rightarrow> None
      | Some e \<Rightarrow>
          if HasCSAMViolationMarker S eo then WrapAsViolationFeeGrokCSAM S eo
          else if IsViolationFeeCode (GetErrorCode eo)
          then Some (WithOpenAIError (ToOpenAIError (maskInfo S) e) (StatusCode e) [ErrOptionWithSkipRetry])
          else eo)"

definition shouldChargeViolationFee :: "relay_conf \<Rightarrow> NewAPIError option \<Rightarrow> bool" where
  "shouldChargeViolationFee S eo =
     (case eo of
        None \<Rightarrow> False
      | Some e \<Rightarrow> if GetErrorCode eo = ''violation_fee.grok.csam'' then True else HasCSAMViolationMarker S eo)"

definition shouldRetry :: "relay_conf \<Rightarrow> relay_ctx \<Rightarrow> NewAPIError option \<Rightarrow> int \<Rightarrow> bool" where
  "shouldRetry S c eo retryTimes =
     (case eo of
        None \<Rightarrow> False
      | Some e \<Rightarrow>
          if affinitySkipRetry c then False
          else if IsChannelError eo then True
          else if IsSkipRetryError eo then False
          else if retryTimes \<le> 0 then False
          else if specific_channel_id c \<noteq> None then False
          else let code = StatusCode e in
            if code \<ge> 200 \<and> code < 300 then False
            else if code < 100 \<or> code > 599 then True
            else if IsAlwaysSkipRetryCode (GetErrorCode eo) then False
            else ShouldRetryByStatusCode (retryRanges S) code)"

section \<open>Disabling a channel\<close>

record ChannelError =
  ceChannelId :: int
  ceChannelType :: int
  ceChannelName :: string
  ceIsMultiKey :: bool
  ceAutoBan :: bool
  ceUsingKey :: string

definition NewChannelError :: "int \<Rightarrow> int \<Rightarrow> string \<Rightarrow> bool \<Rightarrow> string \<Rightarrow> bool \<Rightarrow> ChannelError" where
  "NewChannelError channelId channelType channelName isMultiKey usingKey autoBan =
     \<lparr>ceChannelId = channelId, ceChannelType = channelType, ceChannelName = channelName, ceIsMultiKey = isMultiKey,
      ceAutoBan = autoBan, ceUsingKey = usingKey\<rparr>"

definition ShouldDisableChannel :: "relay_conf \<Rightarrow> NewAPIError option \<Rightarrow> bool" where
  "ShouldDisableChannel S eo =
     (if \<not> AutomaticDisableChannelEnabled S then False
      else case eo of
          None \<Rightarrow> False
        | Some e \<Rightarrow>
            if IsChannelError eo then True
            else if IsSkipRetryError eo then False
            else if ShouldDisableByStatusCode (disableRanges S) (StatusCode e) then True
            else keywordHit S (Error eo))"

definition ShouldEnableChannel :: "relay_conf \<Rightarrow> NewAPIError option \<Rightarrow> int \<Rightarrow> bool" where
  "ShouldEnableChannel S eo status =
     (if \<not> AutomaticEnableChannelEnabled S then False
      else if eo \<noteq> None then False
      else if status \<noteq> ChannelStatusAutoDisabled then False
      else True)"

text \<open>Both without the notification of the root user.\<close>

definition DisableChannel :: "conf \<Rightarrow> int \<Rightarrow> ChannelError \<Rightarrow> string \<Rightarrow> world \<Rightarrow> world" where
  "DisableChannel cfg now ce reason w =
     (if \<not> ceAutoBan ce then w
      else snd (UpdateChannelStatus cfg now (ceChannelId ce) (ceUsingKey ce) ChannelStatusAutoDisabled reason w))"

definition EnableChannel :: "conf \<Rightarrow> int \<Rightarrow> int \<Rightarrow> string \<Rightarrow> world \<Rightarrow> world" where
  "EnableChannel cfg now i usingKey w = snd (UpdateChannelStatus cfg now i usingKey ChannelStatusEnabled '''' w)"

section \<open>The retry loop\<close>

text \<open>
  The variables of the loop: whether \<^verbatim>\<open>relayInfo.ChannelMeta\<close> is set, the parameter with the context, the world,
  the error, and the closures \<^verbatim>\<open>DisableChannel\<close> handed to the goroutine pool.
\<close>

record relay_state =
  ChannelMeta :: bool
  retryParam :: RetryParam
  rworld :: world
  newAPIError :: "NewAPIError option"
  RetryIndex :: int
  LastError :: "NewAPIError option"
  disables :: "(ChannelError \<times> string) list"

definition select_failed :: "string \<Rightarrow> NewAPIError" where
  "select_failed msg = NewError (Some (Plain msg)) ''get_channel_failed'' [ErrOptionWithSkipRetry]"

definition getChannel ::
  "relay_conf \<Rightarrow> conf \<Rightarrow> (int \<Rightarrow> int \<Rightarrow> int) \<Rightarrow> (nat \<Rightarrow> nat) \<Rightarrow> relay_state \<Rightarrow> (NewAPIError + channel) \<times> relay_state" where
  "getChannel S cfg rnd krnd st =
     (let c = Ctx (retryParam st) in
      if \<not> ChannelMeta st
      then (Inr (zero_channel\<lparr>chId := ctxChannelId c, chType := ctxChannelType c, chName := ctxChannelName c,
                              chAutoBan := Some (if ctxAutoBan c then 1 else 0)\<rparr>), st)
      else let ((ch, sel, e), p, w) = CacheGetRandomSatisfiedChannel S cfg rnd (retryParam st) (rworld st);
               st1 = st\<lparr>retryParam := p, rworld := w\<rparr> in
        case e of
          Some er \<Rightarrow> (Inl (select_failed (''no channel of '' @ sel @ '' for '' @ ModelName p @ '': '' @ errText er)), st1)
        | None \<Rightarrow> (case ch of
              None \<Rightarrow> (Inl (select_failed (''no channel of '' @ sel @ '' for '' @ ModelName p)), st1)
            | Some channel \<Rightarrow>
                let (ae, c', w') = SetupContextForSelectedChannel cfg krnd ch (Ctx p) w;
                    st2 = st1\<lparr>retryParam := p\<lparr>Ctx := c'\<rparr>, rworld := w'\<rparr> in
                (case ae of Some er \<Rightarrow> (Inl er, st2) | None \<Rightarrow> (Inr channel, st2))))"

definition addUsedChannel :: "int \<Rightarrow> relay_ctx \<Rightarrow> relay_ctx" where
  "addUsedChannel i c = c\<lparr>use_channel := use_channel c @ [i]\<rparr>"

text \<open>The error log of the database is left out.\<close>

definition processChannelError :: "relay_conf \<Rightarrow> ChannelError \<Rightarrow> NewAPIError option \<Rightarrow> relay_state \<Rightarrow> relay_state" where
  "processChannelError S ce eo st =
     (if ShouldDisableChannel S eo \<and> ceAutoBan ce
      then st\<lparr>disables := disables st @ [(ce, ErrorWithStatusCode eo)]\<rparr> else st)"

text \<open>What an attempt gets from outside: whether reading the stored body fails (with the text, and whether it is too
  large), and the relay helper of the request's format, which calls the channel.\<close>

record upstream =
  body_error :: "nat \<Rightarrow> (bool \<times> string) option"
  relay_helper :: "nat \<Rightarrow> channel \<Rightarrow> relay_ctx \<Rightarrow> world \<Rightarrow> NewAPIError option \<times> world"

text \<open>The body of the loop for attempt \<open>k\<close>; the flag says whether it ends with the loop's next iteration.
  Every relay helper first sets \<^verbatim>\<open>ChannelMeta\<close>.\<close>

definition attempt ::
  "relay_conf \<Rightarrow> conf \<Rightarrow> (nat \<Rightarrow> int \<Rightarrow> int \<Rightarrow> int) \<Rightarrow> (nat \<Rightarrow> nat \<Rightarrow> nat) \<Rightarrow> upstream \<Rightarrow> nat \<Rightarrow> relay_state \<Rightarrow> bool \<times> relay_state" where
  "attempt S cfg rnd krnd U k st =
     (case getChannel S cfg (rnd k) (krnd k) (st\<lparr>RetryIndex := GetRetry (retryParam st)\<rparr>) of
        (Inl e, st1) \<Rightarrow> (False, st1\<lparr>newAPIError := Some e\<rparr>)
      | (Inr ch, st1) \<Rightarrow>
          let st2 = st1\<lparr>retryParam := (retryParam st1)\<lparr>Ctx := addUsedChannel (chId ch) (Ctx (retryParam st1))\<rparr>\<rparr>;
              c = Ctx (retryParam st2) in
          case body_error U k of
            Some (large, t) \<Rightarrow>
              (False, st2\<lparr>newAPIError := Some (NewErrorWithStatusCode (Plain t) ''read_request_body_failed''
                 (if large then 413 else 400) [ErrOptionWithSkipRetry])\<rparr>)
          | None \<Rightarrow>
              let (eo, w) = relay_helper U k ch c (rworld st2);
                  st3 = st2\<lparr>rworld := w, ChannelMeta := True, newAPIError := eo\<rparr> in
              if eo = None then (False, st3\<lparr>LastError := None\<rparr>)
              else let e = NormalizeViolationFeeError S eo;
                       st4 = processChannelError S
                         (NewChannelError (chId ch) (chType ch) (chName ch) (ciIsMultiKey (chInfo ch)) (ctxChannelKey c) (GetAutoBan ch))
                         e (st3\<lparr>newAPIError := e, LastError := e\<rparr>) in
                (shouldRetry S c e (i64 (RetryTimes S - GetRetry (retryParam st4))), st4))"

text \<open>The loop, from attempt \<open>k\<close> on, with the number of attempts made; \<^const>\<open>None\<close> is a loop that does not end.\<close>

partial_function (option) relay_loop ::
  "relay_conf \<Rightarrow> conf \<Rightarrow> (nat \<Rightarrow> int \<Rightarrow> int \<Rightarrow> int) \<Rightarrow> (nat \<Rightarrow> nat \<Rightarrow> nat) \<Rightarrow> upstream \<Rightarrow> nat \<Rightarrow> relay_state \<Rightarrow> (nat \<times> relay_state) option" where
  [code]: "relay_loop S cfg rnd krnd U k st =
     (if GetRetry (retryParam st) \<le> RetryTimes S
      then (case attempt S cfg rnd krnd U k st of
              (again, st') \<Rightarrow>
                if again then relay_loop S cfg rnd krnd U (Suc k) (st'\<lparr>retryParam := IncreaseRetry (retryParam st')\<rparr>)
                else Some (Suc k, st'))
      else Some (k, st))"

text \<open>The loop with the variables it starts from.\<close>

definition start_state :: "string \<Rightarrow> string \<Rightarrow> relay_ctx \<Rightarrow> world \<Rightarrow> relay_state" where
  "start_state tokenGroup model c w =
     \<lparr>ChannelMeta = False, retryParam = \<lparr>Ctx = c, TokenGroup = tokenGroup, ModelName = model, Retry = Some 0, resetNextTry = False\<rparr>,
      rworld = w, newAPIError = None, RetryIndex = 0, LastError = None, disables = []\<rparr>"

section \<open>The first channel of a request\<close>

text \<open>What the middleware reads of the request: the model and whether a channel is needed, the token's limits, the
  group of a playground request, and the channel the affinity rules prefer for a model and a group.\<close>

record model_request =
  modelRequest :: "(string \<times> bool) res"
  modelLimitEnable :: bool
  tokenModelLimit :: "string list option"
  playgroundGroup :: "string res option"
  preferredChannel :: "string \<Rightarrow> string \<Rightarrow> int option"

text \<open>The preferred channel in the first auto group that may use it.\<close>

fun preferred_in :: "conf \<Rightarrow> string list \<Rightarrow> string \<Rightarrow> int \<Rightarrow> world \<Rightarrow> string option \<times> world" where
  "preferred_in cfg [] m i w = (None, w)"
| "preferred_in cfg (g # gs) m i w =
     (let (ok, w1) = IsChannelEnabledForGroupModel cfg g m i w in if ok then (Some g, w1) else preferred_in cfg gs m i w1)"

text \<open>A refusal is its status code and message key.\<close>

definition preferred_channel ::
  "relay_conf \<Rightarrow> conf \<Rightarrow> model_request \<Rightarrow> string \<Rightarrow> relay_ctx \<Rightarrow> world \<Rightarrow> (int \<times> string + channel option) \<times> relay_ctx \<times> world" where
  "preferred_channel S cfg req m c w =
     (case preferredChannel req m (UsingGroup c) of
        None \<Rightarrow> (Inr None, c, w)
      | Some i \<Rightarrow> (case CacheGetChannel cfg i w of
            (Inl _, w1) \<Rightarrow> (Inr None, c, w1)
          | (Inr pc, w1) \<Rightarrow>
              if chStatus pc \<noteq> ChannelStatusEnabled
              then (if affinitySkipRetry c then Inl (403, ''distributor.channel_disabled'') else Inr None, c, w1)
              else if UsingGroup c = ''auto''
              then (case preferred_in cfg (GetUserAutoGroup S (UserGroup c)) m (chId pc) w1 of
                      (None, w2) \<Rightarrow> (Inr None, c, w2)
                    | (Some g, w2) \<Rightarrow> (Inr (Some pc), c\<lparr>AutoGroup := Some g\<rparr>, w2))
              else (case IsChannelEnabledForGroupModel cfg (UsingGroup c) m (chId pc) w1 of
                      (ok, w2) \<Rightarrow> (Inr (if ok then Some pc else None), c, w2))))"

definition using_group :: "relay_conf \<Rightarrow> model_request \<Rightarrow> relay_ctx \<Rightarrow> int \<times> string + relay_ctx" where
  "using_group S req c =
     (case playgroundGroup req of
        None \<Rightarrow> Inr c
      | Some (Inl _) \<Rightarrow> Inl (400, ''distributor.invalid_playground_request'')
      | Some (Inr g) \<Rightarrow>
          if g = '''' then Inr c
          else if \<not> GroupInUserUsableGroups S (UsingGroup c) g \<and> g \<noteq> UsingGroup c then Inl (403, ''distributor.group_access_denied'')
          else Inr (c\<lparr>UsingGroup := g\<rparr>))"

definition select_channel ::
  "relay_conf \<Rightarrow> conf \<Rightarrow> (int \<Rightarrow> int \<Rightarrow> int) \<Rightarrow> model_request \<Rightarrow> string \<Rightarrow> relay_ctx \<Rightarrow> world \<Rightarrow>
   (int \<times> string + channel option) \<times> relay_ctx \<times> world" where
  "select_channel S cfg rnd req m c w =
     (if m = '''' then (Inl (400, ''distributor.model_name_required''), c, w)
      else case using_group S req c of
          Inl e \<Rightarrow> (Inl e, c, w)
        | Inr c1 \<Rightarrow> (case preferred_channel S cfg req m c1 w of
              (Inl e, c2, w2) \<Rightarrow> (Inl e, c2, w2)
            | (Inr (Some pc), c2, w2) \<Rightarrow> (Inr (Some pc), c2, w2)
            | (Inr None, c2, w2) \<Rightarrow>
                (case CacheGetRandomSatisfiedChannel S cfg rnd
                        \<lparr>Ctx = c2, TokenGroup = UsingGroup c2, ModelName = m, Retry = Some 0, resetNextTry = False\<rparr> w2 of
                   ((_, _, Some e), p, w3) \<Rightarrow> (Inl (503, ''distributor.get_channel_failed''), Ctx p, w3)
                 | ((None, _, None), p, w3) \<Rightarrow> (Inl (503, ''distributor.no_available_channel''), Ctx p, w3)
                 | ((Some ch, _, None), p, w3) \<Rightarrow> (Inr (Some ch), Ctx p, w3))))"

text \<open>The channel of the request and the context prepared for it; an error of the preparation is ignored here.\<close>

definition Distribute ::
  "relay_conf \<Rightarrow> conf \<Rightarrow> (int \<Rightarrow> int \<Rightarrow> int) \<Rightarrow> (nat \<Rightarrow> nat) \<Rightarrow> model_request \<Rightarrow> relay_ctx \<Rightarrow> world \<Rightarrow>
   (int \<times> string + channel option) \<times> relay_ctx \<times> world" where
  "Distribute S cfg rnd krnd req c w =
     (case modelRequest req of
        Inl _ \<Rightarrow> (Inl (400, ''distributor.invalid_request''), c, w)
      | Inr (m, shouldSelectChannel) \<Rightarrow>
          let (r, c1, w1) =
            (case specific_channel_id c of
               Some channelId \<Rightarrow> (case Atoi channelId of
                   None \<Rightarrow> (Inl (400, ''distributor.invalid_channel_id''), c, w)
                 | Some i \<Rightarrow> (case GetChannelById i w of
                       (Inl _, w') \<Rightarrow> (Inl (400, ''distributor.invalid_channel_id''), c, w')
                     | (Inr ch, w') \<Rightarrow>
                         (if chStatus ch \<noteq> ChannelStatusEnabled then Inl (403, ''distributor.channel_disabled'') else Inr (Some ch), c, w')))
             | None \<Rightarrow>
                 if modelLimitEnable req \<and> tokenModelLimit req = None then (Inl (403, ''distributor.token_no_model_access''), c, w)
                 else if modelLimitEnable req \<and> FormatMatchingModelName m \<notin> set (the (tokenModelLimit req))
                 then (Inl (403, ''distributor.token_model_forbidden''), c, w)
                 else if shouldSelectChannel then select_channel S cfg rnd req m c w
                 else (Inr None, c, w)) in
          case r of
            Inl e \<Rightarrow> (Inl e, c1, w1)
          | Inr ch \<Rightarrow> (case SetupContextForSelectedChannel cfg krnd ch c1 w1 of (_, c2, w2) \<Rightarrow> (Inr ch, c2, w2)))"

end
