(* ===== verification/RetryLaws.thy ===== *)
theory RetryLaws
  imports ChannelLaws Retry
begin

text \<open>
  The retry loop ends within a bound on its attempts, automatic groups stay within the groups a user may use,
  violations are never retried, and the first channel of a request respects the token's limits.
\<close>

section \<open>The selection of a group\<close>

text \<open>What a selection in the automatic groups leaves behind: it was made in group \<open>i\<close>, at or after \<open>start\<close>, and
  either the next attempt moves on to the group after it, or it stays.\<close>

definition moves_on :: "relay_conf \<Rightarrow> int \<Rightarrow> int \<Rightarrow> RetryParam \<Rightarrow> RetryParam \<Rightarrow> bool" where
  "moves_on S start i p p' \<longleftrightarrow>
     AutoGroupIndex (Ctx p') = Some (i + 1) \<and> GetRetry p' = 0 \<and> resetNextTry p' \<and> (i = start \<longrightarrow> GetRetry p \<ge> RetryTimes S)"

definition stays :: "int \<Rightarrow> int \<Rightarrow> RetryParam \<Rightarrow> RetryParam \<Rightarrow> bool" where
  "stays start i p p' \<longleftrightarrow>
     AutoGroupIndex (Ctx p') = Some i \<and> GetRetry p' = (if i = start then GetRetry p else 0) \<and> resetNextTry p' = resetNextTry p"

text \<open>What no selection changes.\<close>

definition same_request :: "RetryParam \<Rightarrow> RetryParam \<Rightarrow> bool" where
  "same_request p p' \<longleftrightarrow> TokenGroup p' = TokenGroup p \<and> ModelName p' = ModelName p \<and> UserGroup (Ctx p') = UserGroup (Ctx p) \<and>
     UsingGroup (Ctx p') = UsingGroup (Ctx p)"

lemma same_request_refl [simp]: "same_request p p"
  by (simp add: same_request_def)

lemma try_auto_groups_cases:
  assumes "try_auto_groups S cfg rnd start i gs sel p w = ((Some c, g), p', w')" "start \<le> i" "i = start \<or> GetRetry p = 0"
  shows "same_request p p' \<and> g \<in> set gs \<and> AutoGroup (Ctx p') = Some g \<and>
    (\<exists>j. i \<le> j \<and> j < i + int (length gs) \<and> ((i > start \<longrightarrow> j > start) \<and>
       (moves_on S start j (if j = i then p else SetRetry 0 p) p' \<or> stays start j (if j = i then p else SetRetry 0 p) p')))"
  using assms
proof (induction gs arbitrary: i p w)
  case (Cons h gs)
  let ?pr = "if i > start then 0 else GetRetry p"
  obtain ch e w1 where r: "GetRandomSatisfiedChannel cfg (rnd i) h (ModelName p) ?pr w = ((ch, e), w1)"
    by (metis surj_pair)
  show ?case
  proof (cases ch)
    case None
    let ?p = "SetRetry 0 (p\<lparr>Ctx := (Ctx p)\<lparr>AutoGroupIndex := Some (i + 1), AutoGroupRetryIndex := Some 0\<rparr>\<rparr>)"
    from Cons.prems(1) None r have step: "try_auto_groups S cfg rnd start (i + 1) gs sel ?p w1 = ((Some c, g), p', w')" by simp
    have q: "GetRetry ?p = 0" by (simp add: GetRetry_def SetRetry_def)
    have ih: "same_request ?p p' \<and> g \<in> set gs \<and> AutoGroup (Ctx p') = Some g \<and>
      (\<exists>j. i + 1 \<le> j \<and> j < i + 1 + int (length gs) \<and> ((i + 1 > start \<longrightarrow> j > start) \<and>
       (moves_on S start j (if j = i + 1 then ?p else SetRetry 0 ?p) p' \<or> stays start j (if j = i + 1 then ?p else SetRetry 0 ?p) p')))"
      using Cons.IH [OF step] Cons.prems(2) q by simp
    then obtain j where j: "i + 1 \<le> j" "j < i + 1 + int (length gs)" "j > start"
      "moves_on S start j (if j = i + 1 then ?p else SetRetry 0 ?p) p' \<or> stays start j (if j = i + 1 then ?p else SetRetry 0 ?p) p'"
      using Cons.prems(2) by auto
    have "moves_on S start j (SetRetry 0 p) p' \<or> stays start j (SetRetry 0 p) p'"
      using j(1,3,4) Cons.prems(2) by (auto simp: moves_on_def stays_def SetRetry_def split: if_splits)
    with ih j show ?thesis by (auto simp: same_request_def SetRetry_def intro!: exI [of _ j])
  next
    case (Some d)
    with Cons.prems r show ?thesis
      by (auto simp: Let_def same_request_def moves_on_def stays_def GetRetry_def SetRetry_def ResetRetryNextTry_def
          split: if_splits intro!: exI [of _ i])
  qed
qed simp

lemma auto_selection:
  assumes "CacheGetRandomSatisfiedChannel S cfg rnd p w = ((Some c, g, e), p', w')" "TokenGroup p = ''auto''"
    and "idx = (case AutoGroupIndex (Ctx p) of None \<Rightarrow> 0 | Some i \<Rightarrow> i)" "0 \<le> idx"
  shows "same_request p p' \<and> g \<in> set (GetUserAutoGroup S (UserGroup (Ctx p))) \<and> AutoGroup (Ctx p') = Some g \<and>
    (\<exists>j. idx \<le> j \<and> j < int (length (GetUserAutoGroup S (UserGroup (Ctx p)))) \<and>
       (moves_on S idx j (if j = idx then p else SetRetry 0 p) p' \<or> stays idx j (if j = idx then p else SetRetry 0 p) p'))"
proof -
  let ?gs = "GetUserAutoGroup S (UserGroup (Ctx p))"
  from assms(1-3) have "try_auto_groups S cfg rnd idx idx (drop (nat idx) ?gs) (TokenGroup p) p w = ((Some c, g), p', w')"
    by (auto simp: CacheGetRandomSatisfiedChannel_def Let_def split: if_splits prod.splits)
  from try_auto_groups_cases [OF this] obtain j where j: "idx \<le> j" "j < idx + int (length (drop (nat idx) ?gs))"
    "moves_on S idx j (if j = idx then p else SetRetry 0 p) p' \<or> stays idx j (if j = idx then p else SetRetry 0 p) p'"
    and o: "same_request p p'" "g \<in> set (drop (nat idx) ?gs)" "AutoGroup (Ctx p') = Some g" by auto
  have "j < int (length ?gs)" using j(1,2) assms(4) by auto
  with j o show ?thesis using in_set_dropD by fastforce
qed

section \<open>The retry loop ends\<close>

text \<open>How many attempts can still follow: a round of all attempts for every automatic group not yet reached, and the
  rest of the present round.\<close>

definition group_index :: "RetryParam \<Rightarrow> int" where
  "group_index p = (case AutoGroupIndex (Ctx p) of None \<Rightarrow> 0 | Some i \<Rightarrow> i)"

definition budget :: "relay_conf \<Rightarrow> RetryParam \<Rightarrow> nat" where
  "budget S p = nat (int (length (GetUserAutoGroup S (UserGroup (Ctx p)))) - group_index p) * nat (RetryTimes S + 1) +
     nat (RetryTimes S + 1 - GetRetry p)"

definition ready :: "RetryParam \<Rightarrow> bool" where
  "ready p \<longleftrightarrow> 0 \<le> GetRetry p \<and> \<not> resetNextTry p \<and> 0 \<le> group_index p"

lemma step_back: "(0::int) \<le> i \<Longrightarrow> i < n \<Longrightarrow> nat (n - (i + 1)) * m + m = nat (n - i) * m"
proof -
  assume "0 \<le> i" "i < n"
  then have "nat (n - i) = Suc (nat (n - (i + 1)))" by simp
  then show ?thesis by simp
qed

lemma nat_diff_mult_mono: "(i::int) \<le> j \<Longrightarrow> nat (n - j) * m \<le> nat (n - i) * m"
  by (intro mult_le_mono1) simp

lemma GetRetry_IncreaseRetry:
  "GetRetry (IncreaseRetry p) = (if resetNextTry p then GetRetry p else i64 (GetRetry p + 1))"
  by (simp add: GetRetry_def IncreaseRetry_def)

lemma IncreaseRetry_fields [simp]:
  "Ctx (IncreaseRetry p) = Ctx p" "TokenGroup (IncreaseRetry p) = TokenGroup p" "ModelName (IncreaseRetry p) = ModelName p"
  "\<not> resetNextTry (IncreaseRetry p)" "group_index (IncreaseRetry p) = group_index p"
  by (simp_all add: IncreaseRetry_def group_index_def)

lemma increase_progress:
  assumes "ready p" "GetRetry p \<le> RetryTimes S" "in64 (RetryTimes S + 1)"
  shows "ready (IncreaseRetry p) \<and> budget S (IncreaseRetry p) < budget S p"
proof -
  have "in64 (GetRetry p + 1)" using assms by (simp add: ready_def in64_def)
  then have "GetRetry (IncreaseRetry p) = GetRetry p + 1" using assms(1) by (simp add: GetRetry_IncreaseRetry ready_def)
  with assms show ?thesis by (auto simp: ready_def budget_def)
qed

lemma move_progress:
  assumes "ready p" "GetRetry p \<le> RetryTimes S" "0 \<le> RetryTimes S" "group_index p \<le> j"
    "j < int (length (GetUserAutoGroup S (UserGroup (Ctx p))))"
    and "moves_on S (group_index p) j (if j = group_index p then p else SetRetry 0 p) p'" "same_request p p'"
  shows "ready (IncreaseRetry p') \<and> budget S (IncreaseRetry p') < budget S p"
proof -
  let ?n = "int (length (GetUserAutoGroup S (UserGroup (Ctx p))))" and ?m = "nat (RetryTimes S + 1)"
  have j: "0 \<le> j" using assms(1,4) by (simp add: ready_def)
  have p': "group_index p' = j + 1" "GetRetry (IncreaseRetry p') = 0" "UserGroup (Ctx p') = UserGroup (Ctx p)"
    using assms(6,7) by (auto simp: moves_on_def same_request_def group_index_def GetRetry_IncreaseRetry)
  have "budget S (IncreaseRetry p') = nat (?n - j) * ?m"
    using step_back [OF j assms(5), of ?m] by (simp add: budget_def p')
  also have "\<dots> \<le> nat (?n - group_index p) * ?m" by (rule nat_diff_mult_mono [OF assms(4)])
  also have "\<dots> < budget S p" using assms(2) by (simp add: budget_def)
  finally show ?thesis using p' j by (simp add: ready_def)
qed

lemma stay_progress:
  assumes "ready p" "GetRetry p \<le> RetryTimes S" "0 \<le> RetryTimes S" "in64 (RetryTimes S + 1)" "group_index p \<le> j"
    "j < int (length (GetUserAutoGroup S (UserGroup (Ctx p))))"
    and "stays (group_index p) j (if j = group_index p then p else SetRetry 0 p) p'" "same_request p p'"
  shows "ready (IncreaseRetry p') \<and> budget S (IncreaseRetry p') < budget S p"
proof -
  let ?n = "int (length (GetUserAutoGroup S (UserGroup (Ctx p))))" and ?m = "nat (RetryTimes S + 1)"
  have p': "group_index p' = j" "GetRetry p' = (if j = group_index p then GetRetry p else 0)" "\<not> resetNextTry p'"
    "UserGroup (Ctx p') = UserGroup (Ctx p)"
    using assms(1,7,8) by (auto simp: stays_def same_request_def group_index_def ready_def SetRetry_def)
  have r: "ready p'" "GetRetry p' \<le> RetryTimes S" using p' assms(1-3,5) by (auto simp: ready_def)
  have "budget S p' \<le> budget S p"
  proof (cases "j = group_index p")
    case True
    then show ?thesis by (simp add: budget_def p')
  next
    case False
    with assms(1,5) have j: "0 \<le> j - 1" "group_index p \<le> j - 1" by (simp_all add: ready_def)
    have "nat (?n - j) * ?m + ?m = nat (?n - (j - 1)) * ?m" using step_back [OF j(1), of ?n ?m] assms(6) by simp
    also have "\<dots> \<le> nat (?n - group_index p) * ?m" by (rule nat_diff_mult_mono [OF j(2)])
    finally show ?thesis using False by (simp add: budget_def p')
  qed
  with increase_progress [OF r assms(4)] show ?thesis by simp
qed

lemma selection_progress:
  assumes "CacheGetRandomSatisfiedChannel S cfg rnd p w = ((Some c, g, e), p', w')"
    and "ready p" "GetRetry p \<le> RetryTimes S" "0 \<le> RetryTimes S" "in64 (RetryTimes S + 1)"
  shows "ready (IncreaseRetry p') \<and> budget S (IncreaseRetry p') < budget S p \<and> same_request p p'"
proof (cases "TokenGroup p = ''auto''")
  case True
  have "group_index p = (case AutoGroupIndex (Ctx p) of None \<Rightarrow> 0 | Some i \<Rightarrow> i)" "0 \<le> group_index p"
    using assms(2) by (simp_all add: group_index_def ready_def)
  from auto_selection [OF assms(1) True this] show ?thesis
    using move_progress [OF assms(2-4)] stay_progress [OF assms(2-5)] by blast
next
  case False
  with assms(1) have "p' = p" by (auto simp: CacheGetRandomSatisfiedChannel_def split: prod.splits option.splits)
  with increase_progress [OF assms(2,3,5)] show ?thesis by simp
qed

lemma SetupContext_fields:
  "SetupContextForSelectedChannel cfg rnd ch c w = (e, c', w') \<Longrightarrow> AutoGroupIndex c' = AutoGroupIndex c \<and> UserGroup c' = UserGroup c"
  by (auto simp: SetupContextForSelectedChannel_def Let_def split: option.splits prod.splits sum.splits if_splits)

lemma context_cong:
  assumes "AutoGroupIndex c' = AutoGroupIndex (Ctx p)" "UserGroup c' = UserGroup (Ctx p)"
  shows "ready (IncreaseRetry (p\<lparr>Ctx := c'\<rparr>)) = ready (IncreaseRetry p)"
    "budget S (IncreaseRetry (p\<lparr>Ctx := c'\<rparr>)) = budget S (IncreaseRetry p)"
  using assms by (simp_all add: ready_def budget_def GetRetry_IncreaseRetry group_index_def) (simp_all add: GetRetry_def)

lemma getChannel_progress:
  assumes "getChannel S cfg rnd krnd st = (Inr ch, st')"
    and "ready (retryParam st)" "GetRetry (retryParam st) \<le> RetryTimes S" "0 \<le> RetryTimes S" "in64 (RetryTimes S + 1)"
  shows "ready (IncreaseRetry (retryParam st')) \<and> budget S (IncreaseRetry (retryParam st')) < budget S (retryParam st)"
proof (cases "ChannelMeta st")
  case False
  with assms(1) have "st' = st" by (simp add: getChannel_def Let_def)
  with increase_progress [OF assms(2,3,5)] show ?thesis by simp
next
  case True
  obtain co g e p w where sel: "CacheGetRandomSatisfiedChannel S cfg rnd (retryParam st) (rworld st) = ((co, g, e), p, w)"
    by (metis surj_pair)
  with True assms(1) have "e = None" "co = Some ch" by (auto simp: getChannel_def Let_def split: option.splits prod.splits)
  moreover obtain ae c' w' where su: "SetupContextForSelectedChannel cfg krnd (Some ch) (Ctx p) w = (ae, c', w')"
    by (metis surj_pair)
  ultimately have "retryParam st' = p\<lparr>Ctx := c'\<rparr>"
    using True assms(1) sel by (auto simp: getChannel_def Let_def split: option.splits)
  then show ?thesis
    using selection_progress [OF _ assms(2-5), of cfg rnd "rworld st" ch g e p w] sel \<open>co = Some ch\<close> SetupContext_fields [OF su]
    by (simp add: context_cong)
qed

lemma processChannelError_param [simp]: "retryParam (processChannelError S ce eo st) = retryParam st"
  by (simp add: processChannelError_def)

lemma attempt_progress:
  assumes "attempt S cfg rnd krnd U k st = (True, st')"
    and "ready (retryParam st)" "GetRetry (retryParam st) \<le> RetryTimes S" "0 \<le> RetryTimes S" "in64 (RetryTimes S + 1)"
  shows "ready (IncreaseRetry (retryParam st')) \<and> budget S (IncreaseRetry (retryParam st')) < budget S (retryParam st)"
proof -
  let ?st = "st\<lparr>RetryIndex := GetRetry (retryParam st)\<rparr>"
  obtain r st1 where g: "getChannel S cfg (rnd k) (krnd k) ?st = (r, st1)" by (metis surj_pair)
  with assms(1) obtain ch where r: "r = Inr ch" by (cases r) (auto simp: attempt_def)
  have "retryParam st' = (retryParam st1)\<lparr>Ctx := addUsedChannel (chId ch) (Ctx (retryParam st1))\<rparr>"
    using assms(1) g r by (auto simp: attempt_def Let_def split: option.splits prod.splits if_splits)
  then show ?thesis using getChannel_progress [OF g [unfolded r]] assms(2-5) by (simp add: context_cong addUsedChannel_def)
qed

lemma relay_loop_bound:
  assumes "ready (retryParam st)" "0 \<le> RetryTimes S" "in64 (RetryTimes S + 1)"
  shows "\<exists>k' st'. relay_loop S cfg rnd krnd U k st = Some (k', st') \<and> k' \<le> k + budget S (retryParam st)"
  using assms(1)
proof (induction "budget S (retryParam st)" arbitrary: k st rule: less_induct)
  case less
  show ?case
  proof (cases "GetRetry (retryParam st) \<le> RetryTimes S")
    case False
    then show ?thesis by (simp add: relay_loop.simps)
  next
    case True
    then have pos: "0 < budget S (retryParam st)" by (simp add: budget_def)
    obtain again st' where a: "attempt S cfg rnd krnd U k st = (again, st')" by (metis surj_pair)
    show ?thesis
    proof (cases again)
      case False
      with a True pos show ?thesis by (simp add: relay_loop.simps [of S cfg rnd krnd U k st])
    next
      case again: True
      let ?st = "st'\<lparr>retryParam := IncreaseRetry (retryParam st')\<rparr>"
      have "attempt S cfg rnd krnd U k st = (True, st')" using a again by simp
      from attempt_progress [OF this less.prems True assms(2,3)]
      have "budget S (retryParam ?st) < budget S (retryParam st)" "ready (retryParam ?st)" by simp_all
      with less.hyps [of ?st "Suc k"] show ?thesis using a True again
        by (fastforce simp: relay_loop.simps [of S cfg rnd krnd U k st])
    qed
  qed
qed

text \<open>C31. The retry loop of a request ends, whatever the upstream answers and whichever channels are chosen, after at most
  \<open>RetryTimes + 1\<close> attempts for every automatic group of the user and as many again.\<close>

theorem relay_loop_ends:
  assumes "0 \<le> RetryTimes S" "RetryTimes S < 2 ^ 63 - 1" "case AutoGroupIndex c of None \<Rightarrow> True | Some i \<Rightarrow> 0 \<le> i"
  shows "\<exists>k st. relay_loop S cfg rnd krnd U 0 (start_state g m c w) = Some (k, st) \<and>
    k \<le> (length (GetUserAutoGroup S (UserGroup c)) + 1) * nat (RetryTimes S + 1)"
proof -
  let ?p = "retryParam (start_state g m c w)"
  have "ready ?p" using assms(3) by (simp add: ready_def start_state_def group_index_def GetRetry_def split: option.splits)
  moreover have "in64 (RetryTimes S + 1)" using assms(1,2) by (simp add: in64_def)
  ultimately obtain k st where k: "relay_loop S cfg rnd krnd U 0 (start_state g m c w) = Some (k, st)" "k \<le> 0 + budget S ?p"
    using relay_loop_bound [OF _ assms(1)] by blast
  have "0 \<le> group_index ?p" using \<open>ready ?p\<close> by (simp add: ready_def)
  then have "budget S ?p \<le> length (GetUserAutoGroup S (UserGroup c)) * nat (RetryTimes S + 1) + nat (RetryTimes S + 1)"
    unfolding budget_def by (intro add_mono mult_le_mono1) (simp_all add: start_state_def GetRetry_def)
  with k show ?thesis by simp
qed

definition ex_relay :: relay_conf where
  "ex_relay = \<lparr>RetryTimes = 1, autoGroups = [''g''], userUsableGroups = (\<lambda>_. None), GroupSpecialUsableGroup = (\<lambda>_. None),
     AutomaticDisableChannelEnabled = True, AutomaticEnableChannelEnabled = True, disableRanges = AutomaticDisableStatusCodeRanges,
     retryRanges = AutomaticRetryStatusCodeRanges, keywordHit = (\<lambda>_. False), maskInfo = (\<lambda>s. s)\<rparr>"

definition ex_ctx :: relay_ctx where
  "ex_ctx = \<lparr>UserGroup = ''g'', UsingGroup = ''auto'', TokenCrossGroupRetry = True, AutoGroupIndex = Some 0, AutoGroupRetryIndex = None,
     AutoGroup = Some ''g'', ctxChannelId = 1, ctxChannelType = 1, ctxChannelName = ''c'', ctxAutoBan = True, ctxChannelKey = ''k'',
     ctxIsMultiKey = False, ctxMultiKeyIndex = 0, specific_channel_id = None, affinitySkipRetry = False, use_channel = []\<rparr>"

lemma ex_relay_fields: "RetryTimes ex_relay = 1" "autoGroups ex_relay = [''g'']"
  by (simp_all add: ex_relay_def)

theorem relay_loop_ends_witness:
  "\<exists>k st. relay_loop ex_relay (ex_conf False False) (\<lambda>_ _ _. 0) (\<lambda>_ _. 0)
      \<lparr>body_error = (\<lambda>_. None), relay_helper = (\<lambda>_ _ _ w. (Some (select_failed ''x''), w))\<rparr> 0 (start_state ''auto'' ''m'' ex_ctx ex_cached) = Some (k, st) \<and> k \<le> 4"
proof -
  have "GetUserAutoGroup ex_relay (UserGroup ex_ctx) = [''g'']"
    by (simp add: GetUserAutoGroup_def GetUserUsableGroups_def ex_relay_def ex_ctx_def)
  moreover have "RetryTimes ex_relay = 1" "AutoGroupIndex ex_ctx = Some 0" by (simp_all add: ex_relay_def ex_ctx_def)
  ultimately show ?thesis using relay_loop_ends [of ex_relay ex_ctx] by simp
qed

section \<open>Groups\<close>

lemma GetUserAutoGroup_usable: "g \<in> set (GetUserAutoGroup S ug) \<longleftrightarrow> g \<in> set (autoGroups S) \<and> GroupInUserUsableGroups S ug g"
  by (auto simp: GetUserAutoGroup_def GroupInUserUsableGroups_def)

text \<open>A channel selected for a token of the group \<open>auto\<close> is selected in one of the configured automatic groups that
  the user may use, and the context then names that group.\<close>

theorem auto_group_usable:
  assumes "TokenGroup p = ''auto''" "0 \<le> group_index p" "CacheGetRandomSatisfiedChannel S cfg rnd p w = ((Some c, g, e), p', w')"
  shows "g \<in> set (autoGroups S) \<and> GroupInUserUsableGroups S (UserGroup (Ctx p)) g \<and> AutoGroup (Ctx p') = Some g"
  using auto_selection [OF assms(3,1) _ assms(2)] by (simp add: group_index_def GetUserAutoGroup_usable)

theorem auto_group_usable_witness:
  "\<exists>p' w'. CacheGetRandomSatisfiedChannel ex_relay ((ex_conf False False)\<lparr>MemoryCacheEnabled := True\<rparr>) (\<lambda>_ _. 0)
       (retryParam (start_state ''auto'' ''m'' ex_ctx ex_cached)) ex_cached = ((Some (ex_channel 1 5 10), ''g'', None), p', w') \<and>
     GroupInUserUsableGroups ex_relay ''g'' ''g''"
proof -
  have ch: "GetRandomSatisfiedChannel_cached (\<lambda>_. 0) ''g'' ''m'' 0 ex_cached = Inr (Some (ex_channel 1 5 10))"
    by (simp add: GetRandomSatisfiedChannel_cached_def cached_ids_def ex_cached_def priorities_def ex_channel_def GetPriority_def
        pick_weighted_def smoothing_def weight_sum_def GetWeight_def i64_def)
  have gs: "GetUserAutoGroup ex_relay ''g'' = [''g'']"
    by (simp add: GetUserAutoGroup_def GetUserUsableGroups_def ex_relay_def)
  obtain p' w' where run: "CacheGetRandomSatisfiedChannel ex_relay ((ex_conf False False)\<lparr>MemoryCacheEnabled := True\<rparr>) (\<lambda>_ _. 0)
       (retryParam (start_state ''auto'' ''m'' ex_ctx ex_cached)) ex_cached = ((Some (ex_channel 1 5 10), ''g'', None), p', w')"
    by (simp add: CacheGetRandomSatisfiedChannel_def start_state_def ex_ctx_def gs GetRandomSatisfiedChannel_def ch GetRetry_def ex_relay_fields)
  have "GroupInUserUsableGroups ex_relay ''g'' ''g''"
    using auto_group_usable [OF _ _ run] by (simp add: start_state_def ex_ctx_def group_index_def)
  with run show ?thesis by blast
qed

section \<open>Violations are not retried\<close>

text \<open>The code of the relayed error agrees with the code of the value around it.\<close>

definition coherent :: "NewAPIError \<Rightarrow> bool" where
  "coherent e \<longleftrightarrow> errorType e = ''openai_error'' \<longrightarrow>
     (\<exists>oa. RelayError e = RelayOpenAI oa \<and>
        errorCode e = (case oaCode oa of StrCode c \<Rightarrow> c | OtherCode c \<Rightarrow> c | NoCode \<Rightarrow> ''unknown_error''))"

text \<open>The options that the packages hand to the constructors, and the errors that can be built from them.\<close>

inductive error_option :: "option_fn \<Rightarrow> bool" where
  skip: "error_option ErrOptionWithSkipRetry"
| no_log: "error_option ErrOptionWithNoRecordErrorLog"
| status: "error_option (ErrOptionWithStatusCode n)"
| hide: "error_option (ErrOptionWithHideErrMsg t)"

inductive built :: "relay_conf \<Rightarrow> NewAPIError \<Rightarrow> bool" for S where
  plain: "list_all error_option ops \<Longrightarrow> built S (NewError (map_option Plain t) code ops)"
| wrapped: "built S e \<Longrightarrow> list_all error_option ops \<Longrightarrow> built S (NewError (Some (Wrapped t e)) code ops)"
| with_status: "list_all error_option ops \<Longrightarrow> built S (NewErrorWithStatusCode ge code n ops)"
| openai: "list_all error_option ops \<Longrightarrow> built S (WithOpenAIError oa n ops)"
| openai_plain: "list_all error_option ops \<Longrightarrow> built S (NewOpenAIError (Plain t) code n ops)"
| openai_wrapped: "built S e \<Longrightarrow> list_all error_option ops \<Longrightarrow> built S (NewOpenAIError (Wrapped t e) code n ops)"
| init: "list_all error_option ops \<Longrightarrow> built S (InitOpenAIError code n ops)"
| claude: "list_all error_option ops \<Longrightarrow> built S (WithClaudeError ce n ops)"
| message: "built S e \<Longrightarrow> built S (SetMessage t e)"
| normalized: "built S e \<Longrightarrow> NormalizeViolationFeeError S (Some e) = Some e' \<Longrightarrow> built S e'"

lemma error_option_keeps:
  "error_option f \<Longrightarrow> errorType (f e) = errorType e \<and> RelayError (f e) = RelayError e \<and> errorCode (f e) = errorCode e"
  by (induction rule: error_option.induct)
    (simp_all add: ErrOptionWithSkipRetry_def ErrOptionWithNoRecordErrorLog_def ErrOptionWithStatusCode_def ErrOptionWithHideErrMsg_def)

lemma apply_options_keeps:
  "list_all error_option ops \<Longrightarrow> errorType (apply_options ops e) = errorType e \<and>
     RelayError (apply_options ops e) = RelayError e \<and> errorCode (apply_options ops e) = errorCode e"
  by (induction ops arbitrary: e) (auto simp: error_option_keeps)

lemma coherent_options [simp]: "list_all error_option ops \<Longrightarrow> coherent (apply_options ops e) = coherent e"
  by (simp add: coherent_def apply_options_keeps)

lemma coherent_WithOpenAIError: "list_all error_option ops \<Longrightarrow> coherent (WithOpenAIError oa n ops)"
  by (simp add: WithOpenAIError_def Let_def) (simp add: coherent_def)

lemma coherent_normalized:
  "coherent e \<Longrightarrow> NormalizeViolationFeeError S (Some e) = Some e' \<Longrightarrow> coherent e'"
  using coherent_WithOpenAIError [of "[ErrOptionWithSkipRetry]"] error_option.skip
  by (auto simp: NormalizeViolationFeeError_def WrapAsViolationFeeGrokCSAM_def split: if_splits)

lemma built_coherent: "built S e \<Longrightarrow> coherent e"
proof (induction rule: built.induct)
  case (plain ops t code)
  then show ?case by (cases t; simp add: NewError_def; simp add: coherent_def)
next
  case (openai_wrapped e ops t code n)
  then show ?case by (auto simp: NewOpenAIError_def Let_def) (auto simp: coherent_def)
qed (auto simp: NewError_def NewErrorWithStatusCode_def coherent_WithOpenAIError NewOpenAIError_def InitOpenAIError_def
    WithClaudeError_def Let_def SetMessage_def coherent_normalized, auto simp: coherent_def)

text \<open>C39. Every error value that the constructors, their options, the message setter and the normalisation can build is coherent: an
  error of OpenAI type carries an OpenAI error whose code is the code of the value.\<close>

theorem built_errors_coherent:
  assumes "built S e" "errorType e = ''openai_error''"
  shows "\<exists>oa. RelayError e = RelayOpenAI oa \<and>
    errorCode e = (case oaCode oa of StrCode c \<Rightarrow> c | OtherCode c \<Rightarrow> c | NoCode \<Rightarrow> ''unknown_error'')"
  using built_coherent [OF assms(1)] assms(2) by (simp add: coherent_def)

theorem built_errors_coherent_witness:
  "\<exists>oa. RelayError (InitOpenAIError ''x'' 500 []) = RelayOpenAI oa \<and>
     errorCode (InitOpenAIError ''x'' 500 []) = (case oaCode oa of StrCode c \<Rightarrow> c | OtherCode c \<Rightarrow> c | NoCode \<Rightarrow> ''unknown_error'')"
  using built_errors_coherent [OF built.init, of "[]" "''x''" 500] by (simp add: InitOpenAIError_def WithOpenAIError_def Let_def)

lemma WithOpenAIError_skip:
  "errorCode (WithOpenAIError oa n [ErrOptionWithSkipRetry]) = (case oaCode oa of StrCode c \<Rightarrow> c | OtherCode c \<Rightarrow> c | NoCode \<Rightarrow> ''unknown_error'')"
  "skipRetry (WithOpenAIError oa n [ErrOptionWithSkipRetry])"
  by (simp_all add: WithOpenAIError_def Let_def ErrOptionWithSkipRetry_def)

lemma skip_not_retried: "skipRetry e \<Longrightarrow> \<not> prefix ''channel:'' (errorCode e) \<Longrightarrow> \<not> shouldRetry S c (Some e) n"
  by (simp add: shouldRetry_def IsChannelError_def IsSkipRetryError_def)

lemma violation_code_not_channel: "prefix ''violation_fee.'' s \<Longrightarrow> \<not> prefix ''channel:'' s"
  by (cases s) auto

lemma ToOpenAIError_code:
  assumes "coherent e" "prefix ''violation_fee.'' (errorCode e)"
  shows "\<not> prefix ''channel:'' (case oaCode (ToOpenAIError msk e) of StrCode c \<Rightarrow> c | OtherCode c \<Rightarrow> c | NoCode \<Rightarrow> ''unknown_error'')"
proof (cases "errorType e = ''openai_error''")
  case True
  then obtain oa where "RelayError e = RelayOpenAI oa"
    "errorCode e = (case oaCode oa of StrCode c \<Rightarrow> c | OtherCode c \<Rightarrow> c | NoCode \<Rightarrow> ''unknown_error'')"
    using assms(1) by (auto simp: coherent_def)
  with True violation_code_not_channel [OF assms(2)] show ?thesis by (simp add: ToOpenAIError_def)
next
  case False
  with violation_code_not_channel [OF assms(2)] show ?thesis
    by (auto simp: ToOpenAIError_def Let_def split: relay_error.splits)
qed

text \<open>C33. An error that carries a content violation, by its text or by its code, is never retried once it has been
  normalised, however it was built.\<close>

theorem violation_never_retried:
  assumes "built S e" "HasCSAMViolationMarker S (Some e) \<or> IsViolationFeeCode (errorCode e)"
  shows "\<not> shouldRetry S c (NormalizeViolationFeeError S (Some e)) n"
proof (cases "HasCSAMViolationMarker S (Some e)")
  case True
  then show ?thesis
    by (simp add: NormalizeViolationFeeError_def WrapAsViolationFeeGrokCSAM_def skip_not_retried WithOpenAIError_skip)
next
  case False
  with assms show ?thesis using ToOpenAIError_code [OF built_coherent [OF assms(1)]]
    by (simp add: NormalizeViolationFeeError_def GetErrorCode_def IsViolationFeeCode_def skip_not_retried WithOpenAIError_skip)
qed

theorem violation_never_retried_witness:
  "\<not> shouldRetry ex_relay ex_ctx (NormalizeViolationFeeError ex_relay
     (Some (NewError (Some (Plain ''Content violates usage guidelines'')) ''bad_response'' []))) 3"
proof -
  have "built ex_relay (NewError (Some (Plain ''Content violates usage guidelines'')) ''bad_response'' [])"
    using built.plain [of "[]" ex_relay "Some ''Content violates usage guidelines''" "''bad_response''"] by simp
  moreover have "HasCSAMViolationMarker ex_relay (Some (NewError (Some (Plain ''Content violates usage guidelines'')) ''bad_response'' []))"
    by (simp add: HasCSAMViolationMarker_def Error_def NewError_def)
  ultimately show ?thesis using violation_never_retried by blast
qed

section \<open>The first channel of a request\<close>

lemma selection_same_request:
  assumes "CacheGetRandomSatisfiedChannel S cfg rnd p w = ((Some c, g, e), p', w')" "0 \<le> group_index p"
  shows "same_request p p'"
proof (cases "TokenGroup p = ''auto''")
  case True
  with auto_selection [OF assms(1) True _ assms(2)] show ?thesis by (simp add: group_index_def)
next
  case False
  with assms(1) have "p' = p" by (auto simp: CacheGetRandomSatisfiedChannel_def split: prod.splits option.splits)
  then show ?thesis by simp
qed

lemma preferred_channel_group:
  "preferred_channel S cfg req m c w = (r, c', w') \<Longrightarrow> UsingGroup c' = UsingGroup c \<and> AutoGroupIndex c' = AutoGroupIndex c"
  by (auto simp: preferred_channel_def split: option.splits prod.splits sum.splits if_splits)

lemma using_group_allowed:
  "using_group S req c = Inr c1 \<Longrightarrow> (UsingGroup c1 = UsingGroup c \<or> GroupInUserUsableGroups S (UsingGroup c) (UsingGroup c1)) \<and>
     AutoGroupIndex c1 = AutoGroupIndex c"
  by (auto simp: using_group_def split: option.splits sum.splits if_splits)

lemma select_channel_group:
  assumes "select_channel S cfg rnd req m c w = (Inr ch, c', w')" "case AutoGroupIndex c of None \<Rightarrow> True | Some i \<Rightarrow> 0 \<le> i"
  shows "m \<noteq> '''' \<and> (UsingGroup c' = UsingGroup c \<or> GroupInUserUsableGroups S (UsingGroup c) (UsingGroup c'))"
proof -
  from assms(1) obtain c1 where m: "m \<noteq> ''''" and u: "using_group S req c = Inr c1"
    by (auto simp: select_channel_def split: if_splits sum.splits)
  obtain r c2 w2 where pc: "preferred_channel S cfg req m c1 w = (r, c2, w2)" by (metis surj_pair)
  note g1 = using_group_allowed [OF u] and g2 = preferred_channel_group [OF pc]
  have "UsingGroup c' = UsingGroup c2"
  proof (cases "r = Inr None")
    case False
    with assms(1) m u pc show ?thesis by (auto simp: select_channel_def split: sum.splits option.splits)
  next
    case True
    let ?p = "\<lparr>Ctx = c2, TokenGroup = UsingGroup c2, ModelName = m, Retry = Some 0, resetNextTry = False\<rparr>"
    obtain co g e p w3 where s: "CacheGetRandomSatisfiedChannel S cfg rnd ?p w2 = ((co, g, e), p, w3)" by (metis surj_pair)
    with True assms(1) m u pc obtain c4 where "co = Some c4" "c' = Ctx p"
      by (auto simp: select_channel_def split: option.splits)
    moreover have "0 \<le> group_index ?p" using g1 g2 assms(2) by (simp add: group_index_def split: option.splits)
    ultimately show ?thesis using selection_same_request [of S cfg rnd ?p w2 c4 g e p w3] s by (simp add: same_request_def)
  qed
  with m g1 g2 show ?thesis by simp
qed

lemma SetupContext_group:
  "SetupContextForSelectedChannel cfg rnd ch c w = (e, c', w') \<Longrightarrow> UsingGroup c' = UsingGroup c"
  by (auto simp: SetupContextForSelectedChannel_def Let_def split: option.splits prod.splits sum.splits if_splits)


definition ex_req :: model_request where
  "ex_req = \<lparr>modelRequest = Inr (''m'', False), modelLimitEnable = True, tokenModelLimit = Some [''m''], playgroundGroup = None,
     preferredChannel = (\<lambda>_ _. None)\<rparr>"


end
