(* ===== verification/Decimal.thy ===== *)
theory Decimal
  imports Complex_Main Prelude
begin

text \<open>
  Numbers with a fraction. A value of the decimal package is a rational; its sums and products are exact. Its division, which
  has a fixed number of digits, and its conversions to integers are arguments, with what its documentation says of them as
  hypotheses. A \<^verbatim>\<open>float64\<close> is the rational of its shortest decimal notation, which is what \<^verbatim>\<open>NewFromFloat\<close> reads; the
  operations on floats are arguments.
\<close>

record float_ops =
  fadd :: "rat \<Rightarrow> rat \<Rightarrow> rat"
  fsub :: "rat \<Rightarrow> rat \<Rightarrow> rat"
  fmul :: "rat \<Rightarrow> rat \<Rightarrow> rat"
  fdiv :: "rat \<Rightarrow> rat \<Rightarrow> rat"
  fround :: "rat \<Rightarrow> rat"
  f2i :: "rat \<Rightarrow> int"
  i2f :: "int \<Rightarrow> rat"
  flt :: "rat \<Rightarrow> rat"

text \<open>Floats without rounding, for the witnesses.\<close>

definition exact_floats :: float_ops where
  "exact_floats = \<lparr>fadd = (+), fsub = (-), fmul = (*), fdiv = (/), fround = (\<lambda>x. of_int \<lfloor>x + 1 / 2\<rfloor>),
     f2i = floor, i2f = of_int, flt = (\<lambda>x. x)\<rparr>"

record decimal_ops =
  ddiv :: "rat \<Rightarrow> rat \<Rightarrow> rat"
  Round0 :: "rat \<Rightarrow> int"
  IntPart :: "rat \<Rightarrow> int"

text \<open>\<^verbatim>\<open>Round(0)\<close> gives a nearest integer, whichever it takes for a half; \<^verbatim>\<open>IntPart\<close> cuts the fraction off.\<close>

definition rounds_nearest :: "decimal_ops \<Rightarrow> bool" where
  "rounds_nearest D \<longleftrightarrow> (\<forall>q. \<bar>of_int (Round0 D q) - q\<bar> \<le> 1 / 2)"

definition cuts_fraction :: "decimal_ops \<Rightarrow> bool" where
  "cuts_fraction D \<longleftrightarrow> (\<forall>q. q \<ge> 0 \<longrightarrow> of_int (IntPart D q) \<le> q \<and> q < of_int (IntPart D q) + 1)"

lemma Round0_near: "rounds_nearest D \<Longrightarrow> \<bar>of_int (Round0 D q) - q\<bar> \<le> 1 / 2"
  by (simp add: rounds_nearest_def)

lemma Round0_int: "rounds_nearest D \<Longrightarrow> Round0 D (of_int i) = i"
  using Round0_near [of D "of_int i"] by linarith

lemma Round0_small: "rounds_nearest D \<Longrightarrow> 0 < q \<Longrightarrow> q < 1 / 2 \<Longrightarrow> Round0 D q = 0"
  using Round0_near [of D q] by linarith

lemma Round0_nonneg: "rounds_nearest D \<Longrightarrow> 1 / 2 \<le> q \<Longrightarrow> 0 \<le> Round0 D q"
  using Round0_near [of D q] by linarith

lemma IntPart_0: "cuts_fraction D \<Longrightarrow> IntPart D 0 = 0"
  by (force simp: cuts_fraction_def)

text \<open>Decimals without a bound on the digits of a quotient, for the witnesses.\<close>

definition exact_decimals :: decimal_ops where
  "exact_decimals = \<lparr>ddiv = (/), Round0 = (\<lambda>q. \<lfloor>q + 1 / 2\<rfloor>), IntPart = (\<lambda>q. if q \<ge> 0 then \<lfloor>q\<rfloor> else - \<lfloor>- q\<rfloor>)\<rparr>"

lemma exact_decimals_ok: "rounds_nearest exact_decimals" "cuts_fraction exact_decimals"
proof -
  have "\<bar>of_int \<lfloor>q + 1 / 2\<rfloor> - q\<bar> \<le> 1 / 2" for q :: rat
    using of_int_floor_le [of "q + 1 / 2"] floor_correct [of "q + 1 / 2"] unfolding abs_le_iff by linarith
  then show "rounds_nearest exact_decimals" by (simp add: rounds_nearest_def exact_decimals_def)
  show "cuts_fraction exact_decimals" by (auto simp: cuts_fraction_def exact_decimals_def) linarith
qed

end
