(* ===== verification/Gateway.thy ===== *)
theory Gateway
  imports BillingLaws RetryLaws Decimal
begin

text \<open>
  A request from the price on (\<^verbatim>\<open>Relay\<close> of \<^verbatim>\<open>src/controller/relay.go\<close>): the billing session, the retry loop, and what is
  given back or charged when the request fails (\<^verbatim>\<open>src/service/violation_fee.go\<close>). Parsing, the sensitive words and the token
  count come before; their errors return before any quota moves.
\<close>

section \<open>The violation fee\<close>

record fee_conf =
  ViolationDeductionEnabled :: bool
  ViolationDeductionAmount :: rat
  feeQuotaPerUnit :: rat
  feeDecimals :: decimal_ops
  GroupRatio :: rat

definition calcViolationFeeQuota :: "fee_conf \<Rightarrow> int" where
  "calcViolationFeeQuota F =
     (if ViolationDeductionAmount F \<le> 0 then 0
      else if GroupRatio F \<le> 0 then 0
      else let x = ViolationDeductionAmount F * feeQuotaPerUnit F * GroupRatio F;
               quota = i64 (Round0 (feeDecimals F) x) in
        if quota \<le> 0 then 0 else quota)"

text \<open>Without the log entry.\<close>

definition ChargeViolationFeeIfNeeded :: "env \<Rightarrow> relay_conf \<Rightarrow> fee_conf \<Rightarrow> int \<Rightarrow> relay_info \<Rightarrow> NewAPIError option \<Rightarrow> world \<Rightarrow> bool \<times> world" where
  "ChargeViolationFeeIfNeeded E S F channelId ri eo w =
     (if eo = None then (False, w)
      else if \<not> shouldChargeViolationFee S eo then (False, w)
      else if \<not> ViolationDeductionEnabled F then (False, w)
      else let feeQuota = calcViolationFeeQuota F in
        if feeQuota \<le> 0 then (False, w)
        else case PostConsumeQuota E ri feeQuota w of
            ((Inl _, _), w1) \<Rightarrow> (False, w1)
          | ((Inr _, _), w1) \<Rightarrow>
              (True, UpdateChannelUsedQuota (econf E) channelId feeQuota
                       (UpdateUserUsedQuotaAndRequestCount (econf E) (riUserId ri) feeQuota w1)))"

section \<open>A request\<close>

text \<open>The deferred function: the error, the closure handed to the pool by \<^verbatim>\<open>Refund\<close> (there is no session for a free
  model) and the world.\<close>

definition relay_deferred :: "env \<Rightarrow> relay_conf \<Rightarrow> fee_conf \<Rightarrow> BillingSession option \<Rightarrow> relay_info \<Rightarrow> relay_state \<Rightarrow>
    NewAPIError option \<times> refund_job option \<times> world" where
  "relay_deferred E S F bs ri st =
     (if newAPIError st = None then (None, None, rworld st)
      else let eo = NormalizeViolationFeeError S (newAPIError st);
               job = (case bs of None \<Rightarrow> None | Some s \<Rightarrow> snd (Refund s));
               (_, w) = ChargeViolationFeeIfNeeded E S F (ctxChannelId (Ctx (retryParam st))) ri eo (rworld st) in
           (eo, job, w))"

text \<open>\<open>free\<close> and \<open>quota\<close> are the price data. \<^const>\<open>None\<close> is a request that does not end.\<close>

definition Relay :: "env \<Rightarrow> relay_conf \<Rightarrow> fee_conf \<Rightarrow> (nat \<Rightarrow> int \<Rightarrow> int \<Rightarrow> int) \<Rightarrow> (nat \<Rightarrow> nat \<Rightarrow> nat) \<Rightarrow> upstream \<Rightarrow> bool \<Rightarrow> int \<Rightarrow>
    relay_info \<Rightarrow> string \<Rightarrow> string \<Rightarrow> relay_ctx \<Rightarrow> world \<Rightarrow> (NewAPIError option \<times> refund_job option \<times> world) option" where
  "Relay E S F rnd krnd U free quota ri tokenGroup model c w =
     (let loop = (\<lambda>bs ri' w'. case relay_loop S (econf E) rnd krnd U 0 (start_state tokenGroup model c w') of
                    None \<Rightarrow> None | Some (_, st) \<Rightarrow> Some (relay_deferred E S F bs ri' st)) in
      if free then loop None ri w
      else case NewBillingSession E quota ri w of
          (Inl e, w1) \<Rightarrow> Some (Some e, None, w1)
        | (Inr s, w1) \<Rightarrow> loop (Some s) (relayInfo s) w1)"

section \<open>The loop leaves the books alone\<close>

lemma getChannelQuery_world: "faults w = [] \<Longrightarrow> snd (getChannelQuery g m r w) = w"
  by (simp add: getChannelQuery_def getPriority_def chk_def ret_def err_def Let_def)

lemma GetChannel_world: "faults w = [] \<Longrightarrow> snd (GetChannel rnd g m r w) = w"
  using getChannelQuery_world [of w g m r]
  by (auto simp: GetChannel_def Let_def split: prod.splits sum.splits option.splits)

lemma GetRandomSatisfiedChannel_world: "faults w = [] \<Longrightarrow> snd (GetRandomSatisfiedChannel cfg rnd g m r w) = w"
  by (simp add: GetRandomSatisfiedChannel_def GetChannel_world)

lemma try_auto_groups_world: "faults w = [] \<Longrightarrow> snd (snd (try_auto_groups S cfg rnd a i gs sel p w)) = w"
proof (induction gs arbitrary: i p)
  case (Cons g gs)
  then show ?case
    using GetRandomSatisfiedChannel_world [OF Cons.prems, of cfg "rnd i" g "ModelName p" "if i > a then 0 else GetRetry p"]
    by (auto simp: Let_def split: prod.splits option.splits)
qed simp

lemma selection_world:
  assumes "faults w = []" shows "snd (snd (CacheGetRandomSatisfiedChannel S cfg rnd p w)) = w"
  using GetRandomSatisfiedChannel_world [OF assms] try_auto_groups_world [OF assms]
  by (auto simp: CacheGetRandomSatisfiedChannel_def Let_def split: prod.splits option.splits) (metis snd_conv)+

lemma same_books_channels:
  "faults w = [] \<Longrightarrow> same_books w (w\<lparr>db := (db w)\<lparr>channels := cs\<rparr>\<rparr>)" "faults w = [] \<Longrightarrow> same_books w (w\<lparr>channelsIDM := ch\<rparr>)"
  by (simp_all add: same_books_def user_side_def token_side_def wallet_def allowance_def user_quota_def token_quota_def
      user_exists_def token_exists_def pending_def)

lemma GetNextEnabledKey_books:
  assumes "faults w = []" shows "same_books w (snd (GetNextEnabledKey cfg rnd c w))"
proof -
  have "snd (CacheGetChannelInfo cfg (chId c) w) = w"
    using assms by (simp add: CacheGetChannelInfo_def CacheGetChannel_def GetChannelById_def chk_def gets_def ret_def err_def split: option.splits)
  then obtain r where "CacheGetChannelInfo cfg (chId c) w = (r, w)" by (metis prod.collapse)
  then show ?thesis
    using assms same_books_channels [OF assms] same_books_refl [OF assms]
    by (cases r) (auto simp: GetNextEnabledKey_def SaveChannelInfo_def Let_def split: option.splits)
qed

lemma SetupContext_books:
  assumes "faults w = []" shows "same_books w (snd (snd (SetupContextForSelectedChannel cfg rnd ch c w)))"
  using GetNextEnabledKey_books [OF assms, of cfg rnd] same_books_refl [OF assms]
  by (auto simp: SetupContextForSelectedChannel_def Let_def split: option.splits prod.splits sum.splits) (metis snd_conv)+

lemma getChannel_books:
  assumes "faults (rworld st) = []" shows "same_books (rworld st) (rworld (snd (getChannel S cfg rnd krnd st)))"
  using selection_world [OF assms, of S cfg rnd "retryParam st"] SetupContext_books [OF assms] same_books_refl [OF assms]
  by (auto simp: getChannel_def Let_def split: option.splits prod.splits) (metis snd_conv)+

text \<open>What is asked of the relay helpers: a call that fails has charged nothing.\<close>

definition fails_free :: "upstream \<Rightarrow> bool" where
  "fails_free U \<longleftrightarrow> (\<forall>k ch c w e w'. faults w = [] \<and> relay_helper U k ch c w = (Some e, w') \<longrightarrow> same_books w w')"

lemma Normalize_Some: "NormalizeViolationFeeError S eo = None \<longleftrightarrow> eo = None" "\<exists>e'. NormalizeViolationFeeError S (Some e) = Some e'"
  unfolding NormalizeViolationFeeError_def WrapAsViolationFeeGrokCSAM_def by (simp_all split: option.splits)

lemma processChannelError_world [simp]:
  "rworld (processChannelError S ce eo st) = rworld st" "newAPIError (processChannelError S ce eo st) = newAPIError st"
  by (simp_all add: processChannelError_def)

lemma attempt_books:
  assumes "fails_free U" "faults (rworld st) = []" "attempt S cfg rnd krnd U k st = (again, st')"
  shows "newAPIError st' \<noteq> None \<Longrightarrow> same_books (rworld st) (rworld st')" "again \<Longrightarrow> newAPIError st' \<noteq> None"
proof -
  let ?st = "st\<lparr>RetryIndex := GetRetry (retryParam st)\<rparr>"
  obtain r st1 where g: "getChannel S cfg (rnd k) (krnd k) ?st = (r, st1)" by (metis surj_pair)
  have b: "same_books (rworld st) (rworld st1)" using getChannel_books [of ?st S cfg "rnd k" "krnd k"] assms(2) g by simp
  then have f: "faults (rworld st1) = []" by (simp add: same_books_def)
  have "same_books (rworld st1) w'" if "relay_helper U k ch c (rworld st1) = (Some e, w')" for ch c e w'
    using assms(1) f that unfolding fails_free_def by blast
  then have h: "same_books (rworld st) w'" if "relay_helper U k ch c (rworld st1) = (Some e, w')" for ch c e w'
    using same_books_trans [OF b] that by blast
  show "newAPIError st' \<noteq> None \<Longrightarrow> same_books (rworld st) (rworld st')" "again \<Longrightarrow> newAPIError st' \<noteq> None"
    using assms(3) b h g by (auto simp: attempt_def Let_def Normalize_Some split: sum.splits option.splits prod.splits if_splits)
qed

lemma relay_loop_books_ind:
  assumes "relay_loop S cfg rnd krnd U k st = Some y"
  shows "fails_free U \<longrightarrow> faults (rworld st) = [] \<longrightarrow> newAPIError (snd y) \<noteq> None \<longrightarrow> same_books (rworld st) (rworld (snd y))"
proof (rule relay_loop.raw_induct [OF _ assms], intro impI)
  fix loop S cfg rnd krnd U k st y
  assume IH: "\<And>S cfg rnd krnd U k st y. loop S cfg rnd krnd U k st = Some y \<Longrightarrow>
      fails_free U \<longrightarrow> faults (rworld st) = [] \<longrightarrow> newAPIError (snd y) \<noteq> None \<longrightarrow> same_books (rworld st) (rworld (snd y))"
    and r: "(if GetRetry (retryParam st) \<le> RetryTimes S
      then case attempt S cfg rnd krnd U k st of (again, st') \<Rightarrow>
             if again then loop S cfg rnd krnd U (Suc k) (st'\<lparr>retryParam := IncreaseRetry (retryParam st')\<rparr>)
             else Some (Suc k, st')
      else Some (k, st)) = Some y"
    and u: "fails_free U" and f: "faults (rworld st) = []" and e: "newAPIError (snd y) \<noteq> None"
  obtain again st1 where a: "attempt S cfg rnd krnd U k st = (again, st1)" by (metis surj_pair)
  note ab = attempt_books [OF u f a]
  show "same_books (rworld st) (rworld (snd y))"
  proof (cases "GetRetry (retryParam st) \<le> RetryTimes S \<and> again")
    case True
    then have s: "same_books (rworld st) (rworld st1)" using ab by blast
    then have "faults (rworld st1) = []" by (simp add: same_books_def)
    moreover have "loop S cfg rnd krnd U (Suc k) (st1\<lparr>retryParam := IncreaseRetry (retryParam st1)\<rparr>) = Some y" using r a True by simp
    ultimately have "same_books (rworld st1) (rworld (snd y))" using IH u e by fastforce
    with s show ?thesis by (rule same_books_trans)
  next
    case False
    with a r e f ab show ?thesis by (auto simp: same_books_refl split: if_splits)
  qed
qed

lemma relay_loop_books:
  assumes "fails_free U" "relay_loop S cfg rnd krnd U k st = Some (n, st')" "faults (rworld st) = []" "newAPIError st' \<noteq> None"
  shows "same_books (rworld st) (rworld st')"
  using relay_loop_books_ind [OF assms(2)] assms by simp

section \<open>What a failed request costs\<close>

definition violation_fee :: "relay_conf \<Rightarrow> fee_conf \<Rightarrow> NewAPIError option \<Rightarrow> int" where
  "violation_fee S F eo = (if shouldChargeViolationFee S eo \<and> ViolationDeductionEnabled F then calcViolationFeeQuota F else 0)"

lemma calcViolationFeeQuota_nonneg: "0 \<le> calcViolationFeeQuota F"
  by (simp add: calcViolationFeeQuota_def Let_def)

lemma counters_books:
  assumes "faults w = []"
  shows "same_books w (UpdateUserUsedQuotaAndRequestCount cfg u q w)" "same_books w (UpdateChannelUsedQuota cfg c q w)"
proof -
  have "user_quota j (w\<lparr>db := set_users u (\<lambda>x. x\<lparr>uUsedQuota := uUsedQuota x + q, uRequestCount := uRequestCount x + 1\<rparr>) (db w)\<rparr>) = user_quota j w"
    and "user_exists j (w\<lparr>db := set_users u (\<lambda>x. x\<lparr>uUsedQuota := uUsedQuota x + q, uRequestCount := uRequestCount x + 1\<rparr>) (db w)\<rparr>) = user_exists j w" for j
    by (subst user_quota_set_users [where d = 0 and w = w], simp_all) (rule user_exists_set_users; simp)
  then show "same_books w (UpdateUserUsedQuotaAndRequestCount cfg u q w)"
    using assms by (simp add: UpdateUserUsedQuotaAndRequestCount_def updateUserUsedQuotaAndRequestCount_def same_books_def user_side_def token_side_def
        wallet_def allowance_def token_quota_def token_exists_def user_quota_def user_exists_def pending_def addNewRecord_def)
  show "same_books w (UpdateChannelUsedQuota cfg c q w)"
    using assms by (simp add: UpdateChannelUsedQuota_def updateChannelUsedQuota_def same_books_def user_side_def token_side_def
        wallet_def allowance_def token_quota_def token_exists_def user_quota_def user_exists_def pending_def addNewRecord_def)
qed

lemma PostConsumeQuota_moves:
  assumes b: "billable E ri n w" and n: "n + 2 ^ 60 < 2 ^ 63" "0 \<le> n" and q: "0 < q" "q \<le> 2 ^ 60" and "riBillingSource ri \<noteq> ''subscription''"
  shows "\<exists>w'. PostConsumeQuota E ri q w = ((Inr (), ri), w') \<and> moved E ri (- q) (token_part ri (- q)) w w'"
proof -
  let ?u = "DecreaseUserQuota (econf E) (riUserId ri) q False w"
  have r: "room (econf E) BatchUpdateTypeUserQuota (riUserId ri) (- q) w"
    using b q n calm_room [of "econf E" _ _ n w "- q" "2 ^ 60"] by (auto simp: billable_def)
  have m: "moved E ri (- q) 0 w (snd ?u)" using b q r by (intro moves_user_down) (simp_all add: billable_def)
  have i: "in64 (- q)" using q by (simp add: in64_def)
  have "fst ?u = Inr ()" using b q i by (simp add: quota_ops_Inr billable_def)
  then obtain w1 where u: "?u = (Inr (), w1)" by (metis prod.collapse)
  show ?thesis
  proof (cases "riIsPlayground ri")
    case True
    with m u assms(6) q show ?thesis by (simp add: PostConsumeQuota_def token_part_def)
  next
    case False
    let ?t = "DecreaseTokenQuota (econf E) (appNow E) (riTokenId ri) (riTokenKey ri) q w1"
    have b1: "faults w1 = []" "token_exists (riTokenId ri) w1" using m u b False by (auto simp: moves_def billable_def)
    have "room (econf E) BatchUpdateTypeTokenQuota (riTokenId ri) (- q) w1"
      using m u b q n False calm_room [of "econf E" _ _ n w "- q" "2 ^ 60"] by (auto simp: billable_def moves_def room_def)
    then have m1: "moved E ri 0 (- q) w1 (snd ?t)" using b1 q by (intro moves_token_down) simp_all
    have "fst ?t = Inr ()" using b1 q i by (simp add: quota_ops_Inr)
    then obtain w2 where "?t = (Inr (), w2)" by (metis prod.collapse)
    then show ?thesis using moves_trans [OF m [unfolded u snd_conv] m1] u False assms(6) q
      by (simp add: PostConsumeQuota_def token_delta_def token_part_def)
  qed
qed

lemma ChargeViolationFee_moves:
  assumes b: "billable E ri n w" and n: "n + 2 ^ 60 < 2 ^ 63" "0 \<le> n" and "calcViolationFeeQuota F \<le> 2 ^ 60" "riBillingSource ri \<noteq> ''subscription''"
  shows "moved E ri (- violation_fee S F eo) (token_part ri (- violation_fee S F eo)) w (snd (ChargeViolationFeeIfNeeded E S F ch ri eo w))"
proof (cases "shouldChargeViolationFee S eo \<and> ViolationDeductionEnabled F \<and> 0 < calcViolationFeeQuota F")
  case False
  then have "violation_fee S F eo = 0" "snd (ChargeViolationFeeIfNeeded E S F ch ri eo w) = w"
    using calcViolationFeeQuota_nonneg [of F] by (auto simp: violation_fee_def ChargeViolationFeeIfNeeded_def Let_def)
  then show ?thesis using b moves_same [OF same_books_refl, of w] by (simp add: billable_def token_part_def)
next
  case True
  let ?q = "calcViolationFeeQuota F"
  from True PostConsumeQuota_moves [OF b n _ assms(4,5)] obtain w1 where
    w1: "PostConsumeQuota E ri ?q w = ((Inr (), ri), w1)" and m: "moved E ri (- ?q) (token_part ri (- ?q)) w w1" by blast
  let ?w2 = "UpdateUserUsedQuotaAndRequestCount (econf E) (riUserId ri) ?q w1"
  have "same_books w1 ?w2" using m by (intro counters_books) (simp add: moves_def)
  moreover from this have "same_books ?w2 (UpdateChannelUsedQuota (econf E) ch ?q ?w2)" by (intro counters_books) (simp add: same_books_def)
  ultimately have "moved E ri 0 0 w1 (UpdateChannelUsedQuota (econf E) ch ?q ?w2)" by (intro moves_same) (rule same_books_trans)
  from moves_trans [OF m this] True w1 show ?thesis
    by (auto simp: ChargeViolationFeeIfNeeded_def violation_fee_def Let_def shouldChargeViolationFee_def)
qed

definition sane_retries :: "relay_conf \<Rightarrow> relay_ctx \<Rightarrow> bool" where
  "sane_retries S c \<longleftrightarrow> 0 \<le> RetryTimes S \<and> RetryTimes S < 2 ^ 63 - 1 \<and> (case AutoGroupIndex c of None \<Rightarrow> True | Some i \<Rightarrow> 0 \<le> i)"

lemma loop_returns:
  assumes "sane_retries S c"
  shows "\<exists>k st. relay_loop S cfg rnd krnd U 0 (start_state g m c w) = Some (k, st)"
proof -
  have "ready (retryParam (start_state g m c w))"
    using assms by (simp add: sane_retries_def ready_def start_state_def group_index_def GetRetry_def split: option.splits)
  moreover have "in64 (RetryTimes S + 1)" "0 \<le> RetryTimes S" using assms by (simp_all add: sane_retries_def in64_def)
  ultimately show ?thesis using relay_loop_bound by blast
qed

lemma rworld_start [simp]: "rworld (start_state g m c w) = w" "newAPIError (start_state g m c w) = None"
  by (simp_all add: start_state_def)

text \<open>From the first attempt to the end of the deferred function, a request that fails moves the fee.\<close>

lemma deferred_moves:
  assumes "sane_retries S c" "fails_free U" "billable E ri n w" "n + 2 ^ 60 < 2 ^ 63" "0 \<le> n" "calcViolationFeeQuota F \<le> 2 ^ 60"
    "riBillingSource ri \<noteq> ''subscription''"
  shows "\<exists>k st eo w2. relay_loop S (econf E) rnd krnd U 0 (start_state g m c w) = Some (k, st) \<and>
    relay_deferred E S F bs ri st = (eo, if eo = None then None else (case bs of None \<Rightarrow> None | Some s \<Rightarrow> snd (Refund s)), w2) \<and>
    (eo \<noteq> None \<longrightarrow> moved E ri (- violation_fee S F eo) (token_part ri (- violation_fee S F eo)) w w2)"
proof -
  obtain k st where l: "relay_loop S (econf E) rnd krnd U 0 (start_state g m c w) = Some (k, st)" using loop_returns [OF assms(1)] by blast
  show ?thesis
  proof (cases "newAPIError st")
    case None
    with l show ?thesis by (simp add: relay_deferred_def)
  next
    case (Some e)
    let ?eo = "NormalizeViolationFeeError S (newAPIError st)" and ?ch = "ctxChannelId (Ctx (retryParam st))"
    have "same_books w (rworld st)" using relay_loop_books [OF assms(2) l] Some assms(3) by (simp add: billable_def)
    then have m: "moved E ri 0 0 w (rworld st)" by (rule moves_same)
    have b: "billable E ri n (rworld st)" using billable_moved [OF assms(3) m, of 0] by simp
    have c: "moved E ri (- violation_fee S F ?eo) (token_part ri (- violation_fee S F ?eo)) w (snd (ChargeViolationFeeIfNeeded E S F ?ch ri ?eo (rworld st)))"
      using moves_trans [OF m ChargeViolationFee_moves [OF b assms(4-7)]] by simp
    have d: "relay_deferred E S F bs ri st = (?eo, if ?eo = None then None else (case bs of None \<Rightarrow> None | Some s \<Rightarrow> snd (Refund s)),
        snd (ChargeViolationFeeIfNeeded E S F ?ch ri ?eo (rworld st)))"
      using Some by (simp add: relay_deferred_def Let_def Normalize_Some split: prod.splits)
    show ?thesis using l d c by blast
  qed
qed

lemma Relay_free_fails:
  assumes "sane_retries S c" "fails_free U" "billable E ri (2 ^ 61) w" "calcViolationFeeQuota F \<le> 2 ^ 60" "riBillingSource ri \<noteq> ''subscription''"
  shows "\<exists>eo w2. Relay E S F rnd krnd U True quota ri g m c w = Some (eo, None, w2) \<and>
    (eo \<noteq> None \<longrightarrow> moved E ri (- violation_fee S F eo) (token_part ri (- violation_fee S F eo)) w w2)"
proof -
  obtain k st eo w2 where "relay_loop S (econf E) rnd krnd U 0 (start_state g m c w) = Some (k, st)"
    "relay_deferred E S F None ri st = (eo, if eo = None then None else (case None of None \<Rightarrow> None | Some s \<Rightarrow> snd (Refund s)), w2)"
    "eo \<noteq> None \<longrightarrow> moved E ri (- violation_fee S F eo) (token_part ri (- violation_fee S F eo)) w w2"
    using deferred_moves [OF assms(1-3) _ _ assms(4,5), where bs = None and rnd = rnd and krnd = krnd and g = g and m = m] by auto
  then show ?thesis by (auto simp: Relay_def Let_def split: option.splits)
qed

lemma Relay_wallet_fails:
  assumes "sane_retries S c" "fails_free U" "billable E ri (2 ^ 61) w" "calcViolationFeeQuota F \<le> 2 ^ 60" "0 \<le> quota" "quota \<le> 2 ^ 60"
    and s: "NewBillingSession E quota ri w = (Inr s, w1)" "funding s = Wallet f"
  shows "\<exists>eo job w2. Relay E S F rnd krnd U False quota ri g m c w = Some (eo, job, w2) \<and>
    (eo \<noteq> None \<longrightarrow> (let w3 = (case job of None \<Rightarrow> w2 | Some j \<Rightarrow> run_refund E j w2) in
      wallet (riUserId ri) w3 = wallet (riUserId ri) w - violation_fee S F eo \<and>
      allowance (riTokenId ri) w3 = allowance (riTokenId ri) w - token_part ri (violation_fee S F eo)))"
proof -
  obtain p where p: "0 \<le> p" "p \<le> 2 ^ 60" and op: "opened ri (Wallet \<lparr>wfUserId = riUserId ri, wfConsumed = p\<rparr>) p s"
    and m1: "moved E ri (- p) (token_part ri (- p)) w w1" and b1: "billable E ri (2 ^ 61 + 2 ^ 60) w1"
    by (rule wallet_session_opened [OF assms(3,5,6) s])
  have r: "riUserId (relayInfo s) = riUserId ri" "riTokenId (relayInfo s) = riTokenId ri" "riIsPlayground (relayInfo s) = riIsPlayground ri"
    "riBillingSource (relayInfo s) \<noteq> ''subscription''" using op by (simp_all add: opened_def)
  have bs: "billable E (relayInfo s) (2 ^ 61 + 2 ^ 60) w1" using b1 r by (simp add: billable_def)
  obtain k st eo w2 where l: "relay_loop S (econf E) rnd krnd U 0 (start_state g m c w1) = Some (k, st)"
    and d: "relay_deferred E S F (Some s) (relayInfo s) st = (eo, if eo = None then None else (case Some s of None \<Rightarrow> None | Some s \<Rightarrow> snd (Refund s)), w2)"
    and m2: "eo \<noteq> None \<longrightarrow> moved E (relayInfo s) (- violation_fee S F eo) (token_part (relayInfo s) (- violation_fee S F eo)) w1 w2"
    using deferred_moves [OF assms(1,2) bs _ _ assms(4) r(4), where bs = "Some s" and rnd = rnd and krnd = krnd and g = g and m = m] by auto
  have R: "Relay E S F rnd krnd U False quota ri g m c w = Some (eo, if eo = None then None else snd (Refund s), w2)"
    using l d s(1) by (auto simp: Relay_def Let_def split: option.splits)
  have "let w3 = (case snd (Refund s) of None \<Rightarrow> w2 | Some j \<Rightarrow> run_refund E j w2) in
      wallet (riUserId ri) w3 = wallet (riUserId ri) w - violation_fee S F eo \<and>
      allowance (riTokenId ri) w3 = allowance (riTokenId ri) w - token_part ri (violation_fee S F eo)" if "eo \<noteq> None"
  proof -
    have m: "moved E ri (- violation_fee S F eo) (token_part ri (- violation_fee S F eo)) w1 w2" using m2 that r by (simp add: token_part_def)
    have "0 \<le> violation_fee S F eo" "violation_fee S F eo \<le> 2 ^ 60" using assms(4) calcViolationFeeQuota_nonneg [of F] by (auto simp: violation_fee_def)
    then have "billable E ri (2 ^ 61 + 2 ^ 60 + 2 ^ 60) w2" by (intro billable_moved [OF b1 m]) (auto simp: token_part_def)
    then have "billable E ri (2 ^ 62) w2" by (rule billable_mono) simp
    from wallet_refund_returns [OF op this] p assms(6) m m1 show ?thesis by (auto simp: moves_def token_part_def Let_def split: if_splits)
  qed
  with R show ?thesis by (cases "eo = None") auto
qed

end
