(* ===== verification/RateLimit.thy ===== *)
theory RateLimit
  imports GoStrings
begin

text \<open>
  Rate limiting: the in-memory limiter (\<^verbatim>\<open>src/common/rate-limit.go\<close>), the middlewares on it and on Redis
  (\<^verbatim>\<open>src/middleware/rate-limit.go\<close>, \<^verbatim>\<open>src/middleware/model-rate-limit.go\<close>, \<^verbatim>\<open>src/setting/rate_limit.go\<close>) and the token
  bucket script (\<^verbatim>\<open>src/common/limiter\<close>). A request reads the clock once; times are seconds for the in-memory limiter and
  the script, milliseconds for the Redis lists.
\<close>

datatype outcome = Pass | Reject int

section \<open>The in-memory limiter\<close>

record InMemoryRateLimiter =
  lstore :: "string \<Rightarrow> int list option"
  linit :: bool
  expirationDuration :: int

definition Init :: "int \<Rightarrow> InMemoryRateLimiter \<Rightarrow> InMemoryRateLimiter" where
  "Init dur l = (if linit l then l else l\<lparr>lstore := (\<lambda>_. None), linit := True, expirationDuration := dur\<rparr>)"

text \<open>One round of the clearing goroutine, at time \<open>now\<close>.\<close>

definition clearExpiredItems :: "int \<Rightarrow> InMemoryRateLimiter \<Rightarrow> InMemoryRateLimiter" where
  "clearExpiredItems now l = l\<lparr>lstore := (\<lambda>key. case lstore l key of
     None \<Rightarrow> None
   | Some queue \<Rightarrow> if queue = [] \<or> now - last queue > expirationDuration l then None else Some queue)\<rparr>"

text \<open>\<^const>\<open>None\<close> is the panic of indexing an empty queue.\<close>

definition Request :: "string \<Rightarrow> int \<Rightarrow> int \<Rightarrow> int \<Rightarrow> InMemoryRateLimiter \<Rightarrow> bool option \<times> InMemoryRateLimiter" where
  "Request key maxRequestNum duration now l =
     (case lstore l key of
        Some queue \<Rightarrow>
          if int (length queue) < maxRequestNum then (Some True, l\<lparr>lstore := (lstore l)(key \<mapsto> queue @ [now])\<rparr>)
          else if queue = [] then (None, l)
          else if now - hd queue \<ge> duration then (Some True, l\<lparr>lstore := (lstore l)(key \<mapsto> tl queue @ [now])\<rparr>)
          else (Some False, l)
      | None \<Rightarrow> (Some True, l\<lparr>lstore := (lstore l)(key \<mapsto> [now])\<rparr>))"

definition memoryRateLimiter :: "int \<Rightarrow> int \<Rightarrow> string \<Rightarrow> string \<Rightarrow> int \<Rightarrow> InMemoryRateLimiter \<Rightarrow> outcome \<times> InMemoryRateLimiter" where
  "memoryRateLimiter maxRequestNum duration mark ip now l =
     (case Request (mark @ ip) maxRequestNum duration now l of
        (Some True, l') \<Rightarrow> (Pass, l') | (Some False, l') \<Rightarrow> (Reject 429, l') | (None, l') \<Rightarrow> (Reject 500, l'))"

section \<open>Redis\<close>

text \<open>
  The part of Redis the limiters use, as Redis documents its commands: lists with the newest element first and an optional
  time at which the key expires, and the hashes of the token bucket. \<open>rfaults\<close> says which of the next commands fail.
\<close>

record redis =
  rlists :: "string \<Rightarrow> (int list \<times> int option) option"
  rbuckets :: "string \<Rightarrow> (int \<times> int) option"
  rfaults :: "bool list"

definition rcmd :: "(redis \<Rightarrow> 'a \<times> redis) \<Rightarrow> redis \<Rightarrow> 'a option \<times> redis" where
  "rcmd f r =
     (case rfaults r of
        True # fs \<Rightarrow> (None, r\<lparr>rfaults := fs\<rparr>)
      | _ \<Rightarrow> (case f r of (x, r') \<Rightarrow> (Some x, r'\<lparr>rfaults := tl (rfaults r)\<rparr>)))"

definition live :: "int \<Rightarrow> string \<Rightarrow> redis \<Rightarrow> int list" where
  "live now key r =
     (case rlists r key of
        None \<Rightarrow> []
      | Some (xs, None) \<Rightarrow> xs
      | Some (xs, Some e) \<Rightarrow> if now < e then xs else [])"

definition ttl_of :: "int \<Rightarrow> string \<Rightarrow> redis \<Rightarrow> int option" where
  "ttl_of now key r = (case rlists r key of Some (_, Some e) \<Rightarrow> if now < e then Some e else None | _ \<Rightarrow> None)"

definition LLen :: "int \<Rightarrow> string \<Rightarrow> redis \<Rightarrow> int option \<times> redis" where
  "LLen now key = rcmd (\<lambda>r. (int (length (live now key r)), r))"

definition LPush :: "int \<Rightarrow> string \<Rightarrow> int \<Rightarrow> redis \<Rightarrow> unit option \<times> redis" where
  "LPush now key x = rcmd (\<lambda>r. ((), r\<lparr>rlists := (rlists r)(key \<mapsto> (x # live now key r, ttl_of now key r))\<rparr>))"

definition LIndexLast :: "int \<Rightarrow> string \<Rightarrow> redis \<Rightarrow> int option option \<times> redis" where
  "LIndexLast now key = rcmd (\<lambda>r. (if live now key r = [] then None else Some (last (live now key r)), r))"

definition LTrim :: "int \<Rightarrow> string \<Rightarrow> int \<Rightarrow> redis \<Rightarrow> unit option \<times> redis" where
  "LTrim now key stop = rcmd (\<lambda>r.
     let xs = live now key r; n = (if stop < 0 then nat (int (length xs) + stop + 1) else nat (stop + 1)) in
     ((), r\<lparr>rlists := (rlists r)(key := if take n xs = [] then None else Some (take n xs, ttl_of now key r))\<rparr>))"

definition Expire :: "int \<Rightarrow> string \<Rightarrow> int \<Rightarrow> redis \<Rightarrow> unit option \<times> redis" where
  "Expire now key ttl = rcmd (\<lambda>r.
     ((), r\<lparr>rlists := (rlists r)(key := if live now key r = [] then None else Some (live now key r, Some (now + ttl)))\<rparr>))"

text \<open>\<^verbatim>\<open>int64(d.Seconds())\<close>, towards zero, of a difference in milliseconds.\<close>

definition seconds :: "int \<Rightarrow> int" where
  "seconds ms = (if ms \<ge> 0 then ms div 1000 else - ((- ms) div 1000))"

text \<open>\<^verbatim>\<open>time.Parse\<close> fails on the empty text of a missing entry. \<open>ttl\<close> is \<^verbatim>\<open>RateLimitKeyExpirationDuration\<close>.\<close>

definition userRedisRateLimiter :: "int \<Rightarrow> int \<Rightarrow> int \<Rightarrow> string \<Rightarrow> int \<Rightarrow> redis \<Rightarrow> outcome \<times> redis" where
  "userRedisRateLimiter ttl maxRequestNum duration key now r =
     (case LLen now key r of
        (None, r1) \<Rightarrow> (Reject 500, r1)
      | (Some listLength, r1) \<Rightarrow>
          if listLength < maxRequestNum
          then (Pass, snd (Expire now key ttl (snd (LPush now key now r1))))
          else (case LIndexLast now key r1 of
              (Some (Some oldTime), r2) \<Rightarrow>
                if seconds (now - oldTime) < duration then (Reject 429, snd (Expire now key ttl r2))
                else (Pass, snd (Expire now key ttl (snd (LTrim now key (maxRequestNum - 1) (snd (LPush now key now r2))))))
            | (_, r2) \<Rightarrow> (Reject 500, r2)))"

definition redisRateLimiter :: "int \<Rightarrow> int \<Rightarrow> int \<Rightarrow> string \<Rightarrow> string \<Rightarrow> int \<Rightarrow> redis \<Rightarrow> outcome \<times> redis" where
  "redisRateLimiter ttl maxRequestNum duration mark ip now r =
     userRedisRateLimiter ttl maxRequestNum duration (''rateLimit:'' @ mark @ ip) now r"

section \<open>The middlewares\<close>

text \<open>Both stores behind one state; \<open>ms\<close> is the clock in milliseconds.\<close>

record limits =
  memory :: InMemoryRateLimiter
  rdb :: redis

record limit_conf =
  redisOn :: bool
  RateLimitKeyExpirationDuration :: int
  GlobalWebRateLimitEnable :: bool
  GlobalWebRateLimitNum :: int
  GlobalWebRateLimitDuration :: int
  GlobalApiRateLimitEnable :: bool
  GlobalApiRateLimitNum :: int
  GlobalApiRateLimitDuration :: int
  CriticalRateLimitEnable :: bool
  CriticalRateLimitNum :: int
  CriticalRateLimitDuration :: int
  SearchRateLimitEnable :: bool
  SearchRateLimitNum :: int
  SearchRateLimitDuration :: int

definition rateLimitFactory :: "limit_conf \<Rightarrow> int \<Rightarrow> int \<Rightarrow> string \<Rightarrow> string \<Rightarrow> int \<Rightarrow> limits \<Rightarrow> outcome \<times> limits" where
  "rateLimitFactory L maxRequestNum duration mark ip ms s =
     (if redisOn L
      then (case redisRateLimiter (RateLimitKeyExpirationDuration L * 1000) maxRequestNum duration mark ip ms (rdb s) of
              (ok, r) \<Rightarrow> (ok, s\<lparr>rdb := r\<rparr>))
      else (case memoryRateLimiter maxRequestNum duration mark ip (ms div 1000) (Init (RateLimitKeyExpirationDuration L) (memory s)) of
              (ok, l) \<Rightarrow> (ok, s\<lparr>memory := l\<rparr>)))"

definition GlobalWebRateLimit :: "limit_conf \<Rightarrow> string \<Rightarrow> int \<Rightarrow> limits \<Rightarrow> outcome \<times> limits" where
  "GlobalWebRateLimit L ip ms s = (if GlobalWebRateLimitEnable L
     then rateLimitFactory L (GlobalWebRateLimitNum L) (GlobalWebRateLimitDuration L) ''GW'' ip ms s else (Pass, s))"

definition GlobalAPIRateLimit :: "limit_conf \<Rightarrow> string \<Rightarrow> int \<Rightarrow> limits \<Rightarrow> outcome \<times> limits" where
  "GlobalAPIRateLimit L ip ms s = (if GlobalApiRateLimitEnable L
     then rateLimitFactory L (GlobalApiRateLimitNum L) (GlobalApiRateLimitDuration L) ''GA'' ip ms s else (Pass, s))"

definition CriticalRateLimit :: "limit_conf \<Rightarrow> string \<Rightarrow> int \<Rightarrow> limits \<Rightarrow> outcome \<times> limits" where
  "CriticalRateLimit L ip ms s = (if CriticalRateLimitEnable L
     then rateLimitFactory L (CriticalRateLimitNum L) (CriticalRateLimitDuration L) ''CT'' ip ms s else (Pass, s))"

definition DownloadRateLimit :: "limit_conf \<Rightarrow> string \<Rightarrow> int \<Rightarrow> limits \<Rightarrow> outcome \<times> limits" where
  "DownloadRateLimit L ip ms s = rateLimitFactory L 10 60 ''DW'' ip ms s"

definition UploadRateLimit :: "limit_conf \<Rightarrow> string \<Rightarrow> int \<Rightarrow> limits \<Rightarrow> outcome \<times> limits" where
  "UploadRateLimit L ip ms s = rateLimitFactory L 10 60 ''UP'' ip ms s"

definition userRateLimitFactory :: "limit_conf \<Rightarrow> int \<Rightarrow> int \<Rightarrow> string \<Rightarrow> int \<Rightarrow> int \<Rightarrow> limits \<Rightarrow> outcome \<times> limits" where
  "userRateLimitFactory L maxRequestNum duration mark userId ms s =
     (if userId = 0 then (Reject 401, s)
      else if redisOn L
      then (case userRedisRateLimiter (RateLimitKeyExpirationDuration L * 1000) maxRequestNum duration
                   (''rateLimit:'' @ mark @ '':user:'' @ Itoa userId) ms (rdb s) of
              (ok, r) \<Rightarrow> (ok, s\<lparr>rdb := r\<rparr>))
      else (case Request (mark @ '':user:'' @ Itoa userId) maxRequestNum duration (ms div 1000)
                   (Init (RateLimitKeyExpirationDuration L) (memory s)) of
              (Some True, l) \<Rightarrow> (Pass, s\<lparr>memory := l\<rparr>)
            | (Some False, l) \<Rightarrow> (Reject 429, s\<lparr>memory := l\<rparr>)
            | (None, l) \<Rightarrow> (Reject 500, s\<lparr>memory := l\<rparr>)))"

definition SearchRateLimit :: "limit_conf \<Rightarrow> int \<Rightarrow> int \<Rightarrow> limits \<Rightarrow> outcome \<times> limits" where
  "SearchRateLimit L userId ms s = (if \<not> SearchRateLimitEnable L then (Pass, s)
     else userRateLimitFactory L (SearchRateLimitNum L) (SearchRateLimitDuration L) ''SR'' userId ms s)"

section \<open>The token bucket\<close>

record Config =
  Capacity :: int
  Rate :: int
  Requested :: int

text \<open>The script \<^verbatim>\<open>lua/rate_limit.lua\<close> at the server's time \<open>now\<close>, in seconds: its answer and the bucket it stores.\<close>

definition rate_limit_script :: "Config \<Rightarrow> int \<Rightarrow> (int \<times> int) option \<Rightarrow> bool \<times> (int \<times> int)" where
  "rate_limit_script C now bucket =
     (let tokens = (case bucket of
            None \<Rightarrow> Capacity C
          | Some (tokens, last_time) \<Rightarrow> min (Capacity C) (tokens + (now - last_time) * Rate C)) in
      if tokens \<ge> Requested C then (True, (tokens - Requested C, now)) else (False, (tokens, now)))"

definition Allow :: "Config \<Rightarrow> string \<Rightarrow> int \<Rightarrow> redis \<Rightarrow> bool option \<times> redis" where
  "Allow C key now = rcmd (\<lambda>r. case rate_limit_script C now (rbuckets r key) of
     (ok, b) \<Rightarrow> (ok, r\<lparr>rbuckets := (rbuckets r)(key \<mapsto> b)\<rparr>))"

section \<open>Limits on model requests\<close>

record model_limit_conf =
  ModelRequestRateLimitEnabled :: bool
  ModelRequestRateLimitDurationMinutes :: int
  ModelRequestRateLimitCount :: int
  ModelRequestRateLimitSuccessCount :: int
  ModelRequestRateLimitGroup :: "string \<Rightarrow> (int \<times> int) option"

definition GetGroupRateLimit :: "model_limit_conf \<Rightarrow> string \<Rightarrow> (int \<times> int) option" where
  "GetGroupRateLimit M g = ModelRequestRateLimitGroup M g"

text \<open>The check of the decoded group limits, in the order of the range loop.\<close>

fun CheckModelRequestRateLimitGroup :: "(string \<times> int \<times> int) list \<Rightarrow> string option" where
  "CheckModelRequestRateLimitGroup [] = None"
| "CheckModelRequestRateLimitGroup ((g, tot, success) # gs) =
     (if tot < 0 \<or> success < 1 then Some (''group '' @ g @ '' has negative rate limit values'')
      else if tot > 2147483647 \<or> success > 2147483647 then Some (''group '' @ g @ '' has max rate limits value 2147483647'')
      else CheckModelRequestRateLimitGroup gs)"

text \<open>\<^const>\<open>None\<close> is an error.\<close>

definition checkRedisRateLimit :: "model_limit_conf \<Rightarrow> string \<Rightarrow> int \<Rightarrow> int \<Rightarrow> int \<Rightarrow> redis \<Rightarrow> bool option \<times> redis" where
  "checkRedisRateLimit M key maxCount duration now r =
     (if maxCount = 0 then (Some True, r)
      else case LLen now key r of
          (None, r1) \<Rightarrow> (None, r1)
        | (Some listLength, r1) \<Rightarrow>
            if listLength < maxCount then (Some True, r1)
            else (case LIndexLast now key r1 of
                (Some (Some oldTime), r2) \<Rightarrow>
                  if seconds (now - oldTime) < duration
                  then (Some False, snd (Expire now key (ModelRequestRateLimitDurationMinutes M * 60000) r2))
                  else (Some True, r2)
              | (_, r2) \<Rightarrow> (None, r2)))"

definition recordRedisRequest :: "model_limit_conf \<Rightarrow> string \<Rightarrow> int \<Rightarrow> int \<Rightarrow> redis \<Rightarrow> redis" where
  "recordRedisRequest M key maxCount now r =
     (if maxCount = 0 then r
      else snd (Expire now key (ModelRequestRateLimitDurationMinutes M * 60000)
             (snd (LTrim now key (maxCount - 1) (snd (LPush now key now r))))))"

text \<open>
  The handlers around the rest of the chain, which ends with the status \<open>status\<close> at the time \<open>later\<close>. After \<^verbatim>\<open>c.Abort\<close> the
  call of \<^verbatim>\<open>c.Next\<close> runs nothing, so a refusal by the token bucket ends the request although the code does not return there.
\<close>

definition redisRateLimitHandler ::
  "model_limit_conf \<Rightarrow> int \<Rightarrow> int \<Rightarrow> int \<Rightarrow> int \<Rightarrow> int \<Rightarrow> int \<Rightarrow> int \<Rightarrow> redis \<Rightarrow> outcome \<times> redis" where
  "redisRateLimitHandler M duration totalMaxCount successMaxCount userId now later status r =
     (let successKey = ''rateLimit:MRRLS:'' @ Itoa userId in
      case checkRedisRateLimit M successKey successMaxCount duration now r of
        (None, r1) \<Rightarrow> (Reject 500, r1)
      | (Some False, r1) \<Rightarrow> (Reject 429, r1)
      | (Some True, r1) \<Rightarrow>
          let (allowed, r2) = (if totalMaxCount > 0
                then Allow \<lparr>Capacity = totalMaxCount * duration, Rate = totalMaxCount, Requested = duration\<rparr>
                       (''rateLimit:'' @ Itoa userId) (now div 1000) r1
                else (Some True, r1)) in
          (case allowed of
             None \<Rightarrow> (Reject 500, r2)
           | Some False \<Rightarrow> (Reject 429, r2)
           | Some True \<Rightarrow> (Pass, if status < 400 then recordRedisRequest M successKey successMaxCount later r2 else r2)))"

definition memoryRateLimitHandler ::
  "model_limit_conf \<Rightarrow> int \<Rightarrow> int \<Rightarrow> int \<Rightarrow> int \<Rightarrow> int \<Rightarrow> int \<Rightarrow> int \<Rightarrow> InMemoryRateLimiter \<Rightarrow> outcome \<times> InMemoryRateLimiter" where
  "memoryRateLimitHandler M duration totalMaxCount successMaxCount userId now later status l =
     (let l0 = Init (ModelRequestRateLimitDurationMinutes M * 60) l;
          totalKey = ''MRRL'' @ Itoa userId;
          successKey = ''MRRLS'' @ Itoa userId;
          (tot, l1) = (if totalMaxCount > 0 then Request totalKey totalMaxCount duration now l0 else (Some True, l0)) in
      case tot of
        None \<Rightarrow> (Reject 500, l1)
      | Some False \<Rightarrow> (Reject 429, l1)
      | Some True \<Rightarrow>
          (case Request (successKey @ ''_check'') successMaxCount duration now l1 of
             (None, l2) \<Rightarrow> (Reject 500, l2)
           | (Some False, l2) \<Rightarrow> (Reject 429, l2)
           | (Some True, l2) \<Rightarrow>
               (Pass, if status < 400 then snd (Request successKey successMaxCount duration later l2) else l2)))"

definition ModelRequestRateLimit ::
  "limit_conf \<Rightarrow> model_limit_conf \<Rightarrow> string \<Rightarrow> string \<Rightarrow> int \<Rightarrow> int \<Rightarrow> int \<Rightarrow> int \<Rightarrow> limits \<Rightarrow> outcome \<times> limits" where
  "ModelRequestRateLimit L M tokenGroup userGroup userId ms later status s =
     (if \<not> ModelRequestRateLimitEnabled M then (Pass, s)
      else let duration = ModelRequestRateLimitDurationMinutes M * 60;
               grp = (if tokenGroup = '''' then userGroup else tokenGroup);
               (totalMaxCount, successMaxCount) = (case GetGroupRateLimit M grp of
                   None \<Rightarrow> (ModelRequestRateLimitCount M, ModelRequestRateLimitSuccessCount M) | Some tc \<Rightarrow> tc) in
        if redisOn L
        then (case redisRateLimitHandler M duration totalMaxCount successMaxCount userId ms later status (rdb s) of
                (ok, r) \<Rightarrow> (ok, s\<lparr>rdb := r\<rparr>))
        else (case memoryRateLimitHandler M duration totalMaxCount successMaxCount userId (ms div 1000) (later div 1000) status (memory s) of
                (ok, l) \<Rightarrow> (ok, s\<lparr>memory := l\<rparr>)))"

end
