(* ===== verification/RateLimitLaws.thy ===== *)
theory RateLimitLaws
  imports RateLimit
begin

text \<open>
  Both limiters refine a sliding window over the whole history of accepted requests: the contract of a limiter is a locale,
  interpreted on the in-memory limiter and on the Redis lists. The token bucket is bounded in every period.
\<close>

section \<open>The sliding window\<close>

text \<open>The reference: with the accepted requests \<open>ts\<close>, a request at \<open>t\<close> is accepted when fewer than \<open>n\<close> of them are less
  than \<open>d\<close> old.\<close>

definition allowed_at :: "nat \<Rightarrow> int \<Rightarrow> int list \<Rightarrow> int \<Rightarrow> bool" where
  "allowed_at n d ts t \<longleftrightarrow> length (filter (\<lambda>x. t - d < x) ts) < n"

text \<open>The entries \<open>q\<close> a limiter keeps suffice: they are the latest of the history, and what was dropped does not matter
  any more unless the limiter is full.\<close>

definition tracks :: "nat \<Rightarrow> int \<Rightarrow> int list \<Rightarrow> int \<Rightarrow> int list \<Rightarrow> bool" where
  "tracks n d q now ts \<longleftrightarrow> sorted ts \<and> (\<forall>x \<in> set ts. x \<le> now) \<and> length q \<le> n \<and>
     (\<exists>pre. ts = pre @ q \<and> (length q = n \<or> (\<forall>x \<in> set pre. x + d \<le> now)))"

lemma tracks_Nil [simp]: "tracks n d [] now []"
  by (simp add: tracks_def)

lemma tracksI:
  "ts = pre @ q \<Longrightarrow> sorted ts \<Longrightarrow> (\<And>x. x \<in> set ts \<Longrightarrow> x \<le> now) \<Longrightarrow> length q \<le> n \<Longrightarrow>
   length q = n \<or> (\<forall>x \<in> set pre. x + d \<le> now) \<Longrightarrow> tracks n d q now ts"
  by (auto simp: tracks_def)

lemma tracks_forget:
  assumes "tracks n d q now ts" "now \<le> t" "q' = q \<or> q' = [] \<and> (\<forall>x \<in> set q. x + d \<le> t)"
  shows "tracks n d q' t ts"
proof -
  obtain pre where pre: "ts = pre @ q" "length q = n \<or> (\<forall>x \<in> set pre. x + d \<le> now)" "sorted ts" "\<forall>x \<in> set ts. x \<le> now" "length q \<le> n"
    using assms(1) by (auto simp: tracks_def)
  show ?thesis
  proof (cases "q' = q")
    case True
    have "length q = n \<or> (\<forall>x \<in> set pre. x + d \<le> t)" "\<And>x. x \<in> set ts \<Longrightarrow> x \<le> t" using pre(2,4) assms(2) by fastforce+
    with True pre(1,3,5) show ?thesis by (intro tracksI [of _ pre]) simp_all
  next
    case False
    with assms(3) have q: "q' = []" "\<forall>x \<in> set q. x + d \<le> t" by auto
    have "x + d \<le> t" if "x \<in> set pre" for x
    proof (cases q)
      case Nil
      with q False show ?thesis by simp
    next
      case (Cons y ys)
      then have "x \<le> y" using that pre(1,3) by (auto simp: sorted_append)
      with q Cons show ?thesis by fastforce
    qed
    then have "\<forall>x \<in> set ts. x + d \<le> t" "\<And>x. x \<in> set ts \<Longrightarrow> x \<le> t" using q(2) pre(1,4) assms(2) by fastforce+
    with q(1) pre(3) show ?thesis by (intro tracksI [of _ ts]) simp_all
  qed
qed

lemma tracks_allowed:
  assumes "tracks n d q now ts" "now \<le> t" "0 < n" "0 \<le> d"
  shows "allowed_at n d ts t \<longleftrightarrow> length q < n \<or> t - hd q \<ge> d"
proof -
  obtain pre where pre: "ts = pre @ q" "length q = n \<or> (\<forall>x \<in> set pre. x + d \<le> now)" "sorted ts" "length q \<le> n"
    using assms(1) by (auto simp: tracks_def)
  show ?thesis
  proof (cases "length q < n")
    case True
    with pre(2) assms(2) have "filter (\<lambda>x. t - d < x) pre = []" by (fastforce simp: filter_empty_conv)
    moreover have "length (filter (\<lambda>x. t - d < x) q) \<le> length q" by simp
    ultimately have "allowed_at n d ts t" using True by (simp add: allowed_at_def pre(1) del: length_filter_le)
    with True show ?thesis by simp
  next
    case False
    with pre(4) have n: "length q = n" by simp
    then obtain y ys where q: "q = y # ys" using assms(3) by (cases q) auto
    have le: "\<forall>x \<in> set pre. x \<le> y" and ge: "\<forall>x \<in> set ys. y \<le> x" using pre(1,3) by (auto simp: q sorted_append)
    show ?thesis
    proof (cases "t - y \<ge> d")
      case True
      then have "filter (\<lambda>x. t - d < x) pre = []" "\<not> t - d < y" using le by (fastforce simp: filter_empty_conv)+
      moreover have "length (filter (\<lambda>x. t - d < x) ys) \<le> length ys" by simp
      ultimately have "allowed_at n d ts t" using n q by (simp add: allowed_at_def pre(1) del: length_filter_le)
      with True q show ?thesis by simp
    next
      case False
      then have "filter (\<lambda>x. t - d < x) q = q" using ge by (auto simp: q filter_id_conv)
      then have "\<not> allowed_at n d ts t" using n by (simp add: allowed_at_def pre(1))
      with False q n show ?thesis by simp
    qed
  qed
qed

lemma tracks_accept:
  assumes "tracks n d q now ts" "now \<le> t" "0 < n" "q' = (if length q < n then q @ [t] else tl q @ [t])"
  shows "tracks n d q' t (ts @ [t])"
proof -
  obtain pre where pre: "ts = pre @ q" "length q = n \<or> (\<forall>x \<in> set pre. x + d \<le> now)" "sorted ts" "\<forall>x \<in> set ts. x \<le> now" "length q \<le> n"
    using assms(1) by (auto simp: tracks_def)
  have s: "sorted (ts @ [t])" "\<forall>x \<in> set (ts @ [t]). x \<le> t" using pre(3,4) assms(2) by (auto simp: sorted_append)
  show ?thesis
  proof (cases "length q < n")
    case True
    with pre assms(2) have "\<forall>x \<in> set pre. x + d \<le> t" by fastforce
    with True s pre(1) assms(4) show ?thesis by (simp add: tracks_def)
  next
    case False
    with pre(5) assms(3) obtain y ys where q: "q = y # ys" "length q = n" by (cases q) auto
    have "ts @ [t] = (pre @ [y]) @ q'" "length q' = n" using q False assms(4) pre(1) by auto
    with s show ?thesis unfolding tracks_def by blast
  qed
qed

section \<open>The contract of a limiter\<close>

text \<open>\<open>entries t s\<close> are the times a limiter in state \<open>s\<close> still knows at \<open>t\<close>, oldest first; \<open>ok t s\<close> is its invariant.\<close>

locale window_limiter =
  fixes request :: "int \<Rightarrow> 's \<Rightarrow> bool option \<times> 's" and entries :: "int \<Rightarrow> 's \<Rightarrow> int list" and ok :: "int \<Rightarrow> 's \<Rightarrow> bool"
    and n :: nat and d :: int
  assumes positive: "0 < n" "0 \<le> d"
    and later: "ok now s \<Longrightarrow> now \<le> t \<Longrightarrow> ok t s"
    and forget: "ok now s \<Longrightarrow> now \<le> t \<Longrightarrow> entries t s = entries now s \<or> entries t s = [] \<and> (\<forall>x \<in> set (entries now s). x + d \<le> t)"
    and accept: "ok t s \<Longrightarrow> \<forall>x \<in> set (entries t s). x \<le> t \<Longrightarrow> length (entries t s) < n \<or> length (entries t s) = n \<and> t - hd (entries t s) \<ge> d \<Longrightarrow>
      request t s = (b, s') \<Longrightarrow>
      b = Some True \<and> ok t s' \<and> entries t s' = (if length (entries t s) < n then entries t s @ [t] else tl (entries t s) @ [t])"
    and refuse: "ok t s \<Longrightarrow> \<forall>x \<in> set (entries t s). x \<le> t \<Longrightarrow> length (entries t s) = n \<Longrightarrow> t - hd (entries t s) < d \<Longrightarrow>
      request t s = (b, s') \<Longrightarrow>
      b = Some False \<and> ok t s' \<and> entries t s' = entries t s"
begin

lemma passes:
  assumes "ok now s" "tracks n d (entries now s) now ts" "now \<le> t"
  shows "ok t s \<and> tracks n d (entries t s) t ts"
  using tracks_forget [OF assms(2,3) forget [OF assms(1,3)]] later [OF assms(1,3)] by simp

lemma decides:
  assumes "ok now s" "tracks n d (entries now s) now ts" "now \<le> t" "request t s = (b, s')"
  shows "b = Some (allowed_at n d ts t) \<and> ok t s' \<and> tracks n d (entries t s') t (if allowed_at n d ts t then ts @ [t] else ts)"
proof -
  have t: "ok t s" "tracks n d (entries t s) t ts" using passes [OF assms(1-3)] by auto
  have len: "length (entries t s) \<le> n" and le: "\<forall>x \<in> set (entries t s). x \<le> t" using t(2) by (auto simp: tracks_def)
  note al = tracks_allowed [OF t(2) order_refl positive]
  show ?thesis
  proof (cases "allowed_at n d ts t")
    case True
    with al len have "length (entries t s) < n \<or> length (entries t s) = n \<and> t - hd (entries t s) \<ge> d" by auto
    from accept [OF t(1) le this assms(4)] True tracks_accept [OF t(2) order_refl positive(1)] show ?thesis by simp
  next
    case False
    with al len have "length (entries t s) = n" "t - hd (entries t s) < d" by auto
    from refuse [OF t(1) le this assms(4)] False t(2) show ?thesis by simp
  qed
qed

end

section \<open>The in-memory limiter keeps the contract\<close>

definition mem_entries :: "string \<Rightarrow> InMemoryRateLimiter \<Rightarrow> int list" where
  "mem_entries key l = (case lstore l key of None \<Rightarrow> [] | Some q \<Rightarrow> q)"

lemma Request_entries:
  assumes "0 < n" "length (mem_entries key l) \<le> n"
  shows "Request key (int n) d t l =
    (if length (mem_entries key l) < n then (Some True, l\<lparr>lstore := (lstore l)(key \<mapsto> mem_entries key l @ [t])\<rparr>)
     else if t - hd (mem_entries key l) \<ge> d then (Some True, l\<lparr>lstore := (lstore l)(key \<mapsto> tl (mem_entries key l) @ [t])\<rparr>)
     else (Some False, l))"
  using assms by (auto simp: Request_def mem_entries_def split: option.splits)

interpretation mem: window_limiter "Request key (int (Suc m)) (int k)" "\<lambda>_. mem_entries key" "\<lambda>_ l. int k \<le> expirationDuration l" "Suc m" "int k"
  for key m k
proof unfold_locales
  fix t l b l'
  show "b = Some True \<and> int k \<le> expirationDuration l' \<and>
      mem_entries key l' = (if length (mem_entries key l) < Suc m then mem_entries key l @ [t] else tl (mem_entries key l) @ [t])"
    if "int k \<le> expirationDuration l" "length (mem_entries key l) < Suc m \<or> length (mem_entries key l) = Suc m \<and> int k \<le> t - hd (mem_entries key l)"
      "Request key (int (Suc m)) (int k) t l = (b, l')"
    using that Request_entries [of "Suc m" key l "int k" t] by (auto simp: mem_entries_def split: if_splits)
  show "b = Some False \<and> int k \<le> expirationDuration l' \<and> mem_entries key l' = mem_entries key l"
    if "int k \<le> expirationDuration l" "length (mem_entries key l) = Suc m" "t - hd (mem_entries key l) < int k"
      "Request key (int (Suc m)) (int k) t l = (b, l')"
    using that Request_entries [of "Suc m" key l "int k" t] by auto
qed simp_all

text \<open>The life of a limiter, seen from a key: requests for it, for other keys, and rounds of the clearing goroutine, with
  the times of the accepted requests for the key.\<close>

inductive mem_run :: "string \<Rightarrow> int \<Rightarrow> int \<Rightarrow> InMemoryRateLimiter \<Rightarrow> int \<Rightarrow> int list \<Rightarrow> bool" for key n d where
  start: "lstore l key = None \<Longrightarrow> d \<le> expirationDuration l \<Longrightarrow> mem_run key n d l now []"
| request: "mem_run key n d l now ts \<Longrightarrow> now \<le> t \<Longrightarrow> Request key n d t l = (b, l') \<Longrightarrow>
    mem_run key n d l' t (if b = Some True then ts @ [t] else ts)"
| other: "mem_run key n d l now ts \<Longrightarrow> now \<le> t \<Longrightarrow> key' \<noteq> key \<Longrightarrow> Request key' n' d' t l = (b, l') \<Longrightarrow> mem_run key n d l' t ts"
| clear: "mem_run key n d l now ts \<Longrightarrow> now \<le> t \<Longrightarrow> mem_run key n d (clearExpiredItems t l) t ts"

lemma Request_other:
  "Request key' n d t l = (b, l') \<Longrightarrow> key' \<noteq> key \<Longrightarrow> mem_entries key l' = mem_entries key l \<and> expirationDuration l' = expirationDuration l"
  by (auto simp: Request_def mem_entries_def split: option.splits if_splits)

lemma clear_entries:
  assumes "d \<le> expirationDuration l" "\<forall>x \<in> set (mem_entries key l). x \<le> last (mem_entries key l)"
  shows "mem_entries key (clearExpiredItems t l) = mem_entries key l \<or>
    mem_entries key (clearExpiredItems t l) = [] \<and> (\<forall>x \<in> set (mem_entries key l). x + d \<le> t)"
proof (cases "mem_entries key l = [] \<or> t - last (mem_entries key l) \<le> expirationDuration l")
  case True
  then show ?thesis by (auto simp: clearExpiredItems_def mem_entries_def split: option.splits)
next
  case False
  then have "\<forall>x \<in> set (mem_entries key l). x + d \<le> t" using assms by fastforce
  with False show ?thesis by (auto simp: clearExpiredItems_def mem_entries_def split: option.splits)
qed

lemma sorted_le_last: "sorted xs \<Longrightarrow> x \<in> set xs \<Longrightarrow> x \<le> last xs" for xs :: "int list"
  by (induction xs) (auto split: if_splits intro: order_trans)

lemma tracks_sorted: "tracks n d q now ts \<Longrightarrow> sorted q"
  by (auto simp: tracks_def sorted_append)

lemma mem_run_tracks:
  assumes "mem_run key (int (Suc m)) (int k) l now ts"
  shows "int k \<le> expirationDuration l \<and> tracks (Suc m) (int k) (mem_entries key l) now ts"
  using assms
proof (induction rule: mem_run.induct)
  case (start l now)
  then show ?case by (simp add: mem_entries_def)
next
  case (request l now ts t b l')
  with mem.decides [of k l m key now ts t b l'] show ?case by auto
next
  case (other l now ts t key' n' d' b l')
  with Request_other [of key' n' d' t l b l' key] mem.passes [of k l m key now ts t] show ?case by simp
next
  case (clear l now ts t)
  have "\<forall>x \<in> set (mem_entries key l). x \<le> last (mem_entries key l)"
    using clear.IH tracks_sorted by (blast intro: sorted_le_last)
  with clear clear_entries [of "int k" l key t] tracks_forget [of "Suc m" "int k" "mem_entries key l" now ts t]
  show ?case by (auto simp: clearExpiredItems_def)
qed

text \<open>C34. The in-memory limiter is a sliding window: whatever happened before, it accepts a request for a key exactly when
  fewer than \<open>n\<close> of all accepted requests for that key lie within the last \<open>d\<close> seconds, as long as entries are kept at
  least that long.\<close>

theorem in_memory_limiter_exact:
  assumes "mem_run key n d l now ts" "now \<le> t" "0 < n" "0 \<le> d"
  shows "fst (Request key n d t l) = Some (allowed_at (nat n) d ts t)"
proof -
  obtain m k where mk: "n = int (Suc m)" "d = int k"
    using assms(3,4) by (metis Suc_pred nonneg_int_cases pos_int_cases)
  from mem_run_tracks [of key m k l now ts] assms(1) mk
  have "int k \<le> expirationDuration l" "tracks (Suc m) (int k) (mem_entries key l) now ts" by auto
  with mem.decides [of k l m key now ts t] assms(2) mk show ?thesis
    by (metis fst_conv nat_int surj_pair)
qed

definition ex_limiter :: InMemoryRateLimiter where
  "ex_limiter = \<lparr>lstore = (\<lambda>_. None), linit = True, expirationDuration = 1200\<rparr>"

theorem in_memory_limiter_exact_witness:
  "fst (Request ''k'' 1 5 3 (snd (Request ''k'' 1 5 0 ex_limiter))) = Some (allowed_at 1 5 [0] 3) \<and> \<not> allowed_at 1 5 [0] 3"
proof -
  have "Request ''k'' 1 5 0 ex_limiter = (Some True, snd (Request ''k'' 1 5 0 ex_limiter))" by (simp add: Request_def ex_limiter_def)
  then have "mem_run ''k'' 1 5 (snd (Request ''k'' 1 5 0 ex_limiter)) 0 [0]"
    using mem_run.request [OF mem_run.start, of ex_limiter "''k''" 5 0 0 1] by (fastforce simp: ex_limiter_def)
  with in_memory_limiter_exact [of "''k''" 1 5 "snd (Request ''k'' 1 5 0 ex_limiter)" 0 "[0]" 3] show ?thesis
    by (simp add: allowed_at_def)
qed

section \<open>The Redis limiter keeps the contract\<close>

definition as_decision :: "outcome \<times> redis \<Rightarrow> bool option \<times> redis" where
  "as_decision = (\<lambda>(ok, r). (if ok = Pass then Some True else if ok = Reject 429 then Some False else None, r))"

text \<open>No command fails, and the list of the key is kept until its entries do not matter.\<close>

definition redis_ok :: "string \<Rightarrow> int \<Rightarrow> redis \<Rightarrow> bool" where
  "redis_ok key d r \<longleftrightarrow> rfaults r = [] \<and>
     (\<forall>xs e. rlists r key = Some (xs, e) \<longrightarrow> xs \<noteq> [] \<and> (\<exists>e'. e = Some e' \<and> (\<forall>x \<in> set xs. x + d \<le> e')))"

lemma rcmd_ok: "rfaults r = [] \<Longrightarrow> rcmd f r = (case f r of (x, r') \<Rightarrow> (Some x, r'\<lparr>rfaults := []\<rparr>))"
  by (simp add: rcmd_def)

lemma LLen_ok: "rfaults r = [] \<Longrightarrow> LLen now key r = (Some (int (length (live now key r))), r)"
  by (simp add: LLen_def rcmd_ok)

lemma LIndexLast_ok: "rfaults r = [] \<Longrightarrow> live now key r \<noteq> [] \<Longrightarrow> LIndexLast now key r = (Some (Some (last (live now key r))), r)"
  by (simp add: LIndexLast_def rcmd_ok)

lemma LPush_ok: "rfaults r = [] \<Longrightarrow>
    LPush now key x r = (Some (), r\<lparr>rlists := (rlists r)(key \<mapsto> (x # live now key r, ttl_of now key r))\<rparr>)"
  by (simp add: LPush_def rcmd_ok)

lemma live_pushed: "live now key (r\<lparr>rlists := (rlists r)(key \<mapsto> (xs, ttl_of now key r'))\<rparr>) = xs"
  by (auto simp: live_def ttl_of_def split: option.splits)

lemma Expire_ok: "rfaults r = [] \<Longrightarrow> live now key r \<noteq> [] \<Longrightarrow>
    Expire now key ttl r = (Some (), r\<lparr>rlists := (rlists r)(key \<mapsto> (live now key r, Some (now + ttl)))\<rparr>)"
  by (simp add: Expire_def rcmd_ok)

lemma LTrim_ok: "rfaults r = [] \<Longrightarrow> live now key r \<noteq> [] \<Longrightarrow>
    LTrim now key (int m) r = (Some (), r\<lparr>rlists := (rlists r)(key \<mapsto> (take (Suc m) (live now key r), ttl_of now key r))\<rparr>)"
  by (simp add: LTrim_def rcmd_ok Let_def nat_add_distrib)

lemma live_set: "0 < ttl \<Longrightarrow> live now key (r\<lparr>rlists := (rlists r)(key \<mapsto> (xs, Some (now + ttl)))\<rparr>) = xs"
  by (simp add: live_def)

lemma seconds_less: "0 \<le> x \<Longrightarrow> seconds x < int k \<longleftrightarrow> x < 1000 * int k"
  by (auto simp: seconds_def)

lemma redis_ok_set:
  "rfaults r = [] \<Longrightarrow> xs \<noteq> [] \<Longrightarrow> \<forall>x \<in> set xs. x \<le> now \<Longrightarrow> d \<le> ttl \<Longrightarrow>
   redis_ok key d (r\<lparr>rlists := (rlists r)(key \<mapsto> (xs, Some (now + ttl)))\<rparr>)"
  by (fastforce simp: redis_ok_def)

lemma redis_push:
  assumes "redis_ok key d r" "length (live now key r) < Suc m" "0 < ttl"
  shows "userRedisRateLimiter ttl (int (Suc m)) k key now r =
    (Pass, r\<lparr>rlists := (rlists r)(key \<mapsto> (now # live now key r, Some (now + ttl)))\<rparr>)"
  using assms by (simp add: userRedisRateLimiter_def LLen_ok redis_ok_def LPush_ok Expire_ok live_pushed)

lemma redis_slide:
  assumes "redis_ok key d r" "length (live now key r) = Suc m" "0 < ttl" "seconds (now - last (live now key r)) \<ge> k"
  shows "userRedisRateLimiter ttl (int (Suc m)) k key now r =
    (Pass, r\<lparr>rlists := (rlists r)(key \<mapsto> (now # butlast (live now key r), Some (now + ttl)))\<rparr>)"
proof -
  have f: "rfaults r = []" using assms(1) by (simp add: redis_ok_def)
  have ne: "live now key r \<noteq> []" using assms(2) by auto
  let ?r1 = "r\<lparr>rlists := (rlists r)(key \<mapsto> (now # live now key r, ttl_of now key r))\<rparr>"
  have t: "ttl_of now key ?r1 = ttl_of now key r" by (auto simp: ttl_of_def split: option.splits)
  have tr: "LTrim now key (int m) ?r1 = (Some (), r\<lparr>rlists := (rlists r)(key \<mapsto> (now # butlast (live now key r), ttl_of now key r))\<rparr>)"
    using assms(2) f by (subst LTrim_ok) (simp_all add: live_pushed t butlast_conv_take)
  show ?thesis using assms f ne tr
    by (simp add: userRedisRateLimiter_def LLen_ok LIndexLast_ok LPush_ok Expire_ok live_pushed)
qed

lemma redis_reject:
  assumes "redis_ok key d r" "length (live now key r) = Suc m" "0 < ttl" "seconds (now - last (live now key r)) < k"
  shows "userRedisRateLimiter ttl (int (Suc m)) k key now r =
    (Reject 429, r\<lparr>rlists := (rlists r)(key \<mapsto> (live now key r, Some (now + ttl)))\<rparr>)"
proof -
  have "rfaults r = []" "live now key r \<noteq> []" using assms(1,2) by (auto simp: redis_ok_def)
  with assms show ?thesis by (simp add: userRedisRateLimiter_def LLen_ok LIndexLast_ok Expire_ok)
qed

lemma rev_butlast_tl: "rev (butlast xs) = tl (rev xs)"
  by (metis butlast_rev rev_rev_ident)

lemma redis_forget:
  assumes "redis_ok key d r" "now \<le> t"
  shows "live t key r = live now key r \<or> live t key r = [] \<and> (\<forall>x \<in> set (live now key r). x + d \<le> t)"
proof (cases "rlists r key")
  case None
  then show ?thesis by (simp add: live_def)
next
  case (Some p)
  then obtain xs e where p: "rlists r key = Some (xs, Some e)" "\<forall>x \<in> set xs. x + d \<le> e"
    using assms(1) by (cases p) (auto simp: redis_ok_def)
  then show ?thesis using assms(2) by (cases "t < e") (fastforce simp: live_def)+
qed

lemma redis_accept:
  assumes "redis_ok key (1000 * int k) r" "\<forall>x \<in> set (live t key r). x \<le> t" "1000 * int k \<le> ttl" "0 < ttl"
    and "length (live t key r) < Suc m \<or> length (live t key r) = Suc m \<and> 1000 * int k \<le> t - last (live t key r)"
  shows "\<exists>r'. userRedisRateLimiter ttl (int (Suc m)) (int k) key t r = (Pass, r') \<and> redis_ok key (1000 * int k) r' \<and>
    rev (live t key r') = (if length (live t key r) < Suc m then rev (live t key r) @ [t] else tl (rev (live t key r)) @ [t])"
proof (cases "length (live t key r) < Suc m")
  case True
  show ?thesis using redis_push [OF assms(1) True assms(4), of "int k"] True assms
    by (auto simp: live_set redis_ok_def [of _ _ r] intro!: redis_ok_set)
next
  case False
  then have l: "length (live t key r) = Suc m" "1000 * int k \<le> t - last (live t key r)" using assms(5) by auto
  then have "live t key r \<noteq> []" by auto
  then have "0 \<le> t - last (live t key r)" using assms(2) by simp
  then have s: "seconds (t - last (live t key r)) \<ge> int k" using l(2) seconds_less [of _ k] by (meson linorder_not_less)
  show ?thesis using redis_slide [OF assms(1) l(1) assms(4) s] l(1) assms
    by (auto simp: live_set redis_ok_def [of _ _ r] rev_butlast_tl dest!: in_set_butlastD intro!: redis_ok_set)
qed

lemma redis_refuse:
  assumes "redis_ok key (1000 * int k) r" "\<forall>x \<in> set (live t key r). x \<le> t" "1000 * int k \<le> ttl" "0 < ttl"
    and "length (live t key r) = Suc m" "t - last (live t key r) < 1000 * int k"
  shows "\<exists>r'. userRedisRateLimiter ttl (int (Suc m)) (int k) key t r = (Reject 429, r') \<and> redis_ok key (1000 * int k) r' \<and>
    live t key r' = live t key r"
proof -
  have ne: "live t key r \<noteq> []" using assms(5) by auto
  then have "0 \<le> t - last (live t key r)" using assms(2) by simp
  then have s: "seconds (t - last (live t key r)) < int k" using assms(6) seconds_less by blast
  show ?thesis using redis_reject [OF assms(1,5,4) s] ne assms(1-4)
    by (auto simp: live_set redis_ok_def [of _ _ r] intro!: redis_ok_set)
qed

interpretation rds: window_limiter "\<lambda>t r. as_decision (userRedisRateLimiter (1000 * int k + int x + 1) (int (Suc m)) (int k) key t r)"
    "\<lambda>t r. rev (live t key r)" "\<lambda>_. redis_ok key (1000 * int k)" "Suc m" "1000 * int k"
  for key m k x
proof unfold_locales
  fix now t :: int and r b r'
  show "rev (live t key r) = rev (live now key r) \<or> rev (live t key r) = [] \<and> (\<forall>x \<in> set (rev (live now key r)). x + 1000 * int k \<le> t)"
    if "redis_ok key (1000 * int k) r" "now \<le> t"
    using redis_forget [OF that] by auto
  show "b = Some True \<and> redis_ok key (1000 * int k) r' \<and>
      rev (live t key r') = (if length (rev (live t key r)) < Suc m then rev (live t key r) @ [t] else tl (rev (live t key r)) @ [t])"
    if "redis_ok key (1000 * int k) r" "\<forall>x \<in> set (rev (live t key r)). x \<le> t"
      and "length (rev (live t key r)) < Suc m \<or> length (rev (live t key r)) = Suc m \<and> 1000 * int k \<le> t - hd (rev (live t key r))"
      and "as_decision (userRedisRateLimiter (1000 * int k + int x + 1) (int (Suc m)) (int k) key t r) = (b, r')"
    using that redis_accept [of key k r t "1000 * int k + int x + 1" m] by (fastforce simp: as_decision_def hd_rev)
  show "b = Some False \<and> redis_ok key (1000 * int k) r' \<and> rev (live t key r') = rev (live t key r)"
    if "redis_ok key (1000 * int k) r" "\<forall>x \<in> set (rev (live t key r)). x \<le> t"
      and "length (rev (live t key r)) = Suc m" "t - hd (rev (live t key r)) < 1000 * int k"
      and "as_decision (userRedisRateLimiter (1000 * int k + int x + 1) (int (Suc m)) (int k) key t r) = (b, r')"
    using that redis_refuse [of key k r t "1000 * int k + int x + 1" m] by (fastforce simp: as_decision_def hd_rev)
qed simp_all

inductive redis_run :: "string \<Rightarrow> int \<Rightarrow> int \<Rightarrow> int \<Rightarrow> redis \<Rightarrow> int \<Rightarrow> int list \<Rightarrow> bool" for key ttl n d where
  start: "rfaults r = [] \<Longrightarrow> rlists r key = None \<Longrightarrow> redis_run key ttl n d r now []"
| request: "redis_run key ttl n d r now ts \<Longrightarrow> now \<le> t \<Longrightarrow> userRedisRateLimiter ttl n d key t r = (ok, r') \<Longrightarrow>
    redis_run key ttl n d r' t (if ok = Pass then ts @ [t] else ts)"
| other: "redis_run key ttl n d r now ts \<Longrightarrow> now \<le> t \<Longrightarrow> key' \<noteq> key \<Longrightarrow> userRedisRateLimiter ttl' n' d' key' t r = (ok, r') \<Longrightarrow>
    redis_run key ttl n d r' t ts"

lemma LIndexLast_eq:
  "rfaults r = [] \<Longrightarrow> LIndexLast t key r = (Some (if live t key r = [] then None else Some (last (live t key r))), r)"
  by (cases r) (simp add: LIndexLast_def rcmd_ok)

lemma redis_commands_other:
  assumes "rfaults r = []" "key' \<noteq> key"
  shows "rfaults (snd (LPush t key' x r)) = [] \<and> rlists (snd (LPush t key' x r)) key = rlists r key"
    "rfaults (snd (LTrim t key' m r)) = [] \<and> rlists (snd (LTrim t key' m r)) key = rlists r key"
    "rfaults (snd (Expire t key' ttl r)) = [] \<and> rlists (snd (Expire t key' ttl r)) key = rlists r key"
  using assms by (simp_all add: LPush_def LTrim_def Expire_def rcmd_ok Let_def)

lemma userRedisRateLimiter_other:
  assumes "userRedisRateLimiter ttl n d key' t r = (ok, r')" "key' \<noteq> key" "rfaults r = []"
  shows "rfaults r' = [] \<and> rlists r' key = rlists r key"
proof (cases "int (length (live t key' r)) < n")
  case True
  then have "r' = snd (Expire t key' ttl (snd (LPush t key' t r)))"
    using assms(1,3) by (simp add: userRedisRateLimiter_def LLen_ok)
  then show ?thesis using redis_commands_other [OF _ assms(2)] assms(3) by simp
next
  case False
  then have "r' = r \<or> r' = snd (Expire t key' ttl r) \<or>
      r' = snd (Expire t key' ttl (snd (LTrim t key' (n - 1) (snd (LPush t key' t r)))))"
    using assms(1,3) by (auto simp: userRedisRateLimiter_def LLen_ok LIndexLast_eq split: if_splits)
  then show ?thesis using redis_commands_other [OF _ assms(2)] assms(3) by auto
qed

lemma redis_ok_cong: "rfaults r' = rfaults r \<Longrightarrow> rlists r' key = rlists r key \<Longrightarrow> redis_ok key d r' = redis_ok key d r \<and> live t key r' = live t key r"
  by (simp add: redis_ok_def live_def)

lemma as_decision_Pass: "as_decision (ok, r) = (Some b, r') \<Longrightarrow> ok = (if b then Pass else Reject 429) \<and> r' = r"
  by (auto simp: as_decision_def split: if_splits)

lemma redis_run_tracks:
  assumes "redis_run key (1000 * int k + int x + 1) (int (Suc m)) (int k) r now ts"
  shows "redis_ok key (1000 * int k) r \<and> tracks (Suc m) (1000 * int k) (rev (live now key r)) now ts"
  using assms
proof (induction rule: redis_run.induct)
  case (start r now)
  then show ?case by (simp add: redis_ok_def live_def)
next
  case (request r now ts t ok r')
  obtain b s' where d: "as_decision (userRedisRateLimiter (1000 * int k + int x + 1) (int (Suc m)) (int k) key t r) = (b, s')"
    by (metis surj_pair)
  from rds.decides [OF conjunct1 conjunct2, OF request.IH request.IH request.hyps(2) d]
  have "b = Some (allowed_at (Suc m) (1000 * int k) ts t)" "redis_ok key (1000 * int k) s'"
    "tracks (Suc m) (1000 * int k) (rev (live t key s')) t (if allowed_at (Suc m) (1000 * int k) ts t then ts @ [t] else ts)" by auto
  with d as_decision_Pass [of ok r' "allowed_at (Suc m) (1000 * int k) ts t" s'] request.hyps(3) show ?case by (auto split: if_splits)
next
  case (other r now ts t key' ttl' n' d' ok r')
  then have f: "rfaults r = []" by (simp add: redis_ok_def)
  have "redis_ok key (1000 * int k) r \<and> tracks (Suc m) (1000 * int k) (rev (live t key r)) t ts"
    using rds.passes [OF conjunct1 conjunct2, OF other.IH other.IH other.hyps(2)] .
  with userRedisRateLimiter_other [OF other.hyps(4,3) f] redis_ok_cong [of r' r key "1000 * int k" t] f show ?case by simp
qed

text \<open>C35. The Redis limiter is the same sliding window, measured in milliseconds: while no command fails and keys are kept
  longer than the window, it lets a request pass exactly when fewer than \<open>n\<close> of all passed requests for the key lie within
  the last \<open>d\<close> seconds, and answers 429 otherwise.\<close>

theorem redis_limiter_exact:
  assumes "redis_run key ttl n d r now ts" "now \<le> t" "0 < n" "0 \<le> d" "1000 * d < ttl"
  shows "fst (userRedisRateLimiter ttl n d key t r) = (if allowed_at (nat n) (1000 * d) ts t then Pass else Reject 429)"
proof -
  obtain m k where mk: "n = int (Suc m)" "d = int k"
    using assms(3,4) by (metis Suc_pred nonneg_int_cases pos_int_cases)
  obtain x where x: "ttl = 1000 * int k + int x + 1" using assms(5) mk(2) by (metis add.commute add.left_commute zless_iff_Suc_zadd of_nat_Suc)
  obtain ok r' where q: "userRedisRateLimiter ttl n d key t r = (ok, r')" by (metis surj_pair)
  obtain b s' where e: "as_decision (ok, r') = (b, s')" by (metis surj_pair)
  have tr: "redis_ok key (1000 * int k) r \<and> tracks (Suc m) (1000 * int k) (rev (live now key r)) now ts"
    using redis_run_tracks [of key k x m r now ts] assms(1) by (simp add: mk x)
  have "b = Some (allowed_at (Suc m) (1000 * int k) ts t)"
    using rds.decides [OF conjunct1 conjunct2, OF tr tr assms(2), of x b s'] q e by (simp add: mk x)
  moreover have "nat n = Suc m" by (simp only: mk nat_int)
  ultimately show ?thesis using e as_decision_Pass [of ok r' "allowed_at (Suc m) (1000 * int k) ts t" s'] q mk(2) by simp
qed

definition ex_redis :: redis where
  "ex_redis = \<lparr>rlists = (\<lambda>_. None), rbuckets = (\<lambda>_. None), rfaults = []\<rparr>"

theorem redis_limiter_exact_witness:
  "fst (userRedisRateLimiter 1200000 1 5 ''k'' 3000 (snd (userRedisRateLimiter 1200000 1 5 ''k'' 0 ex_redis))) = Reject 429"
proof -
  let ?r = "snd (userRedisRateLimiter 1200000 1 5 ''k'' 0 ex_redis)"
  have "userRedisRateLimiter 1200000 1 5 ''k'' 0 ex_redis = (Pass, ?r)"
    by (simp add: userRedisRateLimiter_def LLen_ok live_def ex_redis_def)
  then have "redis_run ''k'' 1200000 1 5 ?r 0 [0]"
    using redis_run.request [OF redis_run.start, of ex_redis "''k''" 0 0 1200000 1 5 Pass ?r] by (simp add: ex_redis_def)
  with redis_limiter_exact [of "''k''" 1200000 1 5 ?r 0 "[0]" 3000] show ?thesis by (simp add: allowed_at_def)
qed

section \<open>The token bucket\<close>

text \<open>The answers of the script to requests at the times \<open>ts\<close>, and how many of them grant.\<close>

fun granted :: "Config \<Rightarrow> (int \<times> int) option \<Rightarrow> int list \<Rightarrow> nat" where
  "granted C b [] = 0"
| "granted C b (t # ts) = (case rate_limit_script C t b of (ok, b') \<Rightarrow> (if ok then 1 else 0) + granted C (Some b') ts)"

text \<open>A bucket as the script leaves it: between empty and full.\<close>

definition good_bucket :: "Config \<Rightarrow> int \<Rightarrow> (int \<times> int) option \<Rightarrow> bool" where
  "good_bucket C now b \<longleftrightarrow> (case b of None \<Rightarrow> True | Some (tokens, last_time) \<Rightarrow> 0 \<le> tokens \<and> tokens \<le> Capacity C \<and> last_time \<le> now)"

lemma script_step:
  assumes "0 \<le> Capacity C" "0 \<le> Rate C" "0 \<le> Requested C" "good_bucket C t b" "rate_limit_script C t b = (ok, b')"
  shows "good_bucket C t (Some b') \<and> snd b' = t \<and>
    (if ok then Requested C else 0) + fst b' \<le> (case b of None \<Rightarrow> Capacity C | Some (k, l) \<Rightarrow> k + (t - l) * Rate C)"
  using assms by (auto simp: rate_limit_script_def good_bucket_def Let_def split: option.splits if_splits prod.splits)

lemma good_later: "good_bucket C t b \<Longrightarrow> t \<le> t' \<Longrightarrow> good_bucket C t' b"
  by (auto simp: good_bucket_def split: option.splits)

lemma granted_from:
  assumes "0 \<le> Capacity C" "0 \<le> Rate C" "0 \<le> Requested C" "good_bucket C l (Some (k, l))" "sorted (l # ts)"
  shows "int (granted C (Some (k, l)) ts) * Requested C \<le> k + (last (l # ts) - l) * Rate C"
  using assms(4,5)
proof (induction ts arbitrary: k l)
  case Nil
  then show ?case by (simp add: good_bucket_def)
next
  case (Cons t ts)
  obtain ok k' l' where s: "rate_limit_script C t (Some (k, l)) = (ok, (k', l'))" by (metis surj_pair)
  have "good_bucket C t (Some (k, l))" using Cons.prems by (auto simp: good_bucket_def)
  from script_step [OF assms(1-3) this s]
  have st: "good_bucket C t (Some (k', t))" "l' = t" "(if ok then Requested C else 0) + k' \<le> k + (t - l) * Rate C" by auto
  have ih: "int (granted C (Some (k', t)) ts) * Requested C \<le> k' + (last (t # ts) - t) * Rate C"
    using Cons.IH [OF st(1)] Cons.prems(2) by simp
  have "int (granted C (Some (k, l)) (t # ts)) * Requested C = (if ok then Requested C else 0) + int (granted C (Some (k', t)) ts) * Requested C"
    using s st(2) by (simp add: distrib_right)
  also have "\<dots> \<le> k + (t - l) * Rate C + (last (t # ts) - t) * Rate C" using st(3) ih by linarith
  also have "\<dots> = k + (last (l # t # ts) - l) * Rate C" by (simp add: algebra_simps)
  finally show ?case .
qed

text \<open>C36. In any period the requests that the token bucket grants to a key cost at most a full bucket and what flows in during
  the period; with the parameters of the model-request limit that is at most twice the configured number in one window.\<close>

theorem token_bucket_bound:
  assumes "0 < n" "0 < duration" "good_bucket C t b" "sorted (t # ts)" "last (t # ts) \<le> t + duration"
    and "C = \<lparr>Capacity = n * duration, Rate = n, Requested = duration\<rparr>"
  shows "int (granted C b (t # ts)) \<le> 2 * n"
proof -
  have C: "0 \<le> Capacity C" "0 \<le> Rate C" "0 \<le> Requested C" using assms(1,2,6) by simp_all
  obtain ok k l where s: "rate_limit_script C t b = (ok, (k, l))" by (metis surj_pair)
  have st: "good_bucket C t (Some (k, l))" "l = t" using script_step [OF C assms(3) s] by auto
  have full: "(if ok then Requested C else 0) + k \<le> Capacity C"
    using s C(1) assms(3) by (auto simp: rate_limit_script_def Let_def good_bucket_def split: option.splits if_splits)
  have "int (granted C b (t # ts)) * Requested C = (if ok then Requested C else 0) + int (granted C (Some (k, t)) ts) * Requested C"
    using s st(2) by (simp add: distrib_right)
  also have "\<dots> \<le> Capacity C + (last (t # ts) - t) * Rate C"
    using granted_from [OF C, of t k ts] st assms(4) full by simp
  also have "\<dots> \<le> n * duration + duration * n"
    using assms(1,5,6) by (simp add: mult_right_mono)
  finally have "int (granted C b (t # ts)) * duration \<le> 2 * n * duration" using assms(6) by (simp add: algebra_simps)
  with assms(2) show ?thesis by simp
qed

theorem token_bucket_bound_witness:
  "int (granted \<lparr>Capacity = 2 * 60, Rate = 2, Requested = 60\<rparr> None [0, 1, 2, 30, 59]) \<le> 2 * 2 \<and>
   granted \<lparr>Capacity = 2 * 60, Rate = 2, Requested = 60\<rparr> None [0, 1, 2, 30, 59] = 3"
  using token_bucket_bound [of 2 60 "\<lparr>Capacity = 2 * 60, Rate = 2, Requested = 60\<rparr>" 0 None "[1, 2, 30, 59]"]
  by (simp add: good_bucket_def rate_limit_script_def)

section \<open>The two model-request limits differ\<close>

text \<open>The in-memory limit on successful requests counts every request: with a limit of one, a request that failed makes
  the next one be refused, where the Redis limit lets it pass.\<close>

theorem memory_limit_counts_failures:
  "let M = \<lparr>ModelRequestRateLimitEnabled = True, ModelRequestRateLimitDurationMinutes = 1, ModelRequestRateLimitCount = 0,
             ModelRequestRateLimitSuccessCount = 1, ModelRequestRateLimitGroup = (\<lambda>_. None)\<rparr>;
       l = snd (memoryRateLimitHandler M 60 0 1 7 0 1 500 ex_limiter);
       r = snd (redisRateLimitHandler M 60 0 1 7 0 1000 500 ex_redis) in
   fst (memoryRateLimitHandler M 60 0 1 7 2 3 200 l) = Reject 429 \<and> fst (redisRateLimitHandler M 60 0 1 7 2000 3000 200 r) = Pass"
  by (simp add: Let_def memoryRateLimitHandler_def redisRateLimitHandler_def Request_def ex_limiter_def ex_redis_def Init_def
      checkRedisRateLimit_def LLen_ok live_def)

end
