(* ===== verification/Credit.thy ===== *)
theory Credit
  imports Tokens Decimal
begin

text \<open>
  What gives a user quota: paid orders (\<^verbatim>\<open>src/model/topup.go\<close>, the payment callback of \<^verbatim>\<open>src/controller/topup.go\<close>),
  redemption codes (\<^verbatim>\<open>src/model/redemption.go\<close>), daily check-ins (\<^verbatim>\<open>src/model/checkin.go\<close>) and invitations
  (\<^verbatim>\<open>src/model/user.go\<close>), without the log entries. Messages are in English.
\<close>

section \<open>Settings\<close>

text \<open>
  \<open>storeQuota\<close> is what an integer column takes of a number with a fraction.
\<close>

record pay_conf =
  QuotaPerUnit :: rat
  floats :: float_ops
  decimals :: decimal_ops
  storeQuota :: "rat \<Rightarrow> int"
  QuotaForInviter :: int
  checkinEnabled :: bool
  MinQuota :: int
  MaxQuota :: int

section \<open>Orders\<close>

text \<open>\<^verbatim>\<open>Create\<close> on a table with a unique column: the row gets its id.\<close>

definition topup_Insert :: "topup \<Rightarrow> unit io" where
  "topup_Insert t = chk (stmt (\<lambda>d. if tuTradeNo t \<in> tuTradeNo ` set (topups d) then (False, d)
      else (True, d\<lparr>topups := topups d @ [t\<lparr>tuId := fresh_id (map tuId (topups d))\<rparr>]\<rparr>)))
     (\<lambda>ok. if ok then ret () else err UniqueViolation)"

definition topup_Update :: "topup \<Rightarrow> unit io" where
  "topup_Update t = exec (\<lambda>d. d\<lparr>topups := save_row tuId t (topups d)\<rparr>)"

definition GetTopUpById :: "int \<Rightarrow> topup option io" where
  "GetTopUpById i = handle (first (\<lambda>d. row tuId i (topups d))) (\<lambda>_. ret None) (\<lambda>t. ret (Some t))"

definition GetTopUpByTradeNo :: "string \<Rightarrow> topup option io" where
  "GetTopUpByTradeNo tradeNo = handle (first (\<lambda>d. row tuTradeNo tradeNo (topups d))) (\<lambda>_. ret None) (\<lambda>t. ret (Some t))"

definition find_topup :: "string \<Rightarrow> topup io" where
  "find_topup tradeNo = handle (first (\<lambda>d. row tuTradeNo tradeNo (topups d))) (\<lambda>_. err (Msg ''topup order does not exist'')) ret"

definition add_quota :: "int \<Rightarrow> int \<Rightarrow> unit io" where
  "add_quota i quota = exec (set_users i (\<lambda>u. u\<lparr>uQuota := uQuota u + quota\<rparr>))"

text \<open>The bodies of the transactions after the order has been read.\<close>

definition recharge_order :: "pay_conf \<Rightarrow> int \<Rightarrow> string \<Rightarrow> topup \<Rightarrow> unit io" where
  "recharge_order P now customerId t =
     (if tuPaymentMethod t \<noteq> ''stripe'' then err (Msg ''payment method mismatch'')
      else if tuStatus t \<noteq> ''pending'' then err (Msg ''topup order has a wrong status'')
      else chk (topup_Update (t\<lparr>tuCompleteTime := now, tuStatus := ''success''\<rparr>)) (\<lambda>_.
             exec (set_users (tuUserId t) (\<lambda>u. u\<lparr>uStripeCustomer := customerId,
               uQuota := uQuota u + storeQuota P (fmul (floats P) (tuMoney t) (QuotaPerUnit P))\<rparr>))))"

definition Recharge :: "pay_conf \<Rightarrow> int \<Rightarrow> string \<Rightarrow> string \<Rightarrow> unit io" where
  "Recharge P now referenceId customerId =
     (if referenceId = '''' then err (Msg ''no payment reference given'')
      else handle (transaction (chk (find_topup referenceId) (recharge_order P now customerId)))
             (\<lambda>_. err (Msg ''topup failed, try again later'')) ret)"

definition manual_quota :: "pay_conf \<Rightarrow> topup \<Rightarrow> int" where
  "manual_quota P t = i64 (IntPart (decimals P) ((if tuPaymentMethod t = ''stripe'' then tuMoney t else of_int (tuAmount t)) * QuotaPerUnit P))"

definition manual_order :: "pay_conf \<Rightarrow> int \<Rightarrow> topup \<Rightarrow> unit io" where
  "manual_order P now t =
     (if tuStatus t = ''success'' then ret ()
      else if tuStatus t \<noteq> ''pending'' then err (Msg ''order is not pending'')
      else if manual_quota P t \<le> 0 then err (Msg ''invalid quota'')
      else chk (topup_Update (t\<lparr>tuCompleteTime := now, tuStatus := ''success''\<rparr>)) (\<lambda>_.
             add_quota (tuUserId t) (manual_quota P t)))"

definition ManualCompleteTopUp :: "pay_conf \<Rightarrow> int \<Rightarrow> string \<Rightarrow> unit io" where
  "ManualCompleteTopUp P now tradeNo =
     (if tradeNo = '''' then err (Msg ''no order number given'')
      else transaction (chk (find_topup tradeNo) (manual_order P now)))"

definition creem_order :: "int \<Rightarrow> string \<Rightarrow> topup \<Rightarrow> unit io" where
  "creem_order now customerEmail t =
     (if tuPaymentMethod t \<noteq> ''creem'' then err (Msg ''payment method mismatch'')
      else if tuStatus t \<noteq> ''pending'' then err (Msg ''topup order has a wrong status'')
      else chk (topup_Update (t\<lparr>tuCompleteTime := now, tuStatus := ''success''\<rparr>)) (\<lambda>_.
           chk (if customerEmail \<noteq> '''' then first (\<lambda>d. map_option Some (find (live_user (tuUserId t)) (users d))) else ret None) (\<lambda>user.
             exec (set_users (tuUserId t) (\<lambda>u. u\<lparr>uQuota := uQuota u + tuAmount t,
               uEmail := (case user of Some x \<Rightarrow> if uEmail x = '''' then customerEmail else uEmail u | None \<Rightarrow> uEmail u)\<rparr>)))))"

definition RechargeCreem :: "int \<Rightarrow> string \<Rightarrow> string \<Rightarrow> unit io" where
  "RechargeCreem now referenceId customerEmail =
     (if referenceId = '''' then err (Msg ''no payment reference given'')
      else handle (transaction (chk (find_topup referenceId) (creem_order now customerEmail)))
             (\<lambda>_. err (Msg ''topup failed, try again later'')) ret)"

definition waffo_order :: "pay_conf \<Rightarrow> int \<Rightarrow> topup \<Rightarrow> unit io" where
  "waffo_order P now t =
     (if tuPaymentMethod t \<noteq> ''waffo'' then err (Msg ''payment method mismatch'')
      else if tuStatus t = ''success'' then ret ()
      else if tuStatus t \<noteq> ''pending'' then err (Msg ''topup order has a wrong status'')
      else let quotaToAdd = i64 (IntPart (decimals P) (of_int (tuAmount t) * QuotaPerUnit P)) in
        if quotaToAdd \<le> 0 then err (Msg ''invalid quota'')
        else chk (topup_Update (t\<lparr>tuCompleteTime := now, tuStatus := ''success''\<rparr>)) (\<lambda>_. add_quota (tuUserId t) quotaToAdd))"

definition RechargeWaffo :: "pay_conf \<Rightarrow> int \<Rightarrow> string \<Rightarrow> unit io" where
  "RechargeWaffo P now tradeNo =
     (if tradeNo = '''' then err (Msg ''no payment reference given'')
      else handle (transaction (chk (find_topup tradeNo) (waffo_order P now)))
             (\<lambda>_. err (Msg ''topup failed, try again later'')) ret)"

text \<open>The handling of a verified callback of a successful payment, under the lock of its order.\<close>

definition EpayNotify :: "conf \<Rightarrow> pay_conf \<Rightarrow> string \<Rightarrow> unit io" where
  "EpayNotify cfg P tradeNo = chk (GetTopUpByTradeNo tradeNo) (\<lambda>r. case r of
       None \<Rightarrow> ret ()
     | Some t \<Rightarrow>
         if tuPaymentMethod t = ''stripe'' \<or> tuPaymentMethod t = ''creem'' \<or> tuPaymentMethod t = ''waffo'' then ret ()
         else if tuStatus t = ''pending'' then
           handle (topup_Update (t\<lparr>tuStatus := ''success''\<rparr>)) (\<lambda>_. ret ()) (\<lambda>_.
             handle (IncreaseUserQuota cfg (tuUserId t) (i64 (IntPart (decimals P) (of_int (tuAmount t) * QuotaPerUnit P))) True)
               (\<lambda>_. ret ()) ret)
         else ret ())"

section \<open>Redemption codes\<close>

abbreviation (input) RedemptionCodeStatusEnabled :: int where "RedemptionCodeStatusEnabled \<equiv> 1"
abbreviation (input) RedemptionCodeStatusDisabled :: int where "RedemptionCodeStatusDisabled \<equiv> 2"
abbreviation (input) RedemptionCodeStatusUsed :: int where "RedemptionCodeStatusUsed \<equiv> 3"

definition find_code :: "string \<Rightarrow> db \<Rightarrow> redemption option" where
  "find_code key d = find (\<lambda>r. rdKey r = key \<and> \<not> rdDeleted r) (redemptions d)"

definition save_code :: "redemption \<Rightarrow> unit io" where
  "save_code r = exec (\<lambda>d. d\<lparr>redemptions := save_row rdId r (redemptions d)\<rparr>)"

text \<open>The transaction after the code has been read.\<close>

definition redeem_code :: "int \<Rightarrow> int \<Rightarrow> redemption \<Rightarrow> int io" where
  "redeem_code now userId r =
     (if rdStatus r \<noteq> RedemptionCodeStatusEnabled then err (Msg ''code already used'')
      else if rdExpiredTime r \<noteq> 0 \<and> rdExpiredTime r < now then err (Msg ''code expired'')
      else chk (add_quota userId (rdQuota r)) (\<lambda>_.
           chk (save_code (r\<lparr>rdRedeemedTime := now, rdStatus := RedemptionCodeStatusUsed, rdUsedUserId := userId\<rparr>)) (\<lambda>_.
           ret (rdQuota r))))"

definition Redeem :: "int \<Rightarrow> string \<Rightarrow> int \<Rightarrow> int io" where
  "Redeem now key userId =
     (if key = '''' then err (Msg ''no code given'')
      else if userId = 0 then err (Msg ''invalid user id'')
      else handle (transaction (chk (handle (first (find_code key)) (\<lambda>_. err (Msg ''invalid code'')) ret) (redeem_code now userId)))
             (\<lambda>_. err (Msg ''redeem failed'')) ret)"

definition redemption_Insert :: "redemption \<Rightarrow> unit io" where
  "redemption_Insert r = chk (stmt (\<lambda>d. if rdKey r \<in> rdKey ` set (redemptions d) then (False, d)
      else (True, d\<lparr>redemptions := redemptions d @ [r\<lparr>rdId := fresh_id (map rdId (redemptions d))\<rparr>]\<rparr>)))
     (\<lambda>ok. if ok then ret () else err UniqueViolation)"

definition upd_code :: "int \<Rightarrow> (redemption \<Rightarrow> redemption) \<Rightarrow> unit io" where
  "upd_code i f = exec (\<lambda>d. d\<lparr>redemptions := upd_where (\<lambda>r. rdId r = i \<and> \<not> rdDeleted r) f (redemptions d)\<rparr>)"

definition redemption_SelectUpdate :: "redemption \<Rightarrow> unit io" where
  "redemption_SelectUpdate r = upd_code (rdId r) (\<lambda>x. x\<lparr>rdRedeemedTime := rdRedeemedTime r, rdStatus := rdStatus r\<rparr>)"

definition redemption_Update :: "redemption \<Rightarrow> unit io" where
  "redemption_Update r = upd_code (rdId r) (\<lambda>x. x\<lparr>rdName := rdName r, rdStatus := rdStatus r, rdQuota := rdQuota r,
     rdRedeemedTime := rdRedeemedTime r, rdExpiredTime := rdExpiredTime r\<rparr>)"

definition redemption_Delete :: "redemption \<Rightarrow> unit io" where
  "redemption_Delete r = upd_code (rdId r) (\<lambda>x. x\<lparr>rdDeleted := True\<rparr>)"

definition DeleteRedemptionById :: "int \<Rightarrow> unit io" where
  "DeleteRedemptionById i =
     (if i = 0 then err (Msg ''id is empty'')
      else chk (first (\<lambda>d. find (\<lambda>r. rdId r = i \<and> \<not> rdDeleted r) (redemptions d))) redemption_Delete)"

definition invalid_code :: "int \<Rightarrow> redemption \<Rightarrow> bool" where
  "invalid_code now r \<longleftrightarrow> \<not> rdDeleted r \<and>
     (rdStatus r \<in> {RedemptionCodeStatusUsed, RedemptionCodeStatusDisabled} \<or>
      rdStatus r = RedemptionCodeStatusEnabled \<and> rdExpiredTime r \<noteq> 0 \<and> rdExpiredTime r < now)"

definition DeleteInvalidRedemptions :: "int \<Rightarrow> int io" where
  "DeleteInvalidRedemptions now = stmt (\<lambda>d. (int (length (filter (invalid_code now) (redemptions d))),
     d\<lparr>redemptions := upd_where (invalid_code now) (\<lambda>r. r\<lparr>rdDeleted := True\<rparr>) (redemptions d)\<rparr>))"

section \<open>Check-ins\<close>

text \<open>The date \<open>today\<close>, the clock \<open>now\<close> and the random number \<open>rnd n\<close> below \<open>n\<close> are arguments.\<close>

definition HasCheckedInToday :: "string \<Rightarrow> int \<Rightarrow> bool io" where
  "HasCheckedInToday today userId =
     query (\<lambda>d. filter (\<lambda>c. ckUserId c = userId \<and> ckCheckinDate c = today) (checkins d) \<noteq> [])"

definition create_checkin :: "checkin \<Rightarrow> checkin io" where
  "create_checkin c = chk (stmt (\<lambda>d.
      if (ckUserId c, ckCheckinDate c) \<in> (\<lambda>x. (ckUserId x, ckCheckinDate x)) ` set (checkins d) then (None, d)
      else let c' = c\<lparr>ckId := fresh_id (map ckId (checkins d))\<rparr> in (Some c', d\<lparr>checkins := checkins d @ [c']\<rparr>)))
     (\<lambda>r. case r of Some c' \<Rightarrow> ret c' | None \<Rightarrow> err UniqueViolation)"

definition userCheckinWithTransaction :: "checkin \<Rightarrow> int \<Rightarrow> int \<Rightarrow> checkin io" where
  "userCheckinWithTransaction c userId quotaAwarded =
     chk (transaction (handle (create_checkin c) (\<lambda>_. err (Msg ''checkin failed, try again later'')) (\<lambda>c'.
            handle (add_quota userId quotaAwarded) (\<lambda>_. err (Msg ''checkin failed: quota update'')) (\<lambda>_. ret c'))))
       (\<lambda>c'. chk (modify (spawn (CacheIncrUserQuota userId quotaAwarded))) (\<lambda>_. ret c'))"

definition userCheckinWithoutTransaction :: "conf \<Rightarrow> checkin \<Rightarrow> int \<Rightarrow> int \<Rightarrow> checkin io" where
  "userCheckinWithoutTransaction cfg c userId quotaAwarded =
     handle (create_checkin c) (\<lambda>_. err (Msg ''checkin failed, try again later'')) (\<lambda>c'.
       handle (IncreaseUserQuota cfg userId quotaAwarded True)
         (\<lambda>_. handle (exec (\<lambda>d. d\<lparr>checkins := filter (\<lambda>x. ckId x \<noteq> ckId c') (checkins d)\<rparr>))
            (\<lambda>_. err (Msg ''checkin failed: quota update'')) (\<lambda>_. err (Msg ''checkin failed: quota update'')))
         (\<lambda>_. ret c'))"

definition UserCheckin :: "conf \<Rightarrow> pay_conf \<Rightarrow> string \<Rightarrow> int \<Rightarrow> (int \<Rightarrow> int) \<Rightarrow> int \<Rightarrow> checkin io" where
  "UserCheckin cfg P today now rnd userId =
     (if \<not> checkinEnabled P then err (Msg ''checkin is not enabled'')
      else chk (HasCheckedInToday today userId) (\<lambda>hasChecked.
        if hasChecked then err (Msg ''already checked in today'')
        else let quotaAwarded = (if MaxQuota P > MinQuota P
                 then i64 (MinQuota P + rnd (i64 (MaxQuota P - MinQuota P + 1))) else MinQuota P);
               c = \<lparr>ckId = 0, ckUserId = userId, ckCheckinDate = today, ckQuotaAwarded = quotaAwarded, ckCreatedAt = now\<rparr>
             in if UsingSQLite cfg then userCheckinWithoutTransaction cfg c userId quotaAwarded
                else userCheckinWithTransaction c userId quotaAwarded))"

section \<open>Invitations\<close>

definition save_user :: "user \<Rightarrow> unit io" where
  "save_user u = exec (\<lambda>d. d\<lparr>users := save_row uId u (users d)\<rparr>)"

definition inviteUser :: "pay_conf \<Rightarrow> int \<Rightarrow> unit io" where
  "inviteUser P inviterId = chk (GetUserById inviterId) (\<lambda>u.
     save_user (u\<lparr>uAffCount := i64 (uAffCount u + 1), uAffQuota := i64 (uAffQuota u + QuotaForInviter P),
       uAffHistoryQuota := i64 (uAffHistoryQuota u + QuotaForInviter P)\<rparr>))"

definition TransferAffQuotaToQuota :: "pay_conf \<Rightarrow> int \<Rightarrow> int \<Rightarrow> unit io" where
  "TransferAffQuotaToQuota P i quota =
     (if of_int quota < QuotaPerUnit P then err (Msg ''below the least transfer'')
      else transaction (chk (first (\<lambda>d. find (live_user i) (users d))) (\<lambda>u.
        if uAffQuota u < quota then err (Msg ''not enough invitation quota'')
        else save_user (u\<lparr>uAffQuota := i64 (uAffQuota u - quota), uQuota := i64 (uQuota u + quota)\<rparr>))))"

end
