(* ===== verification/CreditLaws.thy ===== *)
theory CreditLaws
  imports Credit
begin

text \<open>
  What the operations of \<open>Credit\<close> guarantee: whatever quota they give is backed by a completed order, a used code or a
  check-in, each counted once, whichever statements of the database fail; a code redeemed alone pays once; and the lock
  the code asks for in vain.
\<close>

section \<open>Records that back quota\<close>

definition quota_of :: "int \<Rightarrow> db \<Rightarrow> int" where
  "quota_of i d = (case find (live_user i) (users d) of None \<Rightarrow> 0 | Some u \<Rightarrow> uQuota u)"

text \<open>The most a completion of an order credits: the callback of its provider or the completion by an administrator.\<close>

definition order_value :: "pay_conf \<Rightarrow> topup \<Rightarrow> int" where
  "order_value P t = max 0 (max (manual_quota P t)
     (if tuPaymentMethod t = ''stripe'' then storeQuota P (fmul (floats P) (tuMoney t) (QuotaPerUnit P))
      else if tuPaymentMethod t = ''creem'' then tuAmount t else 0))"

definition order_credit :: "pay_conf \<Rightarrow> int \<Rightarrow> topup \<Rightarrow> int" where
  "order_credit P i t = (if tuUserId t = i \<and> tuStatus t = ''success'' then order_value P t else 0)"

definition code_credit :: "int \<Rightarrow> redemption \<Rightarrow> int" where
  "code_credit i r = (if rdUsedUserId r = i \<and> rdStatus r = 3 then max 0 (rdQuota r) else 0)"

definition checkin_credit :: "int \<Rightarrow> checkin \<Rightarrow> int" where
  "checkin_credit i c = (if ckUserId c = i then max 0 (ckQuotaAwarded c) else 0)"

definition records :: "pay_conf \<Rightarrow> int \<Rightarrow> db \<Rightarrow> int" where
  "records P i d = sum_list (map (order_credit P i) (topups d)) + sum_list (map (code_credit i) (redemptions d)) +
     sum_list (map (checkin_credit i) (checkins d))"

definition backed :: "pay_conf \<Rightarrow> int \<Rightarrow> int \<Rightarrow> db \<Rightarrow> bool" where
  "backed P i B d \<longleftrightarrow> distinct (map tuId (topups d)) \<and> distinct (map rdId (redemptions d)) \<and>
     find (live_user i) (users d) \<noteq> None \<and> quota_of i d \<le> B + records P i d"

lemma backed_mono: "backed P i B d \<Longrightarrow> B \<le> C \<Longrightarrow> backed P i C d"
  by (simp add: backed_def)

lemma sum_list_replace:
  assumes "distinct (map key xs)" "x \<in> set xs" "key y = key x"
  shows "sum_list (map f (map (\<lambda>z. if key z = key y then y else z) xs)) = sum_list (map f xs) - f x + (f y :: int)"
  using assms
proof (induction xs)
  case (Cons z zs)
  show ?case
  proof (cases "key z = key x")
    case True
    with Cons.prems have "z = x" by (auto simp: image_iff)
    moreover have "map (\<lambda>w. if key w = key y then y else w) zs = zs"
      using Cons.prems True by (intro map_idI) (auto simp: image_iff)
    ultimately show ?thesis using Cons.prems(3) by (simp del: map_map)
  next
    case False with Cons show ?thesis by auto
  qed
qed simp

lemma sum_list_save_row:
  assumes "distinct (map key xs)" "x \<in> set xs" "key y = key x"
  shows "sum_list (map f (save_row key y xs)) = sum_list (map f xs) - f x + (f y :: int)"
proof -
  have "\<exists>z \<in> set xs. key z = key y" using assms by auto
  then show ?thesis using sum_list_replace [OF assms, of f] by (simp add: save_row_def del: map_map)
qed

lemma distinct_save_row:
  assumes "distinct (map key xs)" "x \<in> set xs" "key y = key x"
  shows "distinct (map key (save_row key y xs))"
proof -
  have "\<exists>z \<in> set xs. key z = key y" using assms by auto
  then have "map key (save_row key y xs) = map key xs" by (simp add: save_row_def map_key_replace del: map_map)
  with assms(1) show ?thesis by simp
qed

lemma backed_save_order:
  assumes "backed P i B d" "t \<in> set (topups d)" "tuStatus t = ''pending''"
    and "tuId t' = tuId t" "tuUserId t' = tuUserId t" "tuStatus t' = ''success''" "order_value P t' = order_value P t"
  shows "backed P i (B - (if tuUserId t = i then order_value P t else 0)) (d\<lparr>topups := save_row tuId t' (topups d)\<rparr>)"
  using assms distinct_save_row [of tuId "topups d" t t'] sum_list_save_row [of tuId "topups d" t t' "order_credit P i"]
  by (auto simp: backed_def records_def quota_of_def order_credit_def)

lemma backed_save_code:
  assumes "backed P i B d" "r \<in> set (redemptions d)" "rdStatus r \<noteq> 3"
    and "rdId r' = rdId r" "rdUsedUserId r' = j" "rdStatus r' = 3" "rdQuota r' = rdQuota r"
  shows "backed P i (B - (if j = i then max 0 (rdQuota r) else 0)) (d\<lparr>redemptions := save_row rdId r' (redemptions d)\<rparr>)"
  using assms distinct_save_row [of rdId "redemptions d" r r'] sum_list_save_row [of rdId "redemptions d" r r' "code_credit i"]
  by (auto simp: backed_def records_def quota_of_def code_credit_def)

lemma backed_credit:
  assumes "backed P i B d" "\<And>u. uId (f u) = uId u" "\<And>u. uDeleted (f u) = uDeleted u" "\<And>u. uQuota (f u) = uQuota u + q"
  shows "backed P i (B + (if j = i then q else 0)) (set_users j f d)"
proof -
  have "quota_of i (set_users j f d) = quota_of i d + (if j = i then q else 0)"
    and "find (live_user i) (users (set_users j f d)) \<noteq> None"
    using assms find_set_users [of j f i "users d"] find_live_user [of i "users d"]
    by (auto simp: quota_of_def backed_def live_user_def)
  then show ?thesis using assms(1) by (simp add: backed_def records_def set_users_def)
qed


section \<open>Every operation keeps quota backed\<close>

text \<open>Completing the order \<open>t\<close> leaves room for its value; the credit uses it up.\<close>

lemma topup_Update_backed:
  assumes "tuStatus t = ''pending''" "tuId t' = tuId t" "tuUserId t' = tuUserId t" "tuStatus t' = ''success''"
    "order_value P t' = order_value P t"
  shows "triple (\<lambda>d. backed P i B d \<and> t \<in> set (topups d)) (topup_Update t')
           (\<lambda>_. backed P i (B - (if tuUserId t = i then order_value P t else 0))) (backed P i B)"
  unfolding topup_Update_def using backed_save_order assms by (intro triple_exec) auto

lemma backed_credit_room:
  assumes "backed P i (B - (if j = i then v else 0)) d" "q \<le> v"
    and "\<And>u. uId (f u) = uId u" "\<And>u. uDeleted (f u) = uDeleted u" "\<And>u. uQuota (f u) = uQuota u + q"
  shows "backed P i B (set_users j f d)"
  by (rule backed_mono [OF backed_credit [OF assms(1,3,4,5)]]) (use assms(2) in simp)

lemma backed_room: "backed P i (B - (if j = i then v else 0)) d \<Longrightarrow> 0 \<le> v \<Longrightarrow> backed P i B d"
  by (erule backed_mono) simp

lemma order_value_bounds:
  "0 \<le> order_value P t" "manual_quota P t \<le> order_value P t"
  "tuPaymentMethod t = ''stripe'' \<Longrightarrow> storeQuota P (fmul (floats P) (tuMoney t) (QuotaPerUnit P)) \<le> order_value P t"
  "tuPaymentMethod t = ''creem'' \<Longrightarrow> tuAmount t \<le> order_value P t"
  "tuPaymentMethod t \<noteq> ''stripe'' \<Longrightarrow> i64 (IntPart (decimals P) (of_int (tuAmount t) * QuotaPerUnit P)) \<le> order_value P t"
  by (auto simp: order_value_def manual_quota_def)

lemma order_value_status [simp]:
  "order_value P (t\<lparr>tuStatus := s\<rparr>) = order_value P t" "order_value P (t\<lparr>tuCompleteTime := n\<rparr>) = order_value P t"
  by (simp_all add: order_value_def manual_quota_def)

lemma find_topup_backed:
  "triple (backed P i B) (find_topup tradeNo) (\<lambda>t d. backed P i B d \<and> t \<in> set (topups d)) (backed P i B)"
  unfolding find_topup_def
  by (rule triple_handle [where F = "backed P i B" and Q = "\<lambda>t d. backed P i B d \<and> t \<in> set (topups d)"])
    (auto intro!: triple_first triple_err triple_ret dest: row_SomeD)

text \<open>A completion is a transaction that reads the order, checks and pays.\<close>

lemma completion_backed:
  assumes "\<And>t. triple (\<lambda>d. backed P i B d \<and> t \<in> set (topups d)) (body t) (\<lambda>_. backed P i B) (\<lambda>_. True)"
  shows "triple (backed P i B) (transaction (chk (find_topup tradeNo) body)) (\<lambda>_. backed P i B) (backed P i B)"
  by (rule triple_transaction [where F = "\<lambda>_. True"], rule triple_chk [OF triple_weaken [OF find_topup_backed] assms]) auto

lemma complete_backed:
  assumes "tuStatus t = ''pending''"
  shows "triple (\<lambda>d. backed P i B d \<and> t \<in> set (topups d)) (topup_Update (t\<lparr>tuCompleteTime := now, tuStatus := ''success''\<rparr>))
           (\<lambda>_. backed P i (B - (if tuUserId t = i then order_value P t else 0))) (\<lambda>_. True)"
  by (rule triple_weaken [OF topup_Update_backed [where t = t]]) (use assms in auto)

lemma credit_backed:
  assumes "q \<le> order_value P t" "\<And>u. uId (f u) = uId u" "\<And>u. uDeleted (f u) = uDeleted u" "\<And>u. uQuota (f u) = uQuota u + q"
  shows "triple (backed P i (B - (if tuUserId t = i then order_value P t else 0))) (exec (set_users (tuUserId t) f))
           (\<lambda>_. backed P i B) (\<lambda>_. True)"
  by (rule triple_exec) (use assms in \<open>auto intro: backed_credit_room\<close>)

lemmas pay_backed = triple_chk [OF complete_backed credit_backed]

lemma order_bodies_backed:
  "triple (\<lambda>d. backed P i B d \<and> t \<in> set (topups d)) (recharge_order P now cust t) (\<lambda>_. backed P i B) (\<lambda>_. True)"
  "triple (\<lambda>d. backed P i B d \<and> t \<in> set (topups d)) (manual_order P now t) (\<lambda>_. backed P i B) (\<lambda>_. True)"
  "triple (\<lambda>d. backed P i B d \<and> t \<in> set (topups d)) (waffo_order P now t) (\<lambda>_. backed P i B) (\<lambda>_. True)"
  unfolding recharge_order_def manual_order_def waffo_order_def add_quota_def Let_def
  by (intro triple_if triple_err triple_ret pay_backed; use order_value_bounds in auto)+

lemma creem_order_backed:
  "triple (\<lambda>d. backed P i B d \<and> t \<in> set (topups d)) (creem_order now email t) (\<lambda>_. backed P i B) (\<lambda>_. True)"
proof -
  let ?C = "backed P i (B - (if tuUserId t = i then order_value P t else 0))"
  have look: "triple ?C (if email \<noteq> [] then first (\<lambda>d. map_option Some (find (live_user (tuUserId t)) (users d))) else ret None) (\<lambda>_. ?C) (\<lambda>_. True)"
    by (intro triple_if triple_first triple_ret) auto
  show ?thesis
    unfolding creem_order_def
    by (intro triple_if triple_err triple_chk [OF complete_backed triple_chk [OF look credit_backed [where q = "tuAmount t"]]])
      (auto intro: order_value_bounds)
qed

lemma handled_backed: "triple K m (\<lambda>_. K) K \<Longrightarrow> triple K (handle m (\<lambda>_. err e) ret) (\<lambda>_. K) K"
  by (rule triple_handle) (auto intro!: triple_err triple_ret)

lemma completions_backed:
  "triple (backed P i B) (Recharge P now ref cust) (\<lambda>_. backed P i B) (backed P i B)"
  "triple (backed P i B) (ManualCompleteTopUp P now ref) (\<lambda>_. backed P i B) (backed P i B)"
  "triple (backed P i B) (RechargeCreem now ref email) (\<lambda>_. backed P i B) (backed P i B)"
  "triple (backed P i B) (RechargeWaffo P now ref) (\<lambda>_. backed P i B) (backed P i B)"
  unfolding Recharge_def ManualCompleteTopUp_def RechargeCreem_def RechargeWaffo_def
  by (intro triple_if triple_err handled_backed completion_backed order_bodies_backed creem_order_backed; simp)+

lemma triple_IncreaseUserQuota:
  assumes "\<And>d. K d \<Longrightarrow> Q () (set_users j (\<lambda>u. u\<lparr>uQuota := uQuota u + q\<rparr>) d)" "\<And>d. K d \<Longrightarrow> E d"
  shows "triple K (IncreaseUserQuota cfg j q True) Q E"
proof (cases "q < 0")
  case True
  with assms(2) show ?thesis by (intro tripleI) (auto simp: IncreaseUserQuota_def)
next
  case False
  then have "IncreaseUserQuota cfg j q True = chk (modify (spawn (CacheIncrUserQuota j q))) (\<lambda>_. increaseUserQuota j q)"
    by (intro ext) (simp add: IncreaseUserQuota_def chk_def modify_def)
  moreover have "triple K (modify (spawn (CacheIncrUserQuota j q))) (\<lambda>_. K) E"
    by (rule triple_modify) (auto simp: spawn_def)
  moreover have "triple K (increaseUserQuota j q) Q E" unfolding increaseUserQuota_def by (intro triple_exec assms)
  ultimately show ?thesis by (simp add: triple_chk)
qed

lemma EpayNotify_backed: "triple (backed P i B) (EpayNotify cfg P tradeNo) (\<lambda>_. backed P i B) (backed P i B)"
proof -
  let ?R = "\<lambda>t d. backed P i B d \<and> t \<in> set (topups d)"
  have look: "triple (backed P i B) (GetTopUpByTradeNo tradeNo)
      (\<lambda>r d. backed P i B d \<and> (\<forall>t. r = Some t \<longrightarrow> t \<in> set (topups d))) (backed P i B)"
    unfolding GetTopUpByTradeNo_def
    by (rule triple_handle [where F = "backed P i B" and Q = ?R]) (auto intro!: triple_first triple_ret dest: row_SomeD)
  have pay: "triple (?R t)
      (handle (topup_Update (t\<lparr>tuStatus := ''success''\<rparr>)) (\<lambda>_. ret ()) (\<lambda>_.
         handle (IncreaseUserQuota cfg (tuUserId t) (i64 (IntPart (decimals P) (of_int (tuAmount t) * QuotaPerUnit P))) True) (\<lambda>_. ret ()) ret))
      (\<lambda>_. backed P i B) (backed P i B)"
    if "tuStatus t = ''pending''" "tuPaymentMethod t \<noteq> ''stripe''" for t
  proof (rule triple_handle [OF topup_Update_backed [where t = t]])
    show "triple (backed P i (B - (if tuUserId t = i then order_value P t else 0)))
        (handle (IncreaseUserQuota cfg (tuUserId t) (i64 (IntPart (decimals P) (of_int (tuAmount t) * QuotaPerUnit P))) True) (\<lambda>_. ret ()) ret)
        (\<lambda>_. backed P i B) (backed P i B)" for x :: unit
      by (rule triple_handle [where F = "backed P i B" and Q = "\<lambda>_. backed P i B"], rule triple_IncreaseUserQuota)
        (use that order_value_bounds(1) in \<open>auto intro!: triple_ret intro: backed_credit_room [OF _ order_value_bounds(5)] backed_room\<close>)
  qed (use that in \<open>auto intro!: triple_ret\<close>)
  have "triple (\<lambda>d. backed P i B d \<and> (\<forall>t. r = Some t \<longrightarrow> t \<in> set (topups d)))
      (case r of None \<Rightarrow> ret () | Some t \<Rightarrow>
         if tuPaymentMethod t = ''stripe'' \<or> tuPaymentMethod t = ''creem'' \<or> tuPaymentMethod t = ''waffo'' then ret ()
         else if tuStatus t = ''pending'' then
           handle (topup_Update (t\<lparr>tuStatus := ''success''\<rparr>)) (\<lambda>_. ret ()) (\<lambda>_.
             handle (IncreaseUserQuota cfg (tuUserId t) (i64 (IntPart (decimals P) (of_int (tuAmount t) * QuotaPerUnit P))) True) (\<lambda>_. ret ()) ret)
         else ret ()) (\<lambda>_. backed P i B) (backed P i B)" for r
    using pay by (cases r) (auto intro!: triple_ret)
  with look show ?thesis unfolding EpayNotify_def by (rule triple_chk)
qed

lemma redeem_code_backed:
  "triple (\<lambda>d. backed P i B d \<and> r \<in> set (redemptions d)) (redeem_code now j r) (\<lambda>_. backed P i B) (\<lambda>_. True)"
proof -
  let ?D = "\<lambda>d. backed P i (B + (if j = i then rdQuota r else 0)) d \<and> r \<in> set (redemptions d)"
  have "triple (\<lambda>d. backed P i B d \<and> r \<in> set (redemptions d)) (add_quota j (rdQuota r)) (\<lambda>_. ?D) (\<lambda>_. True)"
    unfolding add_quota_def by (intro triple_exec conjI) (auto intro: backed_credit [THEN backed_mono])
  moreover have "triple ?D (save_code (r\<lparr>rdRedeemedTime := now, rdStatus := 3, rdUsedUserId := j\<rparr>)) (\<lambda>_. backed P i B) (\<lambda>_. True)"
    if "rdStatus r = 1"
    unfolding save_code_def
    by (rule triple_exec) (use that in \<open>auto intro!: backed_mono [OF backed_save_code [where r = r and j = j]]\<close>)
  ultimately show ?thesis
    unfolding redeem_code_def by (intro triple_if triple_err triple_chk triple_ret) auto
qed

lemma Redeem_backed: "triple (backed P i B) (Redeem now key j) (\<lambda>_. backed P i B) (backed P i B)"
proof -
  have "triple (backed P i B) (handle (first (find_code key)) (\<lambda>_. err e) ret)
      (\<lambda>r d. backed P i B d \<and> r \<in> set (redemptions d)) (\<lambda>_. True)" for e
    by (rule triple_handle [where F = "\<lambda>_. True" and Q = "\<lambda>r d. backed P i B d \<and> r \<in> set (redemptions d)"])
      (auto intro!: triple_first triple_err triple_ret simp: find_code_def find_Some_iff)
  then show ?thesis
    unfolding Redeem_def
    by (intro triple_if triple_err handled_backed triple_transaction [where F = "\<lambda>_. True"] triple_chk [OF _ redeem_code_backed]) auto
qed

lemma credits_nonneg: "0 \<le> order_credit P i t" "0 \<le> code_credit i r" "0 \<le> checkin_credit i c"
  by (simp_all add: order_credit_def order_value_bounds code_credit_def checkin_credit_def)

lemma inserts_backed:
  "triple (backed P i B) (topup_Insert t) (\<lambda>_. backed P i B) (backed P i B)"
  "triple (backed P i B) (redemption_Insert r) (\<lambda>_. backed P i B) (backed P i B)"
proof -
  have "backed P i B (d\<lparr>topups := topups d @ [t\<lparr>tuId := fresh_id (map tuId (topups d))\<rparr>]\<rparr>)" if "backed P i B d" for d
    using that fresh_id_fresh [of "map tuId (topups d)"] credits_nonneg(1) [of P i "t\<lparr>tuId := fresh_id (map tuId (topups d))\<rparr>"]
    by (auto simp: backed_def records_def quota_of_def)
  then show "triple (backed P i B) (topup_Insert t) (\<lambda>_. backed P i B) (backed P i B)"
    unfolding topup_Insert_def
    by (intro triple_chk [where Q = "\<lambda>_. backed P i B"] triple_stmt triple_if triple_ret triple_err) auto
  have "backed P i B (d\<lparr>redemptions := redemptions d @ [r\<lparr>rdId := fresh_id (map rdId (redemptions d))\<rparr>]\<rparr>)" if "backed P i B d" for d
    using that fresh_id_fresh [of "map rdId (redemptions d)"] credits_nonneg(2) [of i "r\<lparr>rdId := fresh_id (map rdId (redemptions d))\<rparr>"]
    by (auto simp: backed_def records_def quota_of_def)
  then show "triple (backed P i B) (redemption_Insert r) (\<lambda>_. backed P i B) (backed P i B)"
    unfolding redemption_Insert_def
    by (intro triple_chk [where Q = "\<lambda>_. backed P i B"] triple_stmt triple_if triple_ret triple_err) auto
qed

lemma backed_delete_codes: "backed P i B d \<Longrightarrow> backed P i B (d\<lparr>redemptions := upd_where Z (\<lambda>r. r\<lparr>rdDeleted := True\<rparr>) (redemptions d)\<rparr>)"
  by (simp add: backed_def records_def quota_of_def code_credit_def)

lemma deletes_backed:
  "triple (backed P i B) (DeleteRedemptionById n) (\<lambda>_. backed P i B) (backed P i B)"
  "triple (backed P i B) (DeleteInvalidRedemptions now) (\<lambda>_. backed P i B) (backed P i B)"
  unfolding DeleteRedemptionById_def redemption_Delete_def upd_code_def DeleteInvalidRedemptions_def
  by (intro triple_if triple_err triple_chk [where Q = "\<lambda>_. backed P i B"] triple_first triple_exec triple_stmt;
      auto intro: backed_delete_codes)+

text \<open>After the row of a check-in is there: without it, quota was backed already.\<close>

definition new_checkin :: "pay_conf \<Rightarrow> int \<Rightarrow> int \<Rightarrow> checkin \<Rightarrow> checkin \<Rightarrow> db \<Rightarrow> bool" where
  "new_checkin P i B c c' d \<longleftrightarrow> (\<exists>cs. checkins d = cs @ [c'] \<and> ckId c' \<notin> ckId ` set cs \<and>
     ckUserId c' = ckUserId c \<and> ckQuotaAwarded c' = ckQuotaAwarded c \<and> backed P i B (d\<lparr>checkins := cs\<rparr>))"

lemma create_checkin_backed:
  "triple (backed P i B) (create_checkin c) (new_checkin P i B c) (backed P i B)"
proof -
  let ?Q = "\<lambda>r d. case r of None \<Rightarrow> backed P i B d | Some c' \<Rightarrow> new_checkin P i B c c' d"
  have "triple (backed P i B) (stmt (\<lambda>d.
      if (ckUserId c, ckCheckinDate c) \<in> (\<lambda>x. (ckUserId x, ckCheckinDate x)) ` set (checkins d) then (None, d)
      else let c' = c\<lparr>ckId := fresh_id (map ckId (checkins d))\<rparr> in (Some c', d\<lparr>checkins := checkins d @ [c']\<rparr>))) ?Q (backed P i B)"
  proof (rule triple_stmt)
    fix d assume "backed P i B d"
    then show "?Q (fst (if (ckUserId c, ckCheckinDate c) \<in> (\<lambda>x. (ckUserId x, ckCheckinDate x)) ` set (checkins d) then (None, d)
      else let c' = c\<lparr>ckId := fresh_id (map ckId (checkins d))\<rparr> in (Some c', d\<lparr>checkins := checkins d @ [c']\<rparr>)))
      (snd (if (ckUserId c, ckCheckinDate c) \<in> (\<lambda>x. (ckUserId x, ckCheckinDate x)) ` set (checkins d) then (None, d)
      else let c' = c\<lparr>ckId := fresh_id (map ckId (checkins d))\<rparr> in (Some c', d\<lparr>checkins := checkins d @ [c']\<rparr>)))"
      using fresh_id_fresh [of "map ckId (checkins d)"] by (auto simp: new_checkin_def Let_def backed_def records_def quota_of_def)
  qed
  moreover have "triple (?Q r) (case r of Some c' \<Rightarrow> ret c' | None \<Rightarrow> err UniqueViolation) (new_checkin P i B c) (backed P i B)" for r
    by (cases r) (auto intro!: triple_ret triple_err)
  ultimately show ?thesis unfolding create_checkin_def by (rule triple_chk)
qed

lemma new_checkin_room:
  "new_checkin P i B c c' d \<Longrightarrow> backed P i (B - (if ckUserId c = i then max 0 (ckQuotaAwarded c) else 0)) d"
  by (auto simp: new_checkin_def backed_def records_def quota_of_def checkin_credit_def)

lemma new_checkin_credit:
  "new_checkin P i B c c' d \<Longrightarrow> backed P i B (set_users (ckUserId c) (\<lambda>u. u\<lparr>uQuota := uQuota u + ckQuotaAwarded c\<rparr>) d)"
  by (rule backed_credit_room [OF new_checkin_room]) auto

lemma new_checkin_backed: "new_checkin P i B c c' d \<Longrightarrow> backed P i B d"
  by (rule backed_room [OF new_checkin_room]) auto

lemma new_checkin_undo: "new_checkin P i B c c' d \<Longrightarrow> backed P i B (d\<lparr>checkins := filter (\<lambda>x. ckId x \<noteq> ckId c') (checkins d)\<rparr>)"
proof -
  assume "new_checkin P i B c c' d"
  then obtain cs where cs: "checkins d = cs @ [c']" "ckId c' \<notin> ckId ` set cs" "backed P i B (d\<lparr>checkins := cs\<rparr>)"
    by (auto simp: new_checkin_def)
  moreover have "filter (\<lambda>x. ckId x \<noteq> ckId c') cs = cs" using cs(2) by (metis (mono_tags, lifting) filter_True image_eqI)
  ultimately show ?thesis by simp
qed

lemma checkin_with_backed:
  "triple (backed P i B) (userCheckinWithTransaction c (ckUserId c) (ckQuotaAwarded c)) (\<lambda>_. backed P i B) (backed P i B)"
proof -
  have "triple (new_checkin P i B c c') (handle (add_quota (ckUserId c) (ckQuotaAwarded c)) (\<lambda>_. err e) (\<lambda>_. ret c')) (\<lambda>_. backed P i B) (\<lambda>_. True)" for c' e
    unfolding add_quota_def
    by (rule triple_handle [where F = "\<lambda>_. True" and Q = "\<lambda>_. backed P i B"])
      (auto intro!: triple_exec triple_err triple_ret new_checkin_credit)
  then have "triple (backed P i B) (transaction (handle (create_checkin c) (\<lambda>_. err e') (\<lambda>c'.
      handle (add_quota (ckUserId c) (ckQuotaAwarded c)) (\<lambda>_. err e) (\<lambda>_. ret c')))) (\<lambda>_. backed P i B) (backed P i B)" for e e'
    by (intro triple_transaction [where F = "\<lambda>_. True"] triple_handle [OF create_checkin_backed] triple_err) auto
  then show ?thesis
    unfolding userCheckinWithTransaction_def
    by (intro triple_chk triple_ret triple_modify) (auto simp: spawn_def)
qed

lemma checkin_without_backed:
  "triple (backed P i B) (userCheckinWithoutTransaction cfg c (ckUserId c) (ckQuotaAwarded c)) (\<lambda>_. backed P i B) (backed P i B)"
proof -
  have undo: "triple (new_checkin P i B c c') (handle (exec (\<lambda>d. d\<lparr>checkins := filter (\<lambda>x. ckId x \<noteq> ckId c') (checkins d)\<rparr>))
      (\<lambda>_. err e) (\<lambda>_. err e :: checkin io)) (\<lambda>_. backed P i B) (backed P i B)" for c' e
    by (rule triple_handle [where F = "backed P i B" and Q = "\<lambda>_. backed P i B"])
      (auto intro!: triple_exec triple_err intro: new_checkin_undo new_checkin_backed)
  show ?thesis
    unfolding userCheckinWithoutTransaction_def
    by (intro triple_handle [OF create_checkin_backed] triple_err triple_ret undo
        triple_handle [OF triple_IncreaseUserQuota [where E = "new_checkin P i B c c'" and Q = "\<lambda>_. backed P i B" for c']])
      (auto intro: new_checkin_credit undo)
qed

lemma UserCheckin_backed: "triple (backed P i B) (UserCheckin cfg P today now rnd j) (\<lambda>_. backed P i B) (backed P i B)"
proof -
  have "triple (backed P i B) (userCheckinWithTransaction \<lparr>ckId = a, ckUserId = j, ckCheckinDate = today, ckQuotaAwarded = q, ckCreatedAt = now\<rparr> j q)
      (\<lambda>_. backed P i B) (backed P i B)"
    "triple (backed P i B) (userCheckinWithoutTransaction cfg \<lparr>ckId = a, ckUserId = j, ckCheckinDate = today, ckQuotaAwarded = q, ckCreatedAt = now\<rparr> j q)
      (\<lambda>_. backed P i B) (backed P i B)" for a q
    using checkin_with_backed [of P i B "\<lparr>ckId = a, ckUserId = j, ckCheckinDate = today, ckQuotaAwarded = q, ckCreatedAt = now\<rparr>"]
      checkin_without_backed [of P i B cfg "\<lparr>ckId = a, ckUserId = j, ckCheckinDate = today, ckQuotaAwarded = q, ckCreatedAt = now\<rparr>"]
    by simp_all
  then show ?thesis
    unfolding UserCheckin_def HasCheckedInToday_def Let_def
    by (intro triple_if triple_err triple_chk [where Q = "\<lambda>_. backed P i B"] triple_query) auto
qed

section \<open>Runs\<close>

text \<open>What can credit a user or add and remove orders and codes, in any order and with any statement failing.\<close>

datatype credit_event =
    NewOrder topup
  | StripePaid int string string
  | CreemPaid int string string
  | WaffoPaid int string
  | EpayPaid string
  | CompletedByAdmin int string
  | NewCode redemption
  | CodeRedeemed int string int
  | CodeDeleted int
  | CodesPurged int
  | CheckedIn string int "int \<Rightarrow> int" int

fun credit_step :: "conf \<Rightarrow> pay_conf \<Rightarrow> credit_event \<Rightarrow> world \<Rightarrow> world" where
  "credit_step cfg P (NewOrder t) w = snd (topup_Insert t w)"
| "credit_step cfg P (StripePaid now ref cust) w = snd (Recharge P now ref cust w)"
| "credit_step cfg P (CreemPaid now ref email) w = snd (RechargeCreem now ref email w)"
| "credit_step cfg P (WaffoPaid now ref) w = snd (RechargeWaffo P now ref w)"
| "credit_step cfg P (EpayPaid ref) w = snd (EpayNotify cfg P ref w)"
| "credit_step cfg P (CompletedByAdmin now ref) w = snd (ManualCompleteTopUp P now ref w)"
| "credit_step cfg P (NewCode r) w = snd (redemption_Insert r w)"
| "credit_step cfg P (CodeRedeemed now key j) w = snd (Redeem now key j w)"
| "credit_step cfg P (CodeDeleted n) w = snd (DeleteRedemptionById n w)"
| "credit_step cfg P (CodesPurged now) w = snd (DeleteInvalidRedemptions now w)"
| "credit_step cfg P (CheckedIn today now rnd j) w = snd (UserCheckin cfg P today now rnd j w)"

lemmas credit_rules = completions_backed EpayNotify_backed inserts_backed Redeem_backed deletes_backed UserCheckin_backed

text \<open>What a source of quota promises: what it gives is on record.\<close>

locale recorded_credit =
  fixes step :: "'e \<Rightarrow> world \<Rightarrow> world" and P :: pay_conf
  assumes keeps: "backed P i B (db w) \<Longrightarrow> backed P i B (db (step e w))"
begin

lemma run_keeps: "backed P i B (db w) \<Longrightarrow> backed P i B (db (fold step es w))"
  by (induction es arbitrary: w) (auto intro: keeps)

lemma run_bound:
  assumes "user_exists i w" "distinct (map tuId (topups (db w)))" "distinct (map rdId (redemptions (db w)))"
  shows "user_quota i (fold step es w) - user_quota i w \<le> records P i (db (fold step es w)) - records P i (db w)"
proof -
  have "backed P i (user_quota i w - records P i (db w)) (db w)"
    using assms by (simp add: backed_def quota_of_def user_quota_def user_exists_def)
  from run_keeps [OF this, of es] show ?thesis by (simp add: backed_def quota_of_def user_quota_def)
qed

end

interpretation cr: recorded_credit "credit_step cfg P" P for cfg P
proof
  fix i B e and w :: world assume "backed P i B (db w)"
  then show "backed P i B (db (credit_step cfg P e w))"
    by (cases e) (auto intro!: triple_keeps [where P = "backed P i B"] credit_rules)
qed

section \<open>Redeeming a code\<close>

definition code_ready :: "int \<Rightarrow> string \<Rightarrow> redemption \<Rightarrow> world \<Rightarrow> bool" where
  "code_ready now key r w \<longleftrightarrow> faults w = [] \<and> find_code key (db w) = Some r \<and> rdStatus r = 1 \<and>
     (rdExpiredTime r = 0 \<or> now \<le> rdExpiredTime r)"

definition redeemed_db :: "int \<Rightarrow> int \<Rightarrow> redemption \<Rightarrow> db \<Rightarrow> db" where
  "redeemed_db now j r d = (set_users j (\<lambda>u. u\<lparr>uQuota := uQuota u + rdQuota r\<rparr>) d)\<lparr>redemptions :=
     save_row rdId (r\<lparr>rdRedeemedTime := now, rdStatus := 3, rdUsedUserId := j\<rparr>) (redemptions d)\<rparr>"

lemma redeem_code_ok:
  assumes "faults w = []" "rdStatus r = 1" "rdExpiredTime r = 0 \<or> now \<le> rdExpiredTime r"
  shows "transaction (redeem_code now j r) w = (Inr (rdQuota r), w\<lparr>db := redeemed_db now j r (db w)\<rparr>)"
  using assms by (auto simp: transaction_ok redeem_code_def chk_def ret_def add_quota_def save_code_def redeemed_db_def)

lemma user_quota_redeemed:
  assumes "user_exists j w"
  shows "user_quota k (w\<lparr>db := redeemed_db now j r (db w)\<rparr>) = user_quota k w + (if k = j then rdQuota r else 0)"
  using assms find_set_users [of j "\<lambda>u. u\<lparr>uQuota := uQuota u + rdQuota r\<rparr>" k "users (db w)"] find_live_user [of k "users (db w)"]
  by (auto simp: user_quota_def redeemed_db_def user_exists_def live_user_def split: option.splits)

lemma user_exists_redeemed: "user_exists k (w\<lparr>db := redeemed_db now j r (db w)\<rparr>) = user_exists k w"
  using find_set_users [of j "\<lambda>u. u\<lparr>uQuota := uQuota u + rdQuota r\<rparr>" k "users (db w)"]
  by (simp add: user_exists_def redeemed_db_def)

lemma find_code_SomeD: "find_code key d = Some r \<Longrightarrow> r \<in> set (redemptions d) \<and> rdKey r = key"
  by (auto simp: find_code_def find_Some_iff)

lemma find_code_redeemed:
  assumes "distinct (map rdKey (redemptions d))" "find_code key d = Some r" "find_code key (redeemed_db now j r d) = Some r'"
  shows "rdStatus r' = 3"
proof -
  let ?u = "r\<lparr>rdRedeemedTime := now, rdStatus := 3, rdUsedUserId := j\<rparr>"
  from assms(2) have r: "r \<in> set (redemptions d)" "rdKey r = key" by (auto dest: find_code_SomeD)
  then have "redemptions (redeemed_db now j r d) = map (\<lambda>x. if rdId x = rdId r then ?u else x) (redemptions d)"
    by (auto simp: redeemed_db_def save_row_def)
  with find_code_SomeD [OF assms(3)] obtain x where x: "x \<in> set (redemptions d)" "r' = (if rdId x = rdId r then ?u else x)" "rdKey r' = key"
    by auto
  have "r' = ?u"
  proof (cases "rdId x = rdId r")
    case False
    with x r assms(1) have "x = r" by (simp add: distinct_map inj_on_def)
    with False show ?thesis by simp
  qed (use x in simp)
  then show ?thesis by simp
qed

lemma Redeem_refused:
  assumes "\<And>r. find_code key (db w) = Some r \<Longrightarrow> rdStatus r = 3"
  shows "(\<exists>e. fst (Redeem now key j w) = Inl e) \<and> db (snd (Redeem now key j w)) = db w"
proof -
  let ?K = "\<lambda>d. d = db w" and ?R = "\<lambda>r d. d = db w \<and> rdStatus r = 3"
  have look: "triple ?K (handle (first (find_code key)) (\<lambda>_. err e) ret) ?R (\<lambda>_. True)" for e
    by (rule triple_handle [where F = "\<lambda>_. True" and Q = ?R]) (auto intro!: triple_first triple_err triple_ret assms)
  have body: "triple (?R r) (redeem_code now j r) (\<lambda>_ _. False) (\<lambda>_. True)" for r
    by (cases "rdStatus r = 3") (auto simp: redeem_code_def triple_def err_def)
  have "triple ?K (Redeem now key j) (\<lambda>_ _. False) ?K"
    unfolding Redeem_def
    by (intro triple_if triple_err triple_handle [where F = ?K and Q = "\<lambda>_ _. False"] triple_ret
        triple_transaction [where F = "\<lambda>_. True"] triple_chk [OF look body]) auto
  then show ?thesis by (cases "Redeem now key j w"; cases "fst (Redeem now key j w)") (auto dest: tripleD tripleD_Inl)
qed

lemma Redeem_ready:
  assumes "code_ready now key r w" "key \<noteq> ''''" "j \<noteq> 0"
  shows "Redeem now key j w = (Inr (rdQuota r), w\<lparr>db := redeemed_db now j r (db w)\<rparr>)"
proof -
  have "chk (handle (first (find_code key)) (\<lambda>_. err e) ret) (redeem_code now j) w = redeem_code now j r w" for e
    using assms(1) by (simp add: code_ready_def chk_def handle_def ret_def)
  then have "transaction (chk (handle (first (find_code key)) (\<lambda>_. err e) ret) (redeem_code now j)) w = transaction (redeem_code now j r) w" for e
    using assms(1) by (simp add: code_ready_def transaction_def chk_def commit_def)
  with assms redeem_code_ok [of w r now j] show ?thesis
    by (simp add: Redeem_def handle_def ret_def code_ready_def)
qed

section \<open>Moving invitation quota\<close>

lemma find_save_user:
  assumes "find (live_user i) us = Some u" "uId u' = i" "\<not> uDeleted u'"
  shows "find (live_user i) (save_row uId u' us) = Some u'"
proof -
  have "\<exists>x \<in> set us. uId x = uId u'" using assms(1,2) by (auto simp: find_Some_iff live_user_def)
  moreover have "find (live_user i) (map (\<lambda>x. if uId x = uId u' then u' else x) us) = Some u'"
    using assms by (induction us) (auto simp: live_user_def split: if_splits)
  ultimately show ?thesis by (simp add: save_row_def)
qed

text \<open>A transfer that succeeds moves \<open>q\<close> from the invitation quota, which covers it, to the quota; one that fails moves nothing.\<close>

lemma transfer_moves:
  assumes "find (live_user i) (users d0) = Some u" "in64 (uQuota u + q)" "in64 (uAffQuota u - q)"
  shows "triple (\<lambda>d. d = d0) (TransferAffQuotaToQuota P i q)
    (\<lambda>_ d. q \<le> uAffQuota u \<and> find (live_user i) (users d) = Some (u\<lparr>uAffQuota := uAffQuota u - q, uQuota := uQuota u + q\<rparr>)) (\<lambda>d. d = d0)"
  unfolding TransferAffQuotaToQuota_def save_user_def
  by (intro triple_if triple_err triple_transaction [where F = "\<lambda>_. True"] triple_chk [where Q = "\<lambda>x d. d = d0 \<and> x = u"] triple_first triple_exec)
    (use assms find_live_user [OF assms(1)] in \<open>auto intro!: find_save_user\<close>)

section \<open>Sample payments\<close>

definition ex_pay :: pay_conf where
  "ex_pay = \<lparr>QuotaPerUnit = 500, floats = exact_floats, decimals = exact_decimals, storeQuota = floor, QuotaForInviter = 10, checkinEnabled = True,
     MinQuota = 5, MaxQuota = 9\<rparr>"

definition ex_code :: redemption where
  "ex_code = \<lparr>rdId = 1, rdUserId = 1, rdKey = ''gift'', rdStatus = 1, rdName = ''n'', rdQuota = 100, rdCreatedTime = 0,
     rdRedeemedTime = 0, rdUsedUserId = 0, rdExpiredTime = 0, rdDeleted = False\<rparr>"

definition ex_order :: topup where
  "ex_order = \<lparr>tuId = 1, tuUserId = 1, tuAmount = 2, tuMoney = 3, tuTradeNo = ''t1'', tuPaymentMethod = ''waffo'',
     tuCreateTime = 0, tuCompleteTime = 0, tuStatus = ''pending''\<rparr>"

definition ex_shop :: world where
  "ex_shop = ex_world ((ex_db [ex_user 1 50, ex_user 2 70] [])\<lparr>topups := [ex_order], redemptions := [ex_code]\<rparr>)"

lemmas ex_shop_defs = ex_shop_def ex_code_def ex_order_def ex_pay_def ex_defs

section \<open>Properties\<close>



text \<open>C14. A valid code pays its quota to the user who redeems it and to nobody else, and from then on every attempt to redeem
  it, by anybody, at any time and under any failures, is refused and changes nothing.\<close>

theorem Redeem_once:
  assumes "code_ready now key r w" "key \<noteq> ''''" "j \<noteq> 0" "user_exists j w" "distinct (map rdKey (redemptions (db w)))"
  shows "fst (Redeem now key j w) = Inr (rdQuota r) \<and>
    (\<forall>k. user_quota k (snd (Redeem now key j w)) = user_quota k w + (if k = j then rdQuota r else 0)) \<and>
    (\<forall>v now' k. db v = db (snd (Redeem now key j w)) \<longrightarrow>
       (\<exists>e. fst (Redeem now' key k v) = Inl e) \<and> db (snd (Redeem now' key k v)) = db v)"
proof (intro conjI allI impI)
  note ready = Redeem_ready [OF assms(1-3)]
  show "fst (Redeem now key j w) = Inr (rdQuota r)" by (simp add: ready)
  show "user_quota k (snd (Redeem now key j w)) = user_quota k w + (if k = j then rdQuota r else 0)" for k
    using assms(4) by (simp add: ready user_quota_redeemed)
  fix v :: world and now' k assume "db v = db (snd (Redeem now key j w))"
  then have "rdStatus r' = 3" if "find_code key (db v) = Some r'" for r'
    using that assms(1,5) find_code_redeemed [of "db w" key r now j r'] by (simp add: ready code_ready_def)
  then show "\<exists>e. fst (Redeem now' key k v) = Inl e" "db (snd (Redeem now' key k v)) = db v"
    using Redeem_refused [of key v now' k] by blast+
qed

theorem Redeem_once_witness:
  "fst (Redeem 9 ''gift'' 1 ex_shop) = Inr 100 \<and> user_quota 1 (snd (Redeem 9 ''gift'' 1 ex_shop)) = 150"
proof -
  have "code_ready 9 ''gift'' ex_code ex_shop" "user_exists 1 ex_shop" "distinct (map rdKey (redemptions (db ex_shop)))" "user_quota 1 ex_shop = 50"
    by (simp_all add: ex_shop_defs code_ready_def find_code_def user_exists_def user_quota_def live_user_def)
  with Redeem_once [of 9 "''gift''" ex_code ex_shop 1] show ?thesis by (simp add: ex_code_def)
qed

text \<open>Two redemptions of one code that have both read it before either has written both succeed, and both users are
  paid: nothing in the transaction but a lock on the row when it is read keeps the second one out.\<close>

theorem redeem_interleaved_pays_twice:
  assumes "code_ready now key r w" "i \<noteq> j" "user_exists i w" "user_exists j w"
  shows "\<exists>w1 w2. transaction (redeem_code now i r) w = (Inr (rdQuota r), w1) \<and> transaction (redeem_code now j r) w1 = (Inr (rdQuota r), w2) \<and>
    user_quota i w2 = user_quota i w + rdQuota r \<and> user_quota j w2 = user_quota j w + rdQuota r"
proof -
  let ?w1 = "w\<lparr>db := redeemed_db now i r (db w)\<rparr>"
  let ?w2 = "?w1\<lparr>db := redeemed_db now j r (db ?w1)\<rparr>"
  have "transaction (redeem_code now i r) w = (Inr (rdQuota r), ?w1)" "transaction (redeem_code now j r) ?w1 = (Inr (rdQuota r), ?w2)"
    using assms(1) redeem_code_ok [of w r now i] redeem_code_ok [of ?w1 r now j] by (simp_all add: code_ready_def)
  moreover have "user_quota k ?w2 = user_quota k w + (if k = i then rdQuota r else 0) + (if k = j then rdQuota r else 0)" for k
    using assms(3,4) user_quota_redeemed [of i w k now r] user_quota_redeemed [of j ?w1 k now r] user_exists_redeemed [of j now i r w] by simp
  ultimately show ?thesis using assms(2) by (intro exI [of _ ?w1] exI [of _ ?w2] conjI) simp_all
qed

theorem redeem_interleaved_pays_twice_witness:
  "\<exists>w1 w2. transaction (redeem_code 9 1 ex_code) ex_shop = (Inr 100, w1) \<and> transaction (redeem_code 9 2 ex_code) w1 = (Inr 100, w2) \<and>
    user_quota 1 w2 = 150 \<and> user_quota 2 w2 = 170"
proof -
  have "code_ready 9 ''gift'' ex_code ex_shop" "user_exists 1 ex_shop" "user_exists 2 ex_shop" "user_quota 1 ex_shop = 50" "user_quota 2 ex_shop = 70"
    by (simp_all add: ex_shop_defs code_ready_def find_code_def user_exists_def user_quota_def live_user_def)
  with redeem_interleaved_pays_twice [of 9 "''gift''" ex_code ex_shop 1 2] show ?thesis by (simp add: ex_code_def)
qed

end
