(* ===== verification/Pricing.thy ===== *)
theory Pricing
  imports Billing Channels Decimal
begin

text \<open>
  From tokens to quota: the ratio tables (\<^verbatim>\<open>src/setting/ratio_setting\<close>), the prices of built-in tools
  (\<^verbatim>\<open>src/setting/operation_setting/tools.go\<close>), the price of a request before it runs (\<^verbatim>\<open>src/relay/helper/price.go\<close>), and the
  quota of a text or audio request after it has run (\<^verbatim>\<open>src/service/text_quota.go\<close>, \<^verbatim>\<open>src/service/quota.go\<close>), without log
  entries and notifications.
\<close>

section \<open>Ratio tables\<close>

text \<open>The tables the administrator edits, the built-in defaults, and the settings read beside them.\<close>

record ratio_conf =
  modelPriceMap :: "string \<Rightarrow> rat option"
  modelRatioMap :: "string \<Rightarrow> rat option"
  completionRatioMap :: "string \<Rightarrow> rat option"
  cacheRatioMap :: "string \<Rightarrow> rat option"
  createCacheRatioMap :: "string \<Rightarrow> rat option"
  imageRatioMap :: "string \<Rightarrow> rat option"
  audioRatioMap :: "string \<Rightarrow> rat option"
  audioCompletionRatioMap :: "string \<Rightarrow> rat option"
  groupRatioMap :: "string \<Rightarrow> rat option"
  groupGroupRatioMap :: "string \<Rightarrow> (string \<Rightarrow> rat option) option"
  defaultModelRatio :: "string \<Rightarrow> rat option"
  defaultModelPrice :: "string \<Rightarrow> rat option"
  SelfUseModeEnabled :: bool
  EnableFreeModelPreConsume :: bool
  PreConsumedQuota :: int
  rcQuotaPerUnit :: rat
  fl :: float_ops
  dec :: decimal_ops

abbreviation (input) CompactModelSuffix :: string where "CompactModelSuffix \<equiv> ''-openai-compact''"

definition GetModelPrice :: "ratio_conf \<Rightarrow> string \<Rightarrow> rat \<times> bool" where
  "GetModelPrice R name0 =
     (let name = FormatMatchingModelName name0 in
      case modelPriceMap R name of
        Some price \<Rightarrow> (price, True)
      | None \<Rightarrow>
          if suffix CompactModelSuffix name
          then (case modelPriceMap R (''*'' @ CompactModelSuffix) of None \<Rightarrow> (-1, False) | Some price \<Rightarrow> (price, True))
          else (-1, False))"

definition GetModelRatio :: "ratio_conf \<Rightarrow> string \<Rightarrow> rat \<times> bool \<times> string" where
  "GetModelRatio R name0 =
     (let name = FormatMatchingModelName name0; unset = (75 / 2, SelfUseModeEnabled R, name) in
      case modelRatioMap R name of
        Some ratio \<Rightarrow> (ratio, True, name)
      | None \<Rightarrow>
          if suffix CompactModelSuffix name
          then (case modelRatioMap R (''*'' @ CompactModelSuffix) of Some wildcardRatio \<Rightarrow> (wildcardRatio, True, name) | None \<Rightarrow> unset)
          else unset)"

text \<open>The built-in ratio of a model family; the flag says that the tables cannot change it.\<close>

definition gpt_completion_ratio :: "string \<Rightarrow> rat \<times> bool" where
  "gpt_completion_ratio name =
     (if prefix ''gpt-4o'' name
      then if name = ''gpt-4o-2024-05-13'' then (3, True) else if prefix ''gpt-4o-mini-tts'' name then (20, False) else (4, False)
      else if prefix ''gpt-5'' name
      then if prefix ''gpt-5.4'' name then if prefix ''gpt-5.4-nano'' name then (25 / 4, True) else (6, True) else (8, True)
      else if prefix ''gpt-4.5-preview'' name then (2, True)
      else if prefix ''gpt-4-turbo'' name \<or> suffix ''gpt-4-1106'' name \<or> suffix ''gpt-4-1105'' name then (3, True)
      else (2, False))"

definition gemini_completion_ratio :: "float_ops \<Rightarrow> string \<Rightarrow> rat \<times> bool" where
  "gemini_completion_ratio F name =
     (if prefix ''gemini-1.5'' name then (4, True)
      else if prefix ''gemini-2.0'' name then (4, True)
      else if prefix ''gemini-2.5-pro'' name then (8, False)
      else if prefix ''gemini-2.5-flash'' name
      then if prefix ''gemini-2.5-flash-preview'' name
           then if suffix ''-nothinking'' name then (4, False) else (flt F ((7 / 2) / (3 / 20)), False)
           else if prefix ''gemini-2.5-flash-lite'' name then (4, False)
           else (flt F ((5 / 2) / (3 / 10)), False)
      else if prefix ''gemini-robotics-er-1.5'' name then (flt F ((5 / 2) / (3 / 10)), False)
      else if prefix ''gemini-3-pro'' name then if prefix ''gemini-3-pro-image'' name then (60, False) else (6, False)
      else (4, False))"

definition getHardcodedCompletionModelRatio :: "float_ops \<Rightarrow> string \<Rightarrow> rat \<times> bool" where
  "getHardcodedCompletionModelRatio F name =
     (if suffix ''-all'' name \<or> suffix ''-gizmo-*'' name then (2, False)
      else if prefix ''gpt-'' name then gpt_completion_ratio name
      else if prefix ''o1'' name \<or> prefix ''o3'' name then (4, True)
      else if name = ''chatgpt-4o-latest'' then (3, True)
      else if Contains name ''claude-3'' then (5, True)
      else if Contains name ''claude-sonnet-4'' \<or> Contains name ''claude-opus-4'' \<or> Contains name ''claude-haiku-4'' then (5, True)
      else if prefix ''gpt-3.5'' name
      then if name = ''gpt-3.5-turbo'' \<or> suffix ''0125'' name then (3, True)
           else if suffix ''1106'' name then (2, True) else (flt F (4 / 3), True)
      else if prefix ''mistral-'' name then (3, True)
      else if prefix ''gemini-'' name then gemini_completion_ratio F name
      else if prefix ''command'' name
      then if name = ''command-r'' then (3, True)
           else if name = ''command-r-plus'' then (5, True)
           else if name = ''command-r-08-2024'' then (4, True)
           else if name = ''command-r-plus-08-2024'' then (4, True)
           else (4, False)
      else if prefix ''ERNIE-Speed-'' name then (2, True)
      else if prefix ''ERNIE-Lite-'' name then (2, True)
      else if prefix ''ERNIE-Character'' name then (2, True)
      else if prefix ''ERNIE-Functions'' name then (2, True)
      else if name = ''llama2-70b-4096'' then (flt F ((8 / 10) / (64 / 100)), True)
      else if name = ''llama3-8b-8192'' then (2, True)
      else if name = ''llama3-70b-8192'' then (flt F ((79 / 100) / (59 / 100)), True)
      else (1, False))"

definition GetCompletionRatio :: "ratio_conf \<Rightarrow> string \<Rightarrow> rat" where
  "GetCompletionRatio R name0 =
     (let name = FormatMatchingModelName name0; (hardCodedRatio, contain) = getHardcodedCompletionModelRatio (fl R) name;
          rest = (if contain then hardCodedRatio
                  else case completionRatioMap R name of Some ratio \<Rightarrow> ratio | None \<Rightarrow> hardCodedRatio) in
      if Contains name ''/'' then (case completionRatioMap R name of Some ratio \<Rightarrow> ratio | None \<Rightarrow> rest) else rest)"

record CompletionRatioInfo =
  criRatio :: rat
  criLocked :: bool

definition GetCompletionRatioInfo :: "ratio_conf \<Rightarrow> string \<Rightarrow> CompletionRatioInfo" where
  "GetCompletionRatioInfo R name0 =
     (let name = FormatMatchingModelName name0; (hardCodedRatio, locked) = getHardcodedCompletionModelRatio (fl R) name;
          rest = (if locked then \<lparr>criRatio = hardCodedRatio, criLocked = True\<rparr>
                  else case completionRatioMap R name of
                      Some ratio \<Rightarrow> \<lparr>criRatio = ratio, criLocked = False\<rparr>
                    | None \<Rightarrow> \<lparr>criRatio = hardCodedRatio, criLocked = False\<rparr>) in
      if Contains name ''/''
      then (case completionRatioMap R name of Some ratio \<Rightarrow> \<lparr>criRatio = ratio, criLocked = False\<rparr> | None \<Rightarrow> rest)
      else rest)"

definition GetCacheRatio :: "ratio_conf \<Rightarrow> string \<Rightarrow> rat \<times> bool" where
  "GetCacheRatio R name = (case cacheRatioMap R name of None \<Rightarrow> (1, False) | Some ratio \<Rightarrow> (ratio, True))"

definition GetCreateCacheRatio :: "ratio_conf \<Rightarrow> string \<Rightarrow> rat \<times> bool" where
  "GetCreateCacheRatio R name = (case createCacheRatioMap R name of None \<Rightarrow> (5 / 4, False) | Some ratio \<Rightarrow> (ratio, True))"

definition GetImageRatio :: "ratio_conf \<Rightarrow> string \<Rightarrow> rat \<times> bool" where
  "GetImageRatio R name = (case imageRatioMap R name of None \<Rightarrow> (1, False) | Some ratio \<Rightarrow> (ratio, True))"

definition GetAudioRatio :: "ratio_conf \<Rightarrow> string \<Rightarrow> rat" where
  "GetAudioRatio R name = (case audioRatioMap R (FormatMatchingModelName name) of Some ratio \<Rightarrow> ratio | None \<Rightarrow> 1)"

definition GetAudioCompletionRatio :: "ratio_conf \<Rightarrow> string \<Rightarrow> rat" where
  "GetAudioCompletionRatio R name = (case audioCompletionRatioMap R (FormatMatchingModelName name) of Some ratio \<Rightarrow> ratio | None \<Rightarrow> 1)"

definition GetGroupRatio :: "ratio_conf \<Rightarrow> string \<Rightarrow> rat" where
  "GetGroupRatio R name = (case groupRatioMap R name of None \<Rightarrow> 1 | Some ratio \<Rightarrow> ratio)"

definition GetGroupGroupRatio :: "ratio_conf \<Rightarrow> string \<Rightarrow> string \<Rightarrow> rat \<times> bool" where
  "GetGroupGroupRatio R userGroup usingGroup =
     (case groupGroupRatioMap R userGroup of
        None \<Rightarrow> (-1, False)
      | Some gp \<Rightarrow> (case gp usingGroup of None \<Rightarrow> (-1, False) | Some ratio \<Rightarrow> (ratio, True)))"

section \<open>Prices of tools\<close>

definition GetWebSearchPricePerThousand :: "string \<Rightarrow> string \<Rightarrow> rat" where
  "GetWebSearchPricePerThousand modelName contextSize =
     (if prefix ''o3'' modelName \<or> prefix ''o4'' modelName \<or> prefix ''gpt-5'' modelName then 10 else 25)"

definition GetClaudeWebSearchPricePerThousand :: rat where
  "GetClaudeWebSearchPricePerThousand = 10"

definition GetFileSearchPricePerThousand :: rat where
  "GetFileSearchPricePerThousand = 5 / 2"

definition GetGeminiInputAudioPricePerMillionTokens :: "string \<Rightarrow> rat" where
  "GetGeminiInputAudioPricePerMillionTokens modelName =
     (if prefix ''gemini-2.5-flash-preview-native-audio'' modelName then 3
      else if prefix ''gemini-2.5-flash-preview-lite'' modelName then 1 / 2
      else if prefix ''gemini-2.5-flash-preview'' modelName then 1
      else if prefix ''gemini-2.5-flash'' modelName then 1
      else if prefix ''gemini-2.0-flash'' modelName then 7 / 10
      else if prefix ''gemini-robotics-er-1.5'' modelName then 1
      else 0)"

definition image_price :: "string \<Rightarrow> rat \<Rightarrow> rat \<Rightarrow> rat option" where
  "image_price sz square other =
     (if sz = ''1024x1024'' then Some square else if sz = ''1024x1536'' \<or> sz = ''1536x1024'' then Some other else None)"

definition GetGPTImage1PriceOnceCall :: "string \<Rightarrow> string \<Rightarrow> rat" where
  "GetGPTImage1PriceOnceCall quality sz =
     (let p = (if quality = ''low'' then image_price sz (11 / 1000) (16 / 1000)
               else if quality = ''medium'' then image_price sz (42 / 1000) (63 / 1000)
               else if quality = ''high'' then image_price sz (167 / 1000) (25 / 100)
               else None) in
      case p of Some price \<Rightarrow> price | None \<Rightarrow> 167 / 1000)"

section \<open>The price of a request\<close>

record GroupRatioInfo =
  giGroupRatio :: rat
  giGroupSpecialRatio :: rat
  giHasSpecialRatio :: bool

record PriceData =
  FreeModel :: bool
  ModelPrice :: rat
  ModelRatio :: rat
  CompletionRatio :: rat
  CacheRatio :: rat
  CacheCreationRatio :: rat
  CacheCreation5mRatio :: rat
  CacheCreation1hRatio :: rat
  ImageRatio :: rat
  AudioRatio :: rat
  AudioCompletionRatio :: rat
  OtherRatios :: "(string \<times> rat) list"
  UsePrice :: bool
  pdQuota :: int
  QuotaToPreConsume :: int
  pdGroupRatioInfo :: GroupRatioInfo

definition AddOtherRatio :: "string \<Rightarrow> rat \<Rightarrow> PriceData \<Rightarrow> PriceData" where
  "AddOtherRatio key ratio p = (if ratio \<le> 0 then p else p\<lparr>OtherRatios := AList.update key ratio (OtherRatios p)\<rparr>)"

text \<open>What the price reads of the request: the model, the groups (with the group that the automatic choice left in the
  context), whether the user accepts models without a price, and the token count's meta data.\<close>

record price_request =
  prModel :: string
  prUserGroup :: string
  prUsingGroup :: string
  prAutoGroup :: "string option"
  prAcceptUnset :: bool
  prMaxTokens :: int
  prImagePriceRatio :: rat

text \<open>The group ratio and the group it is for.\<close>

definition HandleGroupRatio :: "ratio_conf \<Rightarrow> price_request \<Rightarrow> GroupRatioInfo \<times> string" where
  "HandleGroupRatio R q =
     (let usingGroup = (case prAutoGroup q of Some g \<Rightarrow> g | None \<Rightarrow> prUsingGroup q) in
      case GetGroupGroupRatio R (prUserGroup q) usingGroup of
        (userGroupRatio, True) \<Rightarrow> (\<lparr>giGroupRatio = userGroupRatio, giGroupSpecialRatio = userGroupRatio, giHasSpecialRatio = True\<rparr>, usingGroup)
      | (_, False) \<Rightarrow> (\<lparr>giGroupRatio = GetGroupRatio R usingGroup, giGroupSpecialRatio = -1, giHasSpecialRatio = False\<rparr>, usingGroup))"

definition zero_price :: PriceData where
  "zero_price = \<lparr>FreeModel = False, ModelPrice = 0, ModelRatio = 0, CompletionRatio = 0, CacheRatio = 0, CacheCreationRatio = 0,
     CacheCreation5mRatio = 0, CacheCreation1hRatio = 0, ImageRatio = 0, AudioRatio = 0, AudioCompletionRatio = 0, OtherRatios = [],
     UsePrice = False, pdQuota = 0, QuotaToPreConsume = 0,
     pdGroupRatioInfo = \<lparr>giGroupRatio = 0, giGroupSpecialRatio = 0, giHasSpecialRatio = False\<rparr>\<rparr>"

abbreviation (input) price_not_configured :: "string \<Rightarrow> gerr" where
  "price_not_configured name \<equiv> Msg (''price of model '' @ name @ '' is not configured'')"

definition ratio_price :: "ratio_conf \<Rightarrow> price_request \<Rightarrow> int \<Rightarrow> GroupRatioInfo \<Rightarrow> gerr + PriceData" where
  "ratio_price R q promptTokens gi =
     (let model = prModel q; F = fl R;
          preConsumedTokens0 = max promptTokens (PreConsumedQuota R);
          preConsumedTokens = (if prMaxTokens q \<noteq> 0 then i64 (preConsumedTokens0 + prMaxTokens q) else preConsumedTokens0);
          (modelRatio, success, matchName) = GetModelRatio R model in
      if \<not> success \<and> \<not> prAcceptUnset q then Inl (price_not_configured matchName)
      else let cacheCreationRatio = fst (GetCreateCacheRatio R model) in
        Inr (zero_price\<lparr>ModelRatio := modelRatio, CompletionRatio := GetCompletionRatio R model, CacheRatio := fst (GetCacheRatio R model),
          CacheCreationRatio := cacheCreationRatio, CacheCreation5mRatio := cacheCreationRatio,
          CacheCreation1hRatio := fmul F cacheCreationRatio (flt F (6 / (375 / 100))), ImageRatio := fst (GetImageRatio R model),
          AudioRatio := GetAudioRatio R model, AudioCompletionRatio := GetAudioCompletionRatio R model,
          QuotaToPreConsume := f2i F (fmul F (i2f F preConsumedTokens) (fmul F modelRatio (giGroupRatio gi)))\<rparr>))"

definition ModelPriceHelper :: "ratio_conf \<Rightarrow> price_request \<Rightarrow> int \<Rightarrow> gerr + PriceData" where
  "ModelPriceHelper R q promptTokens =
     (let F = fl R; (modelPrice0, usePrice) = GetModelPrice R (prModel q); (gi, _) = HandleGroupRatio R q;
          modelPrice = (if usePrice \<and> prImagePriceRatio q \<noteq> 0 then fmul F modelPrice0 (prImagePriceRatio q) else modelPrice0);
          base = (if \<not> usePrice then ratio_price R q promptTokens gi
                  else Inr (zero_price\<lparr>QuotaToPreConsume := f2i F (fmul F (fmul F modelPrice (rcQuotaPerUnit R)) (giGroupRatio gi))\<rparr>)) in
      case base of
        Inl e \<Rightarrow> Inl e
      | Inr p \<Rightarrow>
          let freeModel = (\<not> EnableFreeModelPreConsume R \<and>
                (giGroupRatio gi = 0 \<or> (if usePrice then modelPrice = 0 else ModelRatio p = 0))) in
          Inr (p\<lparr>FreeModel := freeModel, ModelPrice := modelPrice, UsePrice := usePrice, pdGroupRatioInfo := gi,
                 QuotaToPreConsume := (if freeModel then 0 else QuotaToPreConsume p)\<rparr>))"

definition ModelPriceHelperPerCall :: "ratio_conf \<Rightarrow> price_request \<Rightarrow> gerr + PriceData" where
  "ModelPriceHelperPerCall R q =
     (let F = fl R; (gi, _) = HandleGroupRatio R q; (modelPrice0, success) = GetModelPrice R (prModel q);
          base = (if success then Inr (modelPrice0, True, 0)
                  else case defaultModelPrice R (prModel q) of
                      Some defaultPrice \<Rightarrow> Inr (defaultPrice, True, 0)
                    | None \<Rightarrow>
                        let (modelRatio, ratioSuccess, matchName) = GetModelRatio R (prModel q) in
                        if \<not> ratioSuccess \<and> \<not> prAcceptUnset q then Inl (price_not_configured matchName)
                        else Inr (modelPrice0, False, modelRatio)) in
      case base of
        Inl e \<Rightarrow> Inl e
      | Inr (modelPrice, usePrice, modelRatio) \<Rightarrow>
          let freeModel = (\<not> EnableFreeModelPreConsume R \<and> (giGroupRatio gi = 0 \<or> (if usePrice then modelPrice = 0 else modelRatio = 0)));
              quota = (if usePrice then f2i F (fmul F (fmul F modelPrice (rcQuotaPerUnit R)) (giGroupRatio gi))
                       else f2i F (fmul F (fmul F (fdiv F modelRatio 2) (rcQuotaPerUnit R)) (giGroupRatio gi))) in
          Inr (zero_price\<lparr>FreeModel := freeModel, ModelPrice := (if usePrice then modelPrice else -1), ModelRatio := modelRatio,
                 UsePrice := usePrice, pdQuota := (if freeModel then 0 else quota), pdGroupRatioInfo := gi\<rparr>))"

definition ContainPriceOrRatio :: "ratio_conf \<Rightarrow> string \<Rightarrow> bool" where
  "ContainPriceOrRatio R modelName = (snd (GetModelPrice R modelName) \<or> fst (snd (GetModelRatio R modelName)))"

section \<open>Usage\<close>

text \<open>What the quota reads of \<^verbatim>\<open>dto.Usage\<close>; \<open>usCost\<close> is the cost when the upstream sent a number.\<close>

record Usage =
  usPromptTokens :: int
  usCompletionTokens :: int
  usTotalTokens :: int
  usUsageSemantic :: string
  usUsageSource :: string
  usCachedTokens :: int
  usCachedCreationTokens :: int
  usTextTokens :: int
  usAudioTokens :: int
  usImageTokens :: int
  usOutTextTokens :: int
  usOutAudioTokens :: int
  usClaudeCacheCreation5mTokens :: int
  usClaudeCacheCreation1hTokens :: int
  usCost :: "rat option"

text \<open>What it reads of the relay info and the context: the format of the final request, the type of the channel, the
  estimated prompt tokens, the built-in tools that ran (with the number of calls and the size of the search context), and the
  keys that the adaptors set for searches and generated images.\<close>

record text_request =
  trModelName :: string
  trPriceData :: PriceData
  trClaudeFormat :: bool
  trOpenRouterChannel :: bool
  trEstimatePromptTokens :: int
  trBuiltInTools :: "(string \<Rightarrow> (int \<times> string) option) option"
  trSearchContextSize :: string
  trClaudeWebSearchRequests :: int
  trImageGenerationCall :: bool
  trImageQuality :: string
  trImageSize :: string

record textQuotaSummary =
  tqPromptTokens :: int
  tqCompletionTokens :: int
  tqTotalTokens :: int
  tqCacheTokens :: int
  tqCacheCreationTokens :: int
  tqCacheCreationTokens5m :: int
  tqCacheCreationTokens1h :: int
  tqImageTokens :: int
  tqAudioTokens :: int
  tqUsageSemantic :: string
  tqQuota :: int

definition cacheWriteTokensTotal :: "textQuotaSummary \<Rightarrow> int" where
  "cacheWriteTokensTotal s =
     (if tqCacheCreationTokens5m s > 0 \<or> tqCacheCreationTokens1h s > 0
      then let splitCacheWriteTokens = i64 (tqCacheCreationTokens5m s + tqCacheCreationTokens1h s) in
        if tqCacheCreationTokens s > splitCacheWriteTokens then tqCacheCreationTokens s else splitCacheWriteTokens
      else tqCacheCreationTokens s)"

definition isLegacyClaudeDerivedOpenAIUsage :: "text_request \<Rightarrow> Usage \<Rightarrow> bool" where
  "isLegacyClaudeDerivedOpenAIUsage r u =
     (if trClaudeFormat r then False
      else if usUsageSource u \<noteq> '''' \<or> usUsageSemantic u \<noteq> '''' then False
      else usClaudeCacheCreation5mTokens u > 0 \<or> usClaudeCacheCreation1hTokens u > 0)"

definition usageSemanticFromUsage :: "text_request \<Rightarrow> Usage option \<Rightarrow> string" where
  "usageSemanticFromUsage r uo =
     (case uo of
        Some u \<Rightarrow> if usUsageSemantic u \<noteq> '''' then usUsageSemantic u else if trClaudeFormat r then ''anthropic'' else ''openai''
      | None \<Rightarrow> if trClaudeFormat r then ''anthropic'' else ''openai'')"

definition hasCustomModelRatio :: "ratio_conf \<Rightarrow> string \<Rightarrow> rat \<Rightarrow> bool" where
  "hasCustomModelRatio R modelName currentRatio =
     (case defaultModelRatio R modelName of None \<Rightarrow> True | Some defaultRatio \<Rightarrow> currentRatio \<noteq> defaultRatio)"

definition CalcOpenRouterCacheCreateTokens :: "ratio_conf \<Rightarrow> Usage \<Rightarrow> PriceData \<Rightarrow> int" where
  "CalcOpenRouterCacheCreateTokens R u p =
     (if CacheCreationRatio p = 1 then 0
      else let F = fl R; quotaPrice = fdiv F (ModelRatio p) (rcQuotaPerUnit R);
               promptCacheCreatePrice = fmul F quotaPrice (CacheCreationRatio p);
               promptCacheReadPrice = fmul F quotaPrice (CacheRatio p);
               completionPrice = fmul F quotaPrice (CompletionRatio p);
               cost = (case usCost u of Some c \<Rightarrow> c | None \<Rightarrow> 0);
               totalPromptTokens = i2f F (usPromptTokens u); completionTokens = i2f F (usCompletionTokens u);
               promptCacheReadTokens = i2f F (usCachedTokens u) in
        f2i F (fround F (fdiv F
          (fsub F (fadd F (fsub F cost (fmul F totalPromptTokens quotaPrice)) (fmul F promptCacheReadTokens (fsub F quotaPrice promptCacheReadPrice)))
                  (fmul F completionTokens completionPrice))
          (fsub F promptCacheCreatePrice quotaPrice))))"

section \<open>The quota of a text request\<close>

definition zero_usage :: Usage where
  "zero_usage = \<lparr>usPromptTokens = 0, usCompletionTokens = 0, usTotalTokens = 0, usUsageSemantic = '''', usUsageSource = '''',
     usCachedTokens = 0, usCachedCreationTokens = 0, usTextTokens = 0, usAudioTokens = 0, usImageTokens = 0, usOutTextTokens = 0,
     usOutAudioTokens = 0, usClaudeCacheCreation5mTokens = 0, usClaudeCacheCreation1hTokens = 0, usCost = None\<rparr>"

text \<open>A missing usage is replaced by the estimate.\<close>

definition effective_usage :: "text_request \<Rightarrow> Usage option \<Rightarrow> Usage" where
  "effective_usage r uo = (case uo of Some u \<Rightarrow> u
     | None \<Rightarrow> zero_usage\<lparr>usPromptTokens := trEstimatePromptTokens r, usTotalTokens := trEstimatePromptTokens r\<rparr>)"

text \<open>The token counts of the summary, with those of OpenRouter's Claude models corrected. Comparing the untyped cost with the
  integer 0 is always true, so the source's condition on the cost is no condition.\<close>

definition summary_tokens :: "ratio_conf \<Rightarrow> text_request \<Rightarrow> Usage option \<Rightarrow> textQuotaSummary" where
  "summary_tokens R r uo =
     (let u = effective_usage r uo; sem = usageSemanticFromUsage r uo; p = trPriceData r;
          s = \<lparr>tqPromptTokens = usPromptTokens u, tqCompletionTokens = usCompletionTokens u,
               tqTotalTokens = i64 (usPromptTokens u + usCompletionTokens u), tqCacheTokens = usCachedTokens u,
               tqCacheCreationTokens = usCachedCreationTokens u, tqCacheCreationTokens5m = usClaudeCacheCreation5mTokens u,
               tqCacheCreationTokens1h = usClaudeCacheCreation1hTokens u, tqImageTokens = usImageTokens u,
               tqAudioTokens = usAudioTokens u, tqUsageSemantic = sem, tqQuota = 0\<rparr> in
      if trOpenRouterChannel r \<and> sem = ''anthropic''
      then let prompt = i64 (tqPromptTokens s - tqCacheTokens s);
               custom = (UsePrice p \<or> hasCustomModelRatio R (trModelName r) (ModelRatio p));
               maybe = CalcOpenRouterCacheCreateTokens R u p;
               creation = (if tqCacheCreationTokens s = 0 \<and> CacheCreationRatio p \<noteq> 1 \<and> \<not> custom \<and> maybe \<ge> 0 \<and> prompt \<ge> maybe
                           then maybe else tqCacheCreationTokens s) in
        s\<lparr>tqPromptTokens := i64 (prompt - creation), tqCacheCreationTokens := creation\<rparr>
      else s)"

text \<open>The quota of the tools, each per call at the group's ratio.\<close>

definition web_search_quota :: "ratio_conf \<Rightarrow> text_request \<Rightarrow> rat" where
  "web_search_quota R r =
     (let g = giGroupRatio (pdGroupRatioInfo (trPriceData r)) in
      case trBuiltInTools r of
        Some tools \<Rightarrow>
          (case tools ''web_search_preview'' of
             Some (calls, sz) \<Rightarrow>
               if calls > 0 then ddiv (dec R) (GetWebSearchPricePerThousand (trModelName r) sz * of_int calls) 1000 * g * rcQuotaPerUnit R else 0
           | None \<Rightarrow> 0)
      | None \<Rightarrow>
          if suffix ''search-preview'' (trModelName r)
          then let sz = (if trSearchContextSize r = '''' then ''medium'' else trSearchContextSize r) in
            ddiv (dec R) (GetWebSearchPricePerThousand (trModelName r) sz) 1000 * g * rcQuotaPerUnit R
          else 0)"

definition claude_search_quota :: "ratio_conf \<Rightarrow> text_request \<Rightarrow> rat" where
  "claude_search_quota R r =
     (if trClaudeWebSearchRequests r > 0
      then ddiv (dec R) GetClaudeWebSearchPricePerThousand 1000 * giGroupRatio (pdGroupRatioInfo (trPriceData r)) * rcQuotaPerUnit R *
             of_int (trClaudeWebSearchRequests r)
      else 0)"

definition file_search_quota :: "ratio_conf \<Rightarrow> text_request \<Rightarrow> rat" where
  "file_search_quota R r =
     (case trBuiltInTools r of
        Some tools \<Rightarrow>
          (case tools ''file_search'' of
             Some (calls, _) \<Rightarrow>
               if calls > 0
               then ddiv (dec R) (GetFileSearchPricePerThousand * of_int calls) 1000 * giGroupRatio (pdGroupRatioInfo (trPriceData r)) * rcQuotaPerUnit R
               else 0
           | None \<Rightarrow> 0)
      | None \<Rightarrow> 0)"

definition image_call_quota :: "ratio_conf \<Rightarrow> text_request \<Rightarrow> rat" where
  "image_call_quota R r =
     (if trImageGenerationCall r
      then GetGPTImage1PriceOnceCall (trImageQuality r) (trImageSize r) * giGroupRatio (pdGroupRatioInfo (trPriceData r)) * rcQuotaPerUnit R
      else 0)"

definition audio_input_quota :: "ratio_conf \<Rightarrow> text_request \<Rightarrow> textQuotaSummary \<Rightarrow> rat" where
  "audio_input_quota R r s =
     (let price = GetGeminiInputAudioPricePerMillionTokens (trModelName r) in
      if \<not> UsePrice (trPriceData r) \<and> tqAudioTokens s \<noteq> 0 \<and> price > 0
      then ddiv (dec R) price 1000000 * of_int (tqAudioTokens s) * giGroupRatio (pdGroupRatioInfo (trPriceData r)) * rcQuotaPerUnit R
      else 0)"

definition tools_quota :: "ratio_conf \<Rightarrow> text_request \<Rightarrow> textQuotaSummary \<Rightarrow> rat" where
  "tools_quota R r s = web_search_quota R r + claude_search_quota R r + file_search_quota R r + audio_input_quota R r s + image_call_quota R r"

text \<open>The weighted prompt: tokens that have a ratio of their own are taken out of the prompt, unless the usage already
  counts them apart.\<close>

definition cache_creation_weighted :: "PriceData \<Rightarrow> bool \<Rightarrow> textQuotaSummary \<Rightarrow> rat" where
  "cache_creation_weighted p apart s =
     (if tqCacheCreationTokens s \<noteq> 0 \<or> tqCacheCreationTokens5m s > 0 \<or> tqCacheCreationTokens1h s > 0
      then if \<not> apart then of_int (tqCacheCreationTokens s) * CacheCreationRatio p
           else let remaining = max 0 (i64 (i64 (tqCacheCreationTokens s - tqCacheCreationTokens5m s) - tqCacheCreationTokens1h s)) in
             of_int remaining * CacheCreationRatio p + of_int (tqCacheCreationTokens5m s) * CacheCreation5mRatio p +
             of_int (tqCacheCreationTokens1h s) * CacheCreation1hRatio p
      else 0)"

definition base_tokens :: "text_request \<Rightarrow> bool \<Rightarrow> textQuotaSummary \<Rightarrow> int" where
  "base_tokens r apart s =
     tqPromptTokens s - (if \<not> apart then tqCacheTokens s + tqCacheCreationTokens s else 0) - tqImageTokens s -
     (if GetGeminiInputAudioPricePerMillionTokens (trModelName r) > 0 then tqAudioTokens s else 0)"

definition prompt_weighted :: "text_request \<Rightarrow> bool \<Rightarrow> textQuotaSummary \<Rightarrow> rat" where
  "prompt_weighted r apart s =
     (let p = trPriceData r in
      of_int (base_tokens r apart s) + of_int (tqCacheTokens s) * CacheRatio p + of_int (tqImageTokens s) * ImageRatio p +
      cache_creation_weighted p apart s)"

definition other_ratios :: "PriceData \<Rightarrow> rat" where
  "other_ratios p = prod_list (map snd (OtherRatios p))"

definition calculateTextQuotaSummary :: "ratio_conf \<Rightarrow> text_request \<Rightarrow> Usage option \<Rightarrow> textQuotaSummary" where
  "calculateTextQuotaSummary R r uo =
     (let s = summary_tokens R r uo; p = trPriceData r; g = giGroupRatio (pdGroupRatioInfo p);
          apart = (tqUsageSemantic s = ''anthropic'' \<or> isLegacyClaudeDerivedOpenAIUsage r (effective_usage r uo));
          ratio = ModelRatio p * g;
          quota0 = (if \<not> UsePrice p
             then let q = ((prompt_weighted r apart s + of_int (tqCompletionTokens s) * CompletionRatio p) * ratio + tools_quota R r s) * other_ratios p in
               i64 (Round0 (dec R) (if ratio \<noteq> 0 \<and> q \<le> 0 then 1 else q))
             else i64 (Round0 (dec R) ((ModelPrice p * rcQuotaPerUnit R * g + tools_quota R r s) * other_ratios p))) in
      s\<lparr>tqQuota := (if tqTotalTokens s = 0 then 0 else if ratio \<noteq> 0 \<and> quota0 = 0 then 1 else quota0)\<rparr>)"

text \<open>Charging for a text request that has run; an error of the settlement is only logged.\<close>

definition PostTextConsumeQuota :: "env \<Rightarrow> ratio_conf \<Rightarrow> int \<Rightarrow> text_request \<Rightarrow> Usage option \<Rightarrow> relay_info \<Rightarrow> BillingSession option \<Rightarrow> world \<Rightarrow>
    (BillingSession option \<times> relay_info) \<times> world" where
  "PostTextConsumeQuota E R channelId r uo ri bs w =
     (let s = calculateTextQuotaSummary R r uo;
          w1 = (if tqTotalTokens s = 0 then w
                else UpdateChannelUsedQuota (econf E) channelId (tqQuota s)
                       (UpdateUserUsedQuotaAndRequestCount (econf E) (riUserId ri) (tqQuota s) w));
          ((_, bs', ri'), w2) = SettleBilling E ri bs (tqQuota s) w1 in
      ((bs', ri'), w2))"

section \<open>Audio\<close>

record QuotaInfo =
  qiInText :: int
  qiInAudio :: int
  qiOutText :: int
  qiOutAudio :: int
  qiModelName :: string
  qiUsePrice :: bool
  qiModelPrice :: rat
  qiModelRatio :: rat
  qiGroupRatio :: rat

definition calculateAudioQuota :: "ratio_conf \<Rightarrow> QuotaInfo \<Rightarrow> int" where
  "calculateAudioQuota R info =
     (if qiUsePrice info then i64 (IntPart (dec R) (qiModelPrice info * rcQuotaPerUnit R * qiGroupRatio info))
      else let completionRatio = GetCompletionRatio R (qiModelName info); audioRatio = GetAudioRatio R (qiModelName info);
               audioCompletionRatio = GetAudioCompletionRatio R (qiModelName info);
               ratio = qiGroupRatio info * qiModelRatio info;
               quota = (of_int (qiInText info) + of_int (qiOutText info) * completionRatio + of_int (qiInAudio info) * audioRatio +
                        of_int (qiOutAudio info) * audioRatio * audioCompletionRatio) * ratio in
           i64 (Round0 (dec R) (if ratio \<noteq> 0 \<and> quota \<le> 0 then 1 else quota)))"

definition PostAudioConsumeQuota :: "env \<Rightarrow> ratio_conf \<Rightarrow> int \<Rightarrow> text_request \<Rightarrow> Usage \<Rightarrow> relay_info \<Rightarrow> BillingSession option \<Rightarrow> world \<Rightarrow>
    (BillingSession option \<times> relay_info) \<times> world" where
  "PostAudioConsumeQuota E R channelId r u ri bs w =
     (let p = trPriceData r;
          quota0 = calculateAudioQuota R \<lparr>qiInText = usTextTokens u, qiInAudio = usAudioTokens u, qiOutText = usOutTextTokens u,
            qiOutAudio = usOutAudioTokens u, qiModelName = trModelName r, qiUsePrice = UsePrice p, qiModelPrice = 0,
            qiModelRatio = ModelRatio p, qiGroupRatio = giGroupRatio (pdGroupRatioInfo p)\<rparr>;
          quota = (if usTotalTokens u = 0 then 0 else quota0);
          w1 = (if usTotalTokens u = 0 then w
                else UpdateChannelUsedQuota (econf E) channelId quota (UpdateUserUsedQuotaAndRequestCount (econf E) (riUserId ri) quota w));
          ((_, bs', ri'), w2) = SettleBilling E ri bs quota w1 in
      ((bs', ri'), w2))"

text \<open>Realtime connections: the tokens in and out, by kind, and the total the upstream reports.\<close>

record RealtimeUsage =
  ruTotalTokens :: int
  ruInText :: int
  ruInAudio :: int
  ruOutText :: int
  ruOutAudio :: int

text \<open>The charge for one response of a realtime connection, during the connection.\<close>

definition PreWssConsumeQuota :: "env \<Rightarrow> ratio_conf \<Rightarrow> price_request \<Rightarrow> bool \<Rightarrow> RealtimeUsage \<Rightarrow> relay_info \<Rightarrow> world \<Rightarrow> (unit res \<times> relay_info) \<times> world" where
  "PreWssConsumeQuota E R q usePrice u ri w =
     (if usePrice then ((Inr (), ri), w)
      else case GetUserQuota (econf E) (riUserId ri) False w of
          (Inl e, w1) \<Rightarrow> ((Inl e, ri), w1)
        | (Inr userQuota, w1) \<Rightarrow>
            (case GetTokenByKey (econf E) (if prefix ''sk-'' (riTokenKey ri) then drop 3 (riTokenKey ri) else riTokenKey ri) False w1 of
               (Inl e, w2) \<Rightarrow> ((Inl e, ri), w2)
             | (Inr t, w2) \<Rightarrow>
                 let quota = calculateAudioQuota R \<lparr>qiInText = ruInText u, qiInAudio = ruInAudio u, qiOutText = ruOutText u,
                       qiOutAudio = ruOutAudio u, qiModelName = prModel q, qiUsePrice = usePrice, qiModelPrice = 0,
                       qiModelRatio = fst (GetModelRatio R (prModel q)), qiGroupRatio = giGroupRatio (fst (HandleGroupRatio R q))\<rparr> in
                 if userQuota < quota then ((Inl (Msg ''user quota is not enough''), ri), w2)
                 else if \<not> tkUnlimitedQuota t \<and> tkRemainQuota t < quota then ((Inl (Msg ''token quota is not enough''), ri), w2)
                 else PostConsumeQuota E ri quota w2))"

text \<open>After the connection only the counters and the log are written.\<close>

definition PostWssConsumeQuota :: "env \<Rightarrow> ratio_conf \<Rightarrow> int \<Rightarrow> string \<Rightarrow> PriceData \<Rightarrow> RealtimeUsage \<Rightarrow> relay_info \<Rightarrow> world \<Rightarrow> world" where
  "PostWssConsumeQuota E R channelId modelName p u ri w =
     (let quota = calculateAudioQuota R \<lparr>qiInText = ruInText u, qiInAudio = ruInAudio u, qiOutText = ruOutText u,
            qiOutAudio = ruOutAudio u, qiModelName = modelName, qiUsePrice = UsePrice p, qiModelPrice = 0,
            qiModelRatio = ModelRatio p, qiGroupRatio = giGroupRatio (pdGroupRatioInfo p)\<rparr> in
      if ruTotalTokens u = 0 then w
      else UpdateChannelUsedQuota (econf E) channelId quota (UpdateUserUsedQuotaAndRequestCount (econf E) (riUserId ri) quota w))"

end
