(* ===== verification/PricingLaws.thy ===== *)
theory PricingLaws
  imports Pricing Gateway
begin

text \<open>
  What \<open>Pricing\<close> guarantees: how far a charged quota may be from the exact price, that the two ways of reporting cached tokens
  cost the same, that a free model is free, and two places where the price of audio is lost or charged twice.
\<close>

section \<open>The exact price\<close>

text \<open>Every class of tokens with its weight.\<close>

definition apart :: "text_request \<Rightarrow> Usage option \<Rightarrow> bool" where
  "apart r uo \<longleftrightarrow> usageSemanticFromUsage r uo = ''anthropic'' \<or> isLegacyClaudeDerivedOpenAIUsage r (effective_usage r uo)"

definition exact_text_price :: "ratio_conf \<Rightarrow> text_request \<Rightarrow> Usage option \<Rightarrow> rat" where
  "exact_text_price R r uo =
     (let s = summary_tokens R r uo; p = trPriceData r in
      ((prompt_weighted r (apart r uo) s + of_int (tqCompletionTokens s) * CompletionRatio p) * (ModelRatio p * giGroupRatio (pdGroupRatioInfo p)) +
       tools_quota R r s) * other_ratios p)"

lemma summary_tokens_semantic [simp]: "tqUsageSemantic (summary_tokens R r uo) = usageSemanticFromUsage r uo"
  by (simp add: summary_tokens_def Let_def)

lemma summary_tokens_total: "tqTotalTokens (summary_tokens R r uo) = i64 (usPromptTokens (effective_usage r uo) + usCompletionTokens (effective_usage r uo))"
  by (simp add: summary_tokens_def Let_def)

text \<open>The quota from the exact price, with the two corrections upwards.\<close>

definition charged :: "decimal_ops \<Rightarrow> rat \<Rightarrow> rat \<Rightarrow> int" where
  "charged D ratio q = (let n = i64 (Round0 D (if ratio \<noteq> 0 \<and> q \<le> 0 then 1 else q)) in if ratio \<noteq> 0 \<and> n = 0 then 1 else n)"

lemma text_quota_charged:
  assumes "\<not> UsePrice (trPriceData r)"
  shows "tqQuota (calculateTextQuotaSummary R r uo) =
    (if tqTotalTokens (summary_tokens R r uo) = 0 then 0
     else charged (dec R) (ModelRatio (trPriceData r) * giGroupRatio (pdGroupRatioInfo (trPriceData r))) (exact_text_price R r uo))"
  using assms by (simp add: calculateTextQuotaSummary_def exact_text_price_def charged_def apart_def Let_def)

lemma charged_bounds:
  assumes D: "rounds_nearest D" and "ratio \<noteq> 0" "q < 2 ^ 62"
  shows "1 \<le> charged D ratio q" "q < 1 / 2 \<Longrightarrow> charged D ratio q = 1" "1 / 2 \<le> q \<Longrightarrow> \<bar>of_int (charged D ratio q) - q\<bar> \<le> 1 / 2"
proof -
  have one: "i64 1 = 1" "i64 0 = 0" by (simp_all add: in64_def)
  show "charged D ratio q = 1" if "q < 1 / 2"
  proof (cases "q \<le> 0")
    case True
    then show ?thesis using assms(2) Round0_int [OF D, of 1] one by (simp add: charged_def)
  next
    case False
    with that have "Round0 D q = 0" by (simp add: Round0_small [OF D])
    with False assms(2) one show ?thesis by (simp add: charged_def)
  qed
  moreover have big: "1 \<le> charged D ratio q \<and> \<bar>of_int (charged D ratio q) - q\<bar> \<le> 1 / 2" if h: "1 / 2 \<le> q"
  proof -
    let ?n = "Round0 D q"
    have near: "of_int ?n \<le> q + 1 / 2" "q - 1 / 2 \<le> of_int ?n" using Round0_near [OF D, of q] unfolding abs_le_iff by linarith+
    then have "(of_int ?n :: rat) < of_int (2 ^ 63)" using assms(3) by simp
    then have "?n < 2 ^ 63" by linarith
    with Round0_nonneg [OF D h] have "i64 ?n = ?n" "0 \<le> ?n" by (simp_all add: in64_def)
    moreover have "\<bar>1 - q\<bar> \<le> 1 / 2" if "?n = 0" using near h that unfolding abs_le_iff by simp
    ultimately show ?thesis using h assms(2) Round0_near [OF D, of q] by (auto simp: charged_def Let_def)
  qed
  ultimately show "1 \<le> charged D ratio q" "1 / 2 \<le> q \<Longrightarrow> \<bar>of_int (charged D ratio q) - q\<bar> \<le> 1 / 2"
    by (cases "q < 1 / 2"; simp)+
qed

section \<open>The ratio tables\<close>

text \<open>What the price list shows of a completion ratio is what is charged.\<close>

lemma GetCompletionRatioInfo_ratio: "criRatio (GetCompletionRatioInfo R name) = GetCompletionRatio R name"
  by (simp add: GetCompletionRatioInfo_def GetCompletionRatio_def Let_def split: prod.splits option.splits)

text \<open>The branch for \<^verbatim>\<open>gpt-3.5\<close> comes after the one for every \<^verbatim>\<open>gpt-\<close> model and is never reached.\<close>

lemma gpt_35_ratio: "getHardcodedCompletionModelRatio F ''gpt-3.5-turbo'' = (2, False)"
  by (simp add: getHardcodedCompletionModelRatio_def gpt_completion_ratio_def suffix_def)

section \<open>Two reports of one request\<close>

text \<open>The report of an OpenAI upstream counts cached tokens as part of the prompt, that of an Anthropic upstream does not.\<close>

definition as_anthropic :: "Usage \<Rightarrow> Usage" where
  "as_anthropic u = u\<lparr>usUsageSemantic := ''anthropic'', usPromptTokens := usPromptTokens u - usCachedTokens u - usCachedCreationTokens u\<rparr>"

lemma semantics_same_price:
  assumes "usUsageSemantic u = ''openai''" "\<not> trOpenRouterChannel r"
    and "CacheCreation5mRatio (trPriceData r) = CacheCreationRatio (trPriceData r)" "usClaudeCacheCreation1hTokens u = 0"
    and "0 \<le> usClaudeCacheCreation5mTokens u" "usClaudeCacheCreation5mTokens u \<le> usCachedCreationTokens u" "in64 (usCachedCreationTokens u)"
  shows "exact_text_price R r (Some (as_anthropic u)) = exact_text_price R r (Some u)"
proof -
  have a: "apart r (Some (as_anthropic u))" "\<not> apart r (Some u)"
    using assms(1) by (simp_all add: apart_def usageSemanticFromUsage_def as_anthropic_def isLegacyClaudeDerivedOpenAIUsage_def effective_usage_def)
  have "in64 (usCachedCreationTokens u - usClaudeCacheCreation5mTokens u)" using assms(5-7) by (simp add: in64_def)
  then have c: "cache_creation_weighted (trPriceData r) True (summary_tokens R r (Some (as_anthropic u))) =
      cache_creation_weighted (trPriceData r) False (summary_tokens R r (Some u))"
    using assms by (auto simp: cache_creation_weighted_def summary_tokens_def Let_def effective_usage_def as_anthropic_def ring_distribs)
  show ?thesis
    using a c assms(2) by (simp add: exact_text_price_def prompt_weighted_def base_tokens_def Let_def tools_quota_def audio_input_quota_def)
      (simp add: summary_tokens_def Let_def effective_usage_def as_anthropic_def)
qed

section \<open>Free models\<close>

definition uses_no_tools :: "text_request \<Rightarrow> bool" where
  "uses_no_tools r \<longleftrightarrow> trBuiltInTools r = None \<and> \<not> suffix ''search-preview'' (trModelName r) \<and> trClaudeWebSearchRequests r \<le> 0 \<and>
     \<not> trImageGenerationCall r \<and> GetGeminiInputAudioPricePerMillionTokens (trModelName r) = 0"

lemma tools_quota_0:
  "uses_no_tools r \<Longrightarrow> tools_quota R r s = 0" "giGroupRatio (pdGroupRatioInfo (trPriceData r)) = 0 \<Longrightarrow> tools_quota R r s = 0"
  by (simp_all add: uses_no_tools_def tools_quota_def web_search_quota_def claude_search_quota_def file_search_quota_def
      audio_input_quota_def image_call_quota_def Let_def split: option.splits)

lemma ratio_price_Inr:
  "ratio_price R q n gi = Inr p \<Longrightarrow> OtherRatios p = [] \<and> \<not> FreeModel p"
  by (auto simp: ratio_price_def Let_def zero_price_def split: prod.splits if_splits)

lemma ModelPriceHelper_Inr:
  assumes "ModelPriceHelper R q n = Inr p"
  shows "OtherRatios p = []" "UsePrice p \<Longrightarrow> ModelRatio p = 0"
    "FreeModel p \<Longrightarrow> QuotaToPreConsume p = 0 \<and> (giGroupRatio (pdGroupRatioInfo p) = 0 \<or> (if UsePrice p then ModelPrice p = 0 else ModelRatio p = 0))"
  using assms ratio_price_Inr [of R q n]
  by (auto simp: ModelPriceHelper_def Let_def zero_price_def split: prod.splits if_splits sum.splits)

lemma free_text_quota:
  assumes D: "rounds_nearest (dec R)" and "OtherRatios p = []" "UsePrice p \<Longrightarrow> ModelRatio p = 0" "trPriceData r = p"
    and "giGroupRatio (pdGroupRatioInfo p) = 0 \<or> (if UsePrice p then ModelPrice p = 0 else ModelRatio p = 0) \<and> uses_no_tools r"
  shows "tqQuota (calculateTextQuotaSummary R r uo) = 0"
proof -
  have t: "tools_quota R r s = 0" for s using assms(4,5) tools_quota_0 [of r R s] by auto
  have r0: "ModelRatio p * giGroupRatio (pdGroupRatioInfo p) = 0" using assms(3,5) by (cases "UsePrice p") auto
  have z: "i64 (Round0 (dec R) 0) = 0" using Round0_int [OF D, of 0] by (simp add: in64_def)
  show ?thesis
  proof (cases "UsePrice p")
    case True
    with assms(5) have "ModelPrice p * rcQuotaPerUnit R * giGroupRatio (pdGroupRatioInfo p) = 0" by auto
    with True r0 t z show ?thesis by (auto simp: calculateTextQuotaSummary_def Let_def assms(4))
  next
    case False
    then have "exact_text_price R r uo = 0" using r0 t by (simp add: exact_text_price_def Let_def assms(4))
    with False r0 z show ?thesis by (simp add: text_quota_charged assms(4) charged_def)
  qed
qed

section \<open>Charging\<close>

text \<open>Settling an open wallet session after steps that leave the books alone.\<close>

lemma settle_after:
  assumes op: "opened ri (Wallet \<lparr>wfUserId = riUserId ri, wfConsumed = p\<rparr>) p s" and p: "0 \<le> p" "p \<le> 2 ^ 60"
    and m: "moved E ri (- p) (token_part ri (- p)) w w1" and b: "billable E ri (2 ^ 61 + 2 ^ 60) w1"
    and v: "same_books w1 v" and q: "0 \<le> q" "q \<le> 2 ^ 60"
  shows "\<exists>s' w2. SettleBilling E ri' (Some s) q v = ((Inr (), Some s', relayInfo s'), w2) \<and> settled s' \<and>
    wallet (riUserId ri) w2 = wallet (riUserId ri) w - q \<and> allowance (riTokenId ri) w2 = allowance (riTokenId ri) w - token_part ri q"
proof -
  have mv: "moved E ri (- p) (token_part ri (- p)) w v" using moves_trans [OF m moves_same [OF v]] by simp
  have "billable E ri (2 ^ 61 + 2 ^ 60 + 0) v" by (rule billable_moved [OF b moves_same [OF v]]) simp_all
  then have "billable E ri (2 ^ 62) v" by (rule billable_mono) simp
  from wallet_settle_charges [OF op this p q] mv show ?thesis by (fastforce simp: SettleBilling_def moves_def token_part_def)
qed

lemma counted_books:
  assumes "faults w = []"
  shows "same_books w (UpdateChannelUsedQuota cfg c q (UpdateUserUsedQuotaAndRequestCount cfg u q w))"
proof -
  have "same_books w (UpdateUserUsedQuotaAndRequestCount cfg u q w)" by (rule counters_books [OF assms])
  moreover from this have "same_books (UpdateUserUsedQuotaAndRequestCount cfg u q w)
      (UpdateChannelUsedQuota cfg c q (UpdateUserUsedQuotaAndRequestCount cfg u q w))" by (intro counters_books) (simp add: same_books_def)
  ultimately show ?thesis by (rule same_books_trans)
qed

text \<open>What was taken when a realtime connection was opened stays taken: nothing settles the session.\<close>

lemma PostWss_books: "faults w = [] \<Longrightarrow> same_books w (PostWssConsumeQuota E R c modelName p u ri w)"
  by (simp add: PostWssConsumeQuota_def Let_def counted_books same_books_refl)

section \<open>Sample prices\<close>

definition ex_ratios :: ratio_conf where
  "ex_ratios = \<lparr>modelPriceMap = [''tts'' \<mapsto> 2], modelRatioMap = [''m'' \<mapsto> 2, ''zero'' \<mapsto> 0], completionRatioMap = Map.empty, cacheRatioMap = [''m'' \<mapsto> 1 / 2],
     createCacheRatioMap = Map.empty, imageRatioMap = Map.empty, audioRatioMap = Map.empty, audioCompletionRatioMap = Map.empty,
     groupRatioMap = Map.empty, groupGroupRatioMap = Map.empty, defaultModelRatio = Map.empty, defaultModelPrice = Map.empty,
     SelfUseModeEnabled = False, EnableFreeModelPreConsume = False, PreConsumedQuota = 500, rcQuotaPerUnit = 500000,
     fl = exact_floats, dec = exact_decimals\<rparr>"

definition ex_price_data :: PriceData where
  "ex_price_data = zero_price\<lparr>ModelRatio := 2, CompletionRatio := 4, CacheRatio := 1 / 2, CacheCreationRatio := 5 / 4,
     CacheCreation5mRatio := 5 / 4, CacheCreation1hRatio := 2, ImageRatio := 1,
     pdGroupRatioInfo := \<lparr>giGroupRatio = 1, giGroupSpecialRatio = -1, giHasSpecialRatio = False\<rparr>\<rparr>"

definition ex_text :: "PriceData \<Rightarrow> text_request" where
  "ex_text p = \<lparr>trModelName = ''m'', trPriceData = p, trClaudeFormat = False, trOpenRouterChannel = False, trEstimatePromptTokens = 0,
     trBuiltInTools = None, trSearchContextSize = '''', trClaudeWebSearchRequests = 0, trImageGenerationCall = False,
     trImageQuality = '''', trImageSize = ''''\<rparr>"

definition ex_usage :: Usage where
  "ex_usage = zero_usage\<lparr>usPromptTokens := 100, usCompletionTokens := 10, usTotalTokens := 110, usUsageSemantic := ''openai'',
     usCachedTokens := 40, usCachedCreationTokens := 20, usClaudeCacheCreation5mTokens := 20, usAudioTokens := 5\<rparr>"

lemmas ex_pricing_defs = ex_text_def ex_usage_def ex_price_data_def zero_usage_def zero_price_def

lemma ex_rounds: "rounds_nearest (dec ex_ratios)" "cuts_fraction (dec ex_ratios)"
  by (simp_all add: ex_ratios_def exact_decimals_ok)

lemma ex_no_tools: "uses_no_tools (ex_text p)"
  by (simp add: uses_no_tools_def ex_text_def GetGeminiInputAudioPricePerMillionTokens_def suffix_def)

section \<open>Properties\<close>



text \<open>A request costs the same whether the upstream reports it with the cached tokens counted in the prompt (OpenAI) or apart
  from it (Anthropic), as long as cache writes have one ratio.\<close>

theorem usage_semantics_agree:
  assumes "usUsageSemantic u = ''openai''" "\<not> trOpenRouterChannel r" "\<not> UsePrice (trPriceData r)"
    and "CacheCreation5mRatio (trPriceData r) = CacheCreationRatio (trPriceData r)" "usClaudeCacheCreation1hTokens u = 0"
    and "0 \<le> usClaudeCacheCreation5mTokens u" "usClaudeCacheCreation5mTokens u \<le> usCachedCreationTokens u" "in64 (usCachedCreationTokens u)"
    and "tqTotalTokens (summary_tokens R r (Some u)) \<noteq> 0" "tqTotalTokens (summary_tokens R r (Some (as_anthropic u))) \<noteq> 0"
  shows "tqQuota (calculateTextQuotaSummary R r (Some (as_anthropic u))) = tqQuota (calculateTextQuotaSummary R r (Some u))"
  using assms(9,10) by (simp add: text_quota_charged [OF assms(3)] semantics_same_price [OF assms(1,2,4-8)])

theorem usage_semantics_agree_witness:
  "tqQuota (calculateTextQuotaSummary ex_ratios (ex_text ex_price_data) (Some (as_anthropic ex_usage))) =
   tqQuota (calculateTextQuotaSummary ex_ratios (ex_text ex_price_data) (Some ex_usage))"
  by (rule usage_semantics_agree)
    (simp_all add: summary_tokens_total effective_usage_def as_anthropic_def ex_pricing_defs in64_def)

text \<open>A model that is treated as free is free: nothing is taken before the request, and no usage leads to a charge, provided
  no tool with a price of its own ran, which matters only when the group pays at all.\<close>

theorem free_model_is_free:
  assumes "rounds_nearest (dec R)" "ModelPriceHelper R q n = Inr p" "FreeModel p" "trPriceData r = p"
    and "giGroupRatio (pdGroupRatioInfo p) = 0 \<or> uses_no_tools r"
  shows "QuotaToPreConsume p = 0 \<and> tqQuota (calculateTextQuotaSummary R r uo) = 0"
proof
  note h = ModelPriceHelper_Inr [OF assms(2)]
  show "QuotaToPreConsume p = 0" using h(3) assms(3) by simp
  show "tqQuota (calculateTextQuotaSummary R r uo) = 0" by (rule free_text_quota [OF assms(1) h(1,2) assms(4)]) (use h(3) assms(3,5) in auto)
qed

definition ex_price_request :: "string \<Rightarrow> price_request" where
  "ex_price_request m = \<lparr>prModel = m, prUserGroup = ''g'', prUsingGroup = ''g'', prAutoGroup = None, prAcceptUnset = False,
     prMaxTokens = 0, prImagePriceRatio = 0\<rparr>"

theorem free_model_is_free_witness:
  "\<exists>p. ModelPriceHelper ex_ratios (ex_price_request ''zero'') 7 = Inr p \<and> FreeModel p \<and>
     tqQuota (calculateTextQuotaSummary ex_ratios (ex_text p) (Some ex_usage)) = 0"
proof -
  have "\<exists>p. ModelPriceHelper ex_ratios (ex_price_request ''zero'') 7 = Inr p \<and> FreeModel p"
    by (simp add: ModelPriceHelper_def ratio_price_def GetModelPrice_def GetModelRatio_def HandleGroupRatio_def GetGroupGroupRatio_def GetGroupRatio_def
        Let_def ex_ratios_def ex_price_request_def FormatMatchingModelName_def zero_price_def suffix_def split: prod.splits)
  then obtain p where "ModelPriceHelper ex_ratios (ex_price_request ''zero'') 7 = Inr p" "FreeModel p" by blast
  with free_model_is_free [of ex_ratios "ex_price_request ''zero''" 7 p "ex_text p" "Some ex_usage"] ex_no_tools [of p] show ?thesis
    by (auto simp: ex_text_def ex_rounds)
qed

text \<open>C5. A text request that succeeds costs what it is worth: when its quota is charged to a session on the wallet, the wallet
  and the token have paid the quota of its usage in total, whatever was pre-consumed, and the session is settled.\<close>

theorem text_request_costs_its_quota:
  assumes "billable E ri (2 ^ 61) w" "0 \<le> q0" "q0 \<le> 2 ^ 60" "NewBillingSession E q0 ri w = (Inr s, w1)" "funding s = Wallet f"
    and "q = tqQuota (calculateTextQuotaSummary R r uo)" "0 \<le> q" "q \<le> 2 ^ 60"
  shows "\<exists>s' ri' w2. PostTextConsumeQuota E R ch r uo (relayInfo s) (Some s) w1 = ((Some s', ri'), w2) \<and> settled s' \<and>
    wallet (riUserId ri) w2 = wallet (riUserId ri) w - q \<and> allowance (riTokenId ri) w2 = allowance (riTokenId ri) w - token_part ri q"
proof -
  obtain p where p: "0 \<le> p" "p \<le> 2 ^ 60" "opened ri (Wallet \<lparr>wfUserId = riUserId ri, wfConsumed = p\<rparr>) p s"
    "moved E ri (- p) (token_part ri (- p)) w w1" "billable E ri (2 ^ 61 + 2 ^ 60) w1"
    by (rule wallet_session_opened [OF assms(1-5)])
  let ?v = "if tqTotalTokens (calculateTextQuotaSummary R r uo) = 0 then w1
    else UpdateChannelUsedQuota (econf E) ch q (UpdateUserUsedQuotaAndRequestCount (econf E) (riUserId (relayInfo s)) q w1)"
  have "same_books w1 ?v" using p(5) by (simp add: billable_def counted_books same_books_refl)
  from settle_after [OF p(3,1,2,4,5) this assms(7,8)] obtain s' w2 where
    "SettleBilling E (relayInfo s) (Some s) q ?v = ((Inr (), Some s', relayInfo s'), w2)" "settled s'"
    "wallet (riUserId ri) w2 = wallet (riUserId ri) w - q" "allowance (riTokenId ri) w2 = allowance (riTokenId ri) w - token_part ri q"
    by blast
  then show ?thesis unfolding assms(6) PostTextConsumeQuota_def Let_def by auto
qed

theorem text_request_costs_its_quota_witness:
  "\<exists>s w1 s' ri' w2. NewBillingSession ex_env 100 (ex_ri ''wallet_only'') ex_bill = (Inr s, w1) \<and>
     PostTextConsumeQuota ex_env ex_ratios 3 (ex_text (zero_price\<lparr>UsePrice := True\<rparr>)) (Some ex_usage) (relayInfo s) (Some s) w1 = ((Some s', ri'), w2) \<and>
     settled s' \<and> wallet 1 w2 = 5000"
proof -
  obtain s w1 f where s: "NewBillingSession ex_env 100 (ex_ri ''wallet_only'') ex_bill = (Inr s, w1)" "funding s = Wallet f"
    using ex_wallet_session by blast
  have "0 = tqQuota (calculateTextQuotaSummary ex_ratios (ex_text (zero_price\<lparr>UsePrice := True\<rparr>)) (Some ex_usage))"
    by (rule sym, rule free_text_quota [where p = "zero_price\<lparr>UsePrice := True\<rparr>"]) (simp_all add: zero_price_def ex_text_def ex_rounds)
  moreover have "wallet 1 ex_bill = 5000" "riUserId (ex_ri ''wallet_only'') = 1"
    by (simp_all add: ex_bill_def wallet_def user_quota_def pending_def live_user_def ex_defs ex_ri_def)
  ultimately show ?thesis
    using text_request_costs_its_quota [OF ex_billable _ _ s, of 0 ex_ratios "ex_text (zero_price\<lparr>UsePrice := True\<rparr>)" "Some ex_usage" 3] s by auto
qed

text \<open>An audio request on a model with a fixed price costs nothing: the charge is computed without the price, so settling
  gives back all that was pre-consumed.\<close>

theorem priced_audio_is_free:
  assumes "billable E ri (2 ^ 61) w" "0 \<le> q0" "q0 \<le> 2 ^ 60" "NewBillingSession E q0 ri w = (Inr s, w1)" "funding s = Wallet f"
    and "UsePrice (trPriceData r)" "cuts_fraction (dec R)"
  shows "\<exists>s' ri' w2. PostAudioConsumeQuota E R ch r u (relayInfo s) (Some s) w1 = ((Some s', ri'), w2) \<and> settled s' \<and>
    wallet (riUserId ri) w2 = wallet (riUserId ri) w \<and> allowance (riTokenId ri) w2 = allowance (riTokenId ri) w"
proof -
  obtain p where p: "0 \<le> p" "p \<le> 2 ^ 60" "opened ri (Wallet \<lparr>wfUserId = riUserId ri, wfConsumed = p\<rparr>) p s"
    "moved E ri (- p) (token_part ri (- p)) w w1" "billable E ri (2 ^ 61 + 2 ^ 60) w1"
    by (rule wallet_session_opened [OF assms(1-5)])
  let ?v = "if usTotalTokens u = 0 then w1
    else UpdateChannelUsedQuota (econf E) ch 0 (UpdateUserUsedQuotaAndRequestCount (econf E) (riUserId (relayInfo s)) 0 w1)"
  have v: "same_books w1 ?v" using p(5) by (simp add: billable_def counted_books same_books_refl)
  have "i64 (IntPart (dec R) 0) = 0" by (simp add: IntPart_0 [OF assms(7)] in64_def)
  with settle_after [OF p(3,1,2,4,5) v, of 0 "relayInfo s"] assms(6) show ?thesis
    by (auto simp: PostAudioConsumeQuota_def Let_def calculateAudioQuota_def token_part_def)
qed

theorem priced_audio_is_free_witness:
  "\<exists>s w1 s' ri' w2. NewBillingSession ex_env 100 (ex_ri ''wallet_only'') ex_bill = (Inr s, w1) \<and>
     PostAudioConsumeQuota ex_env ex_ratios 3 (ex_text (zero_price\<lparr>UsePrice := True, ModelPrice := 2\<rparr>)) ex_usage (relayInfo s) (Some s) w1 =
       ((Some s', ri'), w2) \<and> wallet 1 w2 = 5000"
proof -
  obtain s w1 f where s: "NewBillingSession ex_env 100 (ex_ri ''wallet_only'') ex_bill = (Inr s, w1)" "funding s = Wallet f"
    using ex_wallet_session by blast
  have "wallet 1 ex_bill = 5000" "riUserId (ex_ri ''wallet_only'') = 1"
    by (simp_all add: ex_bill_def wallet_def user_quota_def pending_def live_user_def ex_defs ex_ri_def)
  then show ?thesis
    using priced_audio_is_free [OF ex_billable _ _ s, of "ex_text (zero_price\<lparr>UsePrice := True, ModelPrice := 2\<rparr>)" ex_ratios 3 ex_usage] s
    by (auto simp: ex_text_def ex_rounds)
qed

end
