(* ===== verification/Tasks.thy ===== *)
theory Tasks
  imports Pricing "HOL-Library.Char_ord"
begin

text \<open>
  Asynchronous tasks: the table and its queries (\<^verbatim>\<open>src/model/task.go\<close>), the billing of a task after its submission
  (\<^verbatim>\<open>src/service/task_billing.go\<close>) and the polling of unfinished tasks (\<^verbatim>\<open>src/service/task_polling.go\<close>). A task that the code
  holds in memory is a copy of its row. What the adaptors fetch and decode is an argument; the logs are not modelled.
\<close>

section \<open>Tasks\<close>

definition ToVideoStatus :: "string \<Rightarrow> string" where
  "ToVideoStatus t =
     (if t = ''QUEUED'' \<or> t = ''SUBMITTED'' then ''queued''
      else if t = ''IN_PROGRESS'' then ''in_progress''
      else if t = ''SUCCESS'' then ''completed''
      else if t = ''FAILURE'' then ''failed''
      else ''unknown'')"

definition GetUpstreamTaskID :: "task \<Rightarrow> string" where
  "GetUpstreamTaskID t = (if tUpstreamTaskID t \<noteq> '''' then tUpstreamTaskID t else tTaskID t)"

definition GetResultURL :: "task \<Rightarrow> string" where
  "GetResultURL t = (if tResultURL t \<noteq> '''' then tResultURL t else tFailReason t)"

text \<open>What a new task reads of the relay info; \<open>tiMeta\<close> is the type and the key of the channel, when there is one.\<close>

record task_info =
  tiMeta :: "(int \<times> string) option"
  tiUpstreamModelName :: string
  tiOriginModelName :: string
  tiPublicTaskID :: string
  tiUserId :: int
  tiUsingGroup :: string
  tiChannelId :: int
  tiAction :: string

text \<open>\<open>gen\<close> is the generated id; 24 and 41 are the channel types of Gemini and Vertex.\<close>

definition InitTask :: "string \<Rightarrow> int \<Rightarrow> string \<Rightarrow> task_info \<Rightarrow> task" where
  "InitTask gen now platform i =
     \<lparr>tId = 0, tTaskID = (if tiPublicTaskID i \<noteq> '''' then tiPublicTaskID i else gen), tPlatform = platform, tUserId = tiUserId i,
      tGroup = tiUsingGroup i, tChannelId = tiChannelId i, tQuota = 0, tAction = '''', tStatus = ''NOT_START'', tFailReason = '''',
      tSubmitTime = now, tStartTime = 0, tFinishTime = 0, tProgress = ''0%'', tInput = '''',
      tUpstreamModelName = (if tiMeta i = None then '''' else tiUpstreamModelName i),
      tOriginModelName = (if tiMeta i = None then '''' else tiOriginModelName i),
      tKey = (case tiMeta i of Some (ty, key) \<Rightarrow> if ty = 24 \<or> ty = 41 then key else '''' | None \<Rightarrow> ''''),
      tUpstreamTaskID = '''', tResultURL = '''', tBillingSource = '''', tSubscriptionId = 0, tTokenId = 0, tBillingContext = None,
      tData = ''''\<rparr>"

section \<open>Queries\<close>

text \<open>An empty field of the parameters does not restrict. \<open>eqN\<close> is the database's comparison of a number with a text.\<close>

record SyncTaskQueryParams =
  qpPlatform :: string
  qpChannelID :: string
  qpTaskID :: string
  qpUserID :: string
  qpAction :: string
  qpStatus :: string
  qpStartTimestamp :: int
  qpEndTimestamp :: int
  qpUserIDs :: "int list"

definition matches_common :: "SyncTaskQueryParams \<Rightarrow> task \<Rightarrow> bool" where
  "matches_common q t \<longleftrightarrow>
     (qpTaskID q \<noteq> '''' \<longrightarrow> tTaskID t = qpTaskID q) \<and> (qpAction q \<noteq> '''' \<longrightarrow> tAction t = qpAction q) \<and>
     (qpStatus q \<noteq> '''' \<longrightarrow> tStatus t = qpStatus q) \<and> (qpPlatform q \<noteq> '''' \<longrightarrow> tPlatform t = qpPlatform q) \<and>
     (qpStartTimestamp q \<noteq> 0 \<longrightarrow> tSubmitTime t \<ge> qpStartTimestamp q) \<and> (qpEndTimestamp q \<noteq> 0 \<longrightarrow> tSubmitTime t \<le> qpEndTimestamp q)"

definition matches_admin :: "(int \<Rightarrow> string \<Rightarrow> bool) \<Rightarrow> SyncTaskQueryParams \<Rightarrow> task \<Rightarrow> bool" where
  "matches_admin eqN q t \<longleftrightarrow> matches_common q t \<and> (qpChannelID q \<noteq> '''' \<longrightarrow> eqN (tChannelId t) (qpChannelID q)) \<and>
     (qpUserID q \<noteq> '''' \<longrightarrow> eqN (tUserId t) (qpUserID q)) \<and> (qpUserIDs q \<noteq> [] \<longrightarrow> tUserId t \<in> set (qpUserIDs q))"

text \<open>A failed listing is empty, a failed count 0.\<close>

definition listed :: "task list io \<Rightarrow> world \<Rightarrow> task list \<times> world" where
  "listed m w = (case m w of (Inl _, w1) \<Rightarrow> ([], w1) | (Inr ts, w1) \<Rightarrow> (ts, w1))"

definition id_desc :: "task list \<Rightarrow> task list" where
  "id_desc ts = rev (sort_key tId ts)"

definition TaskGetAllUserTask :: "int \<Rightarrow> nat \<Rightarrow> nat \<Rightarrow> SyncTaskQueryParams \<Rightarrow> world \<Rightarrow> task list \<times> world" where
  "TaskGetAllUserTask userId startIdx num q =
     listed (query (\<lambda>d. map (\<lambda>t. t\<lparr>tChannelId := 0\<rparr>)
       (take num (drop startIdx (id_desc (filter (\<lambda>t. tUserId t = userId \<and> matches_common q t) (tasks d)))))))"

definition TaskGetAllTasks :: "(int \<Rightarrow> string \<Rightarrow> bool) \<Rightarrow> nat \<Rightarrow> nat \<Rightarrow> SyncTaskQueryParams \<Rightarrow> world \<Rightarrow> task list \<times> world" where
  "TaskGetAllTasks eqN startIdx num q =
     listed (query (\<lambda>d. take num (drop startIdx (id_desc (filter (matches_admin eqN q) (tasks d))))))"

definition counted :: "int io \<Rightarrow> world \<Rightarrow> int \<times> world" where
  "counted m w = (case m w of (Inl _, w1) \<Rightarrow> (0, w1) | (Inr n, w1) \<Rightarrow> (n, w1))"

definition TaskCountAllTasks :: "(int \<Rightarrow> string \<Rightarrow> bool) \<Rightarrow> SyncTaskQueryParams \<Rightarrow> world \<Rightarrow> int \<times> world" where
  "TaskCountAllTasks eqN q = counted (query (\<lambda>d. int (length (filter (matches_admin eqN q) (tasks d)))))"

definition TaskCountAllUserTask :: "int \<Rightarrow> SyncTaskQueryParams \<Rightarrow> world \<Rightarrow> int \<times> world" where
  "TaskCountAllUserTask userId q =
     counted (query (\<lambda>d. int (length (filter (\<lambda>t. tUserId t = userId \<and> matches_common q t) (tasks d)))))"

definition unfinished :: "task \<Rightarrow> bool" where
  "unfinished t \<longleftrightarrow> tProgress t \<noteq> ''100%'' \<and> tStatus t \<noteq> ''FAILURE'' \<and> tStatus t \<noteq> ''SUCCESS''"

definition GetTimedOutUnfinishedTasks :: "int \<Rightarrow> nat \<Rightarrow> world \<Rightarrow> task list \<times> world" where
  "GetTimedOutUnfinishedTasks cutoffUnix limit =
     listed (query (\<lambda>d. take limit (sort_key tSubmitTime (filter (\<lambda>t. unfinished t \<and> tSubmitTime t < cutoffUnix) (tasks d)))))"

definition GetAllUnFinishSyncTasks :: "nat \<Rightarrow> world \<Rightarrow> task list \<times> world" where
  "GetAllUnFinishSyncTasks limit = listed (query (\<lambda>d. take limit (sort_key tId (filter unfinished (tasks d)))))"

text \<open>\<^verbatim>\<open>First\<close> takes the smallest primary key; a missing row is no error here.\<close>

definition first_task :: "(task \<Rightarrow> bool) \<Rightarrow> task option io" where
  "first_task P = query (\<lambda>d. find P (sort_key tId (tasks d)))"

definition GetByOnlyTaskId :: "string \<Rightarrow> task option io" where
  "GetByOnlyTaskId taskId = (if taskId = '''' then ret None else first_task (\<lambda>t. tTaskID t = taskId))"

definition GetByTaskId :: "int \<Rightarrow> string \<Rightarrow> task option io" where
  "GetByTaskId userId taskId = (if taskId = '''' then ret None else first_task (\<lambda>t. tUserId t = userId \<and> tTaskID t = taskId))"

definition GetByTaskIds :: "int \<Rightarrow> string list \<Rightarrow> task list io" where
  "GetByTaskIds userId taskIds =
     (if taskIds = [] then ret [] else query (\<lambda>d. filter (\<lambda>t. tUserId t = userId \<and> tTaskID t \<in> set taskIds) (tasks d)))"

section \<open>Writes\<close>

definition task_Insert :: "task \<Rightarrow> unit io" where
  "task_Insert t = exec (\<lambda>d. d\<lparr>tasks := tasks d @ [t\<lparr>tId := fresh_id (map tId (tasks d))\<rparr>]\<rparr>)"

definition task_Update :: "task \<Rightarrow> unit io" where
  "task_Update t = exec (\<lambda>d. d\<lparr>tasks := save_row tId t (tasks d)\<rparr>)"

record taskSnapshot =
  snStatus :: string
  snProgress :: string
  snStartTime :: int
  snFinishTime :: int
  snFailReason :: string
  snResultURL :: string
  snData :: string

definition Snapshot :: "task \<Rightarrow> taskSnapshot" where
  "Snapshot t = \<lparr>snStatus = tStatus t, snProgress = tProgress t, snStartTime = tStartTime t, snFinishTime = tFinishTime t,
     snFailReason = tFailReason t, snResultURL = tResultURL t, snData = tData t\<rparr>"

text \<open>The update guarded by the status the caller has seen; it answers whether a row was changed.\<close>

definition UpdateWithStatus :: "task \<Rightarrow> string \<Rightarrow> bool io" where
  "UpdateWithStatus t fromStatus =
     stmt (\<lambda>d. let P = (\<lambda>r. tId r = tId t \<and> tStatus r = fromStatus) in
       (\<exists>r \<in> set (tasks d). P r, d\<lparr>tasks := upd_where P (\<lambda>_. t) (tasks d)\<rparr>))"

definition TaskBulkUpdateByID :: "int list \<Rightarrow> (task \<Rightarrow> task) \<Rightarrow> unit io" where
  "TaskBulkUpdateByID ids f = (if ids = [] then ret () else exec (\<lambda>d. d\<lparr>tasks := upd_where (\<lambda>t. tId t \<in> set ids) f (tasks d)\<rparr>))"

section \<open>Billing\<close>

text \<open>Without the log.\<close>

definition LogTaskConsumption :: "conf \<Rightarrow> int \<Rightarrow> int \<Rightarrow> int \<Rightarrow> world \<Rightarrow> world" where
  "LogTaskConsumption cfg userId channelId quota w =
     UpdateChannelUsedQuota cfg channelId quota (UpdateUserUsedQuotaAndRequestCount cfg userId quota w)"

definition resolveTokenKey :: "conf \<Rightarrow> int \<Rightarrow> world \<Rightarrow> string \<times> world" where
  "resolveTokenKey cfg tokenId w = (case GetTokenById cfg tokenId w of (Inl _, w1) \<Rightarrow> ('''', w1) | (Inr t, w1) \<Rightarrow> (tkKey t, w1))"

definition taskIsSubscription :: "task \<Rightarrow> bool" where
  "taskIsSubscription t \<longleftrightarrow> tBillingSource t = ''subscription'' \<and> tSubscriptionId t > 0"

definition taskAdjustFunding :: "env \<Rightarrow> task \<Rightarrow> int \<Rightarrow> unit io" where
  "taskAdjustFunding E t delta =
     (if taskIsSubscription t then PostConsumeUserSubscriptionDelta E (tSubscriptionId t) delta
      else if delta > 0 then DecreaseUserQuota (econf E) (tUserId t) delta False
      else IncreaseUserQuota (econf E) (tUserId t) (i64 (- delta)) False)"

definition taskAdjustTokenQuota :: "env \<Rightarrow> task \<Rightarrow> int \<Rightarrow> world \<Rightarrow> world" where
  "taskAdjustTokenQuota E t delta w =
     (if tTokenId t \<le> 0 \<or> delta = 0 then w
      else let (tokenKey, w1) = resolveTokenKey (econf E) (tTokenId t) w in
        if tokenKey = '''' then w1
        else if delta > 0 then snd (DecreaseTokenQuota (econf E) (appNow E) (tTokenId t) tokenKey delta w1)
        else snd (IncreaseTokenQuota (econf E) (appNow E) (tTokenId t) tokenKey (i64 (- delta)) w1))"

definition taskModelName :: "task \<Rightarrow> string" where
  "taskModelName t =
     (case tBillingContext t of
        Some bc \<Rightarrow> if tbOriginModelName bc \<noteq> '''' then tbOriginModelName bc else tOriginModelName t
      | None \<Rightarrow> tOriginModelName t)"

definition RefundTaskQuota :: "env \<Rightarrow> task \<Rightarrow> world \<Rightarrow> world" where
  "RefundTaskQuota E t w =
     (if tQuota t = 0 then w
      else case taskAdjustFunding E t (i64 (- tQuota t)) w of
          (Inl _, w1) \<Rightarrow> w1
        | (Inr _, w1) \<Rightarrow> taskAdjustTokenQuota E t (i64 (- tQuota t)) w1)"

definition RecalculateTaskQuota :: "env \<Rightarrow> task \<Rightarrow> int \<Rightarrow> world \<Rightarrow> task \<times> world" where
  "RecalculateTaskQuota E t actualQuota w =
     (if actualQuota \<le> 0 then (t, w)
      else let quotaDelta = i64 (actualQuota - tQuota t) in
        if quotaDelta = 0 then (t, w)
        else case taskAdjustFunding E t quotaDelta w of
            (Inl _, w1) \<Rightarrow> (t, w1)
          | (Inr _, w1) \<Rightarrow>
              let w2 = taskAdjustTokenQuota E t quotaDelta w1;
                  w3 = (if quotaDelta > 0
                        then UpdateChannelUsedQuota (econf E) (tChannelId t) quotaDelta
                               (UpdateUserUsedQuotaAndRequestCount (econf E) (tUserId t) quotaDelta w2)
                        else w2) in
              (t\<lparr>tQuota := actualQuota\<rparr>, w3))"

definition other_multiplier :: "float_ops \<Rightarrow> task \<Rightarrow> rat" where
  "other_multiplier F t =
     (case tBillingContext t of
        None \<Rightarrow> 1
      | Some bc \<Rightarrow> fold (\<lambda>(_, r) m. if r \<noteq> 1 \<and> r > 0 then fmul F m r else m) (tbOtherRatios bc) 1)"

definition RecalculateTaskQuotaByTokens :: "env \<Rightarrow> ratio_conf \<Rightarrow> task \<Rightarrow> int \<Rightarrow> world \<Rightarrow> task \<times> world" where
  "RecalculateTaskQuotaByTokens E R t totalTokens w =
     (if totalTokens \<le> 0 then (t, w)
      else let F = fl R; (modelRatio, hasRatioSetting, _) = GetModelRatio R (taskModelName t) in
        if \<not> hasRatioSetting \<or> modelRatio \<le> 0 then (t, w)
        else let (grp, w1) = (if tGroup t \<noteq> '''' then (tGroup t, w)
               else case GetUserById (tUserId t) w of (Inl _, w1) \<Rightarrow> ('''', w1) | (Inr u, w1) \<Rightarrow> (uGroup u, w1)) in
          if grp = '''' then (t, w1)
          else let finalGroupRatio = (case GetGroupGroupRatio R grp grp of (r, True) \<Rightarrow> r | (_, False) \<Rightarrow> GetGroupRatio R grp);
                   actualQuota = f2i F (fmul F (fmul F (fmul F (i2f F totalTokens) modelRatio) finalGroupRatio) (other_multiplier F t)) in
            RecalculateTaskQuota E t actualQuota w1)"

section \<open>One poll of a video task\<close>

text \<open>\<^verbatim>\<open>relaycommon.TaskInfo\<close>, as far as it is read.\<close>

record TaskInfo =
  tinStatus :: string
  tinReason :: string
  tinUrl :: string
  tinProgress :: string
  tinTotalTokens :: int

definition FailTaskInfo :: "string \<Rightarrow> TaskInfo" where
  "FailTaskInfo reason = \<lparr>tinStatus = ''FAILURE'', tinReason = reason, tinUrl = '''', tinProgress = '''', tinTotalTokens = 0\<rparr>"

text \<open>
  What comes from outside: the response to a fetch through a channel, its decodings (as a task of another instance of the
  program, by the adaptor, as an error message with its code, \<^const>\<open>None\<close> when it is none of these; a code that is no text
  is \<open>''''\<close>), the response with its videos cut out, and the adaptor's own price of a finished task.
\<close>

record poll_adaptor =
  fetchTask :: "channel \<Rightarrow> task \<Rightarrow> string res"
  decodeTask :: "string \<Rightarrow> task option"
  parseTaskResult :: "string \<Rightarrow> TaskInfo res"
  decodeError :: "string \<Rightarrow> string option option"
  redactVideoResponseBody :: "string \<Rightarrow> string"
  adjustBillingOnComplete :: "task \<Rightarrow> TaskInfo \<Rightarrow> int"

definition parsed_result :: "poll_adaptor \<Rightarrow> string \<Rightarrow> TaskInfo res" where
  "parsed_result A body =
     (case decodeTask A body of
        Some t \<Rightarrow> Inr \<lparr>tinStatus = tStatus t, tinReason = tFailReason t, tinUrl = GetResultURL t, tinProgress = tProgress t, tinTotalTokens = 0\<rparr>
      | None \<Rightarrow> parseTaskResult A body)"

text \<open>An answer without a status: \<^const>\<open>None\<close> when the upstream is only busy.\<close>

definition result_of_error :: "poll_adaptor \<Rightarrow> string \<Rightarrow> TaskInfo \<Rightarrow> TaskInfo option" where
  "result_of_error A body r =
     (if tinStatus r \<noteq> '''' then Some r
      else case decodeError A body of
          None \<Rightarrow> Some r
        | Some (Some code) \<Rightarrow> if code = ''429'' then None else Some (FailTaskInfo ''upstream returned error'')
        | Some None \<Rightarrow> Some (FailTaskInfo ''upstream returned unrecognized message''))"

definition BuildProxyURL :: "string \<Rightarrow> string \<Rightarrow> string" where
  "BuildProxyURL serverAddress taskID = serverAddress @ ''/v1/videos/'' @ taskID @ ''/content''"

text \<open>The task with the result, whether it is to be settled and whether refunded; \<^const>\<open>None\<close> for an unknown status.\<close>

definition apply_result :: "string \<Rightarrow> int \<Rightarrow> task \<Rightarrow> TaskInfo \<Rightarrow> (task \<times> bool \<times> bool) option" where
  "apply_result serverAddress now t r =
     (let t0 = t\<lparr>tStatus := tinStatus r\<rparr>;
          finish = (if tFinishTime t = 0 then now else tFinishTime t);
          progress = (\<lambda>p. if tinProgress r \<noteq> '''' then tinProgress r else p) in
      if tinStatus r = ''SUBMITTED'' then Some (t0\<lparr>tProgress := progress ''10%''\<rparr>, False, False)
      else if tinStatus r = ''QUEUED'' then Some (t0\<lparr>tProgress := progress ''20%''\<rparr>, False, False)
      else if tinStatus r = ''IN_PROGRESS''
      then Some (t0\<lparr>tProgress := progress ''30%'', tStartTime := (if tStartTime t = 0 then now else tStartTime t)\<rparr>, False, False)
      else if tinStatus r = ''SUCCESS''
      then Some (t0\<lparr>tProgress := progress ''100%'', tFinishTime := finish,
             tResultURL := (if prefix ''data:'' (tinUrl r) \<or> tinUrl r = '''' then BuildProxyURL serverAddress (tTaskID t) else tinUrl r)\<rparr>, True, False)
      else if tinStatus r = ''FAILURE''
      then Some (t0\<lparr>tProgress := ''100%'', tFinishTime := finish, tFailReason := tinReason r\<rparr>, False, tQuota t \<noteq> 0)
      else None)"

definition settleTaskBillingOnComplete :: "env \<Rightarrow> ratio_conf \<Rightarrow> poll_adaptor \<Rightarrow> task \<Rightarrow> TaskInfo \<Rightarrow> world \<Rightarrow> task \<times> world" where
  "settleTaskBillingOnComplete E R A t r w =
     (if (case tBillingContext t of Some bc \<Rightarrow> tbPerCallBilling bc | None \<Rightarrow> False) then (t, w)
      else if adjustBillingOnComplete A t r > 0 then RecalculateTaskQuota E t (adjustBillingOnComplete A t r) w
      else if tinTotalTokens r > 0 then RecalculateTaskQuotaByTokens E R t (tinTotalTokens r) w
      else (t, w))"

text \<open>The write of the new state, and whether the task may still be settled or refunded by this caller.\<close>

definition write_result :: "task \<Rightarrow> task \<Rightarrow> world \<Rightarrow> bool \<times> world" where
  "write_result t t' w =
     (if (tStatus t' = ''SUCCESS'' \<or> tStatus t' = ''FAILURE'') \<and> tStatus t \<noteq> tStatus t'
      then (case UpdateWithStatus t' (tStatus t) w of (Inl _, w1) \<Rightarrow> (False, w1) | (Inr won, w1) \<Rightarrow> (won, w1))
      else if Snapshot t \<noteq> Snapshot t' then (True, snd (UpdateWithStatus t' (tStatus t) w))
      else (True, w))"

definition updateVideoSingleTask :: "env \<Rightarrow> ratio_conf \<Rightarrow> string \<Rightarrow> poll_adaptor \<Rightarrow> channel \<Rightarrow> task \<Rightarrow> world \<Rightarrow> (unit res \<times> task) \<times> world" where
  "updateVideoSingleTask E R serverAddress A ch t w =
     (case fetchTask A ch t of
        Inl e \<Rightarrow> ((Inl e, t), w)
      | Inr body \<Rightarrow>
          (case parsed_result A body of
             Inl e \<Rightarrow> ((Inl e, t), w)
           | Inr r0 \<Rightarrow>
               let t1 = t\<lparr>tData := redactVideoResponseBody A body\<rparr> in
               (case result_of_error A body r0 of
                  None \<Rightarrow> ((Inr (), t1), w)
                | Some r \<Rightarrow>
                    (case apply_result serverAddress (appNow E) t1 r of
                       None \<Rightarrow> ((Inl (Msg (''unknown task status '' @ tinStatus r)), t1\<lparr>tStatus := tinStatus r\<rparr>), w)
                     | Some (t2, shouldSettle, shouldRefund) \<Rightarrow>
                         let (mine, w1) = write_result t t2 w;
                             (t3, w2) = (if shouldSettle \<and> mine then settleTaskBillingOnComplete E R A t2 r w1 else (t2, w1));
                             w3 = (if shouldRefund \<and> mine then RefundTaskQuota E t3 w2 else w2) in
                         ((Inr (), t3), w3)))))"

text \<open>The tasks of a channel, by upstream id; a task in the map is shared, so a second poll of the same id sees what the
  first one wrote.\<close>

fun poll_each :: "env \<Rightarrow> ratio_conf \<Rightarrow> string \<Rightarrow> poll_adaptor \<Rightarrow> channel \<Rightarrow> string list \<Rightarrow> (string \<Rightarrow> task option) \<Rightarrow> world \<Rightarrow> (string \<Rightarrow> task option) \<times> world" where
  "poll_each E R serverAddress A ch [] taskM w = (taskM, w)"
| "poll_each E R serverAddress A ch (i # ids) taskM w =
     (case taskM i of
        None \<Rightarrow> poll_each E R serverAddress A ch ids taskM w
      | Some t \<Rightarrow> (case updateVideoSingleTask E R serverAddress A ch t w of
            ((_, t'), w1) \<Rightarrow> poll_each E R serverAddress A ch ids (taskM(i \<mapsto> t')) w1))"

definition fail_all :: "string \<Rightarrow> task \<Rightarrow> task" where
  "fail_all reason t = t\<lparr>tFailReason := reason, tStatus := ''FAILURE'', tProgress := ''100%''\<rparr>"

definition lost_ids :: "string list \<Rightarrow> (string \<Rightarrow> task option) \<Rightarrow> int list" where
  "lost_ids taskIds taskM = map tId (List.map_filter taskM taskIds)"

definition updateVideoTasks :: "env \<Rightarrow> ratio_conf \<Rightarrow> string \<Rightarrow> poll_adaptor option \<Rightarrow> int \<Rightarrow> string list \<Rightarrow> (string \<Rightarrow> task option) \<Rightarrow> world \<Rightarrow>
    (unit res \<times> (string \<Rightarrow> task option)) \<times> world" where
  "updateVideoTasks E R serverAddress Ao channelId taskIds taskM w =
     (if taskIds = [] then ((Inr (), taskM), w)
      else case CacheGetChannel (econf E) channelId w of
          (Inl e, w1) \<Rightarrow>
            ((Inl e, taskM), snd (TaskBulkUpdateByID (lost_ids taskIds taskM)
               (fail_all (''Failed to get channel info, channel ID: '' @ Itoa channelId)) w1))
        | (Inr ch, w1) \<Rightarrow>
            (case Ao of
               None \<Rightarrow> ((Inl (Msg ''video adaptor not found''), taskM), w1)
             | Some A \<Rightarrow> (case poll_each E R serverAddress A ch taskIds taskM w1 of (taskM', w2) \<Rightarrow> ((Inr (), taskM'), w2))))"

section \<open>Suno tasks\<close>

record SunoDataResponse =
  sdTaskID :: string
  sdStatus :: string
  sdFailReason :: string
  sdSubmitTime :: int
  sdStartTime :: int
  sdFinishTime :: int
  sdData :: string

text \<open>The fetch of several tasks at once, \<^const>\<open>None\<close> an answer that is no success, and \<^verbatim>\<open>json.Marshal\<close> of raw JSON.\<close>

record suno_adaptor =
  fetchSuno :: "channel \<Rightarrow> string list \<Rightarrow> (SunoDataResponse list option) res"
  marshalRaw :: "string \<Rightarrow> string"

definition taskNeedsUpdate :: "suno_adaptor \<Rightarrow> task \<Rightarrow> SunoDataResponse \<Rightarrow> bool" where
  "taskNeedsUpdate A t n \<longleftrightarrow>
     tSubmitTime t \<noteq> sdSubmitTime n \<or> tStartTime t \<noteq> sdStartTime n \<or> tFinishTime t \<noteq> sdFinishTime n \<or> tStatus t \<noteq> sdStatus n \<or>
     tFailReason t \<noteq> sdFailReason n \<or> (tStatus t = ''FAILURE'' \<or> tStatus t = ''SUCCESS'') \<and> tProgress t \<noteq> ''100%'' \<or>
     sort (marshalRaw A (tData t)) \<noteq> sort (marshalRaw A (sdData n))"

definition suno_item :: "env \<Rightarrow> task \<Rightarrow> SunoDataResponse \<Rightarrow> world \<Rightarrow> task \<times> world" where
  "suno_item E t n w =
     (let t1 = t\<lparr>tStatus := (if sdStatus n \<noteq> '''' then sdStatus n else tStatus t),
                 tFailReason := (if sdFailReason n \<noteq> '''' then sdFailReason n else tFailReason t),
                 tSubmitTime := (if sdSubmitTime n \<noteq> 0 then sdSubmitTime n else tSubmitTime t),
                 tStartTime := (if sdStartTime n \<noteq> 0 then sdStartTime n else tStartTime t),
                 tFinishTime := (if sdFinishTime n \<noteq> 0 then sdFinishTime n else tFinishTime t)\<rparr>;
          failed = (sdFailReason n \<noteq> '''' \<or> tStatus t1 = ''FAILURE'');
          t2 = (if failed then t1\<lparr>tProgress := ''100%''\<rparr> else t1);
          w1 = (if failed then RefundTaskQuota E t2 w else w);
          t3 = (if sdStatus n = ''SUCCESS'' then t2\<lparr>tProgress := ''100%''\<rparr> else t2)\<lparr>tData := sdData n\<rparr> in
      (t3, snd (task_Update t3 w1)))"

text \<open>An id that was not asked for is a nil pointer.\<close>

fun suno_items :: "env \<Rightarrow> suno_adaptor \<Rightarrow> SunoDataResponse list \<Rightarrow> (string \<Rightarrow> task option) \<Rightarrow> world \<Rightarrow> (unit res \<times> (string \<Rightarrow> task option)) \<times> world" where
  "suno_items E A [] taskM w = ((Inr (), taskM), w)"
| "suno_items E A (n # ns) taskM w =
     (case taskM (sdTaskID n) of
        None \<Rightarrow> ((Inl (Panic ''nil task''), taskM), w)
      | Some t \<Rightarrow>
          if \<not> taskNeedsUpdate A t n then suno_items E A ns taskM w
          else (case suno_item E t n w of (t', w1) \<Rightarrow> suno_items E A ns (taskM(sdTaskID n \<mapsto> t')) w1))"

definition updateSunoTasks :: "env \<Rightarrow> suno_adaptor option \<Rightarrow> int \<Rightarrow> string list \<Rightarrow> (string \<Rightarrow> task option) \<Rightarrow> world \<Rightarrow>
    (unit res \<times> (string \<Rightarrow> task option)) \<times> world" where
  "updateSunoTasks E Ao channelId taskIds taskM w =
     (if taskIds = [] then ((Inr (), taskM), w)
      else case CacheGetChannel (econf E) channelId w of
          (Inl _, w1) \<Rightarrow>
            (case TaskBulkUpdateByID (lost_ids taskIds taskM) (fail_all (''failed to get channel info, channel ID: '' @ Itoa channelId)) w1 of
               (r, w2) \<Rightarrow> ((r, taskM), w2))
        | (Inr ch, w1) \<Rightarrow>
            (case Ao of
               None \<Rightarrow> ((Inl (Msg ''adaptor not found''), taskM), w1)
             | Some A \<Rightarrow>
                 (case fetchSuno A ch taskIds of
                    Inl e \<Rightarrow> ((Inl e, taskM), w1)
                  | Inr None \<Rightarrow> ((Inr (), taskM), w1)
                  | Inr (Some items) \<Rightarrow> suno_items E A items taskM w1)))"

section \<open>A polling round\<close>

text \<open>The settings: the minutes after which a task has timed out, the number of tasks of a round, the address of the server,
  the adaptors, and the order in which Go ranges over the maps of platforms and of channels.\<close>

record poll_conf =
  TaskTimeoutMinutes :: int
  TaskQueryLimit :: nat
  serverAddress :: string
  GetTaskAdaptorFunc :: "string \<Rightarrow> poll_adaptor option"
  sunoAdaptor :: "suno_adaptor option"
  rangePlatforms :: "string list \<Rightarrow> string list"
  rangeChannels :: "int list \<Rightarrow> int list"

abbreviation (input) legacyTaskCutoff :: int where "legacyTaskCutoff \<equiv> 1740182400"

definition sweep_one :: "env \<Rightarrow> poll_conf \<Rightarrow> task \<Rightarrow> world \<Rightarrow> world" where
  "sweep_one E P t w =
     (let isLegacy = (tSubmitTime t > 0 \<and> tSubmitTime t < legacyTaskCutoff);
          t' = t\<lparr>tStatus := ''FAILURE'', tProgress := ''100%'', tFinishTime := appNow E,
                 tFailReason := (if isLegacy then ''task timed out (legacy task, not refunded)''
                                 else ''task timed out ('' @ Itoa (TaskTimeoutMinutes P) @ '' minutes)'')\<rparr> in
      case UpdateWithStatus t' (tStatus t) w of
        (Inl _, w1) \<Rightarrow> w1
      | (Inr won, w1) \<Rightarrow> if won \<and> \<not> isLegacy \<and> tQuota t \<noteq> 0 then RefundTaskQuota E t' w1 else w1)"

definition sweepTimedOutTasks :: "env \<Rightarrow> poll_conf \<Rightarrow> world \<Rightarrow> world" where
  "sweepTimedOutTasks E P w =
     (if TaskTimeoutMinutes P \<le> 0 then w
      else let cutoff = i64 (appNow E - i64 (TaskTimeoutMinutes P * 60));
               (ts, w1) = GetTimedOutUnfinishedTasks cutoff 100 w in
        fold (sweep_one E P) ts w1)"

text \<open>The maps built for one platform: upstream ids to tasks, and channels to upstream ids.\<close>

definition task_map :: "task list \<Rightarrow> string \<Rightarrow> task option" where
  "task_map ts = fold (\<lambda>t m. if GetUpstreamTaskID t = '''' then m else m(GetUpstreamTaskID t \<mapsto> t)) ts Map.empty"

definition channel_ids :: "task list \<Rightarrow> int list" where
  "channel_ids ts = remdups (map tChannelId (filter (\<lambda>t. GetUpstreamTaskID t \<noteq> '''') ts))"

definition channel_tasks :: "task list \<Rightarrow> int \<Rightarrow> string list" where
  "channel_tasks ts c = map GetUpstreamTaskID (filter (\<lambda>t. GetUpstreamTaskID t \<noteq> '''' \<and> tChannelId t = c) ts)"

text \<open>The error of a channel is only logged; a panic is not caught.\<close>

fun UpdateVideoTasks :: "env \<Rightarrow> ratio_conf \<Rightarrow> string \<Rightarrow> poll_adaptor option \<Rightarrow> (int \<Rightarrow> string list) \<Rightarrow> int list \<Rightarrow> (string \<Rightarrow> task option) \<Rightarrow> world \<Rightarrow> world" where
  "UpdateVideoTasks E R sa Ao ids [] taskM w = w"
| "UpdateVideoTasks E R sa Ao ids (c # cs) taskM w =
     (case updateVideoTasks E R sa Ao c (ids c) taskM w of ((_, taskM'), w1) \<Rightarrow> UpdateVideoTasks E R sa Ao ids cs taskM' w1)"

fun UpdateSunoTasks :: "env \<Rightarrow> suno_adaptor option \<Rightarrow> (int \<Rightarrow> string list) \<Rightarrow> int list \<Rightarrow> (string \<Rightarrow> task option) \<Rightarrow> world \<Rightarrow> unit res \<times> world" where
  "UpdateSunoTasks E Ao ids [] taskM w = (Inr (), w)"
| "UpdateSunoTasks E Ao ids (c # cs) taskM w =
     (case updateSunoTasks E Ao c (ids c) taskM w of
        ((Inl (Panic m), _), w1) \<Rightarrow> (Inl (Panic m), w1)
      | ((_, taskM'), w1) \<Rightarrow> UpdateSunoTasks E Ao ids cs taskM' w1)"

definition DispatchPlatformUpdate :: "env \<Rightarrow> ratio_conf \<Rightarrow> poll_conf \<Rightarrow> string \<Rightarrow> (int \<Rightarrow> string list) \<Rightarrow> int list \<Rightarrow> (string \<Rightarrow> task option) \<Rightarrow> world \<Rightarrow> unit res \<times> world" where
  "DispatchPlatformUpdate E R P platform ids cs taskM w =
     (if platform = ''mj'' then (Inr (), w)
      else if platform = ''suno'' then UpdateSunoTasks E (sunoAdaptor P) ids cs taskM w
      else (Inr (), UpdateVideoTasks E R (serverAddress P) (GetTaskAdaptorFunc P platform) ids cs taskM w))"

definition poll_platform :: "env \<Rightarrow> ratio_conf \<Rightarrow> poll_conf \<Rightarrow> string \<Rightarrow> task list \<Rightarrow> world \<Rightarrow> unit res \<times> world" where
  "poll_platform E R P platform ts w =
     (let nullTaskIds = map tId (filter (\<lambda>t. GetUpstreamTaskID t = '''') ts);
          w1 = (if nullTaskIds = [] then w
                else snd (TaskBulkUpdateByID nullTaskIds (\<lambda>t. t\<lparr>tStatus := ''FAILURE'', tProgress := ''100%''\<rparr>) w)) in
      if channel_ids ts = [] then (Inr (), w1)
      else DispatchPlatformUpdate E R P platform (channel_tasks ts) (rangeChannels P (channel_ids ts)) (task_map ts) w1)"

fun poll_platforms :: "env \<Rightarrow> ratio_conf \<Rightarrow> poll_conf \<Rightarrow> string list \<Rightarrow> task list \<Rightarrow> world \<Rightarrow> unit res \<times> world" where
  "poll_platforms E R P [] ts w = (Inr (), w)"
| "poll_platforms E R P (p # ps) ts w =
     (case poll_platform E R P p (filter (\<lambda>t. tPlatform t = p) ts) w of
        (Inl e, w1) \<Rightarrow> (Inl e, w1)
      | (Inr _, w1) \<Rightarrow> poll_platforms E R P ps ts w1)"

text \<open>The body of the endless loop.\<close>

definition TaskPollingLoop_round :: "env \<Rightarrow> ratio_conf \<Rightarrow> poll_conf \<Rightarrow> world \<Rightarrow> unit res \<times> world" where
  "TaskPollingLoop_round E R P w =
     (let w1 = sweepTimedOutTasks E P w; (allTasks, w2) = GetAllUnFinishSyncTasks (TaskQueryLimit P) w1 in
      poll_platforms E R P (rangePlatforms P (remdups (map tPlatform allTasks))) allTasks w2)"

end
