(* ===== verification/TaskRelay.thy ===== *)
theory TaskRelay
  imports Tasks Retry
begin

text \<open>
  Submitting a task: \<^verbatim>\<open>src/relay/relay_task.go\<close> and the handler \<^verbatim>\<open>RelayTask\<close> of \<^verbatim>\<open>src/controller/relay.go\<close>. What an
  adaptor decides and what the upstream answers are arguments, as are decoded JSON and the generated task id.
\<close>

section \<open>Errors\<close>

text \<open>\<open>teError\<close> is the text of the wrapped error; the masked copy of it for the client is left out.\<close>

record TaskError =
  teCode :: string
  teStatusCode :: int
  teLocalError :: bool
  teError :: string

definition TaskErrorWrapper :: "string \<Rightarrow> string \<Rightarrow> int \<Rightarrow> TaskError" where
  "TaskErrorWrapper text code statusCode = \<lparr>teCode = code, teStatusCode = statusCode, teLocalError = False, teError = text\<rparr>"

definition TaskErrorWrapperLocal :: "string \<Rightarrow> string \<Rightarrow> int \<Rightarrow> TaskError" where
  "TaskErrorWrapperLocal text code statusCode = (TaskErrorWrapper text code statusCode)\<lparr>teLocalError := True\<rparr>"

definition api_text :: "NewAPIError \<Rightarrow> string" where
  "api_text e = (case errMsg e of None \<Rightarrow> [] | Some t \<Rightarrow> t)"

definition TaskErrorFromAPIError :: "NewAPIError \<Rightarrow> TaskError" where
  "TaskErrorFromAPIError e = \<lparr>teCode = GetErrorCode (Some e), teStatusCode = StatusCode e, teLocalError = False, teError = api_text e\<rparr>"

definition shouldRetryTaskRelay :: "relay_ctx \<Rightarrow> TaskError option \<Rightarrow> int \<Rightarrow> bool" where
  "shouldRetryTaskRelay c eo retryTimes =
     (case eo of
        None \<Rightarrow> False
      | Some e \<Rightarrow>
          let code = teStatusCode e in
          if affinitySkipRetry c then False
          else if retryTimes \<le> 0 then False
          else if specific_channel_id c \<noteq> None then False
          else if code = 429 then True
          else if code = 307 then True
          else if 500 \<le> code \<and> code < 600 then \<not> IsAlwaysSkipRetryStatusCode code
          else if code = 400 then False
          else if code = 408 then False
          else if teLocalError e then False
          else \<not> (200 \<le> code \<and> code < 300))"

section \<open>The price of a submission\<close>

text \<open>The names of platforms and actions are ASCII.\<close>

definition lower_char :: "char \<Rightarrow> char" where
  "lower_char ch = (if CHR ''A'' \<le> ch \<and> ch \<le> CHR ''Z'' then char_of (of_char ch + 32 :: nat) else ch)"

definition CoverTaskActionToModelName :: "string \<Rightarrow> string \<Rightarrow> string" where
  "CoverTaskActionToModelName platform action = map lower_char platform @ ''_'' @ map lower_char action"

text \<open>The quota with every ratio applied, cut off to an integer each time.\<close>

definition apply_ratios :: "float_ops \<Rightarrow> (string \<times> rat) list \<Rightarrow> int \<Rightarrow> int" where
  "apply_ratios F = fold (\<lambda>(_, ra) n. if ra \<noteq> 1 then f2i F (fmul F (i2f F n) ra) else n)"

text \<open>The price data are rebuilt, then the adaptor's ratios are added; \<open>patched\<close> models are priced per call.\<close>

definition task_price :: "ratio_conf \<Rightarrow> bool \<Rightarrow> price_request \<Rightarrow> (string \<times> rat) list \<Rightarrow> gerr + PriceData" where
  "task_price R patched q estimated =
     (case ModelPriceHelperPerCall R q of
        Inl e \<Rightarrow> Inl e
      | Inr p0 \<Rightarrow>
          let p = fold (\<lambda>(key, ra). AddOtherRatio key ra) estimated p0 in
          Inr (if patched then p else p\<lparr>pdQuota := apply_ratios (fl R) (OtherRatios p) (pdQuota p)\<rparr>))"

definition recalcQuotaFromRatios :: "float_ops \<Rightarrow> PriceData \<Rightarrow> (string \<times> rat) list \<Rightarrow> int" where
  "recalcQuotaFromRatios F p ratios =
     (let baseQuota = fold (\<lambda>(_, ra) n. if ra \<noteq> 1 \<and> ra > 0 then f2i F (fdiv F (i2f F n) ra) else n) (OtherRatios p) (pdQuota p) in
      f2i F (fold (\<lambda>(_, ra) x. if ra \<noteq> 1 then fmul F x ra else x) ratios (i2f F baseQuota)))"

section \<open>Submitting\<close>

text \<open>
  What comes from outside at attempt \<open>k\<close>: the adaptor's validation, the mapping of the model, the estimated ratios, the
  request to the upstream with the id and the data it answers, and the ratios of that answer; the platform of the context, the
  action of the request, whether the user accepts models without a price, the models priced per call, the id generated for
  the task, and the error of reading the stored body (whether it is too large, and its text).
\<close>

record submit_adaptor =
  validateRequest :: "nat \<Rightarrow> TaskError option"
  mapModel :: "string \<Rightarrow> string res"
  estimateBilling :: "nat \<Rightarrow> (string \<times> rat) list"
  doTask :: "nat \<Rightarrow> relay_ctx \<Rightarrow> TaskError + string \<times> string"
  adjustBillingOnSubmit :: "string \<Rightarrow> (string \<times> rat) list"

record task_request =
  rqPlatform :: "relay_ctx \<Rightarrow> string"
  GetTaskAdaptor :: "string \<Rightarrow> submit_adaptor option"
  rqAction :: string
  rqAcceptUnset :: bool
  rqPatched :: "string \<Rightarrow> bool"
  rqGenID :: string
  rqBodyError :: "nat \<Rightarrow> (bool \<times> string) option"

record TaskSubmitResult =
  srUpstreamTaskID :: string
  srTaskData :: string
  srPlatform :: string
  srQuota :: int

text \<open>The state of a submission: that of the retry loop, the billing fields of the relay info, the session, and the rest of the
  relay info that a submission sets.\<close>

record task_state =
  tsRelay :: relay_state
  tsInfo :: relay_info
  tsBilling :: "BillingSession option"
  tsPrice :: PriceData
  tsModelName :: string
  tsUpstreamModelName :: string
  tsPublicTaskID :: string
  tsUsingGroup :: string

abbreviation (input) tsCtx :: "task_state \<Rightarrow> relay_ctx" where "tsCtx st \<equiv> Ctx (retryParam (tsRelay st))"

abbreviation (input) tsWorld :: "task_state \<Rightarrow> world" where "tsWorld st \<equiv> rworld (tsRelay st)"

text \<open>The pre-consumption, unless there is a session already or the model is free.\<close>

definition task_preConsume :: "env \<Rightarrow> task_state \<Rightarrow> TaskError option \<times> task_state" where
  "task_preConsume E st =
     (if tsBilling st = None \<and> \<not> FreeModel (tsPrice st)
      then let ri = (tsInfo st)\<lparr>riForcePreConsume := True\<rparr> in
        (case NewBillingSession E (pdQuota (tsPrice st)) ri (tsWorld st) of
           (Inl e, w) \<Rightarrow> (Some (TaskErrorFromAPIError e), st\<lparr>tsInfo := ri, tsRelay := (tsRelay st)\<lparr>rworld := w\<rparr>\<rparr>)
         | (Inr s, w) \<Rightarrow> (None, st\<lparr>tsInfo := relayInfo s, tsBilling := Some s, tsRelay := (tsRelay st)\<lparr>rworld := w\<rparr>\<rparr>))
      else (None, st))"

text \<open>The request to the upstream and the price after its answer.\<close>

definition task_send :: "ratio_conf \<Rightarrow> submit_adaptor \<Rightarrow> string \<Rightarrow> nat \<Rightarrow> task_state \<Rightarrow> (TaskError + TaskSubmitResult) \<times> task_state" where
  "task_send R A platform k st =
     (case doTask A k (tsCtx st) of
        Inl e \<Rightarrow> (Inl e, st)
      | Inr (upstreamTaskID, taskData) \<Rightarrow>
          let adjusted = adjustBillingOnSubmit A taskData; p = tsPrice st;
              p' = (if adjusted = [] then p else p\<lparr>OtherRatios := adjusted, pdQuota := recalcQuotaFromRatios (fl R) p adjusted\<rparr>) in
          (Inr \<lparr>srUpstreamTaskID = upstreamTaskID, srTaskData = taskData, srPlatform = platform, srQuota = pdQuota p'\<rparr>, st\<lparr>tsPrice := p'\<rparr>))"

definition RelayTaskSubmit :: "env \<Rightarrow> ratio_conf \<Rightarrow> task_request \<Rightarrow> nat \<Rightarrow> task_state \<Rightarrow> (TaskError + TaskSubmitResult) \<times> task_state" where
  "RelayTaskSubmit E R Q k st0 =
     (let st = st0\<lparr>tsRelay := (tsRelay st0)\<lparr>ChannelMeta := True\<rparr>\<rparr>; c = tsCtx st; platform = rqPlatform Q c in
      case GetTaskAdaptor Q platform of
        None \<Rightarrow> (Inl (TaskErrorWrapperLocal (''invalid api platform: '' @ platform) ''invalid_api_platform'' 400), st)
      | Some A \<Rightarrow>
          (case validateRequest A k of
             Some e \<Rightarrow> (Inl e, st)
           | None \<Rightarrow>
               let modelName = (if tsModelName st = [] then CoverTaskActionToModelName platform (rqAction Q) else tsModelName st) in
               (case mapModel A modelName of
                  Inl e \<Rightarrow> (Inl (TaskErrorWrapperLocal (errText e) ''model_mapping_failed'' 400), st\<lparr>tsModelName := modelName, tsUpstreamModelName := modelName\<rparr>)
                | Inr upstreamModel \<Rightarrow>
                    let q = \<lparr>prModel = modelName, prUserGroup = UserGroup c, prUsingGroup = tsUsingGroup st, prAutoGroup = AutoGroup c,
                             prAcceptUnset = rqAcceptUnset Q, prMaxTokens = 0, prImagePriceRatio = 0\<rparr>;
                        st1 = st\<lparr>tsModelName := modelName, tsUpstreamModelName := upstreamModel,
                                 tsPublicTaskID := (if tsPublicTaskID st = [] then rqGenID Q else tsPublicTaskID st),
                                 tsUsingGroup := snd (HandleGroupRatio R q)\<rparr> in
                    (case task_price R (rqPatched Q modelName) q (estimateBilling A k) of
                       Inl e \<Rightarrow> (Inl (TaskErrorWrapper (errText e) ''model_price_error'' 400), st1)
                     | Inr p \<Rightarrow>
                         (case task_preConsume E (st1\<lparr>tsPrice := p\<rparr>) of
                            (Some e, st2) \<Rightarrow> (Inl e, st2)
                          | (None, st2) \<Rightarrow> task_send R A platform k st2)))))"

section \<open>The handler\<close>

text \<open>The channel of an attempt: the locked one, with its next key from the second attempt on, or one chosen as for any other
  request; the body of the loop, with whether another attempt follows.\<close>

definition task_channel :: "relay_conf \<Rightarrow> conf \<Rightarrow> (int \<Rightarrow> int \<Rightarrow> int) \<Rightarrow> (nat \<Rightarrow> nat) \<Rightarrow> channel option \<Rightarrow> relay_state \<Rightarrow> (TaskError + channel) \<times> relay_state" where
  "task_channel S cfg rnd krnd locked st =
     (case locked of
        Some ch \<Rightarrow>
          if GetRetry (retryParam st) > 0
          then (case SetupContextForSelectedChannel cfg krnd (Some ch) (Ctx (retryParam st)) (rworld st) of
                  (Some e, c, w) \<Rightarrow> (Inl (TaskErrorWrapperLocal (api_text e) ''setup_locked_channel_failed'' 500), st\<lparr>retryParam := (retryParam st)\<lparr>Ctx := c\<rparr>, rworld := w\<rparr>)
                | (None, c, w) \<Rightarrow> (Inr ch, st\<lparr>retryParam := (retryParam st)\<lparr>Ctx := c\<rparr>, rworld := w\<rparr>))
          else (Inr ch, st)
      | None \<Rightarrow> (case getChannel S cfg rnd krnd st of
            (Inl e, st') \<Rightarrow> (Inl (TaskErrorWrapperLocal (api_text e) ''get_channel_failed'' 500), st')
          | (Inr ch, st') \<Rightarrow> (Inr ch, st')))"

definition task_attempt :: "env \<Rightarrow> ratio_conf \<Rightarrow> relay_conf \<Rightarrow> (nat \<Rightarrow> int \<Rightarrow> int \<Rightarrow> int) \<Rightarrow> (nat \<Rightarrow> nat \<Rightarrow> nat) \<Rightarrow> task_request \<Rightarrow> channel option \<Rightarrow>
    nat \<Rightarrow> task_state \<Rightarrow> bool \<times> (TaskError + TaskSubmitResult) \<times> task_state" where
  "task_attempt E R S rnd krnd Q locked k st =
     (case task_channel S (econf E) (rnd k) (krnd k) locked (tsRelay st) of
        (Inl e, rs) \<Rightarrow> (False, Inl e, st\<lparr>tsRelay := rs\<rparr>)
      | (Inr ch, rs) \<Rightarrow>
          let st1 = st\<lparr>tsRelay := rs\<lparr>retryParam := (retryParam rs)\<lparr>Ctx := addUsedChannel (chId ch) (Ctx (retryParam rs))\<rparr>\<rparr>\<rparr> in
          (case rqBodyError Q k of
             Some (large, text) \<Rightarrow> (False, Inl (TaskErrorWrapperLocal text ''read_request_body_failed'' (if large then 413 else 400)), st1)
           | None \<Rightarrow>
               (case RelayTaskSubmit E R Q k st1 of
                  (Inr r, st2) \<Rightarrow> (False, Inr r, st2)
                | (Inl e, st2) \<Rightarrow>
                    let c = tsCtx st2;
                        rs2 = (if teLocalError e then tsRelay st2
                          else processChannelError S
                            (NewChannelError (chId ch) (chType ch) (chName ch) (ciIsMultiKey (chInfo ch)) (ctxChannelKey c) (GetAutoBan ch))
                            (Some (NewOpenAIError (Plain (teError e)) ''bad_response_status_code'' (teStatusCode e) [])) (tsRelay st2)) in
                    (shouldRetryTaskRelay c (Some e) (i64 (RetryTimes S - GetRetry (retryParam rs2))), Inl e, st2\<lparr>tsRelay := rs2\<rparr>))))"

text \<open>The loop; when it is left by its condition, the result is that of the last attempt. \<^const>\<open>None\<close> is a loop that does
  not end.\<close>

partial_function (option) task_loop :: "env \<Rightarrow> ratio_conf \<Rightarrow> relay_conf \<Rightarrow> (nat \<Rightarrow> int \<Rightarrow> int \<Rightarrow> int) \<Rightarrow> (nat \<Rightarrow> nat \<Rightarrow> nat) \<Rightarrow> task_request \<Rightarrow> channel option \<Rightarrow>
    nat \<Rightarrow> (TaskError + TaskSubmitResult) option \<Rightarrow> task_state \<Rightarrow> ((TaskError + TaskSubmitResult) option \<times> task_state) option" where
  [code]: "task_loop E R S rnd krnd Q locked k res st =
     (if GetRetry (retryParam (tsRelay st)) \<le> RetryTimes S
      then (case task_attempt E R S rnd krnd Q locked k st of
              (again, r, st') \<Rightarrow>
                if again then task_loop E R S rnd krnd Q locked (Suc k) (Some r)
                  (st'\<lparr>tsRelay := (tsRelay st')\<lparr>retryParam := IncreaseRetry (retryParam (tsRelay st'))\<rparr>\<rparr>)
                else Some (Some r, st'))
      else Some (res, st))"

text \<open>After a success: settlement, counters and the row of the task.\<close>

definition submitted_task :: "env \<Rightarrow> task_request \<Rightarrow> TaskSubmitResult \<Rightarrow> relay_info \<Rightarrow> task_state \<Rightarrow> task" where
  "submitted_task E Q r ri st =
     (let c = tsCtx st; p = tsPrice st in
      (InitTask (rqGenID Q) (appNow E) (srPlatform r)
         \<lparr>tiMeta = Some (ctxChannelType c, ctxChannelKey c), tiUpstreamModelName = tsUpstreamModelName st, tiOriginModelName = tsModelName st,
          tiPublicTaskID = tsPublicTaskID st, tiUserId = riUserId ri, tiUsingGroup = tsUsingGroup st, tiChannelId = ctxChannelId c,
          tiAction = rqAction Q\<rparr>)
      \<lparr>tUpstreamTaskID := srUpstreamTaskID r, tBillingSource := riBillingSource ri, tSubscriptionId := riSubscriptionId ri, tTokenId := riTokenId ri,
       tBillingContext := Some \<lparr>tbModelPrice = ModelPrice p, tbGroupRatio = giGroupRatio (pdGroupRatioInfo p), tbModelRatio = ModelRatio p,
         tbOtherRatios = OtherRatios p, tbOriginModelName = tsModelName st, tbPerCallBilling = (rqPatched Q (tsModelName st) \<or> UsePrice p)\<rparr>,
       tQuota := srQuota r, tData := srTaskData r, tAction := rqAction Q\<rparr>)"

definition task_done :: "env \<Rightarrow> task_request \<Rightarrow> TaskSubmitResult \<Rightarrow> task_state \<Rightarrow> world" where
  "task_done E Q r st =
     (case SettleBilling E (tsInfo st) (tsBilling st) (srQuota r) (tsWorld st) of
        ((_, _, ri), w1) \<Rightarrow>
          snd (task_Insert (submitted_task E Q r ri st)
            (LogTaskConsumption (econf E) (riUserId ri) (ctxChannelId (tsCtx st)) (pdQuota (tsPrice st)) w1)))"

text \<open>A task that builds on an earlier one. \<open>decodeData\<close> reads the model, the seconds and the size of the stored data. The relay
  info of a new request has no channel yet (\<open>meta\<close>), and reading the channel of such a relay info panics.\<close>

record origin_request =
  orPath :: string
  orVideoID :: string
  orAction :: string
  orOriginTaskID :: string
  orModelName :: string
  orUserId :: int
  decodeData :: "string \<Rightarrow> string option \<times> string option \<times> string option"

record origin =
  ogModelName :: string
  ogLocked :: "channel option"
  ogCtx :: relay_ctx
  ogMeta :: "int option"
  ogRatios :: "(string \<times> rat) list"

definition is_remix :: "origin_request \<Rightarrow> bool" where
  "is_remix o0 \<longleftrightarrow> Contains (orPath o0) ''/v1/videos/'' \<and> suffix ''/remix'' (orPath o0) \<or> orAction o0 = ''remixGenerate''"

definition origin_model :: "origin_request \<Rightarrow> task \<Rightarrow> string" where
  "origin_model o0 t =
     (if orModelName o0 \<noteq> [] then orModelName o0
      else if tOriginModelName t \<noteq> [] then tOriginModelName t
      else if tUpstreamModelName t \<noteq> [] then tUpstreamModelName t
      else case decodeData o0 (tData t) of (Some m, _) \<Rightarrow> m | (None, _) \<Rightarrow> [])"

definition remix_ratios :: "origin_request \<Rightarrow> task \<Rightarrow> (string \<times> rat) list" where
  "remix_ratios o0 t =
     (case tBillingContext t of
        Some bc \<Rightarrow> OtherRatios (fold (\<lambda>(key, ra). AddOtherRatio key ra) (tbOtherRatios bc) zero_price)
      | None \<Rightarrow>
          let (_, secondsStr, sizeStr) = decodeData o0 (tData t);
              seconds = (case secondsStr of None \<Rightarrow> 0 | Some s \<Rightarrow> (case Atoi s of None \<Rightarrow> 0 | Some n \<Rightarrow> n)) in
          [(''seconds'', of_int (if seconds \<le> 0 then 4 else seconds)),
           (''size'', if sizeStr = Some ''1792x1024'' \<or> sizeStr = Some ''1024x1792'' then 1666667 / 1000000 else 1)])"

definition ResolveOriginTask :: "conf \<Rightarrow> (nat \<Rightarrow> nat) \<Rightarrow> origin_request \<Rightarrow> int option \<Rightarrow> relay_ctx \<Rightarrow> world \<Rightarrow> (gerr + TaskError + origin) \<times> world" where
  "ResolveOriginTask cfg krnd o0 meta c w =
     (let originTaskID = (if is_remix o0 then orVideoID o0 else orOriginTaskID o0) in
      if is_remix o0 \<and> TrimSpace (orVideoID o0) = [] then (Inr (Inl (TaskErrorWrapperLocal ''video_id is required'' ''invalid_request'' 400)), w)
      else if originTaskID = [] then (Inr (Inr \<lparr>ogModelName = orModelName o0, ogLocked = None, ogCtx = c, ogMeta = meta, ogRatios = []\<rparr>), w)
      else case GetByTaskId (orUserId o0) originTaskID w of
          (Inl e, w1) \<Rightarrow> (Inr (Inl (TaskErrorWrapper (errText e) ''get_origin_task_failed'' 500)), w1)
        | (Inr None, w1) \<Rightarrow> (Inr (Inl (TaskErrorWrapperLocal ''task_origin_not_exist'' ''task_not_exist'' 400)), w1)
        | (Inr (Some t), w1) \<Rightarrow>
            (case GetChannelById (tChannelId t) w1 of
               (Inl e, w2) \<Rightarrow> (Inr (Inl (TaskErrorWrapperLocal (errText e) ''channel_not_found'' 400)), w2)
             | (Inr ch, w2) \<Rightarrow>
                 if chStatus ch \<noteq> ChannelStatusEnabled
                 then (Inr (Inl (TaskErrorWrapperLocal ''the channel of the origin task is disabled'' ''task_channel_disable'' 400)), w2)
                 else let og = \<lparr>ogModelName = origin_model o0 t, ogLocked = Some ch, ogCtx = c, ogMeta = meta,
                                ogRatios = (if is_remix o0 then remix_ratios o0 t else [])\<rparr> in
                   (case meta of
                      None \<Rightarrow> (Inl (Panic ''nil pointer dereference''), w2)
                    | Some channelId \<Rightarrow>
                        if tChannelId t = channelId then (Inr (Inr og), w2)
                        else (case GetNextEnabledKey cfg krnd ch w2 of
                            ((Inl e, _), w3) \<Rightarrow> (Inr (Inl (TaskErrorWrapper (api_text e) ''channel_no_available_key'' (StatusCode e))), w3)
                          | ((Inr (key, _), ch'), w3) \<Rightarrow>
                              (Inr (Inr (og\<lparr>ogLocked := Some ch', ogMeta := Some (tChannelId t),
                                 ogCtx := c\<lparr>ctxChannelKey := key, ctxChannelType := chType ch, ctxChannelId := tChannelId t\<rparr>\<rparr>)), w3)))))"

text \<open>The handler: a panic, or the error for the client and the closure of the refund. The ratios of the origin are put into
  price data that every submission replaces.\<close>

definition task_start :: "origin \<Rightarrow> string \<Rightarrow> relay_info \<Rightarrow> world \<Rightarrow> task_state" where
  "task_start og tokenGroup ri w =
     \<lparr>tsRelay = (start_state tokenGroup (ogModelName og) (ogCtx og) w)\<lparr>ChannelMeta := (ogMeta og \<noteq> None)\<rparr>, tsInfo = ri, tsBilling = None,
      tsPrice = zero_price\<lparr>OtherRatios := ogRatios og\<rparr>, tsModelName = ogModelName og, tsUpstreamModelName = [], tsPublicTaskID = [],
      tsUsingGroup = UsingGroup (ogCtx og)\<rparr>"

definition RelayTask :: "env \<Rightarrow> ratio_conf \<Rightarrow> relay_conf \<Rightarrow> (nat \<Rightarrow> int \<Rightarrow> int \<Rightarrow> int) \<Rightarrow> (nat \<Rightarrow> nat \<Rightarrow> nat) \<Rightarrow> (nat \<Rightarrow> nat) \<Rightarrow> task_request \<Rightarrow> origin_request \<Rightarrow>
    string \<Rightarrow> relay_info \<Rightarrow> relay_ctx \<Rightarrow> world \<Rightarrow> ((gerr + TaskError option) \<times> refund_job option \<times> world) option" where
  "RelayTask E R S rnd krnd okrnd Q o0 tokenGroup ri c w =
     (case ResolveOriginTask (econf E) okrnd o0 None c w of
        (Inl e, w1) \<Rightarrow> Some (Inl e, None, w1)
      | (Inr (Inl e), w1) \<Rightarrow> Some (Inr (Some e), None, w1)
      | (Inr (Inr og), w1) \<Rightarrow>
          (case task_loop E R S rnd krnd Q (ogLocked og) 0 None (task_start og tokenGroup ri w1) of
             None \<Rightarrow> None
           | Some (Some (Inr r), st) \<Rightarrow> Some (Inr None, None, task_done E Q r st)
           | Some (Some (Inl e), st) \<Rightarrow> Some (Inr (Some e), (case tsBilling st of None \<Rightarrow> None | Some s \<Rightarrow> snd (Refund s)), rworld (tsRelay st))
           | Some (None, st) \<Rightarrow> Some (Inl (Panic ''nil result''), None, rworld (tsRelay st))))"

end
