(* ===== verification/TaskLaws.thy ===== *)
theory TaskLaws
  imports Tasks PricingLaws
begin

text \<open>
  What \<open>Tasks\<close> guarantees: a failed task is refunded exactly once however many processes poll it, a finished one is charged
  its actual quota; and the ways around the guard on the status, which lose a refund or repeat it.
\<close>

section \<open>Adjusting what a task has paid\<close>

lemma moves_user_up:
  assumes "faults w = []" "0 \<le> q" "user_exists u w" "room cfg BatchUpdateTypeUserQuota u q w"
  shows "moves cfg u q t 0 w (snd (IncreaseUserQuota cfg u q False w))"
proof -
  have "subs (db (snd (IncreaseUserQuota cfg u q False w))) = subs (db w)" "precons (db (snd (IncreaseUserQuota cfg u q False w))) = precons (db w)"
    using assms(1) by (simp_all add: IncreaseUserQuota_def increaseUserQuota_def Let_def)
  then show ?thesis
    using assms token_side_user_ops(1) [OF assms(1)] by (simp add: moves_def quota_ops_faults wallet_Increase pending_user_ops token_side_def)
qed

lemma tokens_user_ops:
  assumes "faults w = []"
  shows "tokens (db (snd (IncreaseUserQuota cfg i q b w))) = tokens (db w)" "tokens (db (snd (DecreaseUserQuota cfg i q b w))) = tokens (db w)"
  using assms by (simp_all add: IncreaseUserQuota_def increaseUserQuota_def DecreaseUserQuota_def decreaseUserQuota_def Let_def)

text \<open>A task paid from the wallet with a token that is still there.\<close>

definition task_payable :: "env \<Rightarrow> task \<Rightarrow> world \<Rightarrow> bool" where
  "task_payable E t w \<longleftrightarrow> faults w = [] \<and> \<not> taskIsSubscription t \<and> user_exists (tUserId t) w \<and>
     calm (econf E) BatchUpdateTypeUserQuota (tUserId t) (2 ^ 62) w \<and> calm (econf E) BatchUpdateTypeTokenQuota (tTokenId t) (2 ^ 62) w \<and>
     tTokenId t > 0 \<and> (\<exists>k. find (live_token (tTokenId t)) (tokens (db w)) = Some k \<and> tkKey k \<noteq> '''')"

lemma resolveTokenKey_found:
  assumes "faults w = []" "i > 0" "find (live_token i) (tokens (db w)) = Some k"
  shows "\<exists>w'. resolveTokenKey cfg i w = (tkKey k, w') \<and> db w' = db w \<and> batch w' = batch w \<and> faults w' = []"
  using assms by (simp add: resolveTokenKey_def GetTokenById_def first_def chk_def ret_def spawn_def)

lemma task_token_moves:
  assumes f: "faults w = []" and t: "tTokenId t > 0" "find (live_token (tTokenId t)) (tokens (db w)) = Some k" "tkKey k \<noteq> ''''"
    and c: "calm (econf E) BatchUpdateTypeTokenQuota (tTokenId t) (2 ^ 62) w" and d: "d \<noteq> 0" "\<bar>d\<bar> \<le> 2 ^ 60"
  shows "moves (econf E) u 0 (tTokenId t) (- d) w (taskAdjustTokenQuota E t d w)"
proof -
  obtain v where v: "resolveTokenKey (econf E) (tTokenId t) w = (tkKey k, v)" "db v = db w" "batch v = batch w" "faults v = []"
    using resolveTokenKey_found [OF f t(1,2)] by blast
  have s: "same_books w v" by (rule same_booksI [OF v(4,2,3)])
  have e: "token_exists (tTokenId t) v" using t(2) v(2) by (simp add: token_exists_def)
  have "calm (econf E) BatchUpdateTypeTokenQuota (tTokenId t) (2 ^ 62) v" using c v(3) by (simp add: calm_def pending_def)
  from calm_room [OF this, of "- d" "2 ^ 60"] d have r: "room (econf E) BatchUpdateTypeTokenQuota (tTokenId t) (- d) v" by simp
  have i: "i64 (- d) = - d" using d by (simp add: in64_def abs_le_iff)
  have "moves (econf E) u 0 (tTokenId t) (- d) v (taskAdjustTokenQuota E t d w)"
  proof (cases "d > 0")
    case True
    with moves_token_down [OF v(4) _ e, of d "econf E" u "appNow E" "tkKey k"] r show ?thesis
      using v(1) t(1,3) by (simp add: taskAdjustTokenQuota_def)
  next
    case False
    with moves_token_up [OF v(4) _ e r, of u "appNow E" "tkKey k"] show ?thesis
      using v(1) t(1,3) d i by (simp add: taskAdjustTokenQuota_def)
  qed
  from moves_trans [OF moves_same [OF s] this] show ?thesis by simp
qed

lemma task_adjust_moves:
  assumes p: "task_payable E t w" and d: "d \<noteq> 0" "\<bar>d\<bar> \<le> 2 ^ 60"
  shows "\<exists>w1. taskAdjustFunding E t d w = (Inr (), w1) \<and> moves (econf E) (tUserId t) (- d) (tTokenId t) (- d) w (taskAdjustTokenQuota E t d w1)"
proof -
  from p obtain k where f: "faults w = []" and u: "user_exists (tUserId t) w" and t: "tTokenId t > 0"
    "find (live_token (tTokenId t)) (tokens (db w)) = Some k" "tkKey k \<noteq> ''''" "\<not> taskIsSubscription t"
    and cu: "calm (econf E) BatchUpdateTypeUserQuota (tUserId t) (2 ^ 62) w" and ct: "calm (econf E) BatchUpdateTypeTokenQuota (tTokenId t) (2 ^ 62) w"
    by (auto simp: task_payable_def)
  have i: "i64 (- d) = - d" "in64 (- d)" using d by (simp_all add: in64_def abs_le_iff)
  have r: "room (econf E) BatchUpdateTypeUserQuota (tUserId t) (- d) w" using calm_room [OF cu, of "- d" "2 ^ 60"] d by simp
  let ?r = "if d > 0 then DecreaseUserQuota (econf E) (tUserId t) d False w else IncreaseUserQuota (econf E) (tUserId t) (- d) False w"
  have fund: "taskAdjustFunding E t d w = ?r" using t(4) i(1) by (simp add: taskAdjustFunding_def)
  have "fst ?r = Inr ()" using f i(2) by (simp add: quota_ops_Inr)
  with fund have ok: "taskAdjustFunding E t d w = (Inr (), snd ?r)" by (simp add: prod_eq_iff)
  have m: "moves (econf E) (tUserId t) (- d) (tTokenId t) 0 w (snd ?r)"
    using moves_user_down [OF f _ u, of d "econf E" "tTokenId t"] moves_user_up [OF f _ u r, of "tTokenId t"] r by simp
  have "tokens (db (snd ?r)) = tokens (db w)" using f by (simp add: tokens_user_ops)
  then have "moves (econf E) (tUserId t) 0 (tTokenId t) (- d) (snd ?r) (taskAdjustTokenQuota E t d (snd ?r))"
    by (intro task_token_moves [OF _ t(1) _ t(3) _ d]) (use m t(2) ct in \<open>auto simp: moves_def calm_def\<close>)
  from moves_trans [OF m this] ok show ?thesis by auto
qed

lemma RefundTaskQuota_moves:
  assumes "task_payable E t w" "0 \<le> tQuota t" "tQuota t \<le> 2 ^ 60"
  shows "moves (econf E) (tUserId t) (tQuota t) (tTokenId t) (tQuota t) w (RefundTaskQuota E t w)"
proof (cases "tQuota t = 0")
  case True
  with assms(1) show ?thesis by (simp add: RefundTaskQuota_def task_payable_def moves_same same_books_refl)
next
  case False
  moreover have "i64 (- tQuota t) = - tQuota t" using assms(2,3) by (simp add: in64_def)
  ultimately show ?thesis
    using task_adjust_moves [OF assms(1), of "- tQuota t"] assms(2,3) by (auto simp: RefundTaskQuota_def)
qed

section \<open>One row, many processes\<close>

lemma tasks_quota_ops:
  "tasks (db (snd (IncreaseUserQuota cfg i q b w))) = tasks (db w)" "tasks (db (snd (DecreaseUserQuota cfg i q b w))) = tasks (db w)"
  "tasks (db (snd (IncreaseTokenQuota cfg now i k q w))) = tasks (db w)" "tasks (db (snd (DecreaseTokenQuota cfg now i k q w))) = tasks (db w)"
  by (simp_all add: IncreaseUserQuota_def increaseUserQuota_def DecreaseUserQuota_def decreaseUserQuota_def IncreaseTokenQuota_def
      increaseTokenQuota_def DecreaseTokenQuota_def decreaseTokenQuota_def exec_def stmt_def Let_def set_users_def set_tokens_def
      addNewRecord_def spawn_def split: list.splits option.splits)

lemma tasks_resolve: "tasks (db (snd (resolveTokenKey cfg i w))) = tasks (db w)"
  by (simp add: resolveTokenKey_def GetTokenById_def first_def chk_def stmt_def ret_def err_def spawn_def split: list.splits option.splits)

lemma tasks_token_adjust: "tasks (db (taskAdjustTokenQuota E t d w)) = tasks (db w)"
  using tasks_resolve [of "econf E" "tTokenId t" w] 
  by (cases "resolveTokenKey (econf E) (tTokenId t) w") (simp add: taskAdjustTokenQuota_def tasks_quota_ops)

lemma RefundTaskQuota_tasks:
  assumes "\<not> taskIsSubscription t"
  shows "tasks (db (RefundTaskQuota E t w)) = tasks (db w)"
proof -
  have "tasks (db (snd (taskAdjustFunding E t (i64 (- tQuota t)) w))) = tasks (db w)"
    using assms by (simp add: taskAdjustFunding_def tasks_quota_ops)
  then show ?thesis
    by (cases "taskAdjustFunding E t (i64 (- tQuota t)) w") (auto simp: RefundTaskQuota_def tasks_token_adjust split: sum.splits)
qed

definition task_row :: "int \<Rightarrow> world \<Rightarrow> task list" where
  "task_row i w = filter (\<lambda>r. tId r = i) (tasks (db w))"

definition only_tasks :: "world \<Rightarrow> world \<Rightarrow> bool" where
  "only_tasks w w' \<longleftrightarrow> (\<exists>ts. w' = w\<lparr>db := (db w)\<lparr>tasks := ts\<rparr>\<rparr>)"

definition same_bill :: "task \<Rightarrow> task \<Rightarrow> bool" where
  "same_bill t r \<longleftrightarrow> tId r = tId t \<and> tUserId r = tUserId t \<and> tTokenId r = tTokenId t \<and> tQuota r = tQuota t \<and>
     tBillingSource r = tBillingSource t \<and> tSubscriptionId r = tSubscriptionId t \<and> tBillingContext r = tBillingContext t"

abbreviation (input) ended :: "string \<Rightarrow> bool" where "ended s \<equiv> s = ''SUCCESS'' \<or> s = ''FAILURE''"

lemma only_tasks_refl: "only_tasks w w"
  unfolding only_tasks_def by (rule exI [of _ "tasks (db w)"]) simp

lemma only_tasks_trans: "only_tasks w w1 \<Longrightarrow> only_tasks w1 w2 \<Longrightarrow> only_tasks w w2"
  by (auto simp: only_tasks_def)

lemma only_tasks_books: "only_tasks w w' \<Longrightarrow> faults w = [] \<Longrightarrow> same_books w w'"
  by (auto simp: only_tasks_def same_books_def user_side_def token_side_def wallet_def allowance_def user_quota_def token_quota_def
      user_exists_def token_exists_def pending_def)

lemma task_payable_tasks: "task_payable E t w \<Longrightarrow> only_tasks w w' \<Longrightarrow> same_bill t t' \<Longrightarrow> task_payable E t' w'"
  by (auto simp: task_payable_def only_tasks_def same_bill_def taskIsSubscription_def user_exists_def calm_def pending_def)

lemma UpdateWithStatus_row:
  assumes "faults w = []" "task_row i w = [r]" "tId t = i"
  shows "\<exists>w'. UpdateWithStatus t s w = (Inr (tStatus r = s), w') \<and> task_row i w' = [if tStatus r = s then t else r] \<and> only_tasks w w'"
proof -
  let ?P = "\<lambda>r. tId r = tId t \<and> tStatus r = s"
  have f: "filter (\<lambda>x. tId x = i) (upd_where ?P (\<lambda>_. t) ts) = map (\<lambda>x. if tStatus x = s then t else x) (filter (\<lambda>x. tId x = i) ts)" for ts
    using assms(3) by (induction ts) auto
  have m: "x \<in> set (tasks (db w)) \<and> tId x = i \<longleftrightarrow> x = r" for x
    using arg_cong [OF assms(2), of set] by (auto simp: task_row_def set_eq_iff)
  have "(\<exists>x \<in> set (tasks (db w)). ?P x) \<longleftrightarrow> (\<exists>x. (x \<in> set (tasks (db w)) \<and> tId x = i) \<and> tStatus x = s)" using assms(3) by auto
  then have "(\<exists>x \<in> set (tasks (db w)). ?P x) \<longleftrightarrow> tStatus r = s" unfolding m by simp
  moreover have "task_row i (w\<lparr>db := (db w)\<lparr>tasks := upd_where ?P (\<lambda>_. t) (tasks (db w))\<rparr>\<rparr>) = [if tStatus r = s then t else r]"
    using f [of "tasks (db w)"] assms(2) by (simp add: task_row_def)
  ultimately show ?thesis using assms(1) by (auto simp: UpdateWithStatus_def only_tasks_def Let_def)
qed

lemma apply_result_bill:
  assumes "apply_result sa now t r = Some (t', settle, refund)"
  shows "same_bill t t'" "settle \<Longrightarrow> tStatus t' = ''SUCCESS''" "refund \<Longrightarrow> tStatus t' = ''FAILURE''"
    "tStatus t' = ''FAILURE'' \<Longrightarrow> refund = (tQuota t' \<noteq> 0)"
  using assms by (auto simp: apply_result_def Let_def same_bill_def split: if_splits)

lemma write_result_row:
  assumes "faults w = []" "task_row i w = [r]" "tId t' = i" "\<not> ended (tStatus c)"
  shows "\<exists>mine w'. write_result c t' w = (mine, w') \<and> only_tasks w w' \<and>
    (task_row i w' = [r] \<and> (ended (tStatus t') \<longrightarrow> \<not> mine) \<or>
     task_row i w' = [t'] \<and> tStatus r = tStatus c \<and> (ended (tStatus t') \<longrightarrow> mine))"
proof -
  obtain w' where w': "UpdateWithStatus t' (tStatus c) w = (Inr (tStatus r = tStatus c), w')"
    "task_row i w' = [if tStatus r = tStatus c then t' else r]" "only_tasks w w'"
    using UpdateWithStatus_row [OF assms(1-3)] by blast
  show ?thesis
  proof (cases "ended (tStatus t')")
    case True
    then have "tStatus c \<noteq> tStatus t'" using assms(4) by metis
    with True w' show ?thesis by (auto simp: write_result_def)
  next
    case False
    with w' assms(2) show ?thesis by (auto simp: write_result_def only_tasks_refl)
  qed
qed

definition per_call :: "task \<Rightarrow> bool" where
  "per_call t \<longleftrightarrow> (\<exists>bc. tBillingContext t = Some bc \<and> tbPerCallBilling bc)"

lemma settle_per_call: "per_call t \<Longrightarrow> settleTaskBillingOnComplete E R A t r w = (t, w)"
  by (auto simp: per_call_def settleTaskBillingOnComplete_def)

text \<open>Polls and sweeps, each with the copy of the row that its process has read.\<close>

datatype task_event = Polled poll_adaptor channel task | Swept poll_conf task

fun task_step :: "env \<Rightarrow> ratio_conf \<Rightarrow> string \<Rightarrow> task_event \<Rightarrow> world \<Rightarrow> world" where
  "task_step E R sa (Polled A ch c) w = snd (updateVideoSingleTask E R sa A ch c w)"
| "task_step E R sa (Swept P c) w = sweep_one E P c w"

text \<open>A copy that was read while the task was unfinished; the sweep refunds no tasks from before its cutoff.\<close>

fun copy_of :: "task \<Rightarrow> task_event \<Rightarrow> bool" where
  "copy_of t (Polled A ch c) \<longleftrightarrow> same_bill t c \<and> \<not> ended (tStatus c)"
| "copy_of t (Swept P c) \<longleftrightarrow> same_bill t c \<and> \<not> ended (tStatus c) \<and> (tSubmitTime c \<le> 0 \<or> legacyTaskCutoff \<le> tSubmitTime c)"

definition refunded_iff_failed :: "env \<Rightarrow> task \<Rightarrow> world \<Rightarrow> world \<Rightarrow> bool" where
  "refunded_iff_failed E t w0 w \<longleftrightarrow> (\<exists>r. task_row (tId t) w = [r] \<and> same_bill t r \<and>
     (if tStatus r = ''FAILURE'' then moves (econf E) (tUserId t) (tQuota t) (tTokenId t) (tQuota t) w0 w else only_tasks w0 w))"

lemma refunded_iff_failed_write:
  assumes p: "task_payable E t w0" "0 \<le> tQuota t" "tQuota t \<le> 2 ^ 60"
    and inv: "task_row (tId t) w = [r]" "same_bill t r"
      "if tStatus r = ''FAILURE'' then moves (econf E) (tUserId t) (tQuota t) (tTokenId t) (tQuota t) w0 w else only_tasks w0 w"
    and w': "only_tasks w w'" "task_row (tId t) w' = [r] \<or> task_row (tId t) w' = [t'] \<and> tStatus r \<noteq> ''FAILURE''" and b: "same_bill t t'"
    and v: "v = (if task_row (tId t) w' = [t'] \<and> tStatus r \<noteq> ''FAILURE'' \<and> tStatus t' = ''FAILURE'' then RefundTaskQuota E t' w' else w')"
  shows "refunded_iff_failed E t w0 v"
proof -
  have f0: "faults w0 = []" using p(1) by (simp add: task_payable_def)
  have f: "faults w = []" using inv(3) f0 by (auto simp: moves_def only_tasks_def split: if_splits)
  have keep: "refunded_iff_failed E t w0 w'" if "task_row (tId t) w' = [r]"
  proof (cases "tStatus r = ''FAILURE''")
    case True
    with inv(3) have "moves (econf E) (tUserId t) (tQuota t) (tTokenId t) (tQuota t) w0 w" by simp
    from moves_trans [OF this moves_same [OF only_tasks_books [OF w'(1) f]]] True that inv(2) show ?thesis by (simp add: refunded_iff_failed_def)
  next
    case False
    with inv(3) only_tasks_trans [OF _ w'(1)] that inv(2) show ?thesis by (simp add: refunded_iff_failed_def)
  qed
  show ?thesis
  proof (cases "task_row (tId t) w' = [t'] \<and> tStatus r \<noteq> ''FAILURE''")
    case True
    then have o: "only_tasks w0 w'" using inv(3) only_tasks_trans [OF _ w'(1)] by simp
    show ?thesis
    proof (cases "tStatus t' = ''FAILURE''")
      case failed: True
      have "moves (econf E) (tUserId t') (tQuota t') (tTokenId t') (tQuota t') w' (RefundTaskQuota E t' w')"
        by (rule RefundTaskQuota_moves [OF task_payable_tasks [OF p(1) o b]]) (use p b in \<open>auto simp: same_bill_def\<close>)
      then have "moves (econf E) (tUserId t) (0 + tQuota t) (tTokenId t) (0 + tQuota t) w0 (RefundTaskQuota E t' w')"
        using b by (intro moves_trans [OF moves_same [OF only_tasks_books [OF o f0]]]) (simp add: same_bill_def)
      moreover have "task_row (tId t) (RefundTaskQuota E t' w') = [t']"
        using True task_payable_tasks [OF p(1) o b] by (simp add: task_row_def RefundTaskQuota_tasks task_payable_def)
      ultimately show ?thesis using True failed b v by (simp add: refunded_iff_failed_def)
    next
      case False
      with True o b v show ?thesis by (simp add: refunded_iff_failed_def)
    qed
  next
    case False
    with w'(2) keep v show ?thesis by auto
  qed
qed

lemma poll_keeps:
  assumes p: "task_payable E t w0" "0 \<le> tQuota t" "tQuota t \<le> 2 ^ 60" "per_call t"
    and inv: "refunded_iff_failed E t w0 w" and c: "same_bill t c" "\<not> ended (tStatus c)"
  shows "refunded_iff_failed E t w0 (snd (updateVideoSingleTask E R sa A ch c w))"
proof -
  have "refunded_iff_failed E t w0 (snd (updateVideoSingleTask E R sa A ch c w))"
    if a: "fetchTask A ch c = Inr body" "parsed_result A body = Inr r0" "result_of_error A body r0 = Some res"
      "apply_result sa (appNow E) (c\<lparr>tData := redactVideoResponseBody A body\<rparr>) res = Some (t2, st, rf)" for body r0 res t2 st rf
  proof -
    note ar = apply_result_bill [OF a(4)]
    have b: "same_bill t t2" using ar(1) c(1) by (simp add: same_bill_def)
    obtain r where r: "task_row (tId t) w = [r]" "same_bill t r"
      "if tStatus r = ''FAILURE'' then moves (econf E) (tUserId t) (tQuota t) (tTokenId t) (tQuota t) w0 w else only_tasks w0 w"
      using inv by (auto simp: refunded_iff_failed_def)
    have f: "faults w = []" using r(3) p(1) by (auto simp: moves_def only_tasks_def task_payable_def split: if_splits)
    obtain mine w' where w': "write_result c t2 w = (mine, w')" "only_tasks w w'"
      "task_row (tId t) w' = [r] \<and> (ended (tStatus t2) \<longrightarrow> \<not> mine) \<or>
       task_row (tId t) w' = [t2] \<and> tStatus r = tStatus c \<and> (ended (tStatus t2) \<longrightarrow> mine)"
      using write_result_row [OF f r(1) _ c(2), of t2] b by (auto simp: same_bill_def)
    have "per_call t2" using p(4) b by (simp add: per_call_def same_bill_def)
    then have "snd (updateVideoSingleTask E R sa A ch c w) = (if rf \<and> mine then RefundTaskQuota E t2 w' else w')"
      using a w'(1) by (simp add: updateVideoSingleTask_def Let_def settle_per_call)
    also have "\<dots> = (if task_row (tId t) w' = [t2] \<and> tStatus r \<noteq> ''FAILURE'' \<and> tStatus t2 = ''FAILURE'' then RefundTaskQuota E t2 w' else w')"
      using w'(3) ar(3,4) c(2) by (auto simp: RefundTaskQuota_def)
    finally show ?thesis by (intro refunded_iff_failed_write [OF p(1-3) r w'(2) _ b]) (use w'(3) c(2) in auto)
  qed
  then show ?thesis
    using inv by (simp add: updateVideoSingleTask_def Let_def split: sum.split option.split prod.split)
qed

lemma sweep_keeps:
  assumes p: "task_payable E t w0" "0 \<le> tQuota t" "tQuota t \<le> 2 ^ 60"
    and inv: "refunded_iff_failed E t w0 w" and c: "same_bill t c" "\<not> ended (tStatus c)" "tSubmitTime c \<le> 0 \<or> legacyTaskCutoff \<le> tSubmitTime c"
  shows "refunded_iff_failed E t w0 (sweep_one E P c w)"
proof -
  let ?t = "c\<lparr>tStatus := ''FAILURE'', tProgress := ''100%'', tFinishTime := appNow E,
    tFailReason := ''task timed out ('' @ Itoa (TaskTimeoutMinutes P) @ '' minutes)''\<rparr>"
  have b: "same_bill t ?t" using c(1) by (simp add: same_bill_def)
  obtain r where r: "task_row (tId t) w = [r]" "same_bill t r"
    "if tStatus r = ''FAILURE'' then moves (econf E) (tUserId t) (tQuota t) (tTokenId t) (tQuota t) w0 w else only_tasks w0 w"
    using inv by (auto simp: refunded_iff_failed_def)
  have f: "faults w = []" using r(3) p(1) by (auto simp: moves_def only_tasks_def task_payable_def split: if_splits)
  obtain w' where w': "UpdateWithStatus ?t (tStatus c) w = (Inr (tStatus r = tStatus c), w')"
    "task_row (tId t) w' = [if tStatus r = tStatus c then ?t else r]" "only_tasks w w'"
    using UpdateWithStatus_row [OF f r(1), of ?t "tStatus c"] c(1) by (auto simp: same_bill_def)
  have "sweep_one E P c w = (if tStatus r = tStatus c \<and> tQuota c \<noteq> 0 then RefundTaskQuota E ?t w' else w')"
    using c(3) w'(1) by (auto simp: sweep_one_def Let_def)
  also have "\<dots> = (if task_row (tId t) w' = [?t] \<and> tStatus r \<noteq> ''FAILURE'' \<and> tStatus ?t = ''FAILURE'' then RefundTaskQuota E ?t w' else w')"
    using w'(2) c(2) by (auto simp: RefundTaskQuota_def)
  finally show ?thesis by (intro refunded_iff_failed_write [OF p r w'(3) _ b]) (use w'(2) c(2) in auto)
qed

lemma events_keep:
  assumes "task_payable E t w0" "0 \<le> tQuota t" "tQuota t \<le> 2 ^ 60" "per_call t" "\<forall>e \<in> set es. copy_of t e" "refunded_iff_failed E t w0 w"
  shows "refunded_iff_failed E t w0 (fold (task_step E R sa) es w)"
  using assms(5,6)
proof (induction es arbitrary: w)
  case (Cons e es)
  from Cons.prems have "refunded_iff_failed E t w0 (task_step E R sa e w)"
    by (cases e) (auto intro: poll_keeps [OF assms(1-4)] sweep_keeps [OF assms(1-3)])
  with Cons show ?case by simp
qed simp

lemma refunded_iff_failed_start: "task_row (tId t) w = [t] \<Longrightarrow> \<not> ended (tStatus t) \<Longrightarrow> refunded_iff_failed E t w w"
  unfolding refunded_iff_failed_def by (intro exI [of _ t]) (simp add: same_bill_def only_tasks_refl)

lemma refunded_iff_failed_books:
  assumes "refunded_iff_failed E t w0 w" "faults w0 = []"
  shows "\<exists>r. task_row (tId t) w = [r] \<and> wallet (tUserId t) w = wallet (tUserId t) w0 + (if tStatus r = ''FAILURE'' then tQuota t else 0) \<and>
    allowance (tTokenId t) w = allowance (tTokenId t) w0 + (if tStatus r = ''FAILURE'' then tQuota t else 0)"
proof -
  from assms(1) obtain r where "task_row (tId t) w = [r]"
    "if tStatus r = ''FAILURE'' then moves (econf E) (tUserId t) (tQuota t) (tTokenId t) (tQuota t) w0 w else only_tasks w0 w"
    unfolding refunded_iff_failed_def by blast
  then show ?thesis
    using only_tasks_books [OF _ assms(2)]
    by (intro exI [of _ r]) (auto simp: moves_def same_books_def user_side_def token_side_def split: if_splits)
qed

section \<open>Settling a finished task\<close>

lemma RecalculateTaskQuota_moves:
  assumes p: "task_payable E t w" and q: "0 \<le> tQuota t" "tQuota t \<le> 2 ^ 59" and a: "0 < a" "a \<le> 2 ^ 59"
  shows "\<exists>w'. RecalculateTaskQuota E t a w = (t\<lparr>tQuota := a\<rparr>, w') \<and> moves (econf E) (tUserId t) (tQuota t - a) (tTokenId t) (tQuota t - a) w w'"
proof (cases "a = tQuota t")
  case True
  with p a show ?thesis by (auto simp: RecalculateTaskQuota_def in64_def task_payable_def intro!: moves_same same_books_refl)
next
  case False
  let ?d = "a - tQuota t"
  have d: "?d \<noteq> 0" "\<bar>?d\<bar> \<le> 2 ^ 60" "i64 ?d = ?d" using False q a by (auto simp: in64_def)
  obtain w1 where w1: "taskAdjustFunding E t ?d w = (Inr (), w1)"
    and m: "moves (econf E) (tUserId t) (- ?d) (tTokenId t) (- ?d) w (taskAdjustTokenQuota E t ?d w1)"
    using task_adjust_moves [OF p d(1,2)] by blast
  let ?w2 = "taskAdjustTokenQuota E t ?d w1"
  let ?w3 = "if ?d > 0 then UpdateChannelUsedQuota (econf E) (tChannelId t) ?d (UpdateUserUsedQuotaAndRequestCount (econf E) (tUserId t) ?d ?w2) else ?w2"
  have "same_books ?w2 ?w3" using m by (auto simp: moves_def intro: counted_books same_books_refl)
  from moves_trans [OF m moves_same [OF this]] have "moves (econf E) (tUserId t) (- ?d) (tTokenId t) (- ?d) w ?w3" by simp
  moreover have "RecalculateTaskQuota E t a w = (t\<lparr>tQuota := a\<rparr>, ?w3)"
    using a w1 d by (simp add: RecalculateTaskQuota_def Let_def)
  ultimately show ?thesis by auto
qed

section \<open>Listings\<close>

lemma take_drop_pages: "concat (map (\<lambda>k. take n (drop (k * n) xs)) [0..<m]) = take (m * n) xs"
  by (induction m) (simp_all add: take_add [symmetric] add.commute)

text \<open>The pages of a listing together are the whole listing, newest first, and as long as the count says.\<close>

lemma user_pages:
  assumes "faults w = []" "fst (TaskCountAllUserTask u q w) \<le> int (m * n)"
  shows "concat (map (\<lambda>k. fst (TaskGetAllUserTask u (k * n) n q w)) [0..<m]) =
    map (\<lambda>t. t\<lparr>tChannelId := 0\<rparr>) (id_desc (filter (\<lambda>t. tUserId t = u \<and> matches_common q t) (tasks (db w))))"
proof -
  have "(\<lambda>k. fst (TaskGetAllUserTask u (k * n) n q w)) = (\<lambda>k. take n (drop (k * n)
      (map (\<lambda>t. t\<lparr>tChannelId := 0\<rparr>) (id_desc (filter (\<lambda>t. tUserId t = u \<and> matches_common q t) (tasks (db w)))))))"
    using assms(1) by (simp add: TaskGetAllUserTask_def listed_def take_map drop_map)
  then show ?thesis
    using assms by (simp del: of_nat_mult add: take_drop_pages TaskCountAllUserTask_def counted_def id_desc_def)
qed

section \<open>Sample tasks\<close>

definition ex_task :: "int \<Rightarrow> int \<Rightarrow> int \<Rightarrow> task" where
  "ex_task i u ch = \<lparr>tId = i, tTaskID = ''task'', tPlatform = ''sora'', tUserId = u, tGroup = ''g'', tChannelId = ch, tQuota = 100, tAction = '''',
     tStatus = ''IN_PROGRESS'', tFailReason = '''', tSubmitTime = 0, tStartTime = 7, tFinishTime = 0, tProgress = ''30%'', tInput = '''',
     tUpstreamModelName = '''', tOriginModelName = ''m'', tKey = '''', tUpstreamTaskID = ''up'', tResultURL = '''', tBillingSource = ''wallet'',
     tSubscriptionId = 0, tTokenId = 2, tBillingContext = Some \<lparr>tbModelPrice = 1, tbGroupRatio = 1, tbModelRatio = 0, tbOtherRatios = [],
     tbOriginModelName = ''m'', tbPerCallBilling = True\<rparr>, tData = ''''\<rparr>"

definition ex_task_world :: "task list \<Rightarrow> world" where
  "ex_task_world ts = ex_world ((ex_db [ex_user 1 5000, ex_user 2 6000] [ex_token 2 1 3000])\<lparr>tasks := ts\<rparr>)"

text \<open>An upstream that reports the given result.\<close>

definition ex_adaptor :: "TaskInfo \<Rightarrow> int \<Rightarrow> poll_adaptor" where
  "ex_adaptor r a = \<lparr>fetchTask = (\<lambda>_ _. Inr ''body''), decodeTask = (\<lambda>_. None), parseTaskResult = (\<lambda>_. Inr r), decodeError = (\<lambda>_. None),
     redactVideoResponseBody = (\<lambda>b. b), adjustBillingOnComplete = (\<lambda>_ _. a)\<rparr>"

definition ex_poll :: poll_conf where
  "ex_poll = \<lparr>TaskTimeoutMinutes = 10, TaskQueryLimit = 100, serverAddress = ''s'',
     GetTaskAdaptorFunc = (\<lambda>_. Some (ex_adaptor (FailTaskInfo ''x'') 0)), sunoAdaptor = None, rangePlatforms = (\<lambda>ps. ps), rangeChannels = (\<lambda>cs. cs)\<rparr>"

lemma ex_payable: "u = 1 \<or> u = 2 \<Longrightarrow> task_payable ex_env (ex_task i u ch) (ex_task_world ts)"
  by (auto simp: task_payable_def ex_task_def ex_task_world_def ex_defs ex_env_def taskIsSubscription_def user_exists_def live_user_def live_token_def calm_def)

lemma ex_task_row: "task_row 5 (ex_task_world [ex_task 5 1 ch]) = [ex_task 5 1 ch]"
  by (simp add: task_row_def ex_task_world_def ex_task_def ex_defs)

lemma ex_task_books: "wallet 1 (ex_task_world ts) = 5000" "wallet 2 (ex_task_world ts) = 6000" "allowance 2 (ex_task_world ts) = 3000"
  by (simp_all add: ex_task_world_def wallet_def allowance_def user_quota_def token_quota_def pending_def live_user_def live_token_def ex_defs)

lemmas ex_refund_defs = ex_task_world_def ex_task_def ex_defs ex_env_def first_def chk_def ret_def RefundTaskQuota_def taskAdjustFunding_def
  taskIsSubscription_def taskAdjustTokenQuota_def resolveTokenKey_def GetTokenById_def in64_def IncreaseUserQuota_def increaseUserQuota_def
  IncreaseTokenQuota_def increaseTokenQuota_def set_users_def set_tokens_def live_user_def live_token_def spawn_def wallet_def user_quota_def pending_def

section \<open>Properties\<close>



lemma RecalculateTaskQuota_tasks:
  assumes "\<not> taskIsSubscription t"
  shows "tasks (db (snd (RecalculateTaskQuota E t a w))) = tasks (db w)"
proof -
  have "tasks (db (snd (taskAdjustFunding E t (i64 (a - tQuota t)) w))) = tasks (db w)"
    using assms by (simp add: taskAdjustFunding_def tasks_quota_ops)
  moreover have "tasks (db (UpdateChannelUsedQuota cfg c q (UpdateUserUsedQuotaAndRequestCount cfg u q w))) = tasks (db w)" for cfg c q u w
    by (simp add: UpdateChannelUsedQuota_def updateChannelUsedQuota_def UpdateUserUsedQuotaAndRequestCount_def updateUserUsedQuotaAndRequestCount_def
        exec_def stmt_def addNewRecord_def set_users_def split: list.splits option.splits)
  ultimately show ?thesis
    by (cases "taskAdjustFunding E t (i64 (a - tQuota t)) w")
      (auto simp: RecalculateTaskQuota_def Let_def tasks_token_adjust split: sum.splits)
qed

text \<open>C16. A task that ends in success and has a price of its own is charged exactly that price, whatever was charged when it was
  submitted: the difference is taken from the wallet and the token, or given back. The stored row keeps the quota of the
  submission.\<close>

theorem finished_task_charged_actual:
  assumes "task_payable E t w" "0 \<le> tQuota t" "tQuota t \<le> 2 ^ 59" "\<not> per_call t" "task_row (tId t) w = [t]" "\<not> ended (tStatus t)"
    and "fetchTask A ch t = Inr body" "parsed_result A body = Inr r" "tinStatus r = ''SUCCESS''"
    and "\<forall>t'. adjustBillingOnComplete A t' r = a" "0 < a" "a \<le> 2 ^ 59"
  shows "\<exists>t' w' r'. updateVideoSingleTask E R sa A ch t w = ((Inr (), t'), w') \<and> tQuota t' = a \<and>
    wallet (tUserId t) w' = wallet (tUserId t) w + tQuota t - a \<and> allowance (tTokenId t) w' = allowance (tTokenId t) w + tQuota t - a \<and>
    task_row (tId t) w' = [r'] \<and> tStatus r' = ''SUCCESS'' \<and> tQuota r' = tQuota t"
proof -
  obtain t2 where t2: "apply_result sa (appNow E) (t\<lparr>tData := redactVideoResponseBody A body\<rparr>) r = Some (t2, True, False)"
    "tStatus t2 = ''SUCCESS''" "same_bill t t2"
    using assms(9) by (auto simp: apply_result_def Let_def same_bill_def)
  have f: "faults w = []" using assms(1) by (simp add: task_payable_def)
  obtain w1 where w1: "write_result t t2 w = (True, w1)" "task_row (tId t) w1 = [t2]" "only_tasks w w1"
    using UpdateWithStatus_row [OF f assms(5), of t2 "tStatus t"] t2(2,3) assms(6) by (auto simp: write_result_def same_bill_def)
  have p: "task_payable E t2 w1" by (rule task_payable_tasks [OF assms(1) w1(3) t2(3)])
  have q: "0 \<le> tQuota t2" "tQuota t2 \<le> 2 ^ 59" using assms(2,3) t2(3) by (simp_all add: same_bill_def)
  obtain w2 where w2: "RecalculateTaskQuota E t2 a w1 = (t2\<lparr>tQuota := a\<rparr>, w2)"
    "moves (econf E) (tUserId t2) (tQuota t2 - a) (tTokenId t2) (tQuota t2 - a) w1 w2"
    using RecalculateTaskQuota_moves [OF p q assms(11,12)] by blast
  have "\<not> (case tBillingContext t2 of Some bc \<Rightarrow> tbPerCallBilling bc | None \<Rightarrow> False)"
    using assms(4) t2(3) by (auto simp: per_call_def same_bill_def split: option.splits)
  then have "settleTaskBillingOnComplete E R A t2 r w1 = (t2\<lparr>tQuota := a\<rparr>, w2)"
    using assms(10,11) w2(1) by (simp add: settleTaskBillingOnComplete_def)
  moreover have "result_of_error A body r = Some r" using assms(9) by (simp add: result_of_error_def)
  ultimately have "updateVideoSingleTask E R sa A ch t w = ((Inr (), t2\<lparr>tQuota := a\<rparr>), w2)"
    using assms(7,8) t2(1) w1(1) by (simp add: updateVideoSingleTask_def Let_def)
  moreover have "task_row (tId t) w2 = [t2]"
    using w1(2) w2(1) RecalculateTaskQuota_tasks [of t2 E a w1] p by (simp add: task_row_def task_payable_def)
  ultimately show ?thesis
    using w2(2) only_tasks_books [OF w1(3) f] t2(2,3) by (auto simp: same_bill_def moves_def same_books_def user_side_def token_side_def)
qed

theorem finished_task_charged_actual_witness:
  "\<exists>t' w' r'. updateVideoSingleTask ex_env ex_ratios ''s'' (ex_adaptor ((FailTaskInfo [])\<lparr>tinStatus := ''SUCCESS''\<rparr>) 130) (ex_channel 3 0 1)
       ((ex_task 5 1 3)\<lparr>tBillingContext := None\<rparr>) (ex_task_world [(ex_task 5 1 3)\<lparr>tBillingContext := None\<rparr>]) = ((Inr (), t'), w') \<and>
     tQuota t' = 130 \<and> wallet 1 w' = 4970 \<and> task_row 5 w' = [r'] \<and> tQuota r' = 100"
proof -
  let ?t = "(ex_task 5 1 3)\<lparr>tBillingContext := None\<rparr>" and ?r = "(FailTaskInfo [])\<lparr>tinStatus := ''SUCCESS''\<rparr>"
  have p: "task_payable ex_env ?t (ex_task_world [?t])"
    using ex_payable [of 1 5 3 "[?t]"] by (simp add: task_payable_def taskIsSubscription_def ex_task_def)
  have q: "tQuota ?t = 100" "tUserId ?t = 1" "tId ?t = 5" "\<not> per_call ?t" "\<not> ended (tStatus ?t)" by (simp_all add: ex_task_def per_call_def)
  have row: "task_row (tId ?t) (ex_task_world [?t]) = [?t]" by (simp add: task_row_def ex_task_world_def ex_world_def ex_db_def)
  have r: "parsed_result (ex_adaptor ?r 130) ''body'' = Inr ?r" "tinStatus ?r = ''SUCCESS''"
    "fetchTask (ex_adaptor ?r 130) (ex_channel 3 0 1) ?t = Inr ''body''" "\<forall>t'. adjustBillingOnComplete (ex_adaptor ?r 130) t' ?r = 130"
    by (simp_all add: parsed_result_def ex_adaptor_def)
  show ?thesis
    using finished_task_charged_actual [OF p _ _ q(4) row q(5) r(3,1,2,4), of ex_ratios "''s''"] q ex_task_books(1) [of "[?t]"] by auto
qed

text \<open>When the channel of a task is gone, polling marks the task as failed for good and gives nothing back: every wallet and
  every token is as before.\<close>

theorem lost_channel_no_refund:
  assumes "faults w = []" "fst (CacheGetChannel (econf E) c w) = Inl e" "i \<in> set ids" "taskM i = Some t" "task_row (tId t) w = [r]"
  shows "\<exists>r'. task_row (tId t) (snd (updateVideoTasks E R sa Ao c ids taskM w)) = [r'] \<and> tStatus r' = ''FAILURE'' \<and> \<not> unfinished r' \<and>
    (\<forall>u. wallet u (snd (updateVideoTasks E R sa Ao c ids taskM w)) = wallet u w) \<and>
    (\<forall>k. allowance k (snd (updateVideoTasks E R sa Ao c ids taskM w)) = allowance k w)"
proof -
  have "snd (CacheGetChannel (econf E) c w) = w"
    using assms(1) by (simp add: CacheGetChannel_def GetChannelById_def chk_def gets_def ret_def err_def first_def split: option.splits)
  with assms(2) have g: "CacheGetChannel (econf E) c w = (Inl e, w)" by (metis prod.collapse)
  have m: "tId t \<in> set (lost_ids ids taskM)" using assms(3,4) by (force simp: lost_ids_def List.map_filter_def)
  let ?f = "fail_all (''Failed to get channel info, channel ID: '' @ Itoa c)"
  let ?P = "\<lambda>t. tId t \<in> set (lost_ids ids taskM)"
  let ?w = "w\<lparr>db := (db w)\<lparr>tasks := upd_where ?P ?f (tasks (db w))\<rparr>\<rparr>"
  have "snd (updateVideoTasks E R sa Ao c ids taskM w) = ?w"
    using g assms(1,3) m by (auto simp: updateVideoTasks_def TaskBulkUpdateByID_def)
  moreover have "filter (\<lambda>x. tId x = tId t) (upd_where ?P ?f ts) = map ?f (filter (\<lambda>x. tId x = tId t) ts)" for ts
    using m by (induction ts) (auto simp: fail_all_def)
  then have "task_row (tId t) ?w = [?f r]" using assms(5) by (simp add: task_row_def)
  moreover have "same_books w ?w" by (rule only_tasks_books [OF _ assms(1)]) (auto simp: only_tasks_def)
  ultimately show ?thesis by (simp add: same_books_def user_side_def token_side_def fail_all_def unfinished_def)
qed

theorem lost_channel_no_refund_witness:
  "\<exists>r'. task_row 5 (snd (updateVideoTasks ex_env ex_ratios ''s'' None 9 [''up''] [''up'' \<mapsto> ex_task 5 1 9] (ex_task_world [ex_task 5 1 9]))) = [r'] \<and>
     tStatus r' = ''FAILURE'' \<and>
     wallet 1 (snd (updateVideoTasks ex_env ex_ratios ''s'' None 9 [''up''] [''up'' \<mapsto> ex_task 5 1 9] (ex_task_world [ex_task 5 1 9]))) = 5000"
proof -
  have "fst (CacheGetChannel (econf ex_env) 9 (ex_task_world [ex_task 5 1 9])) = Inl RecordNotFound" "faults (ex_task_world [ex_task 5 1 9]) = []"
    by (simp_all add: CacheGetChannel_def GetChannelById_def first_def chk_def err_def row_def ex_env_def ex_task_world_def ex_defs)
  moreover have "tId (ex_task 5 1 9) = 5" by (simp add: ex_task_def)
  ultimately show ?thesis
    using lost_channel_no_refund [of "ex_task_world [ex_task 5 1 9]" ex_env 9 RecordNotFound "''up''" "[''up'']" "[''up'' \<mapsto> ex_task 5 1 9]" "ex_task 5 1 9" "ex_task 5 1 9" ex_ratios "''s''" None]
      ex_task_row [of 9] ex_task_books(1) [of "[ex_task 5 1 9]"] by auto
qed

text \<open>The Suno tasks have no such guard: two processes that have read the same unfinished task and get the same failure
  each refund it, so a task of 100 gives 200 back.\<close>

definition ex_failed_song :: SunoDataResponse where
  "ex_failed_song = \<lparr>sdTaskID = ''up'', sdStatus = ''FAILURE'', sdFailReason = ''x'', sdSubmitTime = 0, sdStartTime = 7, sdFinishTime = 9, sdData = ''d''\<rparr>"

theorem suno_task_refunded_twice:
  "wallet 1 (fold (\<lambda>c w. snd (suno_item ex_env c ex_failed_song w)) [ex_task 5 1 3, ex_task 5 1 3] (ex_task_world [ex_task 5 1 3])) = 5200"
  by (simp add: suno_item_def ex_failed_song_def Let_def task_Update_def ex_refund_defs)

text \<open>The tasks of a round are kept by their upstream id alone: when two tasks of different channels have the same one, a
  single round polls the second task twice, the second time without the guard, refunds its 100 twice, and leaves the first
  task as it was.\<close>

definition ex_collision :: world where
  "ex_collision = (ex_task_world [ex_task 5 1 3, ex_task 6 2 4])\<lparr>db := (db (ex_task_world [ex_task 5 1 3, ex_task 6 2 4]))\<lparr>channels := [ex_channel 3 0 1, ex_channel 4 0 1]\<rparr>\<rparr>"

theorem shared_upstream_id_refunds_twice:
  "wallet 2 (snd (TaskPollingLoop_round ex_env ex_ratios (ex_poll\<lparr>TaskTimeoutMinutes := 0\<rparr>) ex_collision)) = 6200 \<and>
   task_row 5 (snd (TaskPollingLoop_round ex_env ex_ratios (ex_poll\<lparr>TaskTimeoutMinutes := 0\<rparr>) ex_collision)) = [ex_task 5 1 3]"
  by (simp add: TaskPollingLoop_round_def sweepTimedOutTasks_def GetAllUnFinishSyncTasks_def listed_def unfinished_def Let_def
      ex_collision_def ex_poll_def poll_platform_def channel_ids_def channel_tasks_def task_map_def GetUpstreamTaskID_def
      DispatchPlatformUpdate_def updateVideoTasks_def CacheGetChannel_def GetChannelById_def row_def ex_channel_def
      updateVideoSingleTask_def ex_adaptor_def parsed_result_def FailTaskInfo_def result_of_error_def apply_result_def write_result_def
      UpdateWithStatus_def Snapshot_def task_row_def ex_refund_defs)

end
