(* ===== verification/TaskRelayLaws.thy ===== *)
theory TaskRelayLaws
  imports TaskRelay TaskLaws
begin

text \<open>
  What submitting a task costs: the loop ends, a submission that fails costs nothing, one that succeeds has charged exactly the
  quota it stores with the task, and what becomes of the wallet when that task fails later.
\<close>

section \<open>The loop ends\<close>

lemma task_preConsume_param: "task_preConsume E st = (e, st') \<Longrightarrow> retryParam (tsRelay st') = retryParam (tsRelay st)"
  by (auto simp: task_preConsume_def Let_def split: if_splits prod.splits sum.splits)

lemma task_send_param: "task_send R A pf k st = (r, st') \<Longrightarrow> retryParam (tsRelay st') = retryParam (tsRelay st)"
  by (auto simp: task_send_def Let_def split: sum.splits)

lemma RelayTaskSubmit_param: "RelayTaskSubmit E R Q k st = (r, st') \<Longrightarrow> retryParam (tsRelay st') = retryParam (tsRelay st)"
  by (auto simp: RelayTaskSubmit_def Let_def split: option.splits sum.splits prod.splits dest!: task_preConsume_param task_send_param)

lemma task_channel_progress:
  assumes "task_channel S cfg rnd krnd locked st = (Inr ch, st')"
    and "ready (retryParam st)" "GetRetry (retryParam st) \<le> RetryTimes S" "0 \<le> RetryTimes S" "in64 (RetryTimes S + 1)"
  shows "ready (IncreaseRetry (retryParam st')) \<and> budget S (IncreaseRetry (retryParam st')) < budget S (retryParam st)"
proof (cases locked)
  case None
  with assms(1) have "getChannel S cfg rnd krnd st = (Inr ch, st')" by (auto simp: task_channel_def split: prod.splits sum.splits)
  from getChannel_progress [OF this assms(2-5)] show ?thesis .
next
  case (Some l)
  obtain e c' w' where su: "SetupContextForSelectedChannel cfg krnd (Some l) (Ctx (retryParam st)) (rworld st) = (e, c', w')" by (metis surj_pair)
  have "retryParam st' = retryParam st \<or> retryParam st' = (retryParam st)\<lparr>Ctx := c'\<rparr>"
    using assms(1) Some su by (auto simp: task_channel_def split: if_splits option.splits)
  then show ?thesis using increase_progress [OF assms(2,3,5)] SetupContext_fields [OF su] by (auto simp: context_cong)
qed

lemma task_attempt_progress:
  assumes "task_attempt E R S rnd krnd Q locked k st = (True, r, st')"
    and "ready (retryParam (tsRelay st))" "GetRetry (retryParam (tsRelay st)) \<le> RetryTimes S" "0 \<le> RetryTimes S" "in64 (RetryTimes S + 1)"
  shows "ready (IncreaseRetry (retryParam (tsRelay st'))) \<and> budget S (IncreaseRetry (retryParam (tsRelay st'))) < budget S (retryParam (tsRelay st))"
proof -
  obtain x rs where g: "task_channel S (econf E) (rnd k) (krnd k) locked (tsRelay st) = (x, rs)" by (metis surj_pair)
  with assms(1) obtain ch where x: "x = Inr ch" by (cases x) (auto simp: task_attempt_def)
  let ?st = "st\<lparr>tsRelay := rs\<lparr>retryParam := (retryParam rs)\<lparr>Ctx := addUsedChannel (chId ch) (Ctx (retryParam rs))\<rparr>\<rparr>\<rparr>"
  obtain y st2 where s: "RelayTaskSubmit E R Q k ?st = (y, st2)" by (metis surj_pair)
  have "retryParam (tsRelay st') = retryParam (tsRelay st2)"
    using assms(1) g x s by (auto simp: task_attempt_def Let_def split: option.splits sum.splits)
  also have "\<dots> = (retryParam rs)\<lparr>Ctx := addUsedChannel (chId ch) (Ctx (retryParam rs))\<rparr>" using RelayTaskSubmit_param [OF s] by simp
  finally show ?thesis using task_channel_progress [OF g [unfolded x] assms(2-5)] by (simp add: context_cong addUsedChannel_def)
qed

lemma task_loop_returns:
  assumes "ready (retryParam (tsRelay st))" "0 \<le> RetryTimes S" "in64 (RetryTimes S + 1)"
  shows "\<exists>y. task_loop E R S rnd krnd Q locked k res st = Some y"
  using assms(1)
proof (induction "budget S (retryParam (tsRelay st))" arbitrary: k res st rule: less_induct)
  case less
  obtain again r st' where a: "task_attempt E R S rnd krnd Q locked k st = (again, r, st')" by (metis surj_pair)
  show ?case
  proof (cases "GetRetry (retryParam (tsRelay st)) \<le> RetryTimes S \<and> again")
    case True
    let ?st = "st'\<lparr>tsRelay := (tsRelay st')\<lparr>retryParam := IncreaseRetry (retryParam (tsRelay st'))\<rparr>\<rparr>"
    have "budget S (retryParam (tsRelay ?st)) < budget S (retryParam (tsRelay st))" "ready (retryParam (tsRelay ?st))"
      using task_attempt_progress [of E R S rnd krnd Q locked k st r st'] a True less.prems assms(2,3) by simp_all
    from less.hyps [OF this] a True show ?thesis by (simp add: task_loop.simps [of E R S rnd krnd Q locked k res st])
  next
    case False
    with a show ?thesis by (auto simp: task_loop.simps [of E R S rnd krnd Q locked k res st])
  qed
qed

section \<open>What a submission has taken\<close>

text \<open>Along the loop: nothing before there is a session, then what the session holds.\<close>

definition paid :: "env \<Rightarrow> relay_info \<Rightarrow> world \<Rightarrow> task_state \<Rightarrow> bool" where
  "paid E ri w0 st \<longleftrightarrow>
     (case tsBilling st of
        None \<Rightarrow> moved E ri 0 0 w0 (rworld (tsRelay st)) \<and> (\<exists>b. tsInfo st = ri\<lparr>riForcePreConsume := b\<rparr>)
      | Some s \<Rightarrow> tsInfo st = relayInfo s \<and> (\<exists>p. 0 \<le> p \<and> p \<le> 2 ^ 60 \<and> opened ri (Wallet \<lparr>wfUserId = riUserId ri, wfConsumed = p\<rparr>) p s \<and>
          moved E ri (- p) (token_part ri (- p)) w0 (rworld (tsRelay st))))"

text \<open>Prices that are far from the edges of 64 bits, before and after the upstream's answer.\<close>

definition modest_request :: "ratio_conf \<Rightarrow> task_request \<Rightarrow> bool" where
  "modest_request R Q \<longleftrightarrow> (\<forall>pf A k patched q p. GetTaskAdaptor Q pf = Some A \<and> task_price R patched q (estimateBilling A k) = Inr p \<longrightarrow>
     small (pdQuota p) \<and> (\<forall>d. adjustBillingOnSubmit A d \<noteq> [] \<longrightarrow> small (recalcQuotaFromRatios (fl R) p (adjustBillingOnSubmit A d))))"

definition from_wallet :: "relay_info \<Rightarrow> bool" where
  "from_wallet ri \<longleftrightarrow> NormalizeBillingPreference (riBillingPreference ri) = ''wallet_only'' \<and> riBillingSource ri \<noteq> ''subscription'' \<and>
     riFinalPreConsumedQuota ri = 0"

lemma paid_faults: "paid E ri w0 st \<Longrightarrow> faults (rworld (tsRelay st)) = []"
  by (auto simp: paid_def moves_def split: option.splits)

lemma paid_same:
  assumes "paid E ri w0 st" "same_books (rworld (tsRelay st)) (rworld (tsRelay st'))" "tsBilling st' = tsBilling st" "tsInfo st' = tsInfo st"
  shows "paid E ri w0 st'"
proof -
  have "moved E ri x y w0 (rworld (tsRelay st'))" if "moved E ri x y w0 (rworld (tsRelay st))" for x y
    using moves_trans [OF that moves_same [OF assms(2)]] by simp
  with assms(1,3,4) show ?thesis unfolding paid_def by (auto split: option.splits)
qed

lemma paid_update:
  "paid E ri w0 st \<Longrightarrow> tsBilling st' = tsBilling st \<Longrightarrow> tsInfo st' = tsInfo st \<Longrightarrow> rworld (tsRelay st') = rworld (tsRelay st) \<Longrightarrow> paid E ri w0 st'"
  using paid_same [of E ri w0 st st'] same_books_refl [OF paid_faults [of E ri w0 st]] by simp

lemma task_channel_books:
  assumes "faults (rworld st) = []"
  shows "same_books (rworld st) (rworld (snd (task_channel S cfg rnd krnd locked st)))"
proof (cases locked)
  case None
  then show ?thesis using getChannel_books [OF assms, of S cfg rnd krnd] by (auto simp: task_channel_def split: prod.splits sum.splits)
next
  case (Some l)
  then show ?thesis
    using SetupContext_books [OF assms, of cfg krnd "Some l" "Ctx (retryParam st)"] same_books_refl [OF assms]
    by (auto simp: task_channel_def split: prod.splits option.splits)
qed

lemma task_preConsume_paid:
  assumes "paid E ri w0 st" "billable E ri (2 ^ 61) w0" "from_wallet ri" "small (pdQuota (tsPrice st))" "task_preConsume E st = (e, st')"
  shows "paid E ri w0 st'"
proof (cases "tsBilling st = None \<and> \<not> FreeModel (tsPrice st)")
  case False
  with assms(1,5) show ?thesis by (auto simp: task_preConsume_def)
next
  case True
  with assms(1) obtain b where m: "moved E ri 0 0 w0 (rworld (tsRelay st))" and i: "tsInfo st = ri\<lparr>riForcePreConsume := b\<rparr>"
    by (auto simp: paid_def)
  let ?ri = "ri\<lparr>riForcePreConsume := True\<rparr>"
  have "billable E ri (2 ^ 61) (rworld (tsRelay st))" using billable_moved [OF assms(2) m, of 0] by simp
  then have b: "billable E ?ri (2 ^ 61) (rworld (tsRelay st))" by (simp add: billable_def)
  obtain r ri' w where t: "tryWallet E (pdQuota (tsPrice st)) ?ri (rworld (tsRelay st)) = ((r, ri'), w)" by (metis surj_pair)
  then have n: "NewBillingSession E (pdQuota (tsPrice st)) ?ri (rworld (tsRelay st)) = (r, w)"
    using assms(3) by (simp add: NewBillingSession_def from_wallet_def)
  note bk = tryWallet_books [OF b assms(4) t]
  show ?thesis
  proof (cases r)
    case (Inl er)
    with True n i assms(5) bk moves_trans [OF m] show ?thesis by (auto simp: task_preConsume_def paid_def)
  next
    case (Inr s)
    with bk obtain p where p: "0 \<le> p" "p \<le> pdQuota (tsPrice st)" "opened ri (Wallet \<lparr>wfUserId = riUserId ri, wfConsumed = p\<rparr>) p s"
      "moved E ri (- p) (token_part ri (- p)) (rworld (tsRelay st)) w"
      by (auto simp: wallet_opened_def opened_def token_part_def)
    have st': "st' = st\<lparr>tsInfo := relayInfo s, tsBilling := Some s, tsRelay := (tsRelay st)\<lparr>rworld := w\<rparr>\<rparr>"
      using assms(5) True n i Inr by (simp add: task_preConsume_def)
    have "p \<le> 2 ^ 60" using p(2) assms(4) by simp
    with moves_trans [OF m p(4)] p(1,3) show ?thesis unfolding paid_def st' by (simp, intro exI [of _ p]) simp
  qed
qed

lemma task_send_paid:
  assumes "paid E ri w0 st" "task_send R A pf k st = (r, st')"
  shows "paid E ri w0 st'" "r = Inr y \<Longrightarrow> srQuota y = pdQuota (tsPrice st) \<or> (\<exists>d. adjustBillingOnSubmit A d \<noteq> [] \<and>
     srQuota y = recalcQuotaFromRatios (fl R) (tsPrice st) (adjustBillingOnSubmit A d))"
proof -
  show "paid E ri w0 st'" by (rule paid_update [OF assms(1)]) (use assms(2) in \<open>auto simp: task_send_def Let_def split: sum.splits\<close>)
  show "r = Inr y \<Longrightarrow> srQuota y = pdQuota (tsPrice st) \<or> (\<exists>d. adjustBillingOnSubmit A d \<noteq> [] \<and>
     srQuota y = recalcQuotaFromRatios (fl R) (tsPrice st) (adjustBillingOnSubmit A d))"
    using assms(2) by (auto simp: task_send_def Let_def split: sum.splits if_splits)
qed

lemma task_preConsume_price: "task_preConsume E st = (e, st') \<Longrightarrow> tsPrice st' = tsPrice st"
  by (auto simp: task_preConsume_def Let_def split: if_splits prod.splits sum.splits)

lemma RelayTaskSubmit_paid:
  assumes "paid E ri w0 st" "billable E ri (2 ^ 61) w0" "from_wallet ri" "modest_request R Q" "RelayTaskSubmit E R Q k st = (r, st')"
  shows "paid E ri w0 st' \<and> (\<forall>y. r = Inr y \<longrightarrow> small (srQuota y))"
proof -
  have up: "paid E ri w0 x" if "tsBilling x = tsBilling st" "tsInfo x = tsInfo st" "rworld (tsRelay x) = rworld (tsRelay st)" for x
    by (rule paid_update [OF assms(1) that])
  have pre: "paid E ri w0 st2" if "task_preConsume E x = (e, st2)" "tsBilling x = tsBilling st" "tsInfo x = tsInfo st"
    "rworld (tsRelay x) = rworld (tsRelay st)" "small (pdQuota (tsPrice x))" for x e st2
    by (rule task_preConsume_paid [OF up [OF that(2-4)] assms(2,3) that(5,1)])
  have send: "paid E ri w0 st3 \<and> (\<forall>y. r = Inr y \<longrightarrow> small (srQuota y))"
    if "task_preConsume E x = (e, st2)" "tsBilling x = tsBilling st" "tsInfo x = tsInfo st" "rworld (tsRelay x) = rworld (tsRelay st)"
      "GetTaskAdaptor Q pf = Some A" "task_price R patched q (estimateBilling A k) = Inr (tsPrice x)" "task_send R A pf k st2 = (r, st3)"
    for x e st2 pf A patched q r st3
  proof -
    have m: "small (pdQuota (tsPrice x))" "adjustBillingOnSubmit A d \<noteq> [] \<Longrightarrow> small (recalcQuotaFromRatios (fl R) (tsPrice x) (adjustBillingOnSubmit A d))" for d
      using assms(4) that(5,6) unfolding modest_request_def by blast+
    from task_send_paid [OF pre [OF that(1-4) m(1)] that(7)] task_preConsume_price [OF that(1)] m show ?thesis by auto
  qed
  let ?st = "st\<lparr>tsRelay := (tsRelay st)\<lparr>ChannelMeta := True\<rparr>\<rparr>" and ?c = "Ctx (retryParam (tsRelay st))"
  let ?pf = "rqPlatform Q ?c"
  let ?m = "if tsModelName st = [] then CoverTaskActionToModelName ?pf (rqAction Q) else tsModelName st"
  show ?thesis
  proof (cases "GetTaskAdaptor Q ?pf")
    case None
    with assms(5) show ?thesis by (auto simp: RelayTaskSubmit_def Let_def intro!: up)
  next
    case (Some A)
    show ?thesis
    proof (cases "validateRequest A k = None \<and> (\<exists>u. mapModel A ?m = Inr u)")
      case False
      then consider e where "validateRequest A k = Some e" | e where "validateRequest A k = None" "mapModel A ?m = Inl e"
        by (cases "validateRequest A k"; cases "mapModel A ?m") auto
      then show ?thesis using Some assms(5) by cases (auto simp: RelayTaskSubmit_def Let_def intro!: up cong: if_cong)
    next
      case True
      then obtain u where v: "validateRequest A k = None" "mapModel A ?m = Inr u" by blast
      let ?q = "\<lparr>prModel = ?m, prUserGroup = UserGroup ?c, prUsingGroup = tsUsingGroup st, prAutoGroup = AutoGroup ?c,
        prAcceptUnset = rqAcceptUnset Q, prMaxTokens = 0, prImagePriceRatio = 0\<rparr>"
      let ?st1 = "?st\<lparr>tsModelName := ?m, tsUpstreamModelName := u,
        tsPublicTaskID := (if tsPublicTaskID st = [] then rqGenID Q else tsPublicTaskID st), tsUsingGroup := snd (HandleGroupRatio R ?q)\<rparr>"
      show ?thesis
      proof (cases "task_price R (rqPatched Q ?m) ?q (estimateBilling A k)")
        case (Inl e)
        with Some v assms(5) show ?thesis by (auto simp: RelayTaskSubmit_def Let_def intro!: up cong: if_cong)
      next
        case (Inr p)
        obtain e st2 where pc: "task_preConsume E (?st1\<lparr>tsPrice := p\<rparr>) = (e, st2)" by (metis surj_pair)
        obtain r3 st3 where sd: "task_send R A ?pf k st2 = (r3, st3)" by (metis surj_pair)
        have "(r, st') = (case e of Some er \<Rightarrow> (Inl er, st2) | None \<Rightarrow> (r3, st3))"
          using assms(5) Some v Inr pc sd by (simp add: RelayTaskSubmit_def Let_def split: option.splits cong: if_cong)
        moreover have "paid E ri w0 st2"
          by (rule pre [OF pc]) (use assms(4) Some Inr in \<open>auto simp: modest_request_def\<close>)
        moreover have "paid E ri w0 st3 \<and> (\<forall>y. r3 = Inr y \<longrightarrow> small (srQuota y))"
          by (rule send [OF pc _ _ _ Some _ sd]) (use Inr in auto)
        ultimately show ?thesis by (cases e) auto
      qed
    qed
  qed
qed

lemma task_attempt_paid:
  assumes "paid E ri w0 st" "billable E ri (2 ^ 61) w0" "from_wallet ri" "modest_request R Q"
    and "task_attempt E R S rnd krnd Q locked k st = (again, r, st')"
  shows "paid E ri w0 st' \<and> (\<forall>y. r = Inr y \<longrightarrow> small (srQuota y) \<and> \<not> again)"
proof -
  obtain x rs where g: "task_channel S (econf E) (rnd k) (krnd k) locked (tsRelay st) = (x, rs)" by (metis surj_pair)
  have sb: "same_books (rworld (tsRelay st)) (rworld rs)"
    using task_channel_books [OF paid_faults [OF assms(1)], of S "econf E" "rnd k" "krnd k" locked] g by simp
  show ?thesis
  proof (cases x)
    case (Inl e)
    have "paid E ri w0 (st\<lparr>tsRelay := rs\<rparr>)" by (rule paid_same [OF assms(1)]) (use sb in simp_all)
    with Inl g assms(5) show ?thesis by (auto simp: task_attempt_def)
  next
    case (Inr ch)
    let ?st = "st\<lparr>tsRelay := rs\<lparr>retryParam := (retryParam rs)\<lparr>Ctx := addUsedChannel (chId ch) (Ctx (retryParam rs))\<rparr>\<rparr>\<rparr>"
    have p: "paid E ri w0 ?st" by (rule paid_same [OF assms(1)]) (use sb in simp_all)
    obtain y st2 where s: "RelayTaskSubmit E R Q k ?st = (y, st2)" by (metis surj_pair)
    note ps = RelayTaskSubmit_paid [OF p assms(2-4) s]
    show ?thesis
    proof (cases "rqBodyError Q k")
      case None
      have "paid E ri w0 st' \<and> (r = y \<and> (\<forall>z. y = Inr z \<longrightarrow> \<not> again))"
      proof (cases y)
        case (Inl e)
        have "paid E ri w0 st'"
          by (rule paid_update [of E ri w0 st2]) (use ps Inl None Inr g s assms(5) in \<open>auto simp: task_attempt_def Let_def\<close>)
        with Inl None Inr g s assms(5) show ?thesis by (auto simp: task_attempt_def Let_def)
      next
        case (Inr z)
        with ps None \<open>x = Inr ch\<close> g s assms(5) show ?thesis by (auto simp: task_attempt_def Let_def)
      qed
      with ps show ?thesis by auto
    next
      case (Some b)
      with Inr g p assms(5) show ?thesis by (cases b) (auto simp: task_attempt_def Let_def)
    qed
  qed
qed

lemma task_loop_paid:
  assumes "task_loop E R S rnd krnd Q locked k res st = Some y"
  shows "paid E ri w0 st \<longrightarrow> billable E ri (2 ^ 61) w0 \<longrightarrow> from_wallet ri \<longrightarrow> modest_request R Q \<longrightarrow> (\<forall>z. res \<noteq> Some (Inr z)) \<longrightarrow>
    paid E ri w0 (snd y) \<and> (\<forall>z. fst y = Some (Inr z) \<longrightarrow> small (srQuota z))"
proof (rule task_loop.raw_induct [OF _ assms], intro impI)
  fix loop E R S rnd krnd Q locked k res st y
  assume IH: "\<And>E R S rnd krnd Q locked k res st y. loop E R S rnd krnd Q locked k res st = Some y \<Longrightarrow>
      paid E ri w0 st \<longrightarrow> billable E ri (2 ^ 61) w0 \<longrightarrow> from_wallet ri \<longrightarrow> modest_request R Q \<longrightarrow> (\<forall>z. res \<noteq> Some (Inr z)) \<longrightarrow>
      paid E ri w0 (snd y) \<and> (\<forall>z. fst y = Some (Inr z) \<longrightarrow> small (srQuota z))"
    and r: "(if GetRetry (retryParam (tsRelay st)) \<le> RetryTimes S
      then case task_attempt E R S rnd krnd Q locked k st of (again, r, st') \<Rightarrow>
             if again then loop E R S rnd krnd Q locked (Suc k) (Some r)
               (st'\<lparr>tsRelay := (tsRelay st')\<lparr>retryParam := IncreaseRetry (retryParam (tsRelay st'))\<rparr>\<rparr>)
             else Some (Some r, st')
      else Some (res, st)) = Some y"
    and p: "paid E ri w0 st" and b: "billable E ri (2 ^ 61) w0" "from_wallet ri" "modest_request R Q" and n: "\<forall>z. res \<noteq> Some (Inr z)"
  obtain again x st1 where a: "task_attempt E R S rnd krnd Q locked k st = (again, x, st1)" by (metis surj_pair)
  note ap = task_attempt_paid [OF p b a]
  show "paid E ri w0 (snd y) \<and> (\<forall>z. fst y = Some (Inr z) \<longrightarrow> small (srQuota z))"
  proof (cases "GetRetry (retryParam (tsRelay st)) \<le> RetryTimes S \<and> again")
    case True
    let ?st = "st1\<lparr>tsRelay := (tsRelay st1)\<lparr>retryParam := IncreaseRetry (retryParam (tsRelay st1))\<rparr>\<rparr>"
    have l: "loop E R S rnd krnd Q locked (Suc k) (Some x) ?st = Some y" using r a True by simp
    have "paid E ri w0 ?st" by (rule paid_update [of E ri w0 st1]) (use ap in simp_all)
    moreover have "\<forall>z. Some x \<noteq> Some (Inr z)" using ap True by auto
    ultimately show ?thesis using IH [OF l] b by blast
  next
    case False
    with a r p n ap show ?thesis by (auto split: if_splits)
  qed
qed

section \<open>What a submission costs\<close>

lemma Settle_wallet_keeps:
  assumes "faults w = []" "funding s = Wallet f" "Settle E q s w = ((r, s'), w')"
  shows "faults w' = []" "relayInfo s' = relayInfo s"
proof -
  have t: "faults v' = []" if "token_delta E ri d v = (x, v')" "faults v = []" for ri d v x v'
  proof -
    have "faults (snd (token_delta E ri d v)) = []" using that(2) by (simp add: token_delta_def quota_ops_faults)
    with that(1) show ?thesis by simp
  qed
  have f: "faults (snd (fs_Settle E (Wallet f) d w)) = []" for d
    using assms(1) by (simp add: wallet_Settle_def quota_ops_faults ret_def)
  show "relayInfo s' = relayInfo s" using assms(2,3) by (auto simp: Settle_def Let_def split: if_splits prod.splits sum.splits)
  show "faults w' = []"
    using assms f [of "i64 (q - preConsumedQuota s)"] by (auto simp: Settle_def Let_def split: if_splits prod.splits sum.splits dest: t)
qed

lemma settle_task:
  assumes "paid E ri w0 st" "billable E ri (2 ^ 61) w0" "from_wallet ri" "small q"
  shows "\<exists>so ri' w. SettleBilling E (tsInfo st) (tsBilling st) q (rworld (tsRelay st)) = ((Inr (), so, ri'), w) \<and> faults w = [] \<and>
    wallet (riUserId ri) w = wallet (riUserId ri) w0 - q \<and> allowance (riTokenId ri) w = allowance (riTokenId ri) w0 - token_part ri q \<and>
    riUserId ri' = riUserId ri \<and> riTokenId ri' = riTokenId ri \<and> riBillingSource ri' \<noteq> ''subscription''"
proof (cases "tsBilling st")
  case None
  with assms(1) obtain b where m: "moved E ri 0 0 w0 (rworld (tsRelay st))" and i: "tsInfo st = ri\<lparr>riForcePreConsume := b\<rparr>" by (auto simp: paid_def)
  let ?ri = "ri\<lparr>riForcePreConsume := b\<rparr>"
  have d: "i64 (q - riFinalPreConsumedQuota ?ri) = q" using assms(3,4) by (simp add: from_wallet_def in64_def)
  show ?thesis
  proof (cases "q = 0")
    case True
    with None d i m assms(3) show ?thesis by (auto simp: SettleBilling_def moves_def token_part_def from_wallet_def)
  next
    case False
    have "billable E ri (2 ^ 61) (rworld (tsRelay st))" using billable_moved [OF assms(2) m, of 0] by simp
    then have "billable E ?ri (2 ^ 61) (rworld (tsRelay st))" by (simp add: billable_def)
    from PostConsumeQuota_moves [OF this, of q] False assms(3,4) obtain w where
      "PostConsumeQuota E ?ri q (rworld (tsRelay st)) = ((Inr (), ?ri), w)" "moved E ri (- q) (token_part ri (- q)) (rworld (tsRelay st)) w"
      by (auto simp: from_wallet_def token_part_def)
    with None d i m False assms(3) show ?thesis by (auto simp: SettleBilling_def moves_def token_part_def from_wallet_def)
  qed
next
  case (Some s)
  with assms(1) obtain p where p: "tsInfo st = relayInfo s" "0 \<le> p" "p \<le> 2 ^ 60" "opened ri (Wallet \<lparr>wfUserId = riUserId ri, wfConsumed = p\<rparr>) p s"
    "moved E ri (- p) (token_part ri (- p)) w0 (rworld (tsRelay st))" by (auto simp: paid_def)
  have "billable E ri (2 ^ 61 + 2 ^ 60) (rworld (tsRelay st))"
    by (rule billable_moved [OF assms(2) p(5)]) (use p(2,3) in \<open>auto simp: token_part_def\<close>)
  then have "billable E ri (2 ^ 62) (rworld (tsRelay st))" by (rule billable_mono) simp
  from wallet_settle_charges [OF p(4) this p(2,3), of q] assms(4) obtain s' w where
    w: "Settle E q s (rworld (tsRelay st)) = ((Inr (), s'), w)" "wallet (riUserId ri) w = wallet (riUserId ri) (rworld (tsRelay st)) + p - q"
      "allowance (riTokenId ri) w = allowance (riTokenId ri) (rworld (tsRelay st)) + token_part ri (p - q)" by auto
  note k = Settle_wallet_keeps [OF paid_faults [OF assms(1)] _ w(1)]
  have "funding s = Wallet \<lparr>wfUserId = riUserId ri, wfConsumed = p\<rparr>" "riUserId (relayInfo s) = riUserId ri" "riTokenId (relayInfo s) = riTokenId ri"
    "riBillingSource (relayInfo s) = ''wallet''" using p(4) by (auto simp: opened_def)
  with Some w p(5) k show ?thesis by (auto simp: SettleBilling_def moves_def token_part_def)
qed

lemma task_loop_result:
  assumes "task_loop E R S rnd krnd Q locked k res st = Some y"
  shows "(res \<noteq> None \<or> GetRetry (retryParam (tsRelay st)) \<le> RetryTimes S) \<longrightarrow> fst y \<noteq> None"
proof (rule task_loop.raw_induct [OF _ assms], intro impI)
  fix loop E R S rnd krnd Q locked k res st y
  assume IH: "\<And>E R S rnd krnd Q locked k res st y. loop E R S rnd krnd Q locked k res st = Some y \<Longrightarrow>
      (res \<noteq> None \<or> GetRetry (retryParam (tsRelay st)) \<le> RetryTimes S) \<longrightarrow> fst y \<noteq> None"
    and r: "(if GetRetry (retryParam (tsRelay st)) \<le> RetryTimes S
      then case task_attempt E R S rnd krnd Q locked k st of (again, r, st') \<Rightarrow>
             if again then loop E R S rnd krnd Q locked (Suc k) (Some r)
               (st'\<lparr>tsRelay := (tsRelay st')\<lparr>retryParam := IncreaseRetry (retryParam (tsRelay st'))\<rparr>\<rparr>)
             else Some (Some r, st')
      else Some (res, st)) = Some y"
    and n: "res \<noteq> None \<or> GetRetry (retryParam (tsRelay st)) \<le> RetryTimes S"
  obtain again x st1 where a: "task_attempt E R S rnd krnd Q locked k st = (again, x, st1)" by (metis surj_pair)
  show "fst y \<noteq> None"
  proof (cases "GetRetry (retryParam (tsRelay st)) \<le> RetryTimes S \<and> again")
    case True
    with r a have "loop E R S rnd krnd Q locked (Suc k) (Some x)
      (st1\<lparr>tsRelay := (tsRelay st1)\<lparr>retryParam := IncreaseRetry (retryParam (tsRelay st1))\<rparr>\<rparr>) = Some y" by simp
    from IH [OF this] show ?thesis by simp
  next
    case False
    with a r n show ?thesis by (auto split: if_splits)
  qed
qed

text \<open>What is known of a task when it has just been stored.\<close>

definition charged_task :: "relay_info \<Rightarrow> world \<Rightarrow> world \<Rightarrow> task \<Rightarrow> bool" where
  "charged_task ri w w' t \<longleftrightarrow> t \<in> set (tasks (db w')) \<and> task_row (tId t) w' = [t] \<and> tUserId t = riUserId ri \<and> tTokenId t = riTokenId ri \<and>
     \<not> taskIsSubscription t \<and> tStatus t = ''NOT_START'' \<and> 0 \<le> tQuota t \<and> tQuota t \<le> 2 ^ 60 \<and>
     wallet (riUserId ri) w' = wallet (riUserId ri) w - tQuota t \<and> allowance (riTokenId ri) w' = allowance (riTokenId ri) w - token_part ri (tQuota t)"

lemma task_row_insert: "filter (\<lambda>r. tId r = fresh_id (map tId ts)) ts = []"
  using fresh_id_fresh [of "map tId ts"] by (force simp: filter_empty_conv)

lemma task_done_charges:
  assumes "paid E ri w0 st" "billable E ri (2 ^ 61) w0" "from_wallet ri" "small (srQuota r)"
  shows "\<exists>t. charged_task ri w0 (task_done E Q r st) t"
proof -
  obtain so ri' w where w: "SettleBilling E (tsInfo st) (tsBilling st) (srQuota r) (rworld (tsRelay st)) = ((Inr (), so, ri'), w)" "faults w = []"
    "wallet (riUserId ri) w = wallet (riUserId ri) w0 - srQuota r" "allowance (riTokenId ri) w = allowance (riTokenId ri) w0 - token_part ri (srQuota r)"
    "riUserId ri' = riUserId ri" "riTokenId ri' = riTokenId ri" "riBillingSource ri' \<noteq> ''subscription''"
    using settle_task [OF assms] by blast
  let ?w2 = "LogTaskConsumption (econf E) (riUserId ri') (ctxChannelId (Ctx (retryParam (tsRelay st)))) (pdQuota (tsPrice st)) w"
  have s: "same_books w ?w2" unfolding LogTaskConsumption_def by (rule counted_books [OF w(2)])
  then have f: "faults ?w2 = []" by (simp add: same_books_def)
  define t where "t = submitted_task E Q r ri' st"
  have t: "task_done E Q r st = snd (task_Insert t ?w2)" "tUserId t = riUserId ri'" "tTokenId t = riTokenId ri'"
    "tBillingSource t = riBillingSource ri'" "tStatus t = ''NOT_START''" "tQuota t = srQuota r"
    using w(1) by (simp_all add: task_done_def t_def submitted_task_def InitTask_def Let_def)
  let ?t = "t\<lparr>tId := fresh_id (map tId (tasks (db ?w2)))\<rparr>"
  have d: "task_done E Q r st = ?w2\<lparr>db := (db ?w2)\<lparr>tasks := tasks (db ?w2) @ [?t]\<rparr>\<rparr>" using t(1) f by (simp add: task_Insert_def)
  then have "same_books ?w2 (task_done E Q r st)" by (intro only_tasks_books [OF _ f]) (auto simp: only_tasks_def)
  from same_books_trans [OF s this] w(3,4) t(6) have
    "wallet (riUserId ri) (task_done E Q r st) = wallet (riUserId ri) w0 - tQuota ?t"
    "allowance (riTokenId ri) (task_done E Q r st) = allowance (riTokenId ri) w0 - token_part ri (tQuota ?t)"
    by (simp_all add: same_books_def user_side_def token_side_def)
  moreover have "task_row (tId ?t) (task_done E Q r st) = [?t]" "?t \<in> set (tasks (db (task_done E Q r st)))"
    unfolding d by (simp_all add: task_row_def task_row_insert)
  ultimately have "charged_task ri w0 (task_done E Q r st) ?t"
    using t(2-6) w(5-7) assms(4) by (simp add: charged_task_def taskIsSubscription_def)
  then show ?thesis by blast
qed

lemma refund_task:
  assumes "paid E ri w0 st" "billable E ri (2 ^ 61) w0"
  shows "let w3 = (case (case tsBilling st of None \<Rightarrow> None | Some s \<Rightarrow> snd (Refund s)) of None \<Rightarrow> rworld (tsRelay st) | Some j \<Rightarrow> run_refund E j (rworld (tsRelay st))) in
    wallet (riUserId ri) w3 = wallet (riUserId ri) w0 \<and> allowance (riTokenId ri) w3 = allowance (riTokenId ri) w0"
proof (cases "tsBilling st")
  case None
  with assms(1) show ?thesis by (auto simp: paid_def moves_def)
next
  case (Some s)
  with assms(1) obtain p where p: "0 \<le> p" "p \<le> 2 ^ 60" "opened ri (Wallet \<lparr>wfUserId = riUserId ri, wfConsumed = p\<rparr>) p s"
    "moved E ri (- p) (token_part ri (- p)) w0 (rworld (tsRelay st))" by (auto simp: paid_def)
  have "billable E ri (2 ^ 61 + 2 ^ 60) (rworld (tsRelay st))"
    by (rule billable_moved [OF assms(2) p(4)]) (use p(1,2) in \<open>auto simp: token_part_def\<close>)
  then have "billable E ri (2 ^ 62) (rworld (tsRelay st))" by (rule billable_mono) simp
  from wallet_refund_returns [OF p(3) this p(1,2)] p(4) Some show ?thesis
    by (auto simp: moves_def token_part_def Let_def split: if_splits)
qed

lemma RelayTask_ends:
  assumes "sane_retries S c" "billable E ri (2 ^ 61) w" "from_wallet ri" "modest_request R Q" "\<not> is_remix o0" "orOriginTaskID o0 = []"
  shows "\<exists>y st. paid E ri w st \<and> (\<forall>r. y = Inr r \<longrightarrow> small (srQuota r)) \<and> RelayTask E R S rnd krnd okrnd Q o0 g ri c w =
    Some (case y of Inl e \<Rightarrow> (Inr (Some e), (case tsBilling st of None \<Rightarrow> None | Some s \<Rightarrow> snd (Refund s)), rworld (tsRelay st))
                  | Inr r \<Rightarrow> (Inr None, None, task_done E Q r st))"
proof -
  let ?og = "\<lparr>ogModelName = orModelName o0, ogLocked = None, ogCtx = c, ogMeta = None, ogRatios = []\<rparr>"
  let ?st = "task_start ?og g ri w"
  have og: "ResolveOriginTask (econf E) okrnd o0 None c w = (Inr (Inr ?og), w)" using assms(5,6) by (simp add: ResolveOriginTask_def)
  have rd: "ready (retryParam (tsRelay ?st))" "GetRetry (retryParam (tsRelay ?st)) \<le> RetryTimes S"
    using assms(1) by (simp_all add: task_start_def sane_retries_def ready_def start_state_def group_index_def GetRetry_def split: option.splits)
  have "in64 (RetryTimes S + 1)" "0 \<le> RetryTimes S" using assms(1) by (simp_all add: sane_retries_def in64_def)
  from task_loop_returns [OF rd(1) this(2,1)] obtain x st where l: "task_loop E R S rnd krnd Q None 0 None ?st = Some (x, st)" by (metis surj_pair)
  have "paid E ri w ?st"
    using assms(2) by (auto simp: paid_def task_start_def billable_def intro!: moves_same same_books_refl exI [of _ "riForcePreConsume ri"])
  with task_loop_paid [OF l, of ri w] assms(2-4) have p: "paid E ri w st" "\<And>z. x = Some (Inr z) \<Longrightarrow> small (srQuota z)" by auto
  from task_loop_result [OF l] rd(2) obtain y where y: "x = Some y" by auto
  show ?thesis by (intro exI [of _ y] exI [of _ st]) (use og l y p in \<open>auto simp: RelayTask_def split: sum.splits\<close>)
qed


section \<open>A sample submission\<close>

definition ex_submit :: task_request where
  "ex_submit = \<lparr>rqPlatform = (\<lambda>_. ''sora''), GetTaskAdaptor = (\<lambda>_. Some \<lparr>validateRequest = (\<lambda>_. None), mapModel = Inr, estimateBilling = (\<lambda>_. []),
     doTask = (\<lambda>_ _. Inr (''up'', ''d'')), adjustBillingOnSubmit = (\<lambda>_. [])\<rparr>), rqAction = ''generate'', rqAcceptUnset = False,
     rqPatched = (\<lambda>_. False), rqGenID = ''task_1'', rqBodyError = (\<lambda>_. None)\<rparr>"

definition ex_origin :: "string \<Rightarrow> string \<Rightarrow> origin_request" where
  "ex_origin path video = \<lparr>orPath = path, orVideoID = video, orAction = [], orOriginTaskID = [], orModelName = ''tts'', orUserId = 1,
     decodeData = (\<lambda>_. (None, None, None))\<rparr>"

lemma ex_price_bound:
  assumes "ModelPriceHelperPerCall ex_ratios q = Inr p"
  shows "small (pdQuota p) \<and> OtherRatios p = []"
proof -
  have m: "GetModelPrice ex_ratios x = (2, True) \<or> GetModelPrice ex_ratios x = (-1, False)" for x
    by (simp add: GetModelPrice_def Let_def ex_ratios_def suffix_def split: if_splits)
  have r: "fst (GetModelRatio ex_ratios x) \<in> {0, 2, 75 / 2}" for x
    by (auto simp: GetModelRatio_def Let_def ex_ratios_def suffix_def split: if_splits)
  have g: "giGroupRatio (fst (HandleGroupRatio ex_ratios q)) = 1"
    by (simp add: HandleGroupRatio_def GetGroupGroupRatio_def GetGroupRatio_def ex_ratios_def Let_def)
  have d: "defaultModelPrice ex_ratios x = None" for x by (simp add: ex_ratios_def)
  have f: "fl ex_ratios = exact_floats" "rcQuotaPerUnit ex_ratios = 500000" by (simp_all add: ex_ratios_def)
  show ?thesis
    using assms m [of "prModel q"] r [of "prModel q"] g
    by (auto simp: ModelPriceHelperPerCall_def Let_def d f exact_floats_def zero_price_def split: prod.splits if_splits)
qed

lemma ex_modest: "modest_request ex_ratios ex_submit"
  using ex_price_bound by (auto simp: modest_request_def ex_submit_def task_price_def apply_ratios_def split: sum.splits if_splits)

lemma ex_sane: "sane_retries ex_relay ex_ctx"
  by (simp add: sane_retries_def ex_relay_def ex_ctx_def)

lemma ex_from_wallet: "from_wallet (ex_ri ''wallet_only'')"
  using ex_wallet_only by (simp add: from_wallet_def ex_ri_def)

text \<open>A user who can pay for a task, and the run that stores it.\<close>

definition ex_rich :: world where
  "ex_rich = ex_world (ex_db [ex_user 1 5000000] [ex_token 2 1 3000000])"

abbreviation (input) ex_submission :: "((gerr + TaskError option) \<times> refund_job option \<times> world) option" where
  "ex_submission \<equiv> RelayTask ex_env ex_ratios ex_relay (\<lambda>_ _ _. 0) (\<lambda>_ _. 0) (\<lambda>_. 0) ex_submit (ex_origin ''/v1/videos'' []) ''g'' (ex_ri ''wallet_only'') ex_ctx ex_rich"

lemma ex_rich_billable: "billable ex_env (ex_ri pref) (2 ^ 61) ex_rich"
  by (simp add: billable_def ex_rich_def ex_ri_def ex_env_def ex_defs user_exists_def token_exists_def live_user_def live_token_def calm_def)

lemma ex_submission_value:
  "map_option (\<lambda>(res, job, w). (res = Inr None, faults w = [], user_exists 1 w, map_option tkKey (find (live_token 2) (tokens (db w))),
     map (\<lambda>t. (tQuota t, map_option tbPerCallBilling (tBillingContext t))) (tasks (db w)))) ex_submission = Some (True, True, True, Some ''k'', [(1000000, Some True)])"
  by code_simp

lemma ex_submission_ends:
  "\<exists>job w. ex_submission = Some (Inr None, job, w) \<and>
     (\<forall>t \<in> set (tasks (db w)). per_call t \<and> tQuota t = 1000000 \<and> (tUserId t = 1 \<and> tTokenId t = 2 \<and> \<not> taskIsSubscription t \<longrightarrow> task_payable ex_env t w))"
proof -
  obtain job w where w: "ex_submission = Some (Inr None, job, w)" "faults w = []" "user_exists 1 w"
    "map_option tkKey (find (live_token 2) (tokens (db w))) = Some ''k''"
    "map (\<lambda>t. (tQuota t, map_option tbPerCallBilling (tBillingContext t))) (tasks (db w)) = [(1000000, Some True)]"
    using ex_submission_value by (auto split: prod.splits simp del: map_eq_Cons_conv)
  obtain t where t: "tasks (db w) = [t]" "tQuota t = 1000000" "per_call t" using w(5) by (auto simp: per_call_def)
  have "task_payable ex_env t w" if "tUserId t = 1" "tTokenId t = 2" "\<not> taskIsSubscription t"
    using w(2-4) that by (auto simp: task_payable_def calm_def ex_env_def ex_conf_def)
  with w(1) t show ?thesis by simp
qed

lemma ex_fresh: "\<not> is_remix (ex_origin ''/v1/videos'' [])" "orOriginTaskID (ex_origin ''/v1/videos'' []) = []"
  by (simp_all add: is_remix_def ex_origin_def suffix_def)

lemma ex_ids: "riUserId (ex_ri pref) = 1" "riTokenId (ex_ri pref) = 2" "riIsPlayground (ex_ri pref) = False"
  by (simp_all add: ex_ri_def)


section \<open>Remixes\<close>

text \<open>A request to remix one of the user's tasks whose channel is enabled always panics: it reads the channel of a relay info
  that has none yet.\<close>

theorem remix_panics:
  assumes "faults w = []" "is_remix o0" "TrimSpace (orVideoID o0) \<noteq> []"
    and "find (\<lambda>t. tUserId t = orUserId o0 \<and> tTaskID t = orVideoID o0) (sort_key tId (tasks (db w))) = Some t"
    and "row chId (tChannelId t) (channels (db w)) = Some ch" "chStatus ch = ChannelStatusEnabled"
  shows "RelayTask E R S rnd krnd okrnd Q o0 g ri c w = Some (Inl (Panic ''nil pointer dereference''), None, w)"
proof -
  have "orVideoID o0 \<noteq> []" using assms(3) by (auto simp: TrimSpace_printable)
  then have "GetByTaskId (orUserId o0) (orVideoID o0) w = (Inr (Some t), w)" using assms(1,4) by (simp add: GetByTaskId_def first_task_def)
  moreover have "GetChannelById (tChannelId t) w = (Inr ch, w)" using assms(1,5) by (simp add: GetChannelById_def first_def chk_def ret_def)
  ultimately show ?thesis using assms(2,3,6) \<open>orVideoID o0 \<noteq> []\<close> by (simp add: RelayTask_def ResolveOriginTask_def)
qed

theorem remix_panics_witness:
  "RelayTask ex_env ex_ratios ex_relay (\<lambda>_ _ _. 0) (\<lambda>_ _. 0) (\<lambda>_. 0) ex_submit (ex_origin ''/v1/videos/task/remix'' ''task'') ''g'' (ex_ri ''wallet_only'') ex_ctx
     ex_collision = Some (Inl (Panic ''nil pointer dereference''), None, ex_collision)"
proof (rule remix_panics [where t = "ex_task 5 1 3" and ch = "ex_channel 3 0 1"])
  show "is_remix (ex_origin ''/v1/videos/task/remix'' ''task'')" by (simp add: is_remix_def ex_origin_def suffix_def)
  show "TrimSpace (orVideoID (ex_origin ''/v1/videos/task/remix'' ''task'')) \<noteq> []" by (simp add: ex_origin_def TrimSpace_printable printable_def)
qed (simp_all add: ex_collision_def ex_task_world_def ex_defs ex_origin_def ex_task_def ex_channel_def row_def)

end
