(* ===== verification/TwoFactor.thy ===== *)
theory TwoFactor
  imports Tokens
begin

text \<open>
  Signing in: passwords (\<^verbatim>\<open>src/model/user.go\<close>, \<^verbatim>\<open>src/controller/user.go\<close>), the second factor with its one-time and backup
  codes (\<^verbatim>\<open>src/model/twofa.go\<close>, \<^verbatim>\<open>src/common/totp.go\<close>, \<^verbatim>\<open>src/controller/twofa.go\<close>) and the codes sent by mail
  (\<^verbatim>\<open>src/common/verification.go\<close>). Times are seconds. Messages are in English; logs are not modelled.
\<close>

section \<open>Upper case\<close>

definition ascii :: "string \<Rightarrow> bool" where
  "ascii s = list_all (\<lambda>c. (of_char c :: nat) < 128) s"

definition upper_char :: "char \<Rightarrow> char" where
  "upper_char c = (if 97 \<le> (of_char c :: nat) \<and> (of_char c :: nat) \<le> 122 then char_of (of_char c - 32 :: nat) else c)"

text \<open>\<^verbatim>\<open>strings.ToUpper\<close>; what Unicode's tables say of other strings is the argument \<open>rest\<close>.\<close>

definition ToUpper :: "(string \<Rightarrow> string) \<Rightarrow> string \<Rightarrow> string" where
  "ToUpper rest s = (if ascii s then map upper_char s else rest s)"

section \<open>Codes\<close>

text \<open>The packages the codes rely on: the one-time password of a secret at a time, the hash of a password under a salt, and its
  comparison with a hash.\<close>

record code_ops =
  totpValidate :: "string \<Rightarrow> string \<Rightarrow> int \<Rightarrow> bool"
  Password2Hash :: "nat \<Rightarrow> string \<Rightarrow> string res"
  ValidatePasswordAndHash :: "string \<Rightarrow> string \<Rightarrow> bool"
  upperRest :: "string \<Rightarrow> string"

abbreviation (input) BackupCodeLength :: nat where "BackupCodeLength \<equiv> 8"
abbreviation (input) BackupCodeCount :: nat where "BackupCodeCount \<equiv> 4"
abbreviation (input) MaxFailAttempts :: int where "MaxFailAttempts \<equiv> 5"
abbreviation (input) LockoutDuration :: int where "LockoutDuration \<equiv> 300"

definition ValidateTOTPCode :: "code_ops \<Rightarrow> int \<Rightarrow> string \<Rightarrow> string \<Rightarrow> bool" where
  "ValidateTOTPCode T now secret code =
     (let cleanCode = ReplaceAll code '' '' [] in length cleanCode = 6 \<and> totpValidate T cleanCode secret now)"

definition charset :: string where
  "charset = ''ABCDEFGHIJKLMNOPQRSTUVWXYZ0123456789''"

definition with_dash :: "string \<Rightarrow> string" where
  "with_dash code = take 4 code @ ''-'' @ drop 4 code"

text \<open>\<open>rnd\<close> gives the random bytes that are read, or the error of reading one.\<close>

fun random_chars :: "(nat \<Rightarrow> nat res) \<Rightarrow> nat \<Rightarrow> nat \<Rightarrow> string res" where
  "random_chars rnd i 0 = Inr []"
| "random_chars rnd i (Suc n) =
     (case rnd i of
        Inl e \<Rightarrow> Inl e
      | Inr b \<Rightarrow> (case random_chars rnd (Suc i) n of Inl e \<Rightarrow> Inl e | Inr cs \<Rightarrow> Inr (charset ! (b mod length charset) # cs)))"

definition generateRandomBackupCode :: "(nat \<Rightarrow> nat res) \<Rightarrow> string res" where
  "generateRandomBackupCode rnd = (case random_chars rnd 0 BackupCodeLength of Inl e \<Rightarrow> Inl e | Inr code \<Rightarrow> Inr (with_dash code))"

fun generate_codes :: "(nat \<Rightarrow> nat \<Rightarrow> nat res) \<Rightarrow> nat \<Rightarrow> nat \<Rightarrow> string list res" where
  "generate_codes rnd i 0 = Inr []"
| "generate_codes rnd i (Suc n) =
     (case generateRandomBackupCode (rnd i) of
        Inl e \<Rightarrow> Inl e
      | Inr c \<Rightarrow> (case generate_codes rnd (Suc i) n of Inl e \<Rightarrow> Inl e | Inr cs \<Rightarrow> Inr (c # cs)))"

definition GenerateBackupCodes :: "(nat \<Rightarrow> nat \<Rightarrow> nat res) \<Rightarrow> string list res" where
  "GenerateBackupCodes rnd = generate_codes rnd 0 BackupCodeCount"

definition clean_code :: "code_ops \<Rightarrow> string \<Rightarrow> string" where
  "clean_code T code = ToUpper (upperRest T) (ReplaceAll code ''-'' [])"

definition code_char :: "char \<Rightarrow> bool" where
  "code_char c \<longleftrightarrow> 65 \<le> (of_char c :: nat) \<and> (of_char c :: nat) \<le> 90 \<or> 48 \<le> (of_char c :: nat) \<and> (of_char c :: nat) \<le> 57"

definition common_ValidateBackupCode :: "code_ops \<Rightarrow> string \<Rightarrow> bool" where
  "common_ValidateBackupCode T code = (let cleanCode = clean_code T code in length cleanCode = BackupCodeLength \<and> list_all code_char cleanCode)"

definition NormalizeBackupCode :: "code_ops \<Rightarrow> string \<Rightarrow> string" where
  "NormalizeBackupCode T code =
     (let cleanCode = clean_code T code in if length cleanCode = BackupCodeLength then with_dash cleanCode else code)"

definition HashBackupCode :: "code_ops \<Rightarrow> nat \<Rightarrow> string \<Rightarrow> string res" where
  "HashBackupCode T salt code = Password2Hash T salt (NormalizeBackupCode T code)"

definition ValidateNumericCode :: "string \<Rightarrow> string res" where
  "ValidateNumericCode code =
     (let code = ReplaceAll code '' '' [] in
      if length code \<noteq> 6 then Inl (Msg ''the code must have 6 digits'')
      else if Atoi code = None then Inl (Msg ''the code must have digits only'')
      else Inr code)"

section \<open>The table of second factors\<close>

definition GetTwoFAByUserId :: "int \<Rightarrow> two_fa option io" where
  "GetTwoFAByUserId userId =
     (if userId = 0 then err (Msg ''user id is empty'')
      else handle (first (\<lambda>d. find (\<lambda>t. tfUserId t = userId) (twoFAs d)))
             (\<lambda>e. if e = RecordNotFound then ret None else err e) (\<lambda>t. ret (Some t)))"

definition IsTwoFAEnabled :: "int \<Rightarrow> world \<Rightarrow> bool \<times> world" where
  "IsTwoFAEnabled userId w =
     (case GetTwoFAByUserId userId w of (Inr (Some t), w1) \<Rightarrow> (tfIsEnabled t, w1) | (_, w1) \<Rightarrow> (False, w1))"

definition insert_two_fa :: "two_fa \<Rightarrow> unit io" where
  "insert_two_fa t = chk (stmt (\<lambda>d. if \<exists>r \<in> set (twoFAs d). tfUserId r = tfUserId t then (False, d)
       else (True, d\<lparr>twoFAs := twoFAs d @ [t\<lparr>tfId := fresh_id (map tfId (twoFAs d))\<rparr>]\<rparr>)))
     (\<lambda>ok. if ok then ret () else err UniqueViolation)"

definition twofa_Create :: "two_fa \<Rightarrow> unit io" where
  "twofa_Create t = chk (GetTwoFAByUserId (tfUserId t)) (\<lambda>existing.
     if existing \<noteq> None then err (Msg ''the user has a second factor'')
     else chk (handle (first (\<lambda>d. find (live_user (tfUserId t)) (users d)))
            (\<lambda>e. if e = RecordNotFound then err (Msg ''no such user'') else err e) ret) (\<lambda>_. insert_two_fa t))"

definition twofa_Update :: "two_fa \<Rightarrow> unit io" where
  "twofa_Update t =
     (if tfId t = 0 then err (Msg ''the id of the second factor is empty'')
      else exec (\<lambda>d. d\<lparr>twoFAs := save_row tfId t (twoFAs d)\<rparr>))"

definition twofa_Delete :: "two_fa \<Rightarrow> unit io" where
  "twofa_Delete t =
     (if tfId t = 0 then err (Msg ''the id of the second factor is empty'')
      else transaction (chk (exec (\<lambda>d. d\<lparr>backupCodes := filter (\<lambda>b. bcUserId b \<noteq> tfUserId t) (backupCodes d)\<rparr>)) (\<lambda>_.
        exec (\<lambda>d. d\<lparr>twoFAs := filter (\<lambda>r. tfId r \<noteq> tfId t) (twoFAs d)\<rparr>))))"

definition ResetFailedAttempts :: "two_fa \<Rightarrow> unit io" where
  "ResetFailedAttempts t = twofa_Update (t\<lparr>tfFailedAttempts := 0, tfLockedUntil := None\<rparr>)"

definition IncrementFailedAttempts :: "int \<Rightarrow> two_fa \<Rightarrow> world \<Rightarrow> two_fa \<times> (unit res \<times> world)" where
  "IncrementFailedAttempts now t w =
     (let n = i64 (tfFailedAttempts t + 1);
          t' = t\<lparr>tfFailedAttempts := n, tfLockedUntil := (if n \<ge> MaxFailAttempts then Some (now + LockoutDuration) else tfLockedUntil t)\<rparr> in
      (t', twofa_Update t' w))"

definition IsLocked :: "int \<Rightarrow> two_fa \<Rightarrow> bool" where
  "IsLocked now t \<longleftrightarrow> (case tfLockedUntil t of None \<Rightarrow> False | Some u \<Rightarrow> now < u)"

definition insert_code :: "int \<Rightarrow> string \<Rightarrow> unit io" where
  "insert_code userId h = exec (\<lambda>d. d\<lparr>backupCodes := backupCodes d @
     [\<lparr>bcId = fresh_id (map bcId (backupCodes d)), bcUserId = userId, bcCodeHash = h, bcIsUsed = False, bcUsedAt = None, bcDeleted = False\<rparr>]\<rparr>)"

fun insert_codes :: "code_ops \<Rightarrow> (nat \<Rightarrow> nat) \<Rightarrow> int \<Rightarrow> string list \<Rightarrow> unit io" where
  "insert_codes T salt userId [] = ret ()"
| "insert_codes T salt userId (code # codes) =
     (case HashBackupCode T (salt (length codes)) code of
        Inl e \<Rightarrow> err e
      | Inr h \<Rightarrow> chk (insert_code userId h) (\<lambda>_. insert_codes T salt userId codes))"

definition CreateBackupCodes :: "code_ops \<Rightarrow> (nat \<Rightarrow> nat) \<Rightarrow> int \<Rightarrow> string list \<Rightarrow> unit io" where
  "CreateBackupCodes T salt userId codes =
     transaction (chk (exec (\<lambda>d. d\<lparr>backupCodes := upd_where (\<lambda>b. bcUserId b = userId) (\<lambda>b. b\<lparr>bcDeleted := True\<rparr>) (backupCodes d)\<rparr>))
       (\<lambda>_. insert_codes T salt userId codes))"

definition usable_code :: "int \<Rightarrow> backup_code \<Rightarrow> bool" where
  "usable_code userId b \<longleftrightarrow> bcUserId b = userId \<and> \<not> bcIsUsed b \<and> \<not> bcDeleted b"

definition ValidateBackupCode :: "code_ops \<Rightarrow> int \<Rightarrow> int \<Rightarrow> string \<Rightarrow> bool io" where
  "ValidateBackupCode T now userId code =
     (if \<not> common_ValidateBackupCode T code then err (Msg ''the code is wrong'')
      else chk (query (\<lambda>d. filter (usable_code userId) (backupCodes d))) (\<lambda>codes.
        case find (\<lambda>b. ValidatePasswordAndHash T (NormalizeBackupCode T code) (bcCodeHash b)) codes of
          None \<Rightarrow> ret False
        | Some b \<Rightarrow> chk (exec (\<lambda>d. d\<lparr>backupCodes := save_row bcId (b\<lparr>bcIsUsed := True, bcUsedAt := Some now\<rparr>) (backupCodes d)\<rparr>)) (\<lambda>_. ret True)))"

definition GetUnusedBackupCodeCount :: "int \<Rightarrow> int io" where
  "GetUnusedBackupCodeCount userId = query (\<lambda>d. int (length (filter (usable_code userId) (backupCodes d))))"

definition DisableTwoFA :: "int \<Rightarrow> unit io" where
  "DisableTwoFA userId = chk (GetTwoFAByUserId userId) (\<lambda>r. case r of None \<Rightarrow> err (Msg ''2fa not enabled'') | Some t \<Rightarrow> twofa_Delete t)"

definition twofa_Enable :: "two_fa \<Rightarrow> unit io" where
  "twofa_Enable t = twofa_Update (t\<lparr>tfIsEnabled := True, tfFailedAttempts := 0, tfLockedUntil := None\<rparr>)"

text \<open>The end of both checks: a success resets the failures, a failure counts; neither reports a failed update.\<close>

definition update_usage :: "int \<Rightarrow> bool \<Rightarrow> two_fa \<Rightarrow> world \<Rightarrow> (bool res \<times> two_fa) \<times> world" where
  "update_usage now valid t w =
     (if valid then let t' = t\<lparr>tfFailedAttempts := 0, tfLockedUntil := None, tfLastUsedAt := Some now\<rparr> in ((Inr True, t'), snd (twofa_Update t' w))
      else case IncrementFailedAttempts now t w of (t', _, w1) \<Rightarrow> ((Inr False, t'), w1))"

definition ValidateTOTPAndUpdateUsage :: "code_ops \<Rightarrow> int \<Rightarrow> string \<Rightarrow> two_fa \<Rightarrow> world \<Rightarrow> (bool res \<times> two_fa) \<times> world" where
  "ValidateTOTPAndUpdateUsage T now code t w =
     (if IsLocked now t then ((Inl (Msg ''the account is locked''), t), w)
      else update_usage now (ValidateTOTPCode T now (tfSecret t) code) t w)"

definition ValidateBackupCodeAndUpdateUsage :: "code_ops \<Rightarrow> int \<Rightarrow> string \<Rightarrow> two_fa \<Rightarrow> world \<Rightarrow> (bool res \<times> two_fa) \<times> world" where
  "ValidateBackupCodeAndUpdateUsage T now code t w =
     (if IsLocked now t then ((Inl (Msg ''the account is locked''), t), w)
      else case ValidateBackupCode T now (tfUserId t) code w of
          (Inl e, w1) \<Rightarrow> ((Inl e, t), w1)
        | (Inr valid, w1) \<Rightarrow> update_usage now valid t w1)"

section \<open>Signing in\<close>

text \<open>What a session holds, and what a handler answers: success, a message, or an error of a call. \<open>saved\<close> says whether the
  session store accepts a save; what it refuses is not in the next session.\<close>

record session =
  sId :: "int option"
  sUsername :: "string option"
  sRole :: "int option"
  sStatus :: "int option"
  sGroup :: "string option"
  sPendingUsername :: "string option"
  sPendingUserId :: "int option"

datatype 'a reply = Done 'a | Refused string | ApiError gerr

definition empty_session :: session where
  "empty_session = \<lparr>sId = None, sUsername = None, sRole = None, sStatus = None, sGroup = None, sPendingUsername = None, sPendingUserId = None\<rparr>"

definition ValidateAndFill :: "code_ops \<Rightarrow> string \<Rightarrow> string \<Rightarrow> user io" where
  "ValidateAndFill T name password w =
     (let username = TrimSpace name in
      if username = [] \<or> password = [] then (Inl (Msg ''empty credentials''), w)
      else case first (\<lambda>d. find (\<lambda>u. (uUsername u = username \<or> uEmail u = username) \<and> \<not> uDeleted u) (sort_key uId (users d))) w of
          (Inl e, w1) \<Rightarrow> (Inl (if e = RecordNotFound then Msg ''invalid credentials'' else ErrDatabase e), w1)
        | (Inr u, w1) \<Rightarrow>
            if \<not> ValidatePasswordAndHash T password (uPassword u) \<or> uStatus u \<noteq> 1 then (Inl (Msg ''invalid credentials''), w1)
            else (Inr u, w1))"

definition setupLogin :: "bool \<Rightarrow> user \<Rightarrow> session \<Rightarrow> user option reply \<times> session" where
  "setupLogin saved u s =
     (if saved then (Done (Some u), s\<lparr>sId := Some (uId u), sUsername := Some (uUsername u), sRole := Some (uRole u), sStatus := Some (uStatus u),
        sGroup := Some (uGroup u)\<rparr>)
      else (Refused ''the session could not be saved'', s))"

text \<open>\<open>Done None\<close> asks for the second factor.\<close>

definition Login :: "code_ops \<Rightarrow> bool \<Rightarrow> bool \<Rightarrow> string \<Rightarrow> string \<Rightarrow> session \<Rightarrow> world \<Rightarrow> (user option reply \<times> session) \<times> world" where
  "Login T passwordLogin saved username password s w =
     (if \<not> passwordLogin then ((Refused ''password login is disabled'', s), w)
      else if username = [] \<or> password = [] then ((Refused ''invalid parameters'', s), w)
      else case ValidateAndFill T username password w of
          (Inl (ErrDatabase _), w1) \<Rightarrow> ((Refused ''database error'', s), w1)
        | (Inl (Msg m), w1) \<Rightarrow> ((Refused (if m = ''empty credentials'' then ''invalid parameters'' else ''wrong username or password''), s), w1)
        | (Inl _, w1) \<Rightarrow> ((Refused ''wrong username or password'', s), w1)
        | (Inr u, w1) \<Rightarrow>
            (case IsTwoFAEnabled (uId u) w1 of
               (True, w2) \<Rightarrow>
                 ((if saved then (Done None, s\<lparr>sPendingUsername := Some (uUsername u), sPendingUserId := Some (uId u)\<rparr>)
                   else (Refused ''the session could not be saved'', s)), w2)
             | (False, w2) \<Rightarrow> (setupLogin saved u s, w2)))"

text \<open>The check of a code by either factor, shared by \<^verbatim>\<open>Disable2FA\<close> and \<^verbatim>\<open>Verify2FALogin\<close>.\<close>

definition check_code :: "code_ops \<Rightarrow> int \<Rightarrow> string \<Rightarrow> two_fa \<Rightarrow> world \<Rightarrow> unit reply \<times> world" where
  "check_code T now code t w =
     (let ((totp, t1), w1) = (case ValidateNumericCode code of
            Inl _ \<Rightarrow> ((False, t), w)
          | Inr cleanCode \<Rightarrow> (case ValidateTOTPAndUpdateUsage T now cleanCode t w of ((r, t'), w') \<Rightarrow> ((r = Inr True, t'), w'))) in
      if totp then (Done (), w1)
      else case ValidateBackupCodeAndUpdateUsage T now code t1 w1 of
          ((Inl e, _), w2) \<Rightarrow> (ApiError e, w2)
        | ((Inr valid, _), w2) \<Rightarrow> ((if valid then Done () else Refused ''the code is wrong''), w2))"

definition Verify2FALogin :: "code_ops \<Rightarrow> int \<Rightarrow> bool \<Rightarrow> bool \<Rightarrow> string \<Rightarrow> session \<Rightarrow> world \<Rightarrow> (user option reply \<times> session) \<times> world" where
  "Verify2FALogin T now saved1 saved2 code s w =
     (case sPendingUserId s of
        None \<Rightarrow> ((Refused ''the session has expired'', s), w)
      | Some userId \<Rightarrow>
          (case GetUserById userId w of
             (Inl _, w1) \<Rightarrow> ((Refused ''no such user'', s), w1)
           | (Inr u, w1) \<Rightarrow>
               (case GetTwoFAByUserId (uId u) w1 of
                  (Inl e, w2) \<Rightarrow> ((ApiError e, s), w2)
                | (Inr None, w2) \<Rightarrow> ((Refused ''no second factor'', s), w2)
                | (Inr (Some t), w2) \<Rightarrow>
                    if \<not> tfIsEnabled t then ((Refused ''no second factor'', s), w2)
                    else (case check_code T now code t w2 of
                        (Refused m, w3) \<Rightarrow> ((Refused m, s), w3)
                      | (ApiError e, w3) \<Rightarrow> ((ApiError e, s), w3)
                      | (Done _, w3) \<Rightarrow>
                          (case setupLogin saved2 u (s\<lparr>sPendingUsername := None, sPendingUserId := None\<rparr>) of
                             (r, s') \<Rightarrow> ((r, if saved1 \<or> saved2 then s' else s), w3))))))"

section \<open>Managing the second factor\<close>

definition Setup2FA :: "code_ops \<Rightarrow> (string \<Rightarrow> string res) \<Rightarrow> (nat \<Rightarrow> nat \<Rightarrow> nat res) \<Rightarrow> (nat \<Rightarrow> nat) \<Rightarrow> int \<Rightarrow> world \<Rightarrow> (string \<times> string list) reply \<times> world" where
  "Setup2FA T newSecret rnd salt userId w =
     (case GetTwoFAByUserId userId w of
        (Inl e, w1) \<Rightarrow> (ApiError e, w1)
      | (Inr existing, w1) \<Rightarrow>
          if \<exists>t. existing = Some t \<and> tfIsEnabled t then (Refused ''the second factor is enabled'', w1)
          else (case (case existing of None \<Rightarrow> ret () | Some t \<Rightarrow> twofa_Delete t) w1 of
              (Inl e, w2) \<Rightarrow> (ApiError e, w2)
            | (Inr _, w2) \<Rightarrow>
                (case GetUserById userId w2 of
                   (Inl e, w3) \<Rightarrow> (ApiError e, w3)
                 | (Inr u, w3) \<Rightarrow>
                     (case (newSecret (uUsername u), GenerateBackupCodes rnd) of
                        (Inl _, _) \<Rightarrow> (Refused ''no secret could be made'', w3)
                      | (Inr _, Inl _) \<Rightarrow> (Refused ''no backup codes could be made'', w3)
                      | (Inr secret, Inr codes) \<Rightarrow>
                          (case twofa_Create \<lparr>tfId = 0, tfUserId = userId, tfSecret = secret, tfIsEnabled = False, tfFailedAttempts = 0,
                                  tfLockedUntil = None, tfLastUsedAt = None\<rparr> w3 of
                             (Inl e, w4) \<Rightarrow> (ApiError e, w4)
                           | (Inr _, w4) \<Rightarrow>
                               (case CreateBackupCodes T salt userId codes w4 of
                                  (Inl _, w5) \<Rightarrow> (Refused ''the backup codes could not be saved'', w5)
                                | (Inr _, w5) \<Rightarrow> (Done (secret, codes), w5)))))))"

text \<open>The second factor of a user, when it is enabled.\<close>

definition enabled_factor :: "int \<Rightarrow> world \<Rightarrow> two_fa reply \<times> world" where
  "enabled_factor userId w =
     (case GetTwoFAByUserId userId w of
        (Inl e, w1) \<Rightarrow> (ApiError e, w1)
      | (Inr None, w1) \<Rightarrow> (Refused ''no second factor'', w1)
      | (Inr (Some t), w1) \<Rightarrow> ((if tfIsEnabled t then Done t else Refused ''no second factor''), w1))"

definition Enable2FA :: "code_ops \<Rightarrow> int \<Rightarrow> int \<Rightarrow> string \<Rightarrow> world \<Rightarrow> unit reply \<times> world" where
  "Enable2FA T now userId code w =
     (case GetTwoFAByUserId userId w of
        (Inl e, w1) \<Rightarrow> (ApiError e, w1)
      | (Inr None, w1) \<Rightarrow> (Refused ''set up the second factor first'', w1)
      | (Inr (Some t), w1) \<Rightarrow>
          if tfIsEnabled t then (Refused ''the second factor is enabled'', w1)
          else (case ValidateNumericCode code of
              Inl e \<Rightarrow> (ApiError e, w1)
            | Inr cleanCode \<Rightarrow>
                if \<not> ValidateTOTPCode T now (tfSecret t) cleanCode then (Refused ''the code is wrong'', w1)
                else (case twofa_Enable t w1 of (Inl e, w2) \<Rightarrow> (ApiError e, w2) | (Inr _, w2) \<Rightarrow> (Done (), w2))))"

definition Disable2FA :: "code_ops \<Rightarrow> int \<Rightarrow> int \<Rightarrow> string \<Rightarrow> world \<Rightarrow> unit reply \<times> world" where
  "Disable2FA T now userId code w =
     (case enabled_factor userId w of
        (Done t, w1) \<Rightarrow>
          (case check_code T now code t w1 of
             (Done _, w2) \<Rightarrow> (case DisableTwoFA userId w2 of (Inl e, w3) \<Rightarrow> (ApiError e, w3) | (Inr _, w3) \<Rightarrow> (Done (), w3))
           | (Refused m, w2) \<Rightarrow> (Refused m, w2)
           | (ApiError e, w2) \<Rightarrow> (ApiError e, w2))
      | (Refused m, w1) \<Rightarrow> (Refused m, w1)
      | (ApiError e, w1) \<Rightarrow> (ApiError e, w1))"

definition RegenerateBackupCodes :: "code_ops \<Rightarrow> (nat \<Rightarrow> nat \<Rightarrow> nat res) \<Rightarrow> (nat \<Rightarrow> nat) \<Rightarrow> int \<Rightarrow> int \<Rightarrow> string \<Rightarrow> world \<Rightarrow> string list reply \<times> world" where
  "RegenerateBackupCodes T rnd salt now userId code w =
     (case enabled_factor userId w of
        (Refused m, w1) \<Rightarrow> (Refused m, w1)
      | (ApiError e, w1) \<Rightarrow> (ApiError e, w1)
      | (Done t, w1) \<Rightarrow>
          (case ValidateNumericCode code of
             Inl e \<Rightarrow> (ApiError e, w1)
           | Inr cleanCode \<Rightarrow>
               (case ValidateTOTPAndUpdateUsage T now cleanCode t w1 of
                  ((Inl e, _), w2) \<Rightarrow> (ApiError e, w2)
                | ((Inr False, _), w2) \<Rightarrow> (Refused ''the code is wrong'', w2)
                | ((Inr True, _), w2) \<Rightarrow>
                    (case GenerateBackupCodes rnd of
                       Inl _ \<Rightarrow> (Refused ''no backup codes could be made'', w2)
                     | Inr codes \<Rightarrow>
                         (case CreateBackupCodes T salt userId codes w2 of
                            (Inl _, w3) \<Rightarrow> (Refused ''the backup codes could not be saved'', w3)
                          | (Inr _, w3) \<Rightarrow> (Done codes, w3))))))"

definition AdminDisable2FA :: "int \<Rightarrow> string \<Rightarrow> world \<Rightarrow> unit reply \<times> world" where
  "AdminDisable2FA myRole userIdStr w =
     (case Atoi userIdStr of
        None \<Rightarrow> (Refused ''the user id has a wrong format'', w)
      | Some userId \<Rightarrow>
          (case GetUserById userId w of
             (Inl e, w1) \<Rightarrow> (ApiError e, w1)
           | (Inr target, w1) \<Rightarrow>
               if myRole \<le> uRole target \<and> myRole \<noteq> 100 then (Refused ''no right over users of this role'', w1)
               else (case DisableTwoFA userId w1 of
                   (Inl e, w2) \<Rightarrow> ((if e = Msg ''2fa not enabled'' then Refused ''no second factor'' else ApiError e), w2)
                 | (Inr _, w2) \<Rightarrow> (Done (), w2))))"

section \<open>Codes sent by mail\<close>

text \<open>The map of codes, by purpose and address; \<open>uuid\<close> is the text of a fresh UUID.\<close>

type_synonym code_map = "(string \<times> string \<times> int) list"

abbreviation (input) EmailVerificationPurpose :: string where "EmailVerificationPurpose \<equiv> ''v''"
abbreviation (input) PasswordResetPurpose :: string where "PasswordResetPurpose \<equiv> ''r''"
abbreviation (input) verificationMapMaxSize :: nat where "verificationMapMaxSize \<equiv> 10"
abbreviation (input) VerificationValidMinutes :: int where "VerificationValidMinutes \<equiv> 10"

definition GenerateVerificationCode :: "string \<Rightarrow> nat \<Rightarrow> string" where
  "GenerateVerificationCode uuid n = (let code = ReplaceAll uuid ''-'' [] in if n = 0 then code else take n code)"

definition removeExpiredPairs :: "int \<Rightarrow> code_map \<Rightarrow> code_map" where
  "removeExpiredPairs now M = filter (\<lambda>(_, _, t). \<not> now - t \<ge> VerificationValidMinutes * 60) M"

definition DeleteKey :: "string \<Rightarrow> string \<Rightarrow> code_map \<Rightarrow> code_map" where
  "DeleteKey key purpose M = filter (\<lambda>(k, _). k \<noteq> purpose @ key) M"

definition RegisterVerificationCodeWithKey :: "int \<Rightarrow> string \<Rightarrow> string \<Rightarrow> string \<Rightarrow> code_map \<Rightarrow> code_map" where
  "RegisterVerificationCodeWithKey now key code purpose M =
     (let M' = (purpose @ key, code, now) # DeleteKey key purpose M in
      if length M' > verificationMapMaxSize then removeExpiredPairs now M' else M')"

definition VerifyCodeWithKey :: "int \<Rightarrow> string \<Rightarrow> string \<Rightarrow> string \<Rightarrow> code_map \<Rightarrow> bool" where
  "VerifyCodeWithKey now key code purpose M =
     (case map_of M (purpose @ key) of
        None \<Rightarrow> False
      | Some (c, t) \<Rightarrow> \<not> now - t \<ge> VerificationValidMinutes * 60 \<and> code = c)"

definition IsEmailAlreadyTaken :: "string \<Rightarrow> world \<Rightarrow> bool \<times> world" where
  "IsEmailAlreadyTaken email w =
     (case query (\<lambda>d. length (filter (\<lambda>u. uEmail u = email) (users d))) w of (Inl _, w1) \<Rightarrow> (False, w1) | (Inr n, w1) \<Rightarrow> (n = 1, w1))"

definition ResetUserPasswordByEmail :: "code_ops \<Rightarrow> nat \<Rightarrow> string \<Rightarrow> string \<Rightarrow> unit io" where
  "ResetUserPasswordByEmail T salt email password =
     (if email = [] \<or> password = [] then err (Msg ''address or password is empty'')
      else case Password2Hash T salt password of
          Inl e \<Rightarrow> err e
        | Inr h \<Rightarrow> exec (\<lambda>d. d\<lparr>users := upd_where (\<lambda>u. uEmail u = email \<and> \<not> uDeleted u) (\<lambda>u. u\<lparr>uPassword := h\<rparr>) (users d)\<rparr>))"

text \<open>\<open>valid\<close> is the verdict of the validator on the address; sending the mail changes nothing here.\<close>

definition SendPasswordResetEmail :: "int \<Rightarrow> bool \<Rightarrow> string \<Rightarrow> string \<Rightarrow> code_map \<Rightarrow> world \<Rightarrow> (unit reply \<times> code_map) \<times> world" where
  "SendPasswordResetEmail now valid uuid email M w =
     (if \<not> valid then ((Refused ''invalid parameters'', M), w)
      else case IsEmailAlreadyTaken email w of
          (taken, w1) \<Rightarrow>
            ((Done (), if taken then RegisterVerificationCodeWithKey now email (GenerateVerificationCode uuid 0) PasswordResetPurpose M else M), w1))"

definition ResetPassword :: "code_ops \<Rightarrow> nat \<Rightarrow> string \<Rightarrow> int \<Rightarrow> string \<Rightarrow> string \<Rightarrow> code_map \<Rightarrow> world \<Rightarrow> (string reply \<times> code_map) \<times> world" where
  "ResetPassword T salt uuid now email token M w =
     (if email = [] \<or> token = [] then ((Refused ''invalid parameters'', M), w)
      else if \<not> VerifyCodeWithKey now email token PasswordResetPurpose M then ((Refused ''the link is wrong or has expired'', M), w)
      else let password = GenerateVerificationCode uuid 12 in
        case ResetUserPasswordByEmail T salt email password w of
          (Inl e, w1) \<Rightarrow> ((ApiError e, M), w1)
        | (Inr _, w1) \<Rightarrow> ((Done password, DeleteKey email PasswordResetPurpose M), w1))"

end
