(* ===== verification/TwoFactorLaws.thy ===== *)
theory TwoFactorLaws
  imports TwoFactor
begin

text \<open>
  What \<open>TwoFactor\<close> guarantees: how many codes can be tried against a locked account, that a backup code works exactly once, that
  a code sent by mail is accepted exactly while it is valid, and where a failing database opens the account.
\<close>

section \<open>Formats\<close>

lemma ReplaceAll_delete: "ReplaceAll s [c] [] = filter (\<lambda>x. x \<noteq> c) s"
  by (simp add: ReplaceAll_char) (induction s; simp)

lemma digits_val_digits: "digits_val acc s \<noteq> None \<Longrightarrow> \<forall>c \<in> set s. char_digit c \<noteq> None"
  by (induction s arbitrary: acc) (auto split: option.splits)

lemma Atoi_chars: "Atoi s \<noteq> None \<Longrightarrow> \<forall>c \<in> set s. c = CHR ''-'' \<or> c = CHR ''+'' \<or> char_digit c \<noteq> None"
  using digits_val_digits by (fastforce simp: Atoi_def Let_def split: list.splits if_splits option.splits)

lemma char_digit_ascii: "char_digit c \<noteq> None \<Longrightarrow> (of_char c :: nat) < 128"
  by (auto simp: char_digit_def Let_def split: if_splits)

text \<open>No code is both six digits and a backup code, so an attempt compares at most once.\<close>

lemma formats_exclusive:
  assumes "ValidateNumericCode code = Inr c"
  shows "\<not> common_ValidateBackupCode T code"
proof -
  let ?c = "filter (\<lambda>x. x \<noteq> CHR '' '') code"
  have c: "length ?c = 6" "Atoi ?c \<noteq> None"
    using assms by (auto simp: ValidateNumericCode_def ReplaceAll_delete Let_def split: if_splits)
  have "\<forall>x \<in> set ?c. (of_char x :: nat) < 128" using Atoi_chars [OF c(2)] char_digit_ascii by fastforce
  then have a: "\<forall>x \<in> set code. (of_char x :: nat) < 128" by fastforce
  then have u: "clean_code T code = map upper_char (filter (\<lambda>x. x \<noteq> CHR ''-'') code)"
    by (simp add: clean_code_def ToUpper_def ascii_def ReplaceAll_delete list_all_iff)
  show ?thesis
  proof (cases "CHR '' '' \<in> set code")
    case True
    then have "upper_char CHR '' '' \<in> set (clean_code T code)" unfolding u by force
    moreover have "\<not> code_char (upper_char CHR '' '')" by (simp add: upper_char_def code_char_def)
    ultimately show ?thesis by (auto simp: common_ValidateBackupCode_def list_all_iff Let_def)
  next
    case False
    then have "?c = code" by (intro filter_True) auto
    with c(1) have "length code = 6" by simp
    with length_filter_le [of "\<lambda>x. x \<noteq> CHR ''-''" code] have "length (clean_code T code) \<le> 6" unfolding u by simp
    then show ?thesis by (simp add: common_ValidateBackupCode_def Let_def)
  qed
qed

section \<open>One attempt\<close>

lemma find_save_row:
  assumes "distinct (map key xs)" "find P xs = Some t" "key t' = key t" "P t'"
  shows "find P (save_row key t' xs) = Some t'"
proof -
  have "t \<in> set xs" using assms(2) by (auto simp: find_Some_iff)
  then have "save_row key t' xs = map (\<lambda>x. if key x = key t then t' else x) xs" using assms(3) by (auto simp: save_row_def)
  moreover have "find P (map (\<lambda>x. if key x = key t then t' else x) xs) = Some t'"
    using assms(1,2,4) by (induction xs) (auto split: if_splits dest: find_Some_iff [THEN iffD1])
  ultimately show ?thesis by simp
qed

text \<open>The second factor of a user in a quiet database.\<close>

definition factor :: "int \<Rightarrow> two_fa \<Rightarrow> world \<Rightarrow> bool" where
  "factor u t w \<longleftrightarrow> faults w = [] \<and> find (\<lambda>r. tfUserId r = u) (twoFAs (db w)) = Some t \<and> tfId t \<noteq> 0 \<and> distinct (map tfId (twoFAs (db w)))"

lemma factor_Update:
  assumes "factor u t w" "tfId t' = tfId t" "tfUserId t' = u"
  shows "factor u t' (snd (twofa_Update t' w))" "users (db (snd (twofa_Update t' w))) = users (db w)"
proof -
  have "distinct (map tfId (save_row tfId t' (twoFAs (db w))))"
    using assms find_Some_iff [of "\<lambda>r. tfUserId r = u" "twoFAs (db w)" t]
    by (auto simp: factor_def save_row_def comp_def if_distrib cong: if_cong map_cong)
  with find_save_row [of tfId "twoFAs (db w)" "\<lambda>r. tfUserId r = u" t t'] assms
  show "factor u t' (snd (twofa_Update t' w))" "users (db (snd (twofa_Update t' w))) = users (db w)"
    by (simp_all add: factor_def twofa_Update_def)
qed

lemma factor_user: "factor u t w \<Longrightarrow> tfUserId t = u"
  by (auto simp: factor_def find_Some_iff)

text \<open>Whether an attempt gets as far as comparing the code, and the second factor after a failed one.\<close>

definition compared :: "code_ops \<Rightarrow> int \<Rightarrow> string \<Rightarrow> two_fa \<Rightarrow> bool" where
  "compared T now code t \<longleftrightarrow> \<not> IsLocked now t \<and> (common_ValidateBackupCode T code \<or> (case ValidateNumericCode code of Inl _ \<Rightarrow> False | Inr _ \<Rightarrow> True))"

definition failed_once :: "int \<Rightarrow> two_fa \<Rightarrow> two_fa" where
  "failed_once now t = (let n = i64 (tfFailedAttempts t + 1) in
     t\<lparr>tfFailedAttempts := n, tfLockedUntil := (if n \<ge> MaxFailAttempts then Some (now + LockoutDuration) else tfLockedUntil t)\<rparr>)"

definition after_failure :: "code_ops \<Rightarrow> int \<Rightarrow> string \<Rightarrow> two_fa \<Rightarrow> two_fa" where
  "after_failure T now code t = (if compared T now code t then failed_once now t else t)"


lemma update_usage_False: "update_usage now False t w = ((Inr False, failed_once now t), snd (twofa_Update (failed_once now t) w))"
  by (simp add: update_usage_def IncrementFailedAttempts_def failed_once_def Let_def split_beta)

lemma factor_failed:
  assumes "factor u t w"
  shows "factor u (failed_once now t) (snd (twofa_Update (failed_once now t) w))" "users (db (snd (twofa_Update (failed_once now t) w))) = users (db w)"
  using factor_Update [OF assms, of "failed_once now t"] factor_user [OF assms] by (simp_all add: failed_once_def Let_def)

lemma ValidateBackupCode_fails:
  assumes "factor u t w" "fst (ValidateBackupCode T now (tfUserId t) code w) \<noteq> Inr True"
  shows "ValidateBackupCode T now (tfUserId t) code w = (if common_ValidateBackupCode T code then Inr False else Inl (Msg ''the code is wrong''), w)"
  using assms by (auto simp: ValidateBackupCode_def factor_def query_def chk_def ret_def err_def split: option.splits)

lemma backup_usage_fails:
  assumes "factor u t w" "fst (fst (ValidateBackupCodeAndUpdateUsage T now code t w)) \<noteq> Inr True"
  shows "\<exists>e. ValidateBackupCodeAndUpdateUsage T now code t w =
    (if \<not> IsLocked now t \<and> common_ValidateBackupCode T code then update_usage now False t w else ((Inl e, t), w))"
proof (cases "IsLocked now t")
  case False
  have "fst (ValidateBackupCode T now (tfUserId t) code w) \<noteq> Inr True"
    using assms(2) False by (auto simp: ValidateBackupCodeAndUpdateUsage_def update_usage_def Let_def split: prod.splits sum.splits)
  from ValidateBackupCode_fails [OF assms(1) this] False show ?thesis by (simp add: ValidateBackupCodeAndUpdateUsage_def)
qed (simp add: ValidateBackupCodeAndUpdateUsage_def)

lemma check_code_fails:
  assumes f: "factor u t w" and no: "fst (check_code T now code t w) \<noteq> Done ()"
  shows "factor u (after_failure T now code t) (snd (check_code T now code t w)) \<and> users (db (snd (check_code T now code t w))) = users (db w)"
proof (cases "ValidateNumericCode code")
  case (Inl e)
  with no have n: "fst (fst (ValidateBackupCodeAndUpdateUsage T now code t w)) \<noteq> Inr True"
    by (auto simp: check_code_def split: prod.splits sum.splits if_splits)
  from backup_usage_fails [OF f n] obtain e' where b: "ValidateBackupCodeAndUpdateUsage T now code t w =
    (if \<not> IsLocked now t \<and> common_ValidateBackupCode T code then update_usage now False t w else ((Inl e', t), w))" by blast
  with Inl f factor_failed [OF f, of now] show ?thesis
    by (simp add: check_code_def after_failure_def compared_def update_usage_False)
next
  case (Inr c)
  note x = formats_exclusive [OF Inr, of T]
  have r: "ValidateTOTPAndUpdateUsage T now c t w = (if IsLocked now t then ((Inl (Msg ''the account is locked''), t), w) else update_usage now False t w)"
    using no Inr by (auto simp: ValidateTOTPAndUpdateUsage_def check_code_def update_usage_def Let_def split: if_splits)
  have "ValidateBackupCodeAndUpdateUsage T now code t' w' = ((Inl (Msg (if IsLocked now t' then ''the account is locked'' else ''the code is wrong'')), t'), w')" for t' w'
    using x by (simp add: ValidateBackupCodeAndUpdateUsage_def ValidateBackupCode_def err_def)
  with r Inr f factor_failed [OF f, of now] show ?thesis
    by (simp add: check_code_def after_failure_def compared_def update_usage_False)
qed


section \<open>Many attempts\<close>

text \<open>Attempts to sign in with the second factor: the time, the code and the session of each, with its answer and whether its
  code was compared.\<close>

fun sign_in_attempts :: "code_ops \<Rightarrow> int \<Rightarrow> (int \<times> string \<times> session) list \<Rightarrow> world \<Rightarrow> (user option reply \<times> bool) list" where
  "sign_in_attempts T u [] w = []"
| "sign_in_attempts T u ((now, code, s) # as) w =
     (case Verify2FALogin T now True True code s w of
        ((r, _), w') \<Rightarrow>
          (r, case find (\<lambda>t. tfUserId t = u) (twoFAs (db w)) of None \<Rightarrow> False | Some t \<Rightarrow> compared T now code t) # sign_in_attempts T u as w')"

definition waiting :: "int \<Rightarrow> two_fa \<Rightarrow> world \<Rightarrow> bool" where
  "waiting u t w \<longleftrightarrow> factor u t w \<and> tfIsEnabled t \<and> u \<noteq> 0 \<and> (\<exists>x. find (live_user u) (users (db w)) = Some x)"

lemma Verify_fails:
  assumes w: "waiting u t w" and s: "sPendingUserId s = Some u" and no: "\<And>x. fst (fst (Verify2FALogin T now b1 b2 code s w)) \<noteq> Done x"
    and b: "b2"
  shows "waiting u (after_failure T now code t) (snd (Verify2FALogin T now b1 b2 code s w))"
proof -
  obtain x where x1: "find (live_user u) (users (db w)) = Some x" using w by (auto simp: waiting_def)
  then have "live_user u x" by (auto simp: find_Some_iff)
  with x1 w have x: "find (live_user u) (users (db w)) = Some x" "uId x = u" "faults w = []" "find (\<lambda>r. tfUserId r = u) (twoFAs (db w)) = Some t"
    "tfIsEnabled t" "u \<noteq> 0" "factor u t w"
    by (simp_all add: waiting_def factor_def live_user_def)
  have e: "Verify2FALogin T now b1 b2 code s w = (case check_code T now code t w of
      (Refused m, w3) \<Rightarrow> ((Refused m, s), w3) | (ApiError e, w3) \<Rightarrow> ((ApiError e, s), w3)
    | (Done _, w3) \<Rightarrow> (case setupLogin b2 x (s\<lparr>sPendingUsername := None, sPendingUserId := None\<rparr>) of (r, s') \<Rightarrow> ((r, if b1 \<or> b2 then s' else s), w3)))"
    using x s by (simp add: Verify2FALogin_def GetUserById_def GetTwoFAByUserId_def first_def chk_def handle_def ret_def)
  have n: "fst (check_code T now code t w) \<noteq> Done ()"
  proof
    assume "fst (check_code T now code t w) = Done ()"
    then obtain w3 where "check_code T now code t w = (Done (), w3)" by (metis prod.collapse)
    with e no [of "Some x"] b show False by (simp add: setupLogin_def)
  qed
  have "snd (Verify2FALogin T now b1 b2 code s w) = snd (check_code T now code t w)"
    unfolding e by (auto split: prod.splits reply.splits)
  moreover have "tfIsEnabled (after_failure T now code t)" using x(5) by (simp add: after_failure_def failed_once_def Let_def)
  ultimately show ?thesis using check_code_fails [OF x(7) n] x by (simp add: waiting_def)
qed


definition failed :: "'a reply \<Rightarrow> bool" where
  "failed r = (case r of Done _ \<Rightarrow> False | _ \<Rightarrow> True)"

definition held_off :: "int \<Rightarrow> two_fa \<Rightarrow> bool" where
  "held_off t0 t \<longleftrightarrow> tfFailedAttempts t \<ge> 5 \<longrightarrow> (\<exists>l. tfLockedUntil t = Some l \<and> t0 + 300 * (tfFailedAttempts t - 4) \<le> l)"

lemma held_off_step:
  assumes "held_off t0 t" "0 \<le> tfFailedAttempts t" "tfFailedAttempts t \<le> 5 + (t1 - t0) div 300" "t0 \<le> now" "now \<le> t1" "t1 - t0 \<le> 2 ^ 62"
    and "compared T now code t"
  shows "held_off t0 (failed_once now t)" "tfFailedAttempts (failed_once now t) = tfFailedAttempts t + 1"
    "tfFailedAttempts t + 1 \<le> 5 + (t1 - t0) div 300"
proof -
  let ?n = "tfFailedAttempts t"
  have l: "t0 + 300 * (?n - 4) \<le> now" if "?n \<ge> 4"
  proof (cases "?n = 4")
    case False
    with that assms(1) obtain l where "tfLockedUntil t = Some l" "t0 + 300 * (?n - 4) \<le> l" by (auto simp: held_off_def)
    with assms(7) show ?thesis by (auto simp: compared_def IsLocked_def)
  qed (use assms(4) in simp)
  show b: "?n + 1 \<le> 5 + (t1 - t0) div 300"
  proof (cases "?n \<ge> 4")
    case True
    with l assms(5) have "300 * (?n - 4) \<le> t1 - t0" by linarith
    then have "?n - 4 \<le> (t1 - t0) div 300" by simp
    then show ?thesis by linarith
  next
    case False
    moreover have "0 \<le> (t1 - t0) div 300" using assms(4,5) by simp
    ultimately show ?thesis by linarith
  qed
  have "(t1 - t0) div 300 \<le> 2 ^ 62" using assms(4-6) by linarith
  with b assms(2) have i: "i64 (?n + 1) = ?n + 1" by (simp add: in64_def)
  then show "tfFailedAttempts (failed_once now t) = ?n + 1" by (simp add: failed_once_def)
  show "held_off t0 (failed_once now t)" using i l by (auto simp: held_off_def failed_once_def)
qed

lemma guesses_bound:
  assumes "t0 \<le> t1" "t1 - t0 \<le> 2 ^ 62"
    and "waiting u t w" "held_off t0 t" "0 \<le> tfFailedAttempts t" "tfFailedAttempts t \<le> 5 + (t1 - t0) div 300"
    and "\<forall>(now, code, s) \<in> set as. t0 \<le> now \<and> now \<le> t1 \<and> sPendingUserId s = Some u"
    and "\<forall>(r, _) \<in> set (sign_in_attempts T u as w). failed r"
  shows "tfFailedAttempts t + int (length (filter snd (sign_in_attempts T u as w))) \<le> 5 + (t1 - t0) div 300"
  using assms(3-8)
proof (induction as arbitrary: t w)
  case (Cons a as)
  obtain now code s where a: "a = (now, code, s)" by (cases a)
  obtain r s' w' where v: "Verify2FALogin T now True True code s w = ((r, s'), w')" by (metis surj_pair)
  from Cons.prems(1) have f: "find (\<lambda>t. tfUserId t = u) (twoFAs (db w)) = Some t" by (simp add: waiting_def factor_def)
  have n: "t0 \<le> now" "now \<le> t1" "sPendingUserId s = Some u" and later: "\<forall>(now, code, s) \<in> set as. t0 \<le> now \<and> now \<le> t1 \<and> sPendingUserId s = Some u"
    using Cons.prems(5) a by auto
  have r: "failed r" "\<forall>(r, _) \<in> set (sign_in_attempts T u as w'). failed r" using Cons.prems(6) a v f by auto
  have w': "waiting u (after_failure T now code t) w'"
    using Verify_fails [OF Cons.prems(1) n(3), of T now True True code] v r(1) by (auto simp: failed_def split: reply.splits)
  show ?case
  proof (cases "compared T now code t")
    case True
    note st = held_off_step [OF Cons.prems(2-4) n(1,2) assms(2) True]
    from True w' have "waiting u (failed_once now t) w'" by (simp add: after_failure_def)
    from Cons.IH [OF this st(1) _ _ later r(2)] st Cons.prems(3) a v f True show ?thesis by simp
  next
    case False
    with w' have "waiting u t w'" by (simp add: after_failure_def)
    from Cons.IH [OF this Cons.prems(2-4) later r(2)] a v f False show ?thesis by simp
  qed
qed simp

section \<open>Backup codes\<close>

definition hash_ok :: "code_ops \<Rightarrow> bool" where
  "hash_ok T \<longleftrightarrow> (\<forall>salt p h q. Password2Hash T salt p = Inr h \<longrightarrow> (ValidatePasswordAndHash T q h \<longleftrightarrow> q = p))"

lemma charset_nth: "i < 36 \<Longrightarrow> code_char (charset ! i)"
proof -
  assume "i < 36"
  moreover have "list_all code_char charset" "length charset = 36" by (simp_all add: charset_def code_char_def)
  ultimately show ?thesis by (simp add: list_all_length)
qed

lemma random_chars_codes:
  "random_chars rnd i n = Inr cs \<Longrightarrow> length cs = n \<and> list_all code_char cs"
proof (induction n arbitrary: i cs)
  case (Suc n)
  have "length charset = 36" by (simp add: charset_def)
  with Suc charset_nth show ?case by (auto split: sum.splits)
qed simp

lemma code_char_fixed: "code_char c \<Longrightarrow> upper_char c = c \<and> c \<noteq> CHR ''-'' \<and> (of_char c :: nat) < 128"
  by (auto simp: code_char_def upper_char_def)

lemma generated_code_normal:
  assumes "generateRandomBackupCode rnd = Inr c"
  shows "NormalizeBackupCode T c = c \<and> common_ValidateBackupCode T c"
proof -
  obtain cs where cs: "random_chars rnd 0 8 = Inr cs" "c = with_dash cs"
    using assms by (auto simp: generateRandomBackupCode_def split: sum.splits)
  note p = random_chars_codes [OF cs(1)]
  have a: "\<forall>x \<in> set cs. upper_char x = x \<and> x \<noteq> CHR ''-'' \<and> (of_char x :: nat) < 128" using p code_char_fixed by (auto simp: list_all_iff)
  have "filter (\<lambda>x. x \<noteq> CHR ''-'') xs = xs" if "set xs \<subseteq> set cs" for xs by (rule filter_True) (use a that in blast)
  from this [OF set_take_subset] this [OF set_drop_subset] have "filter (\<lambda>x. x \<noteq> CHR ''-'') c = take 4 cs @ drop 4 cs"
    unfolding cs(2) with_dash_def by simp
  then have "ReplaceAll c ''-'' [] = cs" by (simp add: ReplaceAll_delete)
  moreover have "map upper_char cs = cs" using a by (simp add: map_idI)
  ultimately have "clean_code T c = cs" using a by (simp add: clean_code_def ToUpper_def ascii_def list_all_iff)
  with p cs(2) show ?thesis by (simp add: NormalizeBackupCode_def common_ValidateBackupCode_def)
qed

lemma generated_codes_normal: "generate_codes rnd i n = Inr cs \<Longrightarrow> \<forall>c \<in> set cs. NormalizeBackupCode T c = c \<and> common_ValidateBackupCode T c"
  by (induction n arbitrary: i cs) (auto split: sum.splits dest: generated_code_normal)

text \<open>The hashes of the codes a user may still use.\<close>

definition open_hashes :: "int \<Rightarrow> world \<Rightarrow> string list" where
  "open_hashes u w = map bcCodeHash (filter (usable_code u) (backupCodes (db w)))"

lemma insert_codes_ok:
  assumes "faults w = []" "distinct (map bcId (backupCodes (db w)))" "insert_codes T salt u codes w = (Inr (), w')"
  shows "faults w' = [] \<and> distinct (map bcId (backupCodes (db w'))) \<and> (\<exists>hs. open_hashes u w' = open_hashes u w @ hs \<and>
    list_all2 (\<lambda>c h. \<exists>s. HashBackupCode T s c = Inr h) codes hs)"
  using assms
proof (induction codes arbitrary: w)
  case (Cons c cs)
  then obtain h where h: "HashBackupCode T (salt (length cs)) c = Inr h" by (auto simp: err_def split: sum.splits)
  let ?b = "\<lparr>bcId = fresh_id (map bcId (backupCodes (db w))), bcUserId = u, bcCodeHash = h, bcIsUsed = False, bcUsedAt = None, bcDeleted = False\<rparr>"
  let ?w = "w\<lparr>db := (db w)\<lparr>backupCodes := backupCodes (db w) @ [?b]\<rparr>\<rparr>"
  have w: "insert_code u h w = (Inr (), ?w)" using Cons.prems(1) by (simp add: insert_code_def)
  have "distinct (map bcId (backupCodes (db ?w)))" using Cons.prems(2) fresh_id_fresh [of "map bcId (backupCodes (db w))"] by simp
  from Cons.IH [of ?w, OF _ this] Cons.prems(1,3) h w obtain hs where
    hs: "faults w' = []" "distinct (map bcId (backupCodes (db w')))" "open_hashes u w' = open_hashes u ?w @ hs"
      "list_all2 (\<lambda>c h. \<exists>s. HashBackupCode T s c = Inr h) cs hs" by (auto simp: chk_def)
  moreover have "open_hashes u ?w = open_hashes u w @ [h]" by (simp add: open_hashes_def usable_code_def)
  ultimately show ?case using h by (intro conjI exI [of _ "h # hs"]) auto
qed (simp add: ret_def)

lemma none_usable: "filter (usable_code u) (upd_where (\<lambda>b. bcUserId b = u) (\<lambda>b. b\<lparr>bcDeleted := True\<rparr>) bs) = []"
  by (induction bs) (simp_all add: usable_code_def)

lemma CreateBackupCodes_ok:
  assumes "faults w = []" "distinct (map bcId (backupCodes (db w)))" "CreateBackupCodes T salt u codes w = (Inr (), w')"
  shows "faults w' = [] \<and> distinct (map bcId (backupCodes (db w'))) \<and> list_all2 (\<lambda>c h. \<exists>s. HashBackupCode T s c = Inr h) codes (open_hashes u w')"
proof -
  let ?w = "w\<lparr>db := (db w)\<lparr>backupCodes := upd_where (\<lambda>b. bcUserId b = u) (\<lambda>b. b\<lparr>bcDeleted := True\<rparr>) (backupCodes (db w))\<rparr>\<rparr>"
  obtain w2 where w2: "insert_codes T salt u codes ?w = (Inr (), w2)" "exec id w2 = (Inr (), w')"
    using assms(1,3) by (auto simp: CreateBackupCodes_def transaction_def commit_def chk_def split: prod.splits sum.splits)
  have "distinct (map bcId (backupCodes (db ?w)))" using assms(2) by (simp add: upd_where_def comp_def if_distrib cong: if_cong)
  from insert_codes_ok [OF _ this w2(1)] assms(1) obtain hs where hs: "faults w2 = []" "distinct (map bcId (backupCodes (db w2)))"
    "open_hashes u w2 = open_hashes u ?w @ hs" "list_all2 (\<lambda>c h. \<exists>s. HashBackupCode T s c = Inr h) codes hs" by auto
  moreover have "open_hashes u ?w = []" using none_usable by (simp add: open_hashes_def)
  moreover have "w' = w2" using w2(2) hs(1) by simp
  ultimately show ?thesis by simp
qed

lemma filter_notin: "b \<notin> set xs \<Longrightarrow> filter (\<lambda>x. x \<noteq> b) xs = xs"
  by (induction xs) auto

lemma filter_replace_one:
  assumes "distinct (map key xs)" "b \<in> set xs" "\<not> P b'" "key b' = key b"
  shows "filter P (save_row key b' xs) = filter (\<lambda>x. P x \<and> x \<noteq> b) xs"
proof -
  have "save_row key b' xs = map (\<lambda>x. if key x = key b then b' else x) xs" using assms(2,4) by (auto simp: save_row_def)
  moreover have "filter P (map (\<lambda>x. if key x = key b then b' else x) ys) = filter (\<lambda>x. P x \<and> x \<noteq> b) ys" if "set ys \<subseteq> set xs" for ys
    using that assms(3) inj_onD [OF distinct_map [THEN iffD1, THEN conjunct2, OF assms(1)] _ _ assms(2)] by (induction ys) auto
  ultimately show ?thesis by simp
qed

lemma ValidateBackupCode_takes:
  assumes f: "faults w = []" and d: "distinct (map bcId (backupCodes (db w)))" and c: "common_ValidateBackupCode T code"
    and h: "open_hashes u w = hs1 @ h # hs2" "ValidatePasswordAndHash T (NormalizeBackupCode T code) h"
      "\<forall>g \<in> set hs1. \<not> ValidatePasswordAndHash T (NormalizeBackupCode T code) g"
  shows "\<exists>w'. ValidateBackupCode T now u code w = (Inr True, w') \<and> faults w' = [] \<and> distinct (map bcId (backupCodes (db w'))) \<and> open_hashes u w' = hs1 @ hs2"
proof -
  obtain bs1 b bs2 where b: "filter (usable_code u) (backupCodes (db w)) = bs1 @ b # bs2" "map bcCodeHash bs1 = hs1" "bcCodeHash b = h" "map bcCodeHash bs2 = hs2"
    using h(1) unfolding open_hashes_def by (auto simp: map_eq_append_conv map_eq_Cons_conv)
  let ?V = "\<lambda>b. ValidatePasswordAndHash T (NormalizeBackupCode T code) (bcCodeHash b)"
  have "find ?V bs1 = None" using h(3) b(2) by (auto simp: find_None_iff)
  then have v: "find ?V (bs1 @ b # bs2) = Some b" using h(2) b(3) by (induction bs1) (auto split: if_splits)
  let ?b = "b\<lparr>bcIsUsed := True, bcUsedAt := Some now\<rparr>"
  let ?w = "w\<lparr>db := (db w)\<lparr>backupCodes := save_row bcId ?b (backupCodes (db w))\<rparr>\<rparr>"
  have m: "b \<in> set (filter (usable_code u) (backupCodes (db w)))" unfolding b(1) by simp
  have "distinct (filter (usable_code u) (backupCodes (db w)))" using d by (simp add: distinct_map)
  then have "b \<notin> set bs1" "b \<notin> set bs2" unfolding b(1) by simp_all
  then have "filter (\<lambda>x. x \<noteq> b) (bs1 @ b # bs2) = bs1 @ bs2" by (simp add: filter_notin)
  moreover have "filter (usable_code u) (backupCodes (db ?w)) = filter (\<lambda>x. x \<noteq> b) (filter (usable_code u) (backupCodes (db w)))"
    using filter_replace_one [OF d, of b "usable_code u" ?b] m by (simp add: usable_code_def conj_commute)
  ultimately have "open_hashes u ?w = hs1 @ hs2" unfolding open_hashes_def b(1) using b by simp
  moreover have "ValidateBackupCode T now u code w = (Inr True, ?w)"
    using f c v b(1) by (simp add: ValidateBackupCode_def chk_def ret_def)
  moreover have "distinct (map bcId (backupCodes (db ?w)))" using d m by (auto simp: map_key_save_row)
  ultimately show ?thesis using f by simp
qed

lemma ValidateBackupCode_refuses:
  assumes "faults w = []" "common_ValidateBackupCode T code" "\<forall>g \<in> set (open_hashes u w). \<not> ValidatePasswordAndHash T (NormalizeBackupCode T code) g"
  shows "ValidateBackupCode T now u code w = (Inr False, w)"
proof -
  have "find (\<lambda>b. ValidatePasswordAndHash T (NormalizeBackupCode T code) (bcCodeHash b)) (filter (usable_code u) (backupCodes (db w))) = None"
    using assms(3) by (auto simp: find_None_iff open_hashes_def)
  with assms(1,2) show ?thesis by (simp add: ValidateBackupCode_def chk_def ret_def)
qed


lemma hashes_match:
  assumes "hash_ok T" "NormalizeBackupCode T c = c" "HashBackupCode T s c = Inr h"
  shows "ValidatePasswordAndHash T q h \<longleftrightarrow> q = c"
  using assms by (auto simp: hash_ok_def HashBackupCode_def)

lemma hashes_miss:
  assumes "hash_ok T" "\<forall>c \<in> set cs. NormalizeBackupCode T c = c" "list_all2 (\<lambda>c h. \<exists>s. HashBackupCode T s c = Inr h) cs hs" "q \<notin> set cs"
  shows "\<forall>g \<in> set hs. \<not> ValidatePasswordAndHash T q g"
  using assms(3,2,4) by (induction rule: list_all2_induct) (auto dest: hashes_match [OF assms(1), THEN iffD1, rotated 2])

text \<open>A code that stands among the open hashes is taken, and only that one is.\<close>

lemma open_code_taken:
  assumes "hash_ok T" "faults w = []" "distinct (map bcId (backupCodes (db w)))" "\<forall>c \<in> set cs. NormalizeBackupCode T c = c" "distinct cs"
    and "list_all2 (\<lambda>c h. \<exists>s. HashBackupCode T s c = Inr h) cs (open_hashes u w)"
    and "common_ValidateBackupCode T code" "NormalizeBackupCode T code \<in> set cs"
  shows "\<exists>w'. ValidateBackupCode T now u code w = (Inr True, w') \<and> faults w' = [] \<and> distinct (map bcId (backupCodes (db w'))) \<and>
    list_all2 (\<lambda>c h. \<exists>s. HashBackupCode T s c = Inr h) (filter (\<lambda>c. c \<noteq> NormalizeBackupCode T code) cs) (open_hashes u w')"
proof -
  let ?c = "NormalizeBackupCode T code" and ?H = "\<lambda>c h. \<exists>s. HashBackupCode T s c = Inr h"
  from assms(8) obtain cs1 cs2 where cs: "cs = cs1 @ ?c # cs2" by (meson split_list)
  with assms(6) obtain hs1 h hs2 where hs: "open_hashes u w = hs1 @ h # hs2" "list_all2 ?H cs1 hs1" "?H ?c h" "list_all2 ?H cs2 hs2"
    by (auto simp: list_all2_append1 list_all2_Cons1)
  have n: "?c \<notin> set cs1" "?c \<notin> set cs2" using assms(5) cs by auto
  then have "filter (\<lambda>c. c \<noteq> ?c) cs = cs1 @ cs2"
    unfolding cs by (simp add: filter_notin)
  moreover have "\<forall>g \<in> set hs1. \<not> ValidatePasswordAndHash T ?c g" by (rule hashes_miss [OF assms(1) _ hs(2) n(1)]) (use assms(4) cs in auto)
  moreover have "ValidatePasswordAndHash T ?c h" using hashes_match [OF assms(1)] hs(3) assms(4) cs by auto
  ultimately obtain w' where "ValidateBackupCode T now u code w = (Inr True, w')" "faults w' = []" "distinct (map bcId (backupCodes (db w')))"
    "open_hashes u w' = hs1 @ hs2" "filter (\<lambda>c. c \<noteq> ?c) cs = cs1 @ cs2"
    using ValidateBackupCode_takes [OF assms(2,3,7) hs(1), of now] by auto
  with list_all2_appendI [OF hs(2,4)] show ?thesis by simp
qed


section \<open>Codes sent by mail\<close>

text \<open>What happened to the codes, the last event first, and what a history says of a code.\<close>

datatype code_event = Registered int string string string | Deleted string string

fun code_step :: "code_event \<Rightarrow> code_map \<Rightarrow> code_map" where
  "code_step (Registered now key code purpose) M = RegisterVerificationCodeWithKey now key code purpose M"
| "code_step (Deleted key purpose) M = DeleteKey key purpose M"

fun current_code :: "code_event list \<Rightarrow> string \<Rightarrow> string \<Rightarrow> (string \<times> int) option" where
  "current_code [] key purpose = None"
| "current_code (Registered t k c p # es) key purpose = (if p @ k = purpose @ key then Some (c, t) else current_code es key purpose)"
| "current_code (Deleted k p # es) key purpose = (if p @ k = purpose @ key then None else current_code es key purpose)"

fun up_to :: "int \<Rightarrow> code_event list \<Rightarrow> bool" where
  "up_to now [] = True"
| "up_to now (Registered t k c p # es) = (t \<le> now \<and> up_to t es)"
| "up_to now (Deleted k p # es) = up_to now es"

lemma map_of_filter_value: "distinct (map fst M) \<Longrightarrow> map_of (filter (\<lambda>(k, v). P v) M) k = (case map_of M k of None \<Rightarrow> None | Some v \<Rightarrow> if P v then Some v else None)"
  by (induction M) (auto split: option.splits simp: map_of_eq_None_iff)

lemma map_of_DeleteKey: "map_of (DeleteKey key purpose M) k = (if k = purpose @ key then None else map_of M k)"
  by (induction M) (auto simp: DeleteKey_def)

lemma distinct_DeleteKey: "distinct (map fst M) \<Longrightarrow> distinct (map fst (DeleteKey key purpose M))"
  by (simp add: DeleteKey_def distinct_map_filter)

text \<open>The map holds what the history says, but for codes that have expired.\<close>

definition holds :: "int \<Rightarrow> code_event list \<Rightarrow> code_map \<Rightarrow> bool" where
  "holds now es M \<longleftrightarrow> distinct (map fst M) \<and> (\<forall>key purpose. map_of M (purpose @ key) = current_code es key purpose \<or>
     map_of M (purpose @ key) = None \<and> (\<exists>c t. current_code es key purpose = Some (c, t) \<and> now - t \<ge> 600))"

lemma holds_later: "holds now es M \<Longrightarrow> now \<le> now' \<Longrightarrow> holds now' es M"
  by (fastforce simp: holds_def)

lemma holds_expire:
  assumes "holds now es M"
  shows "holds now es (removeExpiredPairs now M)"
proof -
  have d: "distinct (map fst M)" using assms by (simp add: holds_def)
  have e: "removeExpiredPairs now M = filter (\<lambda>(k, v). case v of (_, t) \<Rightarrow> \<not> now - t \<ge> 600) M"
    unfolding removeExpiredPairs_def by (intro filter_cong) auto
  have "map_of (removeExpiredPairs now M) (purpose @ key) = current_code es key purpose \<or>
    map_of (removeExpiredPairs now M) (purpose @ key) = None \<and> (\<exists>c t. current_code es key purpose = Some (c, t) \<and> now - t \<ge> 600)" for purpose key
  proof (cases "map_of M (purpose @ key)")
    case None
    then have "map_of (removeExpiredPairs now M) (purpose @ key) = None" unfolding e map_of_filter_value [OF d] by simp
    with None assms show ?thesis unfolding holds_def by metis
  next
    case (Some v)
    moreover obtain c t where "v = (c, t)" by (cases v)
    moreover have "current_code es key purpose = Some v" using Some assms unfolding holds_def by (metis option.distinct(1))
    ultimately show ?thesis unfolding e map_of_filter_value [OF d] by simp
  qed
  moreover have "distinct (map fst (removeExpiredPairs now M))" using d by (simp only: removeExpiredPairs_def distinct_map_filter)
  ultimately show ?thesis by (simp only: holds_def) blast
qed

lemma holds_step:
  assumes "holds now es M"
  shows "holds now (Registered now k c p # es) (code_step (Registered now k c p) M)" "holds now (Deleted k p # es) (code_step (Deleted k p) M)"
proof -
  have d: "distinct (map fst M)" using assms by (simp add: holds_def)
  let ?M = "(p @ k, c, now) # DeleteKey k p M"
  have "p @ k \<notin> set (map fst (DeleteKey k p M))" by (auto simp: DeleteKey_def)
  with d have dM: "distinct (map fst ?M)" by (simp add: distinct_DeleteKey)
  have m: "map_of ?M x = (if x = p @ k then Some (c, now) else map_of M x)" for x by (simp add: map_of_DeleteKey)
  have h: "holds now (Registered now k c p # es) ?M" using assms dM m by (auto simp: holds_def)
  with holds_expire [OF h] show "holds now (Registered now k c p # es) (code_step (Registered now k c p) M)"
    by (simp add: RegisterVerificationCodeWithKey_def Let_def)
  show "holds now (Deleted k p # es) (code_step (Deleted k p) M)"
    using assms d by (auto simp: holds_def map_of_DeleteKey distinct_DeleteKey)
qed

lemma holds_history: "up_to now es \<Longrightarrow> holds now es (foldr code_step es [])"
proof (induction es arbitrary: now)
  case (Cons e es)
  show ?case
  proof (cases e)
    case (Registered t k c p)
    with Cons have "holds t es (foldr code_step es [])" "t \<le> now" by auto
    with Registered holds_step(1) holds_later show ?thesis by fastforce
  next
    case (Deleted k p)
    with Cons holds_step(2) show ?thesis by fastforce
  qed
qed (simp add: holds_def)
section \<open>A sample account\<close>

text \<open>Codes and passwords that are their own hashes, and a user with an enabled second factor.\<close>

definition ex_codes :: code_ops where
  "ex_codes = \<lparr>totpValidate = (\<lambda>code secret now. code = secret), Password2Hash = (\<lambda>salt p. Inr p), ValidatePasswordAndHash = (=), upperRest = id\<rparr>"

definition ex_factor :: two_fa where
  "ex_factor = \<lparr>tfId = 7, tfUserId = 1, tfSecret = ''123456'', tfIsEnabled = True, tfFailedAttempts = 0, tfLockedUntil = None, tfLastUsedAt = None\<rparr>"

definition ex_account :: world where
  "ex_account = ex_world ((ex_db [ex_user 1 5000] [])\<lparr>twoFAs := [ex_factor]\<rparr>)"

lemma ex_hash_ok: "hash_ok ex_codes"
  by (auto simp: hash_ok_def ex_codes_def)

lemma ex_waiting: "waiting 1 ex_factor ex_account"
  by (simp add: waiting_def factor_def ex_account_def ex_factor_def ex_defs live_user_def)

section \<open>Properties\<close>


abbreviation (input) ex_guesses :: "(int \<times> string \<times> session) list" where
  "ex_guesses \<equiv> map (\<lambda>i. (int i, ''00000'' @ [digit_char i], empty_session\<lparr>sPendingUserId := Some 1\<rparr>)) [0..<8]"



text \<open>C24. A code sent by mail is accepted exactly when it is the last one registered for its address and purpose, was not deleted
  since, and is less than 600 seconds old, however many other codes were registered in between.\<close>

theorem mailed_codes_exact:
  assumes "up_to now es"
  shows "VerifyCodeWithKey now key code purpose (foldr code_step es []) \<longleftrightarrow> (\<exists>t. current_code es key purpose = Some (code, t) \<and> now - t < 600)"
proof (cases "map_of (foldr code_step es []) (purpose @ key)")
  case None
  then have "current_code es key purpose = None \<or> (\<exists>c t. current_code es key purpose = Some (c, t) \<and> now - t \<ge> 600)"
    using holds_history [OF assms] unfolding holds_def by metis
  with None show ?thesis by (auto simp: VerifyCodeWithKey_def)
next
  case (Some v)
  then have "current_code es key purpose = Some v" using holds_history [OF assms] unfolding holds_def by (metis option.distinct(1))
  with Some show ?thesis by (cases v) (auto simp: VerifyCodeWithKey_def)
qed

theorem mailed_codes_exact_witness:
  "VerifyCodeWithKey 500 ''a'' ''1'' ''r'' (foldr code_step [Deleted ''a'' ''v'', Registered 10 ''a'' ''1'' ''r'', Registered 5 ''a'' ''0'' ''r''] []) \<and>
   \<not> VerifyCodeWithKey 610 ''a'' ''1'' ''r'' (foldr code_step [Registered 10 ''a'' ''1'' ''r''] [])"
  by (subst (1 2) mailed_codes_exact) simp_all
abbreviation (input) ex_random :: "nat \<Rightarrow> nat \<Rightarrow> nat res" where
  "ex_random \<equiv> \<lambda>i j. Inr (8 * i + j)"

abbreviation (input) ex_backup_codes :: "string list" where
  "ex_backup_codes \<equiv> [''ABCD-EFGH'', ''IJKL-MNOP'', ''QRST-UVWX'', ''YZ01-2345'']"


text \<open>C40. With a working database the password alone signs nobody in who has an enabled second factor: the session keeps the user
  it had, and at most waits for the second factor. When the look-up of the second factor fails, the password alone is enough.\<close>

theorem second_factor_required:
  assumes "find (\<lambda>u. (uUsername u = TrimSpace name \<or> uEmail u = TrimSpace name) \<and> \<not> uDeleted u) (sort_key uId (users (db w))) = Some u"
    and "name \<noteq> []" "TrimSpace name \<noteq> []" "password \<noteq> []" "ValidatePasswordAndHash T password (uPassword u)" "uStatus u = 1" "uId u \<noteq> 0"
    and "find (\<lambda>t. tfUserId t = uId u) (twoFAs (db w)) = Some t" "tfIsEnabled t"
  shows "fst (fst (Login T True True name password s (w\<lparr>faults := []\<rparr>))) = Done None \<and>
      sId (snd (fst (Login T True True name password s (w\<lparr>faults := []\<rparr>)))) = sId s \<and>
    fst (fst (Login T True True name password s (w\<lparr>faults := [None, Some e]\<rparr>))) = Done (Some u) \<and>
      sId (snd (fst (Login T True True name password s (w\<lparr>faults := [None, Some e]\<rparr>)))) = Some (uId u)"
  using assms by (simp add: Login_def ValidateAndFill_def IsTwoFAEnabled_def GetTwoFAByUserId_def first_def chk_def handle_def ret_def err_def
      stmt_def setupLogin_def)

theorem second_factor_required_witness:
  "fst (fst (Login ex_codes True True ''u'' ''h'' empty_session (ex_account\<lparr>faults := []\<rparr>))) = Done None \<and>
   fst (fst (Login ex_codes True True ''u'' ''h'' empty_session (ex_account\<lparr>faults := [None, Some ''gone away'']\<rparr>))) = Done (Some (ex_user 1 5000))"
proof -
  have t: "TrimSpace ''u'' = ''u''" by (simp add: TrimSpace_printable printable_def)
  have "find (\<lambda>u. (uUsername u = TrimSpace ''u'' \<or> uEmail u = TrimSpace ''u'') \<and> \<not> uDeleted u) (sort_key uId (users (db ex_account))) = Some (ex_user 1 5000)"
    "find (\<lambda>t. tfUserId t = uId (ex_user 1 5000)) (twoFAs (db ex_account)) = Some ex_factor"
    unfolding t by (simp_all add: ex_account_def ex_factor_def ex_defs)
  from second_factor_required [OF this(1) _ _ _ _ _ _ this(2), of "''h''" ex_codes empty_session "''gone away''"] t show ?thesis
    by (simp add: ex_codes_def ex_factor_def ex_user_def)
qed

text \<open>The failures are counted by reading and writing a whole row: two attempts that have read the same row count once.\<close>

lemma concurrent_failures_count_once:
  "map tfFailedAttempts (twoFAs (db (fold (\<lambda>code w. snd (check_code ex_codes 0 code ex_factor w)) [''000000'', ''000001''] ex_account))) = [1]"
  by code_simp

end
