(* ===== verification/Spec2Isabelle.thy ===== *)
theory Spec2Isabelle
  imports Gateway RateLimitLaws CreditLaws PricingLaws TaskRelayLaws TwoFactorLaws
begin

text \<open>
  Verification of an API gateway that resells access to AI models: it authenticates a client by an access token, charges the
  client's wallet or subscription, forwards the request to one of many upstream channels, retries on others when it fails, and
  settles or gives back what it took. The sources are the Go packages under \<^verbatim>\<open>src\<close>.

  \<^bold>\<open>How the parts interact.\<close> A token is validated and rate limits are applied; the distribution middleware chooses a first channel;
  the handler \<^verbatim>\<open>Relay\<close> prices the request, opens a billing session that takes quota in advance, and runs the retry loop; a
  success is settled by its actual usage, a failure is refunded, less a fee for violations. Tasks (videos, songs) are
  submitted in the same way by \<^verbatim>\<open>RelayTask\<close> and are then polled until they end, when they are settled or refunded. Quota
  enters by paid orders, codes, check-ins and invitations, or as subscriptions that are reset periodically.

  \<^bold>\<open>State.\<close> \<open>Store\<close> has one record per table (\<^verbatim>\<open>src/model\<close>), the Redis copies of users and tokens, the stores of the batch
  updater, and the memory cache of channels, all in the record \<open>world\<close>. A call of the program that uses the database is a
  function from a world to a result and a world; a statement succeeds or fails by a schedule, so every error path of the
  code is a path of the model. Go's \<^verbatim>\<open>int\<close> is \<^typ>\<open>int\<close> with its wrap-around at 64 bits written out (\<open>i64\<close> of \<open>Prelude\<close>).
  Panics and calls that never return are values of the error type.

  \<^bold>\<open>Theories and sources.\<close>
  \<^item> \<open>Prelude\<close>, \<open>GoStrings\<close>, \<open>GoTime\<close>, \<open>Decimal\<close>: integers, lists as tables, the parts of Go's \<^verbatim>\<open>strings\<close>, \<^verbatim>\<open>strconv\<close> and \<^verbatim>\<open>time\<close>
    that are used, and numbers with a fraction.
  \<^item> \<open>Quota\<close>, \<open>Tokens\<close>: the wallet and token ledgers, the batch updater, validation of tokens (\<^verbatim>\<open>model/user.go\<close>,
    \<^verbatim>\<open>model/token.go\<close>, \<^verbatim>\<open>model/utils.go\<close>, \<^verbatim>\<open>model/user_cache.go\<close>, \<^verbatim>\<open>model/token_cache.go\<close>).
  \<^item> \<open>Subscription\<close>, \<open>SubscriptionLaws\<close>: plans, orders, resets and the idempotent charge (\<^verbatim>\<open>model/subscription.go\<close>,
    \<^verbatim>\<open>service/subscription_reset_task.go\<close>).
  \<^item> \<open>Billing\<close>, \<open>BillingLaws\<close>: billing sessions over either source of funds (\<^verbatim>\<open>service/billing_session.go\<close>,
    \<^verbatim>\<open>service/billing.go\<close>, \<^verbatim>\<open>service/funding_source.go\<close>).
  \<^item> \<open>Pricing\<close>, \<open>PricingLaws\<close>: ratios, prices and the quota of a usage (\<^verbatim>\<open>setting/ratio_setting\<close>, \<^verbatim>\<open>relay/helper/price.go\<close>,
    \<^verbatim>\<open>service/text_quota.go\<close>, \<^verbatim>\<open>service/quota.go\<close>).
  \<^item> \<open>ApiErrors\<close>, \<open>StatusCodes\<close>: error values (\<^verbatim>\<open>types/error.go\<close>) and the rules on status codes
    (\<^verbatim>\<open>setting/operation_setting/status_code_ranges.go\<close>).
  \<^item> \<open>Channels\<close>, \<open>ChannelLaws\<close>: channels, their keys and abilities, the memory cache and the weighted choice (\<^verbatim>\<open>model/channel.go\<close>,
    \<^verbatim>\<open>model/ability.go\<close>, \<^verbatim>\<open>model/channel_cache.go\<close>).
  \<^item> \<open>Retry\<close>, \<open>RetryLaws\<close>: groups, selection, the middleware and the retry loop (\<^verbatim>\<open>controller/relay.go\<close>,
    \<^verbatim>\<open>service/channel_select.go\<close>, \<^verbatim>\<open>service/group.go\<close>, \<^verbatim>\<open>middleware/distributor.go\<close>).
  \<^item> \<open>Gateway\<close>: the handler from the price on, with the fee for violations (\<^verbatim>\<open>controller/relay.go\<close>,
    \<^verbatim>\<open>service/violation_fee.go\<close>).
  \<^item> \<open>Tasks\<close>, \<open>TaskLaws\<close>, \<open>TaskRelay\<close>, \<open>TaskRelayLaws\<close>: the rows of tasks, their polling and billing (\<^verbatim>\<open>model/task.go\<close>,
    \<^verbatim>\<open>service/task_polling.go\<close>, \<^verbatim>\<open>service/task_billing.go\<close>), and their submission (\<^verbatim>\<open>relay/relay_task.go\<close>, \<^verbatim>\<open>controller/relay.go\<close>).
  \<^item> \<open>RateLimit\<close>, \<open>RateLimitLaws\<close>: the limiters (\<^verbatim>\<open>common/rate-limit.go\<close>, \<^verbatim>\<open>common/limiter\<close>, \<^verbatim>\<open>middleware/rate-limit.go\<close>,
    \<^verbatim>\<open>middleware/model-rate-limit.go\<close>).
  \<^item> \<open>Credit\<close>, \<open>CreditLaws\<close>: orders, codes, check-ins and invitations (\<^verbatim>\<open>model/topup.go\<close>, \<^verbatim>\<open>model/redemption.go\<close>,
    \<^verbatim>\<open>model/checkin.go\<close>, \<^verbatim>\<open>controller/topup.go\<close>).
  \<^item> \<open>TwoFactor\<close>, \<open>TwoFactorLaws\<close>: passwords, the second factor and mailed codes (\<^verbatim>\<open>model/twofa.go\<close>, \<^verbatim>\<open>common/totp.go\<close>,
    \<^verbatim>\<open>common/verification.go\<close>, \<^verbatim>\<open>controller/twofa.go\<close>).

  \<^bold>\<open>What is shown.\<close> Money: every path of a request and of a task ends, and charges exactly what it should, for wallets and
  subscriptions, with batched and direct updates (\<open>Gateway\<close>, \<open>BillingLaws\<close>, \<open>PricingLaws\<close>, \<open>TaskLaws\<close>, \<open>TaskRelayLaws\<close>, and
  this theory); credited quota is backed by a record whatever statements fail (\<open>CreditLaws\<close>); subscriptions are never
  overdrawn. Routing: the choice of a channel has the distribution its weights say, caches agree with the tables, keys are
  served in turn, the loop is bounded. Limits: both limiters refine a sliding window, the script a bucket; the second factor
  bounds guesses. Four contracts are locales, interpreted on the definitions of the model: \<open>ledger\<close> (\<open>Quota\<close>),
  \<open>funding_source\<close> (\<open>BillingLaws\<close>), \<open>window_limiter\<close> (\<open>RateLimitLaws\<close>) and \<open>recorded_credit\<close> (\<open>CreditLaws\<close>).

  \<^bold>\<open>Bounds and loops.\<close> The loops of the handlers are partial functions whose result is \<^const>\<open>None\<close> when they do not end;
  lemmas show that they end for every sane number of retries. No fuel is used. Amounts in the theorems are at most
  \<open>2 ^ 60\<close>, with up to \<open>2 ^ 61\<close> waiting in the batch store, so that no sum in a request reaches \<open>2 ^ 63\<close>; the operations
  themselves are defined on all values.

  \<^bold>\<open>Arguments of the model.\<close> Packages outside the repository are arguments with their documented behaviour as hypotheses: the
  division and rounding of decimals, floating point, hashes of passwords, one-time passwords, sessions. So are decoded JSON,
  random numbers, the clock (read once in a call), and what upstreams and their adaptors answer; a relay helper is assumed
  to charge nothing when it fails. Ranges over Go maps are lists in some order. Messages in Chinese are given in English.

  \<^bold>\<open>Not modelled.\<close> The adaptors of the upstreams and the conversion of their messages (\<^verbatim>\<open>relay/channel\<close>, \<^verbatim>\<open>dto\<close>,
  \<^verbatim>\<open>service/convert.go\<close>, \<^verbatim>\<open>relay/common/override.go\<close>), which are transformations of JSON and streams; listings, searches and
  other administrative handlers (\<^verbatim>\<open>controller\<close>), which read and show rows; logs and notifications; the affinity cache of
  channels; Midjourney; sign-in by third parties and passkeys; stored options and translations; routers and start-up.
\<close>

section \<open>A failed request\<close>

lemma Relay_unpaid:
  assumes "NewBillingSession E quota ri w = (Inl e, w1)"
  shows "Relay E S F rnd krnd U False quota ri g m c w = Some (Some e, None, w1)"
  using assms by (simp add: Relay_def)

text \<open>C1. A request ends, and when it ends with an error the user and the token have paid nothing but the fee for a violation:
  after the refund job has run, the wallet and the token have what they had before the request less that fee, which is not
  charged at all when the request could not be paid for. This covers a free model and sessions on the wallet, every choice of
  channels, every number of failed attempts, batched and direct updates, provided a relay helper that fails has charged
  nothing itself.\<close>

theorem failed_request_costs_only_the_fee:
  assumes "sane_retries S c" "fails_free U" "billable E ri (2 ^ 61) w" "0 \<le> quota" "quota \<le> 2 ^ 60"
    and "calcViolationFeeQuota F \<le> 2 ^ 60" "riBillingSource ri \<noteq> ''subscription''"
    and "\<And>s w1. \<not> free \<Longrightarrow> NewBillingSession E quota ri w = (Inr s, w1) \<Longrightarrow> \<exists>f. funding s = Wallet f"
  shows "\<exists>eo job w2. Relay E S F rnd krnd U free quota ri g m c w = Some (eo, job, w2) \<and>
    (eo \<noteq> None \<longrightarrow>
      (let w3 = (case job of None \<Rightarrow> w2 | Some j \<Rightarrow> run_refund E j w2);
           fee = (if free \<or> (\<exists>s w1. NewBillingSession E quota ri w = (Inr s, w1)) then violation_fee S F eo else 0) in
       wallet (riUserId ri) w3 = wallet (riUserId ri) w - fee \<and> allowance (riTokenId ri) w3 = allowance (riTokenId ri) w - token_part ri fee))"
proof (cases free)
  case True
  with Relay_free_fails [OF assms(1-3,6,7), of rnd krnd quota g m] show ?thesis
    by (auto simp: moves_def token_part_def Let_def split: if_splits)
next
  case False
  obtain r w1 where r: "NewBillingSession E quota ri w = (r, w1)" by (metis surj_pair)
  show ?thesis
  proof (cases r)
    case (Inl e)
    with r False NewBillingSession_books [OF assms(3) _ r] assms(4,5) Relay_unpaid [of E quota ri w e w1 S F rnd krnd U g m c] show ?thesis
      by (simp add: moves_def token_part_def)
  next
    case (Inr s)
    with assms(8) False r obtain f where "funding s = Wallet f" by blast
    from Relay_wallet_fails [OF assms(1-3,6,4,5) r [unfolded Inr] this, of rnd krnd g m] False Inr r show ?thesis by (simp add: Let_def)
  qed
qed

definition ex_fee :: fee_conf where
  "ex_fee = \<lparr>ViolationDeductionEnabled = True, ViolationDeductionAmount = 1 / 20, feeQuotaPerUnit = 500, feeDecimals = exact_decimals, GroupRatio = 1\<rparr>"

definition ex_down :: upstream where
  "ex_down = \<lparr>body_error = (\<lambda>_. None), relay_helper = (\<lambda>_ _ _ w. (Some (select_failed ''Failed check: SAFETY_CHECK_TYPE_CSAM''), w))\<rparr>"

theorem failed_request_costs_only_the_fee_witness:
  "\<exists>eo job w2. Relay ex_env ex_relay ex_fee (\<lambda>_ _ _. 0) (\<lambda>_ _. 0) ex_down False 100 (ex_ri ''wallet_only'') ''auto'' ''m'' ex_ctx ex_bill = Some (eo, job, w2) \<and>
    (eo \<noteq> None \<longrightarrow>
      (let w3 = (case job of None \<Rightarrow> w2 | Some j \<Rightarrow> run_refund ex_env j w2) in
       wallet 1 w3 = 5000 - violation_fee ex_relay ex_fee eo \<and> allowance 2 w3 = 3000 - violation_fee ex_relay ex_fee eo))"
proof -
  obtain s w1 f where s: "NewBillingSession ex_env 100 (ex_ri ''wallet_only'') ex_bill = (Inr s, w1)" "funding s = Wallet f"
    using ex_wallet_session by blast
  have "sane_retries ex_relay ex_ctx" by (simp add: sane_retries_def ex_relay_def ex_ctx_def)
  moreover have "fails_free ex_down" by (auto simp: fails_free_def ex_down_def same_books_refl)
  moreover have "calcViolationFeeQuota ex_fee = 25" by (simp add: calcViolationFeeQuota_def ex_fee_def exact_decimals_def floor_eq_iff in64_def)
  moreover have "wallet 1 ex_bill = 5000" "allowance 2 ex_bill = 3000"
    by (simp_all add: ex_bill_def wallet_def allowance_def user_quota_def token_quota_def pending_def live_user_def live_token_def ex_defs)
  moreover have "riBillingSource (ex_ri ''wallet_only'') = ''''" "riUserId (ex_ri ''wallet_only'') = 1" "riTokenId (ex_ri ''wallet_only'') = 2"
    "riIsPlayground (ex_ri ''wallet_only'') = False" by (simp_all add: ex_ri_def)
  ultimately show ?thesis
    using failed_request_costs_only_the_fee [of ex_relay ex_ctx ex_down ex_env "ex_ri ''wallet_only''" ex_bill 100 ex_fee False "\<lambda>_ _ _. 0" "\<lambda>_ _. 0" "''auto''" "''m''"]
      ex_billable [of "''wallet_only''"] s by (simp add: token_part_def Let_def)
qed

section \<open>A task from its submission to its end\<close>



end
